(* ===== verification/Prelude.thy ===== *)
theory Prelude
  imports Main "HOL-Library.Word"
begin

text \<open>
  What every component of the model shares: the byte type and Go's big-endian integer encoding
  (package \<open>encoding/binary\<close>), the functions of package \<open>strings\<close> the sources call, on strings of
  bytes (Isabelle's \<open>string\<close>), transition systems with their reachable states, and small facts on
  lists and maps.

  A Go \<open>string\<close> is a sequence of bytes, and so is Isabelle's \<open>string\<close>: \<open>length\<close> counts bytes in
  both. \<open>strings.TrimSpace\<close> and \<open>strings.EqualFold\<close> are modelled on their ASCII part: a byte
  outside ASCII is no white space and is equal to itself only.
\<close>

type_synonym byte = "8 word"
type_synonym bytes = "byte list"

unbundle bit_operations_syntax

named_theorems codec_simps \<open>encoders and decoders, unfolded\<close>
named_theorems go_string \<open>the string functions of the Go library\<close>


section \<open>Package encoding/binary, big endian\<close>

definition put_uint16 :: "16 word \<Rightarrow> bytes" where
  "put_uint16 w = [ucast (drop_bit 8 w), ucast w]"

definition put_uint32 :: "32 word \<Rightarrow> bytes" where
  "put_uint32 w =
     [ucast (drop_bit 24 w), ucast (drop_bit 16 w), ucast (drop_bit 8 w), ucast w]"

text \<open>
  The readers index a slice, which panics in Go when it is too short. Every caller in the sources
  checks the length first (or reads a whole header), so the short cases are not reached; they are
  0 here and every lemma on a reader has the length in its statement.
\<close>

fun get_uint16 :: "bytes \<Rightarrow> 16 word" where
  "get_uint16 (a # b # _) = (push_bit 8 (ucast a) OR ucast b)"
| "get_uint16 _ = 0"

fun get_uint32 :: "bytes \<Rightarrow> 32 word" where
  "get_uint32 (a # b # c # d # _) =
     (push_bit 24 (ucast a) OR push_bit 16 (ucast b) OR push_bit 8 (ucast c) OR ucast d)"
| "get_uint32 _ = 0"

lemma length_put_uint16 [simp]: "length (put_uint16 w) = 2"
  by (simp add: put_uint16_def)

lemma length_put_uint32 [simp]: "length (put_uint32 w) = 4"
  by (simp add: put_uint32_def)

lemma get_put_uint16 [simp]: "get_uint16 (put_uint16 w @ rest) = w"
  by (rule bit_word_eqI) (auto simp: put_uint16_def bit_simps not_less)

lemma get_put_uint16' [simp]: "get_uint16 (put_uint16 w) = w"
  using get_put_uint16 [of w "[]"] by simp

lemma get_put_uint32 [simp]: "get_uint32 (put_uint32 w @ rest) = w"
proof (rule bit_word_eqI)
  fix n assume "n < LENGTH(32)"
  then consider "n < 8" | "8 \<le> n" "n < 16" | "16 \<le> n" "n < 24" | "24 \<le> n" "n < 32"
    by fastforce
  then show "bit (get_uint32 (put_uint32 w @ rest)) n = bit w n"
    by cases (auto simp: put_uint32_def bit_simps)
qed

lemma get_put_uint32' [simp]: "get_uint32 (put_uint32 w) = w"
  using get_put_uint32 [of w "[]"] by simp


section \<open>Package strings\<close>

definition has_prefix :: "string \<Rightarrow> string \<Rightarrow> bool" where
  [go_string]: "has_prefix s p = (take (length p) s = p)"

definition trim_prefix :: "string \<Rightarrow> string \<Rightarrow> string" where
  [go_string]: "trim_prefix s p = (if has_prefix s p then drop (length p) s else s)"

text \<open>\<open>strings.IndexByte\<close>: -1 of the Go function is \<open>None\<close>.\<close>

fun index_byte :: "string \<Rightarrow> char \<Rightarrow> nat option" where
  "index_byte [] c = None"
| "index_byte (x # xs) c = (if x = c then Some 0 else map_option Suc (index_byte xs c))"

text \<open>\<open>strings.Split\<close> with a separator of one byte: never the empty list.\<close>

fun split_on :: "char \<Rightarrow> string \<Rightarrow> string list" where
  "split_on c [] = [[]]"
| "split_on c (x # xs) =
     (if x = c then [] # split_on c xs
      else case split_on c xs of [] \<Rightarrow> [[x]] | y # ys \<Rightarrow> (x # y) # ys)"

text \<open>\<open>strings.Cut\<close> with a separator of one byte.\<close>

definition cut :: "string \<Rightarrow> char \<Rightarrow> string \<times> string \<times> bool" where
  [go_string]: "cut s c = (case index_byte s c of
     None \<Rightarrow> (s, [], False)
   | Some i \<Rightarrow> (take i s, drop (Suc i) s, True))"

definition is_space :: "char \<Rightarrow> bool" where
  [go_string]: "is_space c = (c \<in> {CHR 0x09, CHR 0x0A, CHR 0x0B, CHR 0x0C, CHR 0x0D, CHR 0x20})"

definition trim_space :: "string \<Rightarrow> string" where
  [go_string]: "trim_space s = rev (dropWhile is_space (rev (dropWhile is_space s)))"

definition to_lower :: "char \<Rightarrow> char" where
  [go_string]: "to_lower c =
     (if 65 \<le> (of_char c :: nat) \<and> (of_char c :: nat) \<le> 90 then char_of (of_char c + (32 :: nat)) else c)"

definition equal_fold :: "string \<Rightarrow> string \<Rightarrow> bool" where
  [go_string]: "equal_fold s t = (map to_lower s = map to_lower t)"

text \<open>\<open>strings.Join\<close>.\<close>

fun join :: "string \<Rightarrow> string list \<Rightarrow> string" where
  "join sep [] = []"
| "join sep [s] = s"
| "join sep (s # t # ts) = s @ sep @ join sep (t # ts)"

text \<open>\<open>strconv.Atoi\<close> on a 64-bit platform: an optional sign, then one decimal digit or more; a value
  outside the range of \<open>int64\<close> is an error.\<close>

definition is_digit :: "char \<Rightarrow> bool" where
  [go_string]: "is_digit c = (48 \<le> (of_char c :: nat) \<and> (of_char c :: nat) \<le> 57)"

definition digits_value :: "string \<Rightarrow> int" where
  [go_string]: "digits_value ds = foldl (\<lambda>n c. 10 * n + (int (of_char c) - 48)) 0 ds"

definition atoi_sign :: "string \<Rightarrow> bool \<times> string" where
  [go_string]: "atoi_sign s = (case s of
     [] \<Rightarrow> (False, [])
   | c # cs \<Rightarrow> if c = CHR ''-'' then (True, cs) else if c = CHR ''+'' then (False, cs) else (False, s))"

definition atoi :: "string \<Rightarrow> int option" where
  [go_string]: "atoi s = (case atoi_sign s of (neg, ds) \<Rightarrow>
     if ds = [] \<or> \<not> list_all is_digit ds then None
     else let n = digits_value ds in
       if neg then (if n \<le> 2 ^ 63 then Some (- n) else None)
       else (if n < 2 ^ 63 then Some n else None))"

text \<open>\<open>strconv.Itoa\<close> of a number that is not negative, and the verb \<open>%d\<close>.\<close>

fun decimal :: "nat \<Rightarrow> string" where
  "decimal n = (if n < 10 then [char_of (48 + n)] else decimal (n div 10) @ [char_of (48 + n mod 10)])"

declare decimal.simps [simp del]

lemma decimal_neq_Nil [simp]: "decimal n \<noteq> []"
  by (subst decimal.simps) simp

lemma is_digit_char_of: "(n :: nat) < 10 \<Longrightarrow> is_digit (char_of (48 + n))"
  by (simp add: is_digit_def)

lemma decimal_digits: "list_all is_digit (decimal n)"
proof (induction n rule: decimal.induct)
  case (1 n)
  then show ?case by (subst decimal.simps) (simp add: is_digit_char_of)
qed

lemma digits_value_snoc: "digits_value (ds @ [c]) = 10 * digits_value ds + (int (of_char c) - 48)"
  by (simp add: digits_value_def)

lemma decimal_value: "digits_value (decimal n) = int n"
proof (induction n rule: decimal.induct)
  case (1 n)
  show ?case
  proof (cases "n < 10")
    case True
    then show ?thesis by (subst decimal.simps) (simp add: digits_value_def)
  next
    case False
    then have "digits_value (decimal n) = 10 * int (n div 10) + int (n mod 10)"
      using 1 by (subst decimal.simps) (simp add: digits_value_snoc)
    also have "\<dots> = int n" by presburger
    finally show ?thesis .
  qed
qed

lemma atoi_decimal: "n < 2 ^ 63 \<Longrightarrow> atoi (decimal n) = Some (int n)"
proof -
  assume n: "n < 2 ^ 63"
  obtain c cs where c: "decimal n = c # cs" "is_digit c"
    using decimal_digits [of n] decimal_neq_Nil [of n] by (cases "decimal n") auto
  have "c \<noteq> CHR ''-''" "c \<noteq> CHR ''+''" using c(2) by (auto simp: is_digit_def)
  then have "atoi_sign (decimal n) = (False, decimal n)" by (simp add: atoi_sign_def c(1))
  then show ?thesis using n decimal_digits [of n] decimal_value [of n] by (simp add: atoi_def Let_def)
qed

definition itoa :: "int \<Rightarrow> string" where
  "itoa n = (if n < 0 then CHR ''-'' # decimal (nat (- n)) else decimal (nat n))"

text \<open>\<open>hex.EncodeToString\<close>.\<close>

definition hex_digit :: "nat \<Rightarrow> char" where
  "hex_digit n = ''0123456789abcdef'' ! n"

fun hex_encode :: "bytes \<Rightarrow> string" where
  "hex_encode [] = []"
| "hex_encode (b # bs) = hex_digit (unat b div 16) # hex_digit (unat b mod 16) # hex_encode bs"

text \<open>\<open>strconv.Quote\<close> and the verb \<open>%q\<close>. Bytes from 128 on are taken for parts of printable characters, which are
  kept.\<close>

definition quote_char :: "char \<Rightarrow> string" where
  "quote_char c =
     (if c = CHR 0x22 \<or> c = CHR 0x5C then [CHR 0x5C, c]
      else case map_of (zip [7, 8, 12, 10, 13, 9, 11] ''abfnrtv'') (of_char c :: nat) of
        Some l \<Rightarrow> [CHR 0x5C, l]
      | None \<Rightarrow>
          if of_char c < (32 :: nat) \<or> c = CHR 0x7F
            then [CHR 0x5C, CHR ''x''] @ hex_encode [of_char c]
          else [c])"

definition quoted :: "string \<Rightarrow> string" where
  "quoted s = CHR 0x22 # concat (map quote_char s) @ [CHR 0x22]"

text \<open>\<open>filepath.Clean\<close> (lexical): the elements kept so far are the second argument, last first.\<close>

fun clean_elems :: "bool \<Rightarrow> string list \<Rightarrow> string list \<Rightarrow> string list" where
  "clean_elems rooted acc [] = rev acc"
| "clean_elems rooted acc (e # es) =
     (if e = [] \<or> e = ''.'' then clean_elems rooted acc es
      else if e = ''..'' then
        (if acc \<noteq> [] \<and> hd acc \<noteq> ''..'' then clean_elems rooted (tl acc) es
         else if rooted then clean_elems rooted acc es
         else clean_elems rooted (e # acc) es)
      else clean_elems rooted (e # acc) es)"

definition filepath_clean :: "string \<Rightarrow> string" where
  [go_string]: "filepath_clean p =
     (let rooted = has_prefix p ''/'';
          q = (if rooted then ''/'' else []) @ join ''/'' (clean_elems rooted [] (split_on CHR ''/'' p))
      in if q = [] then ''.'' else q)"

lemma has_prefix_append [simp]: "has_prefix (p @ s) p"
  by (simp add: has_prefix_def)

lemma trim_prefix_append [simp]: "trim_prefix (p @ s) p = s"
  by (simp add: trim_prefix_def)

lemma index_byte_Some: "index_byte s c = Some i \<Longrightarrow> i < length s \<and> s ! i = c \<and> c \<notin> set (take i s)"
  by (induction s arbitrary: i) (auto split: if_splits)

lemma index_byte_None [simp]: "index_byte s c = None \<longleftrightarrow> c \<notin> set s"
  by (induction s) auto

lemma index_byte_absent [simp]: "c \<notin> set s \<Longrightarrow> index_byte s c = None"
  by simp

lemma split_on_not_Nil [simp]: "split_on c s \<noteq> []"
  by (cases s) (auto split: list.splits)

lemma split_on_single [simp]: "c \<notin> set s \<Longrightarrow> split_on c s = [s]"
  by (induction s) auto

lemma equal_fold_refl [simp]: "equal_fold s s"
  by (simp add: equal_fold_def)

lemma equal_fold_sym: "equal_fold s t \<longleftrightarrow> equal_fold t s"
  by (auto simp: equal_fold_def)

lemma equal_fold_trans: "equal_fold s t \<Longrightarrow> equal_fold t u \<Longrightarrow> equal_fold s u"
  by (simp add: equal_fold_def)


lemma length_hex_encode [simp]: "length (hex_encode bs) = 2 * length bs"
  by (induction bs) auto

lemma hex_digit_inj: "hex_digit m = hex_digit n \<Longrightarrow> m < 16 \<Longrightarrow> n < 16 \<Longrightarrow> m = n"
  unfolding hex_digit_def
  by (subst (asm) nth_eq_iff_index_eq) simp_all

lemma hex_encode_inj: "hex_encode as = hex_encode bs \<Longrightarrow> as = bs"
proof (induction as arbitrary: bs)
  case Nil
  then show ?case by (cases bs) auto
next
  case (Cons a as)
  then obtain b bs' where bs: "bs = b # bs'" by (cases bs) auto
  have small: "unat x div 16 < 16" for x :: byte
  proof -
    have "unat x < 256" using unsigned_less [of x] by simp
    then show ?thesis by simp
  qed
  have "unat a div 16 = unat b div 16" "unat a mod 16 = unat b mod 16"
    using Cons.prems bs small by (auto intro!: hex_digit_inj)
  then have "unat a = unat b"
    by (metis div_mult_mod_eq)
  then have "a = b" by (simp add: word_unat_eq_iff)
  then show ?case using Cons bs by auto
qed


section \<open>Time\<close>

text \<open>A \<open>time.Duration\<close> and the clock count nanoseconds.\<close>

abbreviation second :: int where
  "second \<equiv> 1000000000"


text \<open>The wrap-around of Go's \<open>int64\<close> arithmetic (a \<open>time.Duration\<close> is an \<open>int64\<close>).\<close>

definition int64_wrap :: "int \<Rightarrow> int" where
  "int64_wrap x = (x + 2 ^ 63) mod 2 ^ 64 - 2 ^ 63"

lemma int64_wrap_id: "- (2 ^ 63) \<le> x \<Longrightarrow> x < 2 ^ 63 \<Longrightarrow> int64_wrap x = x"
  by (simp add: int64_wrap_def)

lemma int64_wrap_range: "- (2 ^ 63) \<le> int64_wrap x \<and> int64_wrap x < 2 ^ 63"
proof -
  let ?r = "(x + 2 ^ 63) mod 2 ^ 64"
  have "0 \<le> ?r" and "?r < 2 ^ 64" by simp_all
  then show ?thesis by (simp add: int64_wrap_def)
qed


section \<open>Transition systems\<close>

text \<open>
  The reachable states of a system given by its initial states and its steps, and the rule by
  which every invariant of the development is lifted from one step to all reachable states.
\<close>

inductive reach :: "('s \<Rightarrow> bool) \<Rightarrow> ('s \<Rightarrow> 's \<Rightarrow> bool) \<Rightarrow> 's \<Rightarrow> bool"
  for init :: "'s \<Rightarrow> bool" and step :: "'s \<Rightarrow> 's \<Rightarrow> bool" where
  reach_init: "init s \<Longrightarrow> reach init step s"
| reach_step: "reach init step s \<Longrightarrow> step s t \<Longrightarrow> reach init step t"

locale invariant_system =
  fixes init :: "'s \<Rightarrow> bool" and step :: "'s \<Rightarrow> 's \<Rightarrow> bool" and inv :: "'s \<Rightarrow> bool"
  assumes inv_init: "init s \<Longrightarrow> inv s"
    and inv_step: "inv s \<Longrightarrow> step s t \<Longrightarrow> inv t"
begin

lemma reach_inv: "reach init step s \<Longrightarrow> inv s"
  by (induction rule: reach.induct) (auto intro: inv_init inv_step)

lemma steps_inv: "step\<^sup>*\<^sup>* s t \<Longrightarrow> inv s \<Longrightarrow> inv t"
  by (induction rule: rtranclp_induct) (auto intro: inv_step)

end


text \<open>
  An implementation, with its invariant, and the abstraction under which each of its steps is one of the
  specification: then it reaches only what the specification reaches.
\<close>

locale simulation = impl: invariant_system init step inv
  for init :: "'s \<Rightarrow> bool" and step :: "'s \<Rightarrow> 's \<Rightarrow> bool" and inv :: "'s \<Rightarrow> bool" +
  fixes abs :: "'s \<Rightarrow> 'a" and spec_init :: "'a \<Rightarrow> bool" and spec_step :: "'a \<Rightarrow> 'a \<Rightarrow> bool"
  assumes abs_init: "init s \<Longrightarrow> spec_init (abs s)"
    and abs_step: "inv s \<Longrightarrow> step s t \<Longrightarrow> spec_step (abs s) (abs t)"
begin

lemma reach_abs: "reach init step s \<Longrightarrow> reach spec_init spec_step (abs s)"
proof (induction rule: reach.induct)
  case (reach_init s)
  then show ?case by (intro reach.reach_init abs_init)
next
  case (reach_step s t)
  then show ?case by (blast intro: reach.reach_step abs_step impl.reach_inv)
qed

end


section \<open>Stores with keys\<close>

text \<open>
  The contract of every keyed store of the program (the command queue, the agent registry, the
  streaming sessions, the database tables): what a lookup returns after an insertion and after a
  deletion.
\<close>

locale keyed_store =
  fixes lookup :: "'s \<Rightarrow> 'k \<Rightarrow> 'v option"
    and put :: "'k \<Rightarrow> 'v \<Rightarrow> 's \<Rightarrow> 's"
    and del :: "'k \<Rightarrow> 's \<Rightarrow> 's"
    and ok :: "'s \<Rightarrow> bool"
  assumes lookup_put: "ok s \<Longrightarrow> lookup (put k v s) j = (if j = k then Some v else lookup s j)"
    and lookup_del: "ok s \<Longrightarrow> lookup (del k s) j = (if j = k then None else lookup s j)"
    and ok_put: "ok s \<Longrightarrow> ok (put k v s)"
    and ok_del: "ok s \<Longrightarrow> ok (del k s)"
begin

lemma lookup_put_same: "ok s \<Longrightarrow> lookup (put k v s) k = Some v"
  by (simp add: lookup_put)

lemma lookup_put_put: "ok s \<Longrightarrow> lookup (put k w (put k v s)) j = lookup (put k w s) j"
  by (simp add: lookup_put ok_put)

lemma lookup_del_put: "ok s \<Longrightarrow> lookup s k = None \<Longrightarrow> lookup (del k (put k v s)) j = lookup s j"
  by (simp add: lookup_put lookup_del ok_put)

lemma lookup_put_comm:
  "ok s \<Longrightarrow> k \<noteq> l \<Longrightarrow> lookup (put k v (put l w s)) j = lookup (put l w (put k v s)) j"
  by (simp add: lookup_put ok_put)

lemma dom_put: "ok s \<Longrightarrow> dom (lookup (put k v s)) = insert k (dom (lookup s))"
  by (auto simp: lookup_put split: if_splits)

lemma dom_del: "ok s \<Longrightarrow> dom (lookup (del k s)) = dom (lookup s) - {k}"
  by (auto simp: lookup_del split: if_splits)

end

end
