(* ===== verification/Frames.thy ===== *)
theory Frames
  imports Prelude
begin

text \<open>
  The wire formats of interactive exec and of port-forward: packages \<open>execframe\<close>
  (\<open>internal/execframe/frame.go\<close>) and \<open>pfframe\<close> (\<open>internal/pfframe/frame.go\<close>). A frame is a type
  byte, a 32-bit big-endian length and a payload of at most \<open>MaxPayload\<close> bytes; the payloads have
  codecs of their own. An \<open>io.Reader\<close> is the list of the bytes it still delivers before its end of
  file; an \<open>io.Writer\<close> is a parameter, the function that takes a write.
\<close>


section \<open>Contracts\<close>

text \<open>What a codec of one payload promises: an encoded value is decoded again.\<close>

locale payload_codec =
  fixes enc :: "'a \<Rightarrow> bytes" and dec :: "bytes \<Rightarrow> 'e + 'a"
  assumes dec_enc: "dec (enc a) = Inr a"
begin

lemma enc_inj: "enc a = enc b \<Longrightarrow> a = b"
  by (metis dec_enc sum.inject(2))

lemma enc_never_rejected: "dec (enc a) \<noteq> Inl e"
  by (simp add: dec_enc)

end

text \<open>A canonical codec accepts no byte sequence but the encodings.\<close>

locale canonical_codec = payload_codec +
  assumes enc_dec: "dec p = Inr a \<Longrightarrow> enc a = p"
begin

lemma dec_inj: "dec p = Inr a \<Longrightarrow> dec q = Inr a \<Longrightarrow> p = q"
  by (metis enc_dec)

lemma accepted_iff: "(\<exists>a. dec p = Inr a) \<longleftrightarrow> p \<in> range enc"
  by (metis dec_enc enc_dec rangeE rangeI)

end

text \<open>
  What a framed stream promises: reading from a stream that starts with a written message gives
  the message and leaves the rest; a reading loop reads until the first error.
\<close>

locale stream_codec =
  fixes wr :: "'m \<Rightarrow> 'i list" and ok :: "'m \<Rightarrow> bool"
    and rd :: "'i list \<Rightarrow> ('e + 'm) \<times> 'i list"
    and loop :: "'i list \<Rightarrow> 'm list \<times> 'e"
  assumes rd_wr: "ok m \<Longrightarrow> rd (wr m @ rest) = (Inr m, rest)"
    and loop_eq: "loop s = (case rd s of
           (Inl e, _) \<Rightarrow> ([], e)
         | (Inr m, r) \<Rightarrow> (case loop r of (ms, e) \<Rightarrow> (m # ms, e)))"
begin

lemma loop_wr: "ok m \<Longrightarrow> loop (wr m @ rest) = (case loop rest of (ms, e) \<Rightarrow> (m # ms, e))"
  by (subst loop_eq) (simp add: rd_wr)

lemma loop_concat:
  "list_all ok ms \<Longrightarrow>
     loop (concat (map wr ms) @ rest) = (ms @ fst (loop rest), snd (loop rest))"
  by (induction ms) (auto simp: loop_wr split: prod.splits)

end


section \<open>Package execframe: the envelope\<close>

definition MaxPayload :: nat where
  "MaxPayload = 2 ^ 20"

datatype 'e write_error = WTooLarge nat | WErr 'e

datatype read_error = REof | RUnexpectedEof | RTooLarge nat

definition write_frame ::
  "('w \<Rightarrow> bytes \<Rightarrow> 'w \<times> 'e option) \<Rightarrow> 'w \<Rightarrow> byte \<Rightarrow> bytes \<Rightarrow> 'w \<times> 'e write_error option" where
  "write_frame write w t payload =
     (if MaxPayload < length payload then (w, Some (WTooLarge (length payload)))
      else let hdr = t # put_uint32 (word_of_nat (length payload)) in
        case write w hdr of
          (w1, Some e) \<Rightarrow> (w1, Some (WErr e))
        | (w1, None) \<Rightarrow>
            if payload = [] then (w1, None)
            else (case write w1 payload of (w2, e) \<Rightarrow> (w2, map_option WErr e)))"

text \<open>\<open>io.ReadFull\<close> with a buffer of \<open>n\<close> bytes.\<close>

definition read_full :: "nat \<Rightarrow> bytes \<Rightarrow> (read_error + bytes) \<times> bytes" where
  "read_full n r =
     (if n \<le> length r then (Inr (take n r), drop n r)
      else (Inl (if r = [] then REof else RUnexpectedEof), []))"

definition read_frame :: "bytes \<Rightarrow> (read_error + byte \<times> bytes) \<times> bytes" where
  "read_frame r = (case read_full 5 r of
     (Inl e, r1) \<Rightarrow> (Inl e, r1)
   | (Inr hdr, r1) \<Rightarrow>
       (let n = unat (get_uint32 (drop 1 hdr)) in
        if MaxPayload < n then (Inl (RTooLarge n), r1)
        else case read_full n r1 of
          (Inl e, r2) \<Rightarrow> (Inl e, r2)
        | (Inr payload, r2) \<Rightarrow> (Inr (hd hdr, payload), r2)))"

text \<open>A writer that takes every write, \<open>bytes.Buffer\<close>, and the bytes of one frame.\<close>

definition buf_write :: "bytes \<Rightarrow> bytes \<Rightarrow> bytes \<times> unit option" where
  "buf_write w p = (w @ p, None)"

definition frame_bytes :: "byte \<times> bytes \<Rightarrow> bytes" where
  "frame_bytes f = fst f # put_uint32 (word_of_nat (length (snd f))) @ snd f"

definition frame_ok :: "byte \<times> bytes \<Rightarrow> bool" where
  "frame_ok f = (length (snd f) \<le> MaxPayload)"

text \<open>The loop \<open>for { t, payload, err := Decode(r); if err != nil { return } ... }\<close>: the frames it
  handles and the error that ends it.\<close>

lemma read_frame_consumes: "read_frame r = (Inr f, r1) \<Longrightarrow> length r1 + 5 \<le> length r"
  by (auto simp: read_frame_def read_full_def Let_def split: if_splits)

function decode_frames :: "bytes \<Rightarrow> (byte \<times> bytes) list \<times> read_error" where
  "decode_frames r = (case read_frame r of
     (Inl e, _) \<Rightarrow> ([], e)
   | (Inr f, r1) \<Rightarrow> (case decode_frames r1 of (fs, e) \<Rightarrow> (f # fs, e)))"
  by pat_completeness auto
termination
  by (relation "measure length") (auto dest: read_frame_consumes [OF sym])

declare decode_frames.simps [simp del]

lemma frame_bytes_neq_Nil [simp]: "frame_bytes f \<noteq> []"
  by (simp add: frame_bytes_def)

lemma length_frame_bytes [simp]: "length (frame_bytes f) = 5 + length (snd f)"
  by (simp add: frame_bytes_def)

lemma MaxPayload_lt: "n \<le> MaxPayload \<Longrightarrow> n < 2 ^ 32"
  by (simp add: MaxPayload_def)

lemma unat_payload_length:
  "n \<le> MaxPayload \<Longrightarrow> unat (word_of_nat n :: 32 word) = n"
  by (simp add: unat_of_nat MaxPayload_def take_bit_nat_eq_self)

lemma take_5_frame: "take 5 (frame_bytes f @ rest) = fst f # put_uint32 (word_of_nat (length (snd f)))"
  by (simp add: frame_bytes_def put_uint32_def)

lemma drop_5_frame: "drop 5 (frame_bytes f @ rest) = snd f @ rest"
  by (simp add: frame_bytes_def put_uint32_def)

lemma read_full_frame:
  "read_full 5 (frame_bytes f @ rest) =
     (Inr (fst f # put_uint32 (word_of_nat (length (snd f)))), snd f @ rest)"
  unfolding read_full_def take_5_frame drop_5_frame by simp

lemma read_full_append: "read_full (length p) (p @ rest) = (Inr p, rest)"
  by (simp add: read_full_def)

lemma read_frame_bytes: "frame_ok f \<Longrightarrow> read_frame (frame_bytes f @ rest) = (Inr f, rest)"
  by (simp add: read_frame_def read_full_frame read_full_append Let_def frame_ok_def
      unat_payload_length)

interpretation frames: stream_codec frame_bytes frame_ok read_frame decode_frames
  by unfold_locales (auto simp: read_frame_bytes decode_frames.simps)

lemma write_frame_buf:
  "write_frame buf_write w t p =
     (if frame_ok (t, p) then (w @ frame_bytes (t, p), None) else (w, Some (WTooLarge (length p))))"
  by (simp add: write_frame_def buf_write_def frame_bytes_def frame_ok_def Let_def put_uint32_def)


section \<open>Package execframe: frame types and payloads\<close>

definition Stdin :: byte where "Stdin = 0x00"
definition Resize :: byte where "Resize = 0x01"
definition Stdout :: byte where "Stdout = 0x10"
definition Stderr :: byte where "Stderr = 0x11"
definition Exit :: byte where "Exit = 0x12"

text \<open>\<open>Encode\<close> and \<open>Decode\<close> are the envelope with the type converted; \<open>type Type byte\<close>.\<close>

definition Encode ::
  "('w \<Rightarrow> bytes \<Rightarrow> 'w \<times> 'e option) \<Rightarrow> 'w \<Rightarrow> byte \<Rightarrow> bytes \<Rightarrow> 'w \<times> 'e write_error option" where
  "Encode write w t payload = write_frame write w t payload"

definition Decode :: "bytes \<Rightarrow> (read_error + byte \<times> bytes) \<times> bytes" where
  "Decode r = read_frame r"

text \<open>The bytes of a Go string, and back.\<close>

definition bytes_of :: "string \<Rightarrow> bytes" where
  "bytes_of s = map of_char s"

definition string_of :: "bytes \<Rightarrow> string" where
  "string_of b = map (\<lambda>w. char_of (unat w)) b"

lemma unat_of_char: "unat (of_char c :: byte) = of_char c"
proof -
  have "(of_char c :: byte) = word_of_nat (of_char c)"
    by (simp only: of_nat_of_char)
  then show ?thesis
    by (simp add: unat_of_nat take_bit_eq_mod)
qed

lemma of_char_char_of_unat: "(of_char (char_of (unat w)) :: byte) = w"
proof -
  have "unat w < 256" using unsigned_less [of w] by simp
  then have "unat (of_char (char_of (unat w)) :: byte) = unat w"
    by (simp add: unat_of_char)
  then show ?thesis by (simp only: word_unat_eq_iff)
qed

lemma string_of_bytes_of [simp]: "string_of (bytes_of s) = s"
  by (simp add: string_of_def bytes_of_def comp_def unat_of_char)

lemma length_bytes_of [simp]: "length (bytes_of s) = length s"
  by (simp add: bytes_of_def)

lemma bytes_of_string_of [simp]: "bytes_of (string_of b) = b"
  by (simp add: string_of_def bytes_of_def comp_def of_char_char_of_unat)

datatype payload_error = BadLength nat

type_synonym int32 = "32 word"

text \<open>\<open>EncodeResize\<close>, \<open>DecodeResize\<close>, \<open>EncodeExit\<close>, \<open>DecodeExit\<close>. The exit code is an \<open>int32\<close>: the
  conversions \<open>uint32(code)\<close> and \<open>int32(\<dots>)\<close> keep the 32 bits, \<open>sint\<close> reads the value.\<close>

definition EncodeResize :: "16 word \<times> 16 word \<Rightarrow> bytes" where
  "EncodeResize rc = put_uint16 (fst rc) @ put_uint16 (snd rc)"

definition DecodeResize :: "bytes \<Rightarrow> payload_error + 16 word \<times> 16 word" where
  "DecodeResize p =
     (if length p \<noteq> 4 then Inl (BadLength (length p))
      else Inr (get_uint16 p, get_uint16 (drop 2 p)))"

definition EncodeExit :: "int32 \<times> string \<Rightarrow> bytes" where
  "EncodeExit ce = put_uint32 (fst ce) @ bytes_of (snd ce)"

definition DecodeExit :: "bytes \<Rightarrow> payload_error + int32 \<times> string" where
  "DecodeExit p =
     (if length p < 4 then Inl (BadLength (length p))
      else Inr (get_uint32 p, string_of (drop 4 p)))"


section \<open>Package pfframe\<close>

definition Open :: byte where "Open = 0x01"
definition Data :: byte where "Data = 0x02"
definition Close :: byte where "Close = 0x03"
definition ConnError :: byte where "ConnError = 0x04"
definition Ready :: byte where "Ready = 0x05"
definition SessionError :: byte where "SessionError = 0x06"

definition PfEncode ::
  "('w \<Rightarrow> bytes \<Rightarrow> 'w \<times> 'e option) \<Rightarrow> 'w \<Rightarrow> byte \<Rightarrow> bytes \<Rightarrow> 'w \<times> 'e write_error option" where
  "PfEncode write w t payload = write_frame write w t payload"

definition PfDecode :: "bytes \<Rightarrow> (read_error + byte \<times> bytes) \<times> bytes" where
  "PfDecode r = read_frame r"

definition EncodeOpen :: "32 word \<times> 16 word \<Rightarrow> bytes" where
  "EncodeOpen cp = put_uint32 (fst cp) @ put_uint16 (snd cp)"

definition DecodeOpen :: "bytes \<Rightarrow> payload_error + 32 word \<times> 16 word" where
  "DecodeOpen p =
     (if length p \<noteq> 6 then Inl (BadLength (length p))
      else Inr (get_uint32 p, get_uint16 (drop 4 p)))"

definition EncodeData :: "32 word \<times> bytes \<Rightarrow> bytes" where
  "EncodeData cd = put_uint32 (fst cd) @ snd cd"

definition DecodeData :: "bytes \<Rightarrow> payload_error + 32 word \<times> bytes" where
  "DecodeData p =
     (if length p < 4 then Inl (BadLength (length p)) else Inr (get_uint32 p, drop 4 p))"

definition EncodeConnID :: "32 word \<Rightarrow> bytes" where
  "EncodeConnID c = put_uint32 c"

definition DecodeConnID :: "bytes \<Rightarrow> payload_error + 32 word" where
  "DecodeConnID p = (if length p < 4 then Inl (BadLength (length p)) else Inr (get_uint32 p))"

definition EncodeConnError :: "32 word \<times> string \<Rightarrow> bytes" where
  "EncodeConnError ce = put_uint32 (fst ce) @ bytes_of (snd ce)"

definition DecodeConnError :: "bytes \<Rightarrow> payload_error + 32 word \<times> string" where
  "DecodeConnError p =
     (if length p < 4 then Inl (BadLength (length p))
      else Inr (get_uint32 p, string_of (drop 4 p)))"



section \<open>The codecs keep their contracts\<close>

lemmas codec_defs [codec_simps] =
  EncodeResize_def DecodeResize_def EncodeExit_def DecodeExit_def EncodeOpen_def DecodeOpen_def
  EncodeData_def DecodeData_def EncodeConnID_def DecodeConnID_def EncodeConnError_def
  DecodeConnError_def

lemma drop_put_uint16: "drop 2 (put_uint16 w @ rest) = rest"
  by (simp add: put_uint16_def)

lemma drop_put_uint32: "drop 4 (put_uint32 w @ rest) = rest"
  by (simp add: put_uint32_def)

text \<open>The words the readers assemble, named so that the simplifier keeps them folded.\<close>

definition word2 :: "byte \<Rightarrow> byte \<Rightarrow> 16 word" where
  "word2 a b = push_bit 8 (ucast a) OR ucast b"

lemma bytes_of_uint16:
  "ucast (drop_bit 8 (word2 a b)) = a"
  "ucast (word2 a b) = b"
  by (rule bit_word_eqI; simp add: word2_def bit_simps; fastforce dest: bit_imp_le_length)+

lemma put_get_uint16: "length p = 2 \<Longrightarrow> put_uint16 (get_uint16 p) = p"
  by (cases p rule: get_uint16.cases)
    (auto simp: put_uint16_def word2_def [symmetric] bytes_of_uint16)

definition word4 :: "byte \<Rightarrow> byte \<Rightarrow> byte \<Rightarrow> byte \<Rightarrow> 32 word" where
  "word4 a b c d = push_bit 24 (ucast a) OR push_bit 16 (ucast b) OR push_bit 8 (ucast c) OR ucast d"

lemma bytes_of_uint32:
  "ucast (drop_bit 24 (word4 a b c d)) = a"
  "ucast (drop_bit 16 (word4 a b c d)) = b"
  "ucast (drop_bit 8 (word4 a b c d)) = c"
  "ucast (word4 a b c d) = d"
  by (rule bit_word_eqI; simp add: word4_def bit_simps; fastforce dest: bit_imp_le_length)+

lemma put_get_uint32: "length p = 4 \<Longrightarrow> put_uint32 (get_uint32 p) = p"
  by (cases p rule: get_uint32.cases)
    (auto simp: put_uint32_def word4_def [symmetric] bytes_of_uint32)

lemma put_get_uint32_drop: "4 \<le> length p \<Longrightarrow> put_uint32 (get_uint32 p) @ drop 4 p = p"
  using put_get_uint32 [of "take 4 p"]
  by (cases p rule: get_uint32.cases) auto

lemma get_uint16_prefix: "put_uint16 (get_uint16 p) = take 2 p" if "2 \<le> length p"
  using that put_get_uint16 [of "take 2 p"] by (cases p rule: get_uint16.cases) auto

interpretation resize: canonical_codec EncodeResize DecodeResize
proof
  show "DecodeResize (EncodeResize a) = Inr a" for a
    by (simp add: codec_simps drop_put_uint16)
  show "EncodeResize a = p" if "DecodeResize p = Inr a" for p a
    using that put_get_uint16 [of "drop 2 p"]
    by (auto simp: codec_simps get_uint16_prefix split: if_splits)
qed

interpretation exit_payload: canonical_codec EncodeExit DecodeExit
  by unfold_locales
    (auto simp: codec_simps drop_put_uint32 put_get_uint32_drop split: if_splits)

interpretation open_payload: canonical_codec EncodeOpen DecodeOpen
proof
  show "DecodeOpen (EncodeOpen a) = Inr a" for a
    by (simp add: codec_simps drop_put_uint32)
  show "EncodeOpen a = p" if "DecodeOpen p = Inr a" for p a
    using that put_get_uint16 [of "drop 4 p"]
    by (auto simp: codec_simps put_get_uint32_drop split: if_splits)
qed

interpretation data_payload: canonical_codec EncodeData DecodeData
  by unfold_locales
    (auto simp: codec_simps drop_put_uint32 put_get_uint32_drop split: if_splits)

interpretation conn_error_payload: canonical_codec EncodeConnError DecodeConnError
  by unfold_locales
    (auto simp: codec_simps drop_put_uint32 put_get_uint32_drop split: if_splits)

text \<open>\<open>DecodeConnID\<close> accepts trailing bytes, so its codec is not canonical.\<close>

interpretation conn_id_payload: payload_codec EncodeConnID DecodeConnID
  by unfold_locales (simp add: codec_simps)



section \<open>Properties\<close>

lemma decode_frames_Nil [simp]: "decode_frames [] = ([], REof)"
  by (simp add: decode_frames.simps read_frame_def read_full_def)

lemma foldl_Encode:
  "foldl (\<lambda>w f. fst (Encode buf_write w (fst f) (snd f))) w fs =
     w @ concat (map frame_bytes (filter frame_ok fs))"
  by (induction fs arbitrary: w) (auto simp: Encode_def write_frame_buf)

text \<open>C30. A writer that ignores the errors of \<open>Encode\<close>, as the exec and port-forward bridges do,
  leaves a stream from which the reading loop gets exactly the frames within \<open>MaxPayload\<close>, in
  order, and then the end of file; a frame that is too large leaves no trace in the stream.\<close>

theorem frames_roundtrip:
  "decode_frames (foldl (\<lambda>w f. fst (Encode buf_write w (fst f) (snd f))) [] fs) =
     (filter frame_ok fs, REof)"
proof -
  have "list_all frame_ok (filter frame_ok fs)" by (simp add: list_all_iff)
  from frames.loop_concat [OF this, of "[]"] show ?thesis
    by (simp add: foldl_Encode)
qed

lemma read_full_Inr:
  "read_full n r = (Inr b, r1) \<longleftrightarrow> n \<le> length r \<and> b = take n r \<and> r1 = drop n r"
  by (auto simp: read_full_def)

lemma frame_bytes_read:
  assumes "5 \<le> length r" and "n = unat (get_uint32 (drop 1 (take 5 r)))" and "n \<le> MaxPayload"
    and "n \<le> length (drop 5 r)"
  shows "frame_bytes (hd (take 5 r), take n (drop 5 r)) @ drop n (drop 5 r) = r"
proof -
  obtain t q where r: "r = t # q" using assms(1) by (cases r) auto
  have q: "4 \<le> length q" using assms(1) r by simp
  have n: "word_of_nat n = get_uint32 (take 4 q)" using assms(2) r by simp
  have "frame_bytes (t, take n (drop 4 q)) = t # put_uint32 (get_uint32 (take 4 q)) @ take n (drop 4 q)"
    using assms(4) r n by (simp add: frame_bytes_def)
  then have "frame_bytes (t, take n (drop 4 q)) @ drop n (drop 4 q) =
      t # take 4 q @ take n (drop 4 q) @ drop n (drop 4 q)"
    using q by (simp add: put_get_uint32)
  also have "\<dots> = t # q" by (simp only: append_take_drop_id)
  finally show ?thesis using r by simp
qed

text \<open>What \<open>ReadFrame\<close> delivers is bounded and is what the peer sent: a payload has at most
  \<open>MaxPayload\<close> bytes, and the bytes consumed are exactly the encoding of the frame returned.\<close>

theorem read_frame_exact:
  assumes "read_frame r = (Inr f, rest)"
  shows "length (snd f) \<le> MaxPayload \<and> r = frame_bytes f @ rest"
proof -
  define n where "n = unat (get_uint32 (drop 1 (take 5 r)))"
  from assms have h: "5 \<le> length r" "n \<le> MaxPayload" "n \<le> length (drop 5 r)"
    and f: "f = (hd (take 5 r), take n (drop 5 r))" "rest = drop n (drop 5 r)"
    by (auto simp: read_frame_def n_def Let_def read_full_Inr split: prod.splits sum.splits if_splits)
  show ?thesis
    using frame_bytes_read [OF h(1) n_def h(2,3)] h f by (simp only: snd_conv) simp
qed

lemma read_frame_exact_witness:
  "length [7 :: byte] \<le> MaxPayload \<and> [16, 0, 0, 0, 1, 7, 9] = frame_bytes (16, [7]) @ [9 :: byte]"
proof -
  have "read_frame [16, 0, 0, 0, 1, 7, 9] = (Inr (16, [7]), [9])"
    by (simp add: read_frame_def read_full_def Let_def MaxPayload_def)
  from read_frame_exact [OF this] show ?thesis by simp
qed

text \<open>A stream cut inside a frame never yields a frame. The error is \<open>io.ErrUnexpectedEOF\<close>, except
  at the two places where the cut is the start of a read: before the header, and right after it.
  The second makes a frame that lost its whole payload look like a clean end of the stream.\<close>

theorem read_frame_truncated:
  assumes "frame_ok f" and "k < length (frame_bytes f)"
  shows "read_frame (take k (frame_bytes f)) =
           (Inl (if k = 0 \<or> k = 5 then REof else RUnexpectedEof), [])"
proof (cases "k < 5")
  case True
  then show ?thesis using assms by (auto simp: read_frame_def read_full_def frame_bytes_def)
next
  case False
  then have "take k (frame_bytes f) =
      fst f # put_uint32 (word_of_nat (length (snd f))) @ take (k - 5) (snd f)"
    by (simp add: frame_bytes_def put_uint32_def take_Cons' numeral_eq_Suc)
  then have "read_full 5 (take k (frame_bytes f)) =
      (Inr (fst f # put_uint32 (word_of_nat (length (snd f)))), take (k - 5) (snd f))"
    by (simp add: read_full_def put_uint32_def)
  then show ?thesis
    using False assms
    by (auto simp: read_frame_def Let_def frame_ok_def unat_payload_length read_full_def)
qed

lemma read_frame_truncated_witness:
  "read_frame (take 5 (frame_bytes (16, [7, 8]))) = (Inl REof, []) \<and>
   read_frame (take 6 (frame_bytes (16, [7, 8]))) = (Inl RUnexpectedEof, [])"
  using read_frame_truncated [of "(16, [7, 8])" 5] read_frame_truncated [of "(16, [7, 8])" 6]
  by (simp add: frame_ok_def MaxPayload_def)

text \<open>Every payload codec of exec and port-forward gives back what was encoded: window sizes, exit
  codes with their message, connection ids, ports, data and connection errors.\<close>

theorem payload_roundtrips:
  "DecodeResize (EncodeResize (rows, cols)) = Inr (rows, cols) \<and>
   DecodeExit (EncodeExit (code, msg)) = Inr (code, msg) \<and>
   DecodeOpen (EncodeOpen (conn, port)) = Inr (conn, port) \<and>
   DecodeData (EncodeData (conn, d)) = Inr (conn, d) \<and>
   DecodeConnID (EncodeConnID conn) = Inr conn \<and>
   DecodeConnError (EncodeConnError (conn, msg)) = Inr (conn, msg)"
  by (simp add: resize.dec_enc exit_payload.dec_enc open_payload.dec_enc data_payload.dec_enc
      conn_id_payload.dec_enc conn_error_payload.dec_enc)

end
