(* ===== verification/Glob.thy ===== *)
theory Glob
  imports Prelude
begin

text \<open>
  The wildcard matcher of the RBAC policy, \<open>matchPattern\<close> (\<open>internal/central/rbac.go\<close>): the
  two-pointer loop with backtracking to the last \<open>*\<close>, its termination, and its relation to the
  declarative meaning of a pattern.
\<close>


section \<open>The meaning of a pattern\<close>

text \<open>\<open>*\<close> stands for any sequence of bytes, every other byte for itself.\<close>

fun glob :: "string \<Rightarrow> string \<Rightarrow> bool" where
  "glob [] v = (v = [])"
| "glob (x # ps) [] = (x = CHR ''*'' \<and> glob ps [])"
| "glob (x # ps) (c # cs) =
     (if x = CHR ''*'' then glob ps (c # cs) \<or> glob (x # ps) cs else x = c \<and> glob ps cs)"

lemma glob_star_Cons: "glob (CHR ''*'' # ps) v \<Longrightarrow> glob (CHR ''*'' # ps) (c # v)"
  by (cases v) auto

lemma glob_starI: "glob ps v \<Longrightarrow> glob (CHR ''*'' # ps) v"
  by (cases v) auto

lemma glob_star_append: "glob (CHR ''*'' # ps) v \<Longrightarrow> glob (CHR ''*'' # ps) (u @ v)"
  by (induction u) (auto intro: glob_star_Cons)

lemma glob_star_iff: "glob (CHR ''*'' # ps) v \<longleftrightarrow> (\<exists>u w. v = u @ w \<and> glob ps w)"
proof
  show "glob (CHR ''*'' # ps) v \<Longrightarrow> \<exists>u w. v = u @ w \<and> glob ps w"
  proof (induction v)
    case Nil
    then show ?case by simp
  next
    case (Cons c v)
    then show ?case
      by (metis append_Cons append_Nil glob.simps(3))
  qed
  show "\<exists>u w. v = u @ w \<and> glob ps w \<Longrightarrow> glob (CHR ''*'' # ps) v"
    by (auto intro: glob_star_append glob_starI)
qed

lemma glob_Cons_same: "glob ps v \<Longrightarrow> glob (c # ps) (c # v)"
  by (cases "c = CHR ''*''") (auto intro: glob_star_Cons glob_starI)

lemma glob_literal_append:
  "CHR ''*'' \<notin> set u \<Longrightarrow> glob (u @ ps) v \<longleftrightarrow> (\<exists>w. v = u @ w \<and> glob ps w)"
proof (induction u arbitrary: v)
  case Nil
  then show ?case by simp
next
  case (Cons x u)
  then show ?case by (cases v) auto
qed

lemma glob_Nil_iff: "glob ps [] \<longleftrightarrow> set ps \<subseteq> {CHR ''*''}"
  by (induction ps) auto

lemma glob_plain [simp]: "CHR ''*'' \<notin> set p \<Longrightarrow> glob p v \<longleftrightarrow> v = p"
  using glob_literal_append [of p "[]" v] by auto

lemma glob_any [simp]: "glob ''*'' v"
  by (subst glob_star_iff) auto


section \<open>The loop\<close>

text \<open>
  \<open>p\<close> and \<open>v\<close> index the pattern and the value, \<open>star\<close> is the last \<open>*\<close> met (-1 is \<open>None\<close>) and \<open>mark\<close>
  the place in the value where its run of bytes starts being retried. The code tests for equal
  bytes before it tests for \<open>*\<close>.
\<close>

function match_loop ::
  "string \<Rightarrow> string \<Rightarrow> nat \<Rightarrow> nat \<Rightarrow> nat option \<Rightarrow> nat \<Rightarrow> nat option" where
  "match_loop pattern val p v star mark =
     (if v < length val then
        if p < length pattern \<and> pattern ! p = val ! v then
          match_loop pattern val (p + 1) (v + 1) star mark
        else if p < length pattern \<and> pattern ! p = CHR ''*'' then
          match_loop pattern val (p + 1) v (Some p) v
        else (case star of
            Some s \<Rightarrow> match_loop pattern val (s + 1) (mark + 1) star (mark + 1)
          | None \<Rightarrow> None)
      else Some p)"
  by pat_completeness auto
termination
proof (relation "measures
    [\<lambda>(pattern, val, p, v, star, mark). if mark \<le> v then 0 else 1,
     \<lambda>(pattern, val, p, v, star, mark). length val - mark,
     \<lambda>(pattern, val, p, v, star, mark). length val - v,
     \<lambda>(pattern, val, p, v, star, mark). length pattern - p]", goal_cases)
  case 1
  show ?case by simp
next
  case (2 pattern val p v star mark)
  then show ?case by auto
next
  case (3 pattern val p v star mark)
  then show ?case by auto
next
  case (4 pattern val p v star mark s)
  then show ?case by auto
qed

declare match_loop.simps [simp del]

text \<open>The second loop skips the \<open>*\<close>s that are left at \<open>p\<close>; \<open>None\<close> of the first loop is its
  \<open>return false\<close>.\<close>

function skip_stars :: "string \<Rightarrow> nat \<Rightarrow> nat" where
  "skip_stars pattern p =
     (if p < length pattern \<and> pattern ! p = CHR ''*'' then skip_stars pattern (p + 1) else p)"
  by pat_completeness auto
termination
  by (relation "measure (\<lambda>(pattern, p). length pattern - p)") auto

declare skip_stars.simps [simp del]

definition matchPattern :: "string \<Rightarrow> string \<Rightarrow> bool" where
  "matchPattern pattern val = (case match_loop pattern val 0 0 None 0 of
     None \<Rightarrow> False
   | Some p \<Rightarrow> skip_stars pattern p = length pattern)"

lemma skip_stars_iff:
  "p \<le> length pattern \<Longrightarrow>
     skip_stars pattern p = length pattern \<longleftrightarrow> glob (drop p pattern) []"
proof (induction pattern p rule: skip_stars.induct)
  case (1 pattern p)
  show ?case
  proof (cases "p < length pattern \<and> pattern ! p = CHR ''*''")
    case True
    then show ?thesis
      using "1.IH" by (simp add: skip_stars.simps [of pattern p] Cons_nth_drop_Suc [symmetric])
  next
    case False
    then have "skip_stars pattern p = p" by (subst skip_stars.simps) auto
    then show ?thesis
      using "1.prems" False
      by (cases "p < length pattern") (auto simp: Cons_nth_drop_Suc [symmetric])
  qed
qed

text \<open>The result of the code from a state of the loop.\<close>

definition match_from :: "string \<Rightarrow> string \<Rightarrow> nat \<Rightarrow> nat \<Rightarrow> nat option \<Rightarrow> nat \<Rightarrow> bool" where
  "match_from pattern val p v star mark = (case match_loop pattern val p v star mark of
     None \<Rightarrow> False
   | Some q \<Rightarrow> skip_stars pattern q = length pattern)"

lemma match_from_step:
  assumes "p \<le> length pattern"
  shows "match_from pattern val p v star mark =
     (if v < length val then
        if p < length pattern \<and> pattern ! p = val ! v then
          match_from pattern val (p + 1) (v + 1) star mark
        else if p < length pattern \<and> pattern ! p = CHR ''*'' then
          match_from pattern val (p + 1) v (Some p) v
        else (case star of
            Some s \<Rightarrow> match_from pattern val (s + 1) (mark + 1) star (mark + 1)
          | None \<Rightarrow> False)
      else glob (drop p pattern) [])"
  using assms
  by (simp add: match_from_def match_loop.simps [of pattern val p v star mark] skip_stars_iff
      split: option.splits)

lemma matchPattern_from: "matchPattern pattern val = match_from pattern val 0 0 None 0"
  by (simp add: matchPattern_def match_from_def)



section \<open>Soundness: what the loop accepts, the pattern means\<close>

lemma drop_nth: "i < length xs \<Longrightarrow> drop i xs = xs ! i # drop (i + 1) xs"
  by (simp add: Cons_nth_drop_Suc)

lemma match_from_sound:
  assumes "p \<le> length pattern" and "v \<le> length val"
    and "\<And>s. star = Some s \<Longrightarrow> s < length pattern \<and> pattern ! s = CHR ''*'' \<and> mark \<le> v"
    and "match_from pattern val p v star mark"
  shows "glob (drop p pattern) (drop v val) \<or>
    (\<exists>s. star = Some s \<and> glob (drop s pattern) (drop mark val))"
  using assms
proof (induction pattern val p v star mark rule: match_loop.induct)
  case (1 pattern val p v star mark)
  note step = match_from_step [OF "1.prems"(1), of val v star mark]
  consider (stop) "\<not> v < length val"
    | (eq) "v < length val" "p < length pattern \<and> pattern ! p = val ! v"
    | (star) "v < length val" "\<not> (p < length pattern \<and> pattern ! p = val ! v)"
        "p < length pattern \<and> pattern ! p = CHR ''*''"
    | (retry) "v < length val" "\<not> (p < length pattern \<and> pattern ! p = val ! v)"
        "\<not> (p < length pattern \<and> pattern ! p = CHR ''*'')"
    by blast
  then show ?case
  proof cases
    case stop
    then show ?thesis using "1.prems"(2,4) step by simp
  next
    case eq
    have "glob (drop (p + 1) pattern) (drop (v + 1) val) \<or>
        (\<exists>s. star = Some s \<and> glob (drop s pattern) (drop mark val))"
      using eq "1.prems" step by (intro "1.IH"(1)) (auto dest: le_SucI)
    then show ?thesis
      using eq glob_Cons_same [of "drop (p + 1) pattern" "drop (v + 1) val" "val ! v"]
      by (auto simp: drop_nth [of p pattern] drop_nth [of v val])
  next
    case star
    have "glob (drop (p + 1) pattern) (drop v val) \<or> glob (drop p pattern) (drop v val)"
      using star "1.prems" step "1.IH"(2) by auto
    then show ?thesis
      using star glob_starI [of "drop (p + 1) pattern" "drop v val"]
      by (auto simp: drop_nth [of p pattern])
  next
    case retry
    then obtain s where s: "star = Some s"
      and m: "match_from pattern val (s + 1) (mark + 1) star (mark + 1)"
      using "1.prems"(4) step by (auto split: option.splits)
    have hs: "s < length pattern" "pattern ! s = CHR ''*''" "mark < length val"
      using "1.prems"(3) [OF s] retry(1) by auto
    have "glob (drop (s + 1) pattern) (drop (mark + 1) val) \<or>
        glob (drop s pattern) (drop (mark + 1) val)"
      using retry s m hs "1.prems" "1.IH"(3) [OF retry s] by auto
    then have "glob (drop s pattern) (drop (mark + 1) val)"
      using hs glob_starI by (auto simp: drop_nth [of s pattern])
    then have "glob (drop s pattern) (drop mark val)"
      using hs glob_star_Cons [of "drop (s + 1) pattern" "drop (mark + 1) val" "val ! mark"]
      by (simp add: drop_nth [of s pattern] drop_nth [of mark val])
    then show ?thesis using s by blast
  qed
qed

lemma matchPattern_sound: "matchPattern pattern val \<Longrightarrow> glob pattern val"
  using match_from_sound [of 0 pattern 0 val None 0] by (simp add: matchPattern_from)


section \<open>Completeness on values without a star\<close>

text \<open>
  With a \<open>*\<close> at \<open>s\<close> and the run \<open>seg\<close> of literal bytes matched since, backtracking to the last \<open>*\<close>
  alone is enough: an earlier star need never take more.
\<close>

lemma glob_star_star:
  assumes "CHR ''*'' \<notin> set seg"
  shows "glob (CHR ''*'' # seg @ CHR ''*'' # ps) (seg @ w) \<longleftrightarrow> glob (CHR ''*'' # ps) w"
proof
  assume "glob (CHR ''*'' # seg @ CHR ''*'' # ps) (seg @ w)"
  then obtain u r where ur: "seg @ w = u @ seg @ r" and r: "glob (CHR ''*'' # ps) r"
    using assms by (auto simp: glob_star_iff [of "seg @ _"] glob_literal_append)
  then have "w = drop (length seg) (u @ seg) @ r"
    by (metis append.assoc append_eq_conv_conj drop_append length_append le_add2
        diff_is_0_eq drop0)
  then show "glob (CHR ''*'' # ps) w" using r glob_star_append by metis
next
  assume "glob (CHR ''*'' # ps) w"
  then show "glob (CHR ''*'' # seg @ CHR ''*'' # ps) (seg @ w)"
    using assms by (intro glob_starI) (auto simp: glob_literal_append)
qed

lemma append_same_middle: "seg = u @ seg @ w \<longleftrightarrow> u = [] \<and> w = []"
proof
  assume "seg = u @ seg @ w"
  then have "length seg = length u + length seg + length w" by (metis length_append add.assoc)
  then show "u = [] \<and> w = []" by simp
qed simp

lemma glob_star_end:
  assumes "CHR ''*'' \<notin> set seg"
  shows "glob (CHR ''*'' # seg @ ps) seg \<longleftrightarrow> glob ps []"
proof -
  have "glob (CHR ''*'' # seg @ ps) seg \<longleftrightarrow> (\<exists>u w. seg = u @ seg @ w \<and> glob ps w)"
    using assms by (auto simp: glob_star_iff [of "seg @ _"] glob_literal_append)
  then show ?thesis by (auto simp: append_same_middle)
qed

lemma glob_star_retry:
  assumes "CHR ''*'' \<notin> set seg" and "\<not> glob ps w" and "seg @ w = c # y"
  shows "glob (CHR ''*'' # seg @ ps) (seg @ w) \<longleftrightarrow> glob (CHR ''*'' # seg @ ps) y"
  using assms glob_literal_append [of seg ps "seg @ w"] by auto

text \<open>The state of the loop: the last star, the literal run since, and where both stand.\<close>

definition loop_inv :: "string \<Rightarrow> string \<Rightarrow> nat \<Rightarrow> nat \<Rightarrow> nat option \<Rightarrow> nat \<Rightarrow> bool" where
  "loop_inv pattern val p v star mark \<longleftrightarrow>
     p \<le> length pattern \<and> v \<le> length val \<and>
     (\<forall>s. star = Some s \<longrightarrow> (\<exists>seg. drop s pattern = CHR ''*'' # seg @ drop p pattern \<and>
        drop mark val = seg @ drop v val \<and> s < length pattern \<and> mark \<le> v))"

definition loop_goal :: "string \<Rightarrow> string \<Rightarrow> nat \<Rightarrow> nat \<Rightarrow> nat option \<Rightarrow> nat \<Rightarrow> bool" where
  "loop_goal pattern val p v star mark = (case star of
     None \<Rightarrow> glob (drop p pattern) (drop v val)
   | Some s \<Rightarrow> glob (drop s pattern) (drop mark val))"

lemma glob_mismatch:
  assumes "v < length val" and "\<not> (p < length pattern \<and> pattern ! p = val ! v)"
    and "\<not> (p < length pattern \<and> pattern ! p = CHR ''*'')" and "p \<le> length pattern"
  shows "\<not> glob (drop p pattern) (drop v val)"
  using assms by (cases "p < length pattern") (auto simp: Cons_nth_drop_Suc [symmetric])

lemma loop_invE:
  assumes "loop_inv pattern val p v star mark" and "star = Some s" and "CHR ''*'' \<notin> set val"
  obtains seg where "CHR ''*'' \<notin> set seg" and "drop s pattern = CHR ''*'' # seg @ drop p pattern"
    and "drop mark val = seg @ drop v val" and "s < length pattern" and "mark \<le> v"
proof -
  from assms(1,2) obtain seg where seg: "drop s pattern = CHR ''*'' # seg @ drop p pattern"
      "drop mark val = seg @ drop v val" "s < length pattern" "mark \<le> v"
    by (auto simp: loop_inv_def)
  have "set seg \<subseteq> set (drop mark val)" using seg(2) by simp
  also have "\<dots> \<subseteq> set val" by (rule set_drop_subset)
  finally have "CHR ''*'' \<notin> set seg" using assms(3) by blast
  with seg that show thesis by blast
qed

lemma match_from_complete:
  assumes "CHR ''*'' \<notin> set val" and "loop_inv pattern val p v star mark"
  shows "match_from pattern val p v star mark = loop_goal pattern val p v star mark"
  using assms
proof (induction pattern val p v star mark rule: match_loop.induct)
  case (1 pattern val p v star mark)
  have bounds: "p \<le> length pattern" "v \<le> length val" using "1.prems"(2) by (auto simp: loop_inv_def)
  note step = match_from_step [OF bounds(1), of val v star mark]
  note seg = loop_invE [OF "1.prems"(2) _ "1.prems"(1)]
  consider (stop) "\<not> v < length val"
    | (eq) "v < length val" "p < length pattern \<and> pattern ! p = val ! v"
    | (star) "v < length val" "\<not> (p < length pattern \<and> pattern ! p = val ! v)"
        "p < length pattern \<and> pattern ! p = CHR ''*''"
    | (retry) "v < length val" "\<not> (p < length pattern \<and> pattern ! p = val ! v)"
        "\<not> (p < length pattern \<and> pattern ! p = CHR ''*'')"
    by blast
  then show ?case
  proof cases
    case stop
    then have "drop v val = []" by simp
    then show ?thesis
      using stop step by (cases star) (auto elim!: seg simp: loop_goal_def glob_star_end)
  next
    case eq
    have v: "val ! v \<noteq> CHR ''*''" using "1.prems"(1) eq(1) nth_mem by metis
    have inv: "loop_inv pattern val (p + 1) (v + 1) star mark"
      using eq bounds "1.prems"(2) unfolding loop_inv_def
      by (fastforce simp: drop_nth [of p pattern] drop_nth [of v val])
    have "loop_goal pattern val (p + 1) (v + 1) star mark = loop_goal pattern val p v star mark"
      using eq v by (auto simp: loop_goal_def drop_nth [of p pattern] drop_nth [of v val] split: option.splits)
    then show ?thesis using "1.IH"(1) [OF eq "1.prems"(1) inv] eq step by simp
  next
    case star
    have inv: "loop_inv pattern val (p + 1) v (Some p) v"
      using star bounds by (simp add: loop_inv_def drop_nth [of p pattern])
    have "loop_goal pattern val (p + 1) v (Some p) v = loop_goal pattern val p v star mark"
    proof (cases star)
      case None
      then show ?thesis by (simp add: loop_goal_def)
    next
      case (Some s)
      then show ?thesis
        using star by (auto elim!: seg simp: loop_goal_def drop_nth [of p pattern] glob_star_star)
    qed
    then show ?thesis using "1.IH"(2) [OF star "1.prems"(1) inv] star step by simp
  next
    case retry
    note no = glob_mismatch [OF retry bounds(1)]
    have next_state: "match_from pattern val p v star mark = (case star of
        Some s \<Rightarrow> match_from pattern val (s + 1) (mark + 1) star (mark + 1) | None \<Rightarrow> False)"
      unfolding step using retry by (simp only: if_True if_False)
    show ?thesis
    proof (cases star)
      case None
      then show ?thesis using no next_state by (simp add: loop_goal_def)
    next
      case (Some s)
      then obtain sg where sg: "CHR ''*'' \<notin> set sg" "drop s pattern = CHR ''*'' # sg @ drop p pattern"
        "drop mark val = sg @ drop v val" "s < length pattern" "mark \<le> v"
        by (rule seg)
      have mark: "drop mark val = val ! mark # drop (mark + 1) val"
        using sg(5) retry(1) by (simp add: drop_nth)
      have run: "sg @ drop v val = val ! mark # drop (mark + 1) val"
        using sg(3) mark by simp
      have s1: "drop (s + 1) pattern = sg @ drop p pattern"
        using sg(2,4) by (simp add: drop_nth [of s pattern])
      have inv: "loop_inv pattern val (s + 1) (mark + 1) star (mark + 1)"
        using sg s1 retry(1) Some by (auto simp: loop_inv_def)
      have "loop_goal pattern val (s + 1) (mark + 1) star (mark + 1) = loop_goal pattern val p v star mark"
        using glob_star_retry [OF sg(1) no run] sg(2,3) Some by (simp add: loop_goal_def)
      then show ?thesis using "1.IH"(3) [OF retry Some "1.prems"(1) inv] Some next_state by simp
    qed
  qed
qed

lemma matchPattern_complete:
  "CHR ''*'' \<notin> set val \<Longrightarrow> matchPattern pattern val \<longleftrightarrow> glob pattern val"
  using match_from_complete [of val pattern 0 0 None 0]
  by (simp add: matchPattern_from loop_inv_def loop_goal_def)

end
