(* ===== verification/Rbac.thy ===== *)
theory Rbac
  imports Glob
begin

text \<open>
  The rest of \<open>internal/central/rbac.go\<close>: verbs specifications and \<open>parseAccessRequest\<close>, which
  derives from a kubectl command line the request the policy decides on; and the properties of the
  wildcard matcher.
\<close>


section \<open>Access requests\<close>

record AccessRequest =
  Cluster :: string
  Namespace :: string
  Resource :: string
  Verb :: string

text \<open>\<open>strings.TrimSpace\<close> on an entry, then either \<open>*\<close> or the verb up to case.\<close>

definition verbAllowed :: "string \<Rightarrow> string \<Rightarrow> bool" where
  "verbAllowed verbs verb =
     list_ex (\<lambda>v. trim_space v = ''*'' \<or> equal_fold (trim_space v) verb) (split_on CHR '','' verbs)"

definition podScopedVerbs :: "string \<Rightarrow> bool" where
  "podScopedVerbs verb = (verb \<in> {''logs'', ''exec'', ''attach'', ''port-forward'', ''cp''})"

text \<open>The loop over the arguments; \<open>-n\<close> as the last argument has no value and changes nothing.\<close>

fun scan_namespace :: "string list \<Rightarrow> string \<Rightarrow> string" where
  "scan_namespace [] ns = ns"
| "scan_namespace (a # as) ns =
     (if a = ''-A'' \<or> a = ''--all-namespaces'' then scan_namespace as ''*''
      else if a = ''-n'' \<or> a = ''--namespace'' then
        (case as of [] \<Rightarrow> ns | b # bs \<Rightarrow> scan_namespace bs b)
      else if has_prefix a ''--namespace='' then scan_namespace as (trim_prefix a ''--namespace='')
      else if has_prefix a ''-n='' then scan_namespace as (trim_prefix a ''-n='')
      else scan_namespace as ns)"

fun first_non_flag :: "string list \<Rightarrow> string" where
  "first_non_flag [] = []"
| "first_non_flag (a # as) = (if has_prefix a ''-'' then first_non_flag as else a)"

definition strip_name :: "string \<Rightarrow> string" where
  "strip_name r = (case index_byte r CHR ''/'' of None \<Rightarrow> r | Some i \<Rightarrow> take i r)"

definition parseAccessRequest :: "string \<Rightarrow> string list \<Rightarrow> string \<Rightarrow> AccessRequest" where
  "parseAccessRequest cluster command fallback =
     (let ns = (if fallback = [] then ''default'' else fallback) in
      case command of
        [] \<Rightarrow> \<lparr>Cluster = cluster, Namespace = ns, Resource = [], Verb = []\<rparr>
      | verb # args \<Rightarrow>
          \<lparr>Cluster = cluster, Namespace = scan_namespace args ns,
           Resource = strip_name (if podScopedVerbs verb then ''pods'' else first_non_flag args),
           Verb = verb\<rparr>)"


section \<open>Options as kubectl reads them\<close>

text \<open>
  The options of a kubectl command in the forms the parser knows; \<open>OptOther\<close> is any other flag
  that is one token (\<open>-o=wide\<close>, \<open>--watch\<close>).
\<close>

datatype kubectl_opt =
    OptN string
  | OptNamespace string
  | OptNEq string
  | OptNamespaceEq string
  | OptA
  | OptAllNamespaces
  | OptOther string

fun render_opt :: "kubectl_opt \<Rightarrow> string list" where
  "render_opt (OptN ns) = [''-n'', ns]"
| "render_opt (OptNamespace ns) = [''--namespace'', ns]"
| "render_opt (OptNEq ns) = [''-n='' @ ns]"
| "render_opt (OptNamespaceEq ns) = [''--namespace='' @ ns]"
| "render_opt OptA = [''-A'']"
| "render_opt OptAllNamespaces = [''--all-namespaces'']"
| "render_opt (OptOther s) = [s]"

definition ns_token :: "string \<Rightarrow> bool" where
  "ns_token a \<longleftrightarrow> a \<in> {''-A'', ''--all-namespaces'', ''-n'', ''--namespace''} \<or>
     has_prefix a ''--namespace='' \<or> has_prefix a ''-n=''"

fun opt_ok :: "kubectl_opt \<Rightarrow> bool" where
  "opt_ok (OptOther s) = (\<not> ns_token s)"
| "opt_ok _ = True"

definition all_namespaces :: "kubectl_opt \<Rightarrow> bool" where
  "all_namespaces opt = (opt \<in> {OptA, OptAllNamespaces})"

fun opt_namespace :: "kubectl_opt \<Rightarrow> string option" where
  "opt_namespace (OptN ns) = Some ns"
| "opt_namespace (OptNamespace ns) = Some ns"
| "opt_namespace (OptNEq ns) = Some ns"
| "opt_namespace (OptNamespaceEq ns) = Some ns"
| "opt_namespace OptA = None"
| "opt_namespace OptAllNamespaces = None"
| "opt_namespace (OptOther _) = None"

text \<open>What kubectl documents: with one of the options for all namespaces any namespace given is ignored,
  else the last one given counts, else the default.\<close>

definition wanted_namespace :: "string \<Rightarrow> kubectl_opt list \<Rightarrow> string" where
  "wanted_namespace ns opts =
     (if list_ex all_namespaces opts then ''*''
      else foldl (\<lambda>acc opt. case opt_namespace opt of None \<Rightarrow> acc | Some n \<Rightarrow> n) ns opts)"

lemma scan_namespace_other [simp]: "\<not> ns_token a \<Longrightarrow> scan_namespace (a # as) ns = scan_namespace as ns"
  by (simp add: ns_token_def)

lemma scan_namespace_render:
  assumes "opt_ok opt"
  shows "scan_namespace (render_opt opt @ as) ns =
    scan_namespace as (if all_namespaces opt then ''*''
      else case opt_namespace opt of None \<Rightarrow> ns | Some n \<Rightarrow> n)"
proof (cases opt)
  case (OptOther s)
  with assms have "\<not> ns_token s" by simp
  with OptOther show ?thesis by (simp add: all_namespaces_def del: scan_namespace.simps)
qed (simp_all add: has_prefix_def trim_prefix_def all_namespaces_def)

text \<open>Namespaces first, then the options for all namespaces.\<close>

lemma scan_namespace_named:
  "list_all opt_ok opts \<Longrightarrow> \<not> list_ex all_namespaces opts \<Longrightarrow>
     scan_namespace (concat (map render_opt opts) @ as) ns = scan_namespace as (wanted_namespace ns opts)"
  by (induction opts arbitrary: ns) (simp_all add: scan_namespace_render wanted_namespace_def)

lemma scan_namespace_all:
  "list_all opt_ok opts \<Longrightarrow> list_all (\<lambda>opt. opt_namespace opt = None) opts \<Longrightarrow>
     scan_namespace (concat (map render_opt opts)) ns = (if list_ex all_namespaces opts then ''*'' else ns)"
  by (induction opts arbitrary: ns) (simp_all add: scan_namespace_render)

lemma foldl_no_namespace:
  "list_all (\<lambda>opt. opt_namespace opt = None) opts \<Longrightarrow>
     foldl (\<lambda>acc opt. case opt_namespace opt of None \<Rightarrow> acc | Some n \<Rightarrow> n) ns opts = ns"
  by (induction opts) simp_all

lemma scan_namespace_rendered:
  assumes "list_all opt_ok (opts1 @ opts2)" and "\<not> list_ex all_namespaces opts1"
    and "list_all (\<lambda>opt. opt_namespace opt = None) opts2"
  shows "scan_namespace (concat (map render_opt (opts1 @ opts2))) ns = wanted_namespace ns (opts1 @ opts2)"
proof -
  have "scan_namespace (concat (map render_opt (opts1 @ opts2))) ns =
      scan_namespace (concat (map render_opt opts2)) (wanted_namespace ns opts1)"
    using assms(1,2) scan_namespace_named [of opts1 "concat (map render_opt opts2)" ns] by simp
  then show ?thesis
    using assms scan_namespace_all [of opts2 "wanted_namespace ns opts1"] foldl_no_namespace [OF assms(3)]
    by (simp add: wanted_namespace_def)
qed

lemma strip_name_no_slash: "CHR ''/'' \<notin> set (strip_name r)"
  by (auto simp: strip_name_def dest: index_byte_Some split: option.splits)

lemma strip_name_id [simp]: "CHR ''/'' \<notin> set r \<Longrightarrow> strip_name r = r"
  by (simp add: strip_name_def)

lemma index_byte_append [simp]: "c \<notin> set r \<Longrightarrow> index_byte (r @ c # n) c = Some (length r)"
  by (induction r) auto

lemma strip_name_slash [simp]: "CHR ''/'' \<notin> set r \<Longrightarrow> strip_name (r @ CHR ''/'' # n) = r"
  by (simp add: strip_name_def)


section \<open>Properties\<close>

text \<open>C28. On a value without the byte \<open>*\<close> (every cluster, resource and namespace name Kubernetes
  allows) the two-pointer loop decides exactly the meaning of the pattern: backtracking to the last
  star alone is enough.\<close>

theorem matchPattern_exact:
  assumes "CHR ''*'' \<notin> set val"
  shows "matchPattern pattern val \<longleftrightarrow> glob pattern val"
  using assms by (rule matchPattern_complete)

theorem matchPattern_exact_witness:
  "matchPattern ''a*b'' ''axb'' \<longleftrightarrow> glob ''a*b'' ''axb''"
  by (rule matchPattern_exact) simp

text \<open>Where the value itself has a \<open>*\<close> the matcher is not complete: the pattern \<open>*\<close>, which means
  any value, rejects \<open>*abc\<close>, because the loop tests for equal bytes before it tests for the
  wildcard and so spends the star as a literal.\<close>

theorem matchPattern_star_value:
  "\<not> matchPattern ''*'' (CHR ''*'' # val) \<longleftrightarrow> val \<noteq> []"
proof (cases val)
  case Nil
  then show ?thesis
    by (simp add: matchPattern_def match_loop.simps [of "''*''" "''*''"] skip_stars.simps)
next
  case (Cons c cs)
  then show ?thesis
    by (simp add: matchPattern_def match_loop.simps [of "''*''" "CHR ''*'' # c # cs"])
qed

text \<open>A command written verb, resource type (with or without a \<open>/name\<close>), options is understood as
  kubectl documents it: cluster, verb and resource type are those of the command; the namespace is \<open>*\<close>
  when the command asks for all of them, else the last one given, else the fallback, else \<open>default\<close>.
  The options for all namespaces must follow the others.\<close>

theorem parseAccessRequest_meant:
  assumes "list_all opt_ok (opts1 @ opts2)" and "\<not> list_ex all_namespaces opts1"
    and "list_all (\<lambda>opt. opt_namespace opt = None) opts2" and "\<not> podScopedVerbs verb"
    and "CHR ''/'' \<notin> set kind" and "\<not> has_prefix kind ''-''" and "kind \<noteq> []"
  shows "parseAccessRequest cluster
      (verb # (if named then kind @ ''/'' @ name else kind) # concat (map render_opt (opts1 @ opts2))) fallback =
    \<lparr>Cluster = cluster,
     Namespace = wanted_namespace (if fallback = [] then ''default'' else fallback) (opts1 @ opts2),
     Resource = kind, Verb = verb\<rparr>"
proof -
  let ?arg = "if named then kind @ ''/'' @ name else kind" and ?opts = "opts1 @ opts2"
  have flag: "\<not> has_prefix ?arg ''-''"
    using assms(6,7) by (cases kind) (auto simp: has_prefix_def)
  then have "\<not> ns_token ?arg"
    by (cases ?arg) (auto simp: ns_token_def has_prefix_def)
  then have "scan_namespace (?arg # concat (map render_opt ?opts)) ns = wanted_namespace ns ?opts" for ns
    using scan_namespace_rendered [OF assms(1-3)] by (simp del: scan_namespace.simps map_append concat_append)
  moreover have "strip_name (first_non_flag (?arg # concat (map render_opt ?opts))) = kind"
    using flag assms(5) by auto
  ultimately show ?thesis
    using assms(4) by (simp add: parseAccessRequest_def Let_def
        del: scan_namespace.simps first_non_flag.simps map_append concat_append)
qed

theorem parseAccessRequest_meant_witness:
  "parseAccessRequest ''c1'' [''delete'', ''pods/web-1'', ''-o=wide'', ''-n'', ''infra''] [] =
    \<lparr>Cluster = ''c1'', Namespace = ''infra'', Resource = ''pods'', Verb = ''delete''\<rparr>"
  using parseAccessRequest_meant [of "[OptOther ''-o=wide'', OptN ''infra'']" "[]" "''delete''" "''pods''"
      "''c1''" True "''web-1''" "[]"]
  by (simp add: ns_token_def has_prefix_def podScopedVerbs_def wanted_namespace_def all_namespaces_def)

text \<open>Only one resource is checked, and not always one that is used: an option that takes its value as a
  separate token before the resource has that value taken for the resource, and after a first
  \<open>type/name\<close> any further one goes unchecked, though kubectl reads a list of them.\<close>

theorem parseAccessRequest_one_resource:
  assumes "\<not> podScopedVerbs verb" and "\<not> has_prefix kind ''-''" and "kind \<noteq> []" and "CHR ''/'' \<notin> set kind"
    and "has_prefix flag ''-''"
  shows "Resource (parseAccessRequest cluster (verb # flag # kind # rest) fallback) = kind \<and>
    Resource (parseAccessRequest cluster (verb # (kind @ ''/'' @ name) # rest) fallback) = kind"
proof -
  have "\<not> has_prefix (kind @ ''/'' @ name) ''-''"
    using assms(2,3) by (cases kind) (auto simp: has_prefix_def)
  then show ?thesis using assms by (simp add: parseAccessRequest_def Let_def)
qed

theorem parseAccessRequest_one_resource_witness:
  "Resource (parseAccessRequest ''c1'' [''get'', ''--cache-dir'', ''pods'', ''secrets''] []) = ''pods'' \<and>
   Resource (parseAccessRequest ''c1'' [''get'', ''pods/a'', ''secrets/b''] []) = ''pods''"
  using parseAccessRequest_one_resource [of "''get''" "''pods''" "''--cache-dir''" "''c1''" "[''secrets'']" "[]" "''a''"]
    parseAccessRequest_one_resource [of "''get''" "''pods''" "''--cache-dir''" "''c1''" "[''secrets/b'']" "[]" "''a''"]
  by (simp add: podScopedVerbs_def has_prefix_def)

text \<open>Three command lines whose namespace is misread. After \<open>-A\<close> kubectl ignores a namespace, the parser
  takes it, so a user who is permitted one namespace gets all of them; \<open>--all-namespaces=true\<close> and
  \<open>-nkube-system\<close> are read by kubectl and not by the parser, which decides on the fallback.\<close>

theorem parseAccessRequest_namespace_escapes:
  "Namespace (parseAccessRequest cluster [''get'', kind, ''-A'', ''-n'', ns] fallback) = ns \<and>
   wanted_namespace ''default'' [OptA, OptN ns] = ''*'' \<and>
   Namespace (parseAccessRequest cluster [''get'', ''pods'', ''--all-namespaces=true''] fallback) =
     (if fallback = [] then ''default'' else fallback) \<and>
   Namespace (parseAccessRequest cluster [''get'', ''pods'', ''-n'' @ CHR ''k'' # rest] fallback) =
     (if fallback = [] then ''default'' else fallback)"
proof (intro conjI)
  have "scan_namespace [kind, ''-A'', ''-n'', ns] d = ns" for d
    by (auto split: list.splits)
  then show "Namespace (parseAccessRequest cluster [''get'', kind, ''-A'', ''-n'', ns] fallback) = ns"
    by (simp add: parseAccessRequest_def Let_def del: scan_namespace.simps)
qed (simp_all add: wanted_namespace_def all_namespaces_def parseAccessRequest_def has_prefix_def)

end
