(* ===== verification/Policy.thy ===== *)
theory Policy
  imports Rbac
begin

text \<open>
  The RBAC policy of the central server (\<open>internal/central/policy.go\<close>): roles with their rules,
  bindings of subjects to roles, the decision, the validation of a document, and the engine that
  holds the active policy and swaps it when the file changes.

  Parsing YAML is the library's: \<open>unmarshal\<close> is an argument of the operations that parse. The file
  system is the argument \<open>read\<close>, the contents of each file at the moment of the call.
\<close>

record PolicyRule =
  Clusters :: "string list"
  Namespaces :: "string list"
  Resources :: "string list"
  Verbs :: "string list"

record PolicyRole =
  role_Name :: string
  Rules :: "PolicyRule list"

record PolicyBinding =
  Subject :: string
  binding_Roles :: "string list"

record Policy =
  Default :: string
  Roles :: "PolicyRole list"
  Bindings :: "PolicyBinding list"


section \<open>The decision\<close>

definition anyMatch :: "string list \<Rightarrow> string \<Rightarrow> bool" where
  "anyMatch patterns val = list_ex (\<lambda>p. matchPattern p val) patterns"

text \<open>The entry \<open>*\<close> is compared as it stands, every other entry without its white space.\<close>

definition anyVerb :: "string list \<Rightarrow> string \<Rightarrow> bool" where
  "anyVerb verbs verb = list_ex (\<lambda>v. v = ''*'' \<or> equal_fold (trim_space v) verb) verbs"

definition rule_allows :: "PolicyRule \<Rightarrow> AccessRequest \<Rightarrow> bool" where
  "rule_allows r req \<longleftrightarrow>
     anyMatch (Clusters r) (Cluster req) \<and> anyMatch (Namespaces r) (Namespace req) \<and>
     anyMatch (Resources r) (Resource req) \<and> anyVerb (Verbs r) (Verb req)"

fun matching_roles :: "PolicyBinding list \<Rightarrow> string \<Rightarrow> string list" where
  "matching_roles [] subject = []"
| "matching_roles (b # bs) subject =
     (if matchPattern (Subject b) subject then binding_Roles b else []) @ matching_roles bs subject"

definition rolesFor :: "Policy \<Rightarrow> string \<Rightarrow> string list" where
  "rolesFor p subject =
     matching_roles (Bindings p) subject @ (if Default p \<noteq> [] then [Default p] else [])"

definition policy_allows :: "Policy \<Rightarrow> string \<Rightarrow> AccessRequest \<Rightarrow> bool" where
  "policy_allows p subject req =
     (let active = set (rolesFor p subject) in
      list_ex (\<lambda>role. role_Name role \<in> active \<and> list_ex (\<lambda>rule. rule_allows rule req) (Rules role))
        (Roles p))"


section \<open>Validation\<close>

datatype policy_error =
    ReadError
  | YamlError
  | MissingRoleName
  | DuplicateRole string
  | UnknownRole string string
  | UnknownDefault string

text \<open>The first loop: the names defined, or the first error.\<close>

fun define_roles :: "PolicyRole list \<Rightarrow> string set \<Rightarrow> policy_error + string set" where
  "define_roles [] defined = Inr defined"
| "define_roles (r # rs) defined =
     (if role_Name r = [] then Inl MissingRoleName
      else if role_Name r \<in> defined then Inl (DuplicateRole (role_Name r))
      else define_roles rs (insert (role_Name r) defined))"

fun check_names :: "string set \<Rightarrow> string \<Rightarrow> string list \<Rightarrow> policy_error option" where
  "check_names defined subject [] = None"
| "check_names defined subject (n # ns) =
     (if n \<notin> defined then Some (UnknownRole subject n) else check_names defined subject ns)"

fun check_bindings :: "string set \<Rightarrow> PolicyBinding list \<Rightarrow> policy_error option" where
  "check_bindings defined [] = None"
| "check_bindings defined (b # bs) =
     (case check_names defined (Subject b) (binding_Roles b) of
        Some e \<Rightarrow> Some e
      | None \<Rightarrow> check_bindings defined bs)"

definition validate_policy :: "Policy \<Rightarrow> policy_error option" where
  "validate_policy p = (case define_roles (Roles p) {} of
     Inl e \<Rightarrow> Some e
   | Inr defined \<Rightarrow>
       (case check_bindings defined (Bindings p) of
          Some e \<Rightarrow> Some e
        | None \<Rightarrow> if Default p \<noteq> [] \<and> Default p \<notin> defined then Some (UnknownDefault (Default p)) else None))"

definition ParsePolicy :: "(bytes \<Rightarrow> Policy option) \<Rightarrow> bytes \<Rightarrow> policy_error + Policy" where
  "ParsePolicy unmarshal data = (case unmarshal data of
     None \<Rightarrow> Inl YamlError
   | Some p \<Rightarrow> (case validate_policy p of Some e \<Rightarrow> Inl e | None \<Rightarrow> Inr p))"


section \<open>The engine\<close>

record PolicyEngine =
  current :: Policy
  engine_path :: string

definition loadPolicyFile ::
  "(bytes \<Rightarrow> Policy option) \<Rightarrow> (string \<Rightarrow> bytes option) \<Rightarrow> string \<Rightarrow> policy_error + Policy" where
  "loadPolicyFile unmarshal read path = (case read path of
     None \<Rightarrow> Inl ReadError
   | Some data \<Rightarrow> ParsePolicy unmarshal data)"

definition NewPolicyEngineFromFile ::
  "(bytes \<Rightarrow> Policy option) \<Rightarrow> (string \<Rightarrow> bytes option) \<Rightarrow> string \<Rightarrow> policy_error + PolicyEngine" where
  "NewPolicyEngineFromFile unmarshal read path = (case loadPolicyFile unmarshal read path of
     Inl e \<Rightarrow> Inl e
   | Inr p \<Rightarrow> Inr \<lparr>current = p, engine_path = path\<rparr>)"

definition Allows :: "PolicyEngine \<Rightarrow> string \<Rightarrow> AccessRequest \<Rightarrow> bool" where
  "Allows e subject req = policy_allows (current e) subject req"

definition Reload ::
  "(bytes \<Rightarrow> Policy option) \<Rightarrow> (string \<Rightarrow> bytes option) \<Rightarrow> PolicyEngine \<Rightarrow> policy_error option \<times> PolicyEngine" where
  "Reload unmarshal read e = (case loadPolicyFile unmarshal read (engine_path e) of
     Inl err \<Rightarrow> (Some err, e)
   | Inr p \<Rightarrow> (None, e\<lparr>current := p\<rparr>))"

text \<open>
  What the goroutine of \<open>Watch\<close> can receive: a file event with its name, an error, a closed
  channel, the stop signal. One iteration returns the engine and whether the loop goes on.
\<close>

datatype watch_event = FsEvent string | WatcherError | WatcherClosed | WatchStop

fun watch_step ::
  "(bytes \<Rightarrow> Policy option) \<Rightarrow> (string \<Rightarrow> bytes option) \<Rightarrow> watch_event \<Rightarrow> PolicyEngine \<Rightarrow> bool \<times> PolicyEngine" where
  "watch_step unmarshal read (FsEvent name) e =
     (if filepath_clean name \<noteq> filepath_clean (engine_path e) then (True, e)
      else (True, snd (Reload unmarshal read e)))"
| "watch_step unmarshal read WatcherError e = (True, e)"
| "watch_step unmarshal read WatcherClosed e = (False, e)"
| "watch_step unmarshal read WatchStop e = (False, e)"

text \<open>The loop on the events in the order the \<open>select\<close> takes them, each with the file system of its
  moment; \<open>watcher_ok\<close> is whether the watcher could be set up.\<close>

fun watch_loop ::
  "(bytes \<Rightarrow> Policy option) \<Rightarrow> ((string \<Rightarrow> bytes option) \<times> watch_event) list \<Rightarrow> PolicyEngine \<Rightarrow> PolicyEngine" where
  "watch_loop unmarshal [] e = e"
| "watch_loop unmarshal ((read, ev) # evs) e =
     (case watch_step unmarshal read ev e of
        (True, e') \<Rightarrow> watch_loop unmarshal evs e'
      | (False, e') \<Rightarrow> e')"

definition Watch ::
  "(bytes \<Rightarrow> Policy option) \<Rightarrow> bool \<Rightarrow> ((string \<Rightarrow> bytes option) \<times> watch_event) list \<Rightarrow> PolicyEngine \<Rightarrow> PolicyEngine" where
  "Watch unmarshal watcher_ok evs e = (if watcher_ok then watch_loop unmarshal evs e else e)"


section \<open>What validation establishes\<close>

definition policy_wf :: "Policy \<Rightarrow> bool" where
  "policy_wf p \<longleftrightarrow>
     (let names = map role_Name (Roles p) in
      distinct names \<and> [] \<notin> set names \<and>
      (\<forall>b \<in> set (Bindings p). set (binding_Roles b) \<subseteq> set names) \<and>
      (Default p \<noteq> [] \<longrightarrow> Default p \<in> set names))"

lemma define_roles_Inr_iff:
  "define_roles rs defined = Inr d \<longleftrightarrow>
     distinct (map role_Name rs) \<and> [] \<notin> role_Name ` set rs \<and>
     defined \<inter> role_Name ` set rs = {} \<and> d = defined \<union> role_Name ` set rs"
proof (induction rs arbitrary: defined)
  case Nil
  then show ?case by auto
next
  case (Cons r rs)
  show ?case by (cases "role_Name r = [] \<or> role_Name r \<in> defined") (auto simp: Cons.IH)
qed

lemma check_names_None_iff: "check_names defined s ns = None \<longleftrightarrow> set ns \<subseteq> defined"
  by (induction ns) auto

lemma check_bindings_None_iff:
  "check_bindings defined bs = None \<longleftrightarrow> (\<forall>b \<in> set bs. set (binding_Roles b) \<subseteq> defined)"
proof (induction bs)
  case Nil
  then show ?case by simp
next
  case (Cons b bs)
  then show ?case
    using check_names_None_iff [of defined "Subject b" "binding_Roles b"]
    by (cases "check_names defined (Subject b) (binding_Roles b)") auto
qed

lemma validate_policy_None_iff: "validate_policy p = None \<longleftrightarrow> policy_wf p"
proof (cases "define_roles (Roles p) {}")
  case (Inl e)
  then have "\<nexists>d. define_roles (Roles p) {} = Inr d" by simp
  then have "\<not> (distinct (map role_Name (Roles p)) \<and> [] \<notin> role_Name ` set (Roles p))"
    by (simp add: define_roles_Inr_iff)
  then show ?thesis using Inl by (auto simp: validate_policy_def policy_wf_def)
next
  case (Inr d)
  then have "distinct (map role_Name (Roles p))" "[] \<notin> role_Name ` set (Roles p)"
      "d = role_Name ` set (Roles p)"
    by (auto simp: define_roles_Inr_iff)
  then show ?thesis
    using Inr by (auto simp: validate_policy_def policy_wf_def check_bindings_None_iff [symmetric]
        split: option.splits)
qed

lemma loadPolicyFile_wf: "loadPolicyFile unmarshal read path = Inr p \<Longrightarrow> policy_wf p"
  by (auto simp: loadPolicyFile_def ParsePolicy_def validate_policy_None_iff [symmetric]
      split: option.splits)

lemma set_matching_roles:
  "set (matching_roles bs s) = (\<Union>b \<in> {b \<in> set bs. matchPattern (Subject b) s}. set (binding_Roles b))"
  by (induction bs) auto

lemma set_rolesFor:
  "n \<in> set (rolesFor p s) \<longleftrightarrow> (n = Default p \<and> n \<noteq> []) \<or>
     (\<exists>b \<in> set (Bindings p). matchPattern (Subject b) s \<and> n \<in> set (binding_Roles b))"
  by (auto simp: rolesFor_def set_matching_roles)

lemma policy_allows_iff:
  "policy_allows p s req \<longleftrightarrow>
     (\<exists>role \<in> set (Roles p). \<exists>rule \<in> set (Rules role).
        role_Name role \<in> set (rolesFor p s) \<and> rule_allows rule req)"
  by (auto simp: policy_allows_def Let_def list_ex_iff)


section \<open>The engine as a system\<close>

definition engine_init :: "(bytes \<Rightarrow> Policy option) \<Rightarrow> string \<Rightarrow> PolicyEngine \<Rightarrow> bool" where
  "engine_init unmarshal path e \<longleftrightarrow> (\<exists>read. NewPolicyEngineFromFile unmarshal read path = Inr e)"

inductive engine_step :: "(bytes \<Rightarrow> Policy option) \<Rightarrow> PolicyEngine \<Rightarrow> PolicyEngine \<Rightarrow> bool"
  for unmarshal where
  step_Reload: "Reload unmarshal read e = (err, e') \<Longrightarrow> engine_step unmarshal e e'"
| step_Watch: "watch_step unmarshal read ev e = (goes_on, e') \<Longrightarrow> engine_step unmarshal e e'"

lemma Reload_cases:
  obtains err where "Reload unmarshal read e = (Some err, e)"
  | p where "loadPolicyFile unmarshal read (engine_path e) = Inr p"
      "Reload unmarshal read e = (None, e\<lparr>current := p\<rparr>)"
  by (cases "loadPolicyFile unmarshal read (engine_path e)") (auto simp: Reload_def)

lemma Reload_wf:
  "policy_wf (current e) \<Longrightarrow> engine_path e = path \<Longrightarrow>
     policy_wf (current (snd (Reload unmarshal read e))) \<and> engine_path (snd (Reload unmarshal read e)) = path"
  by (rule Reload_cases [of unmarshal read e]) (auto dest: loadPolicyFile_wf)

lemma watch_step_cases:
  "snd (watch_step unmarshal read ev e) \<in> {e, snd (Reload unmarshal read e)}"
  by (cases ev) auto

interpretation engine: invariant_system
  "engine_init unmarshal path" "engine_step unmarshal"
  "\<lambda>e. policy_wf (current e) \<and> engine_path e = path" for unmarshal path
proof unfold_locales
  fix e assume "engine_init unmarshal path e"
  then obtain read where "NewPolicyEngineFromFile unmarshal read path = Inr e"
    by (auto simp: engine_init_def)
  then show "policy_wf (current e) \<and> engine_path e = path"
    by (cases "loadPolicyFile unmarshal read path")
      (auto simp: NewPolicyEngineFromFile_def dest: loadPolicyFile_wf)
next
  fix e e' assume inv: "policy_wf (current e) \<and> engine_path e = path" and "engine_step unmarshal e e'"
  from this(2) show "policy_wf (current e') \<and> engine_path e' = path"
  proof (cases rule: engine_step.cases)
    case (step_Reload read err)
    then show ?thesis using Reload_wf [of e path unmarshal read] inv by simp
  next
    case (step_Watch read ev goes_on)
    then show ?thesis
      using watch_step_cases [of unmarshal read ev e] Reload_wf [of e path unmarshal read] inv by auto
  qed
qed

lemma watch_loop_steps: "(engine_step unmarshal)\<^sup>*\<^sup>* e (watch_loop unmarshal evs e)"
proof (induction evs arbitrary: e)
  case Nil
  then show ?case by simp
next
  case (Cons rev evs)
  obtain read ev where rev: "rev = (read, ev)" by (cases rev)
  obtain go e' where w: "watch_step unmarshal read ev e = (go, e')" by (cases "watch_step unmarshal read ev e")
  then have "engine_step unmarshal e e'" by (rule step_Watch)
  then show ?case
    using Cons.IH [of e'] rev w by (cases go) (auto intro: converse_rtranclp_into_rtranclp)
qed

lemma watch_loop_append_ignored:
  assumes "\<And>read ev. (read, ev) \<in> set evs \<Longrightarrow> snd (watch_step unmarshal read ev e) = e"
  shows "watch_loop unmarshal evs e = e"
  using assms
proof (induction evs)
  case Nil
  then show ?case by simp
next
  case (Cons rev evs)
  obtain read ev where rev: "rev = (read, ev)" by (cases rev)
  then have "snd (watch_step unmarshal read ev e) = e" using Cons.prems by simp
  then obtain go where "watch_step unmarshal read ev e = (go, e)"
    by (cases "watch_step unmarshal read ev e") simp
  then show ?case using Cons rev by (cases go) auto
qed


section \<open>Properties\<close>

text \<open>C4. A request is granted exactly when some role that applies to the subject (the default role or
  a role of a binding whose subject pattern matches) has a rule with a matching entry in each of its
  four fields. There is no other way in, and no rule takes a grant away.\<close>

theorem policy_allows_spec:
  "policy_allows p subject req \<longleftrightarrow>
     (\<exists>role rule. role \<in> set (Roles p) \<and> rule \<in> set (Rules role) \<and>
        ((role_Name role = Default p \<and> role_Name role \<noteq> []) \<or>
         (\<exists>b. b \<in> set (Bindings p) \<and> matchPattern (Subject b) subject \<and>
            role_Name role \<in> set (binding_Roles b))) \<and>
        (\<exists>c. c \<in> set (Clusters rule) \<and> matchPattern c (Cluster req)) \<and>
        (\<exists>n. n \<in> set (Namespaces rule) \<and> matchPattern n (Namespace req)) \<and>
        (\<exists>r. r \<in> set (Resources rule) \<and> matchPattern r (Resource req)) \<and>
        (\<exists>v. v \<in> set (Verbs rule) \<and> (v = ''*'' \<or> equal_fold (trim_space v) (Verb req))))"
proof -
  have rule: "rule_allows rule req \<longleftrightarrow>
      (\<exists>c. c \<in> set (Clusters rule) \<and> matchPattern c (Cluster req)) \<and>
      (\<exists>n. n \<in> set (Namespaces rule) \<and> matchPattern n (Namespace req)) \<and>
      (\<exists>r. r \<in> set (Resources rule) \<and> matchPattern r (Resource req)) \<and>
      (\<exists>v. v \<in> set (Verbs rule) \<and> (v = ''*'' \<or> equal_fold (trim_space v) (Verb req)))" for rule
    by (auto simp: rule_allows_def anyMatch_def anyVerb_def list_ex_iff)
  show ?thesis
    unfolding policy_allows_iff set_rolesFor rule Bex_def by blast
qed

text \<open>Validation accepts a document exactly when its role names are distinct and not empty and
  every role a binding or the default names is defined.\<close>

theorem validate_policy_exact:
  "validate_policy p = None \<longleftrightarrow>
     distinct (map role_Name (Roles p)) \<and> [] \<notin> role_Name ` set (Roles p) \<and>
     \<Union> ((set \<circ> binding_Roles) ` set (Bindings p)) \<subseteq> role_Name ` set (Roles p) \<and>
     Default p \<in> insert [] (role_Name ` set (Roles p))"
  by (auto simp: validate_policy_None_iff policy_wf_def Let_def)

text \<open>C29. Whatever is written to the policy file and whatever the watcher reports, in every state the
  engine can reach from a successful start the active policy is one validation accepts and the path
  is the one it was started with.\<close>

theorem engine_policy_valid:
  assumes "reach (engine_init unmarshal path) (engine_step unmarshal) e"
  shows "validate_policy (current e) = None \<and> engine_path e = path"
  using engine.reach_inv [OF assms] by (simp add: validate_policy_None_iff)

definition viewer_policy :: Policy where
  "viewer_policy = \<lparr>Default = ''viewer'',
     Roles = [\<lparr>role_Name = ''viewer'',
       Rules = [\<lparr>Clusters = [''*''], Namespaces = [''*''], Resources = [''*''], Verbs = [''get'']\<rparr>]\<rparr>],
     Bindings = []\<rparr>"

definition toy_unmarshal :: "bytes \<Rightarrow> Policy option" where
  "toy_unmarshal data = (if data = [1] then Some viewer_policy else None)"

lemma toy_engine:
  "NewPolicyEngineFromFile toy_unmarshal (\<lambda>_. Some [1]) ''rbac.yaml'' =
     Inr \<lparr>current = viewer_policy, engine_path = ''rbac.yaml''\<rparr>"
  by (simp add: NewPolicyEngineFromFile_def loadPolicyFile_def ParsePolicy_def toy_unmarshal_def
      validate_policy_def viewer_policy_def)

theorem engine_policy_valid_witness:
  "validate_policy (current (snd (Reload toy_unmarshal (\<lambda>_. None)
       \<lparr>current = viewer_policy, engine_path = ''rbac.yaml''\<rparr>))) = None"
proof -
  let ?e = "\<lparr>current = viewer_policy, engine_path = ''rbac.yaml''\<rparr>"
  have "reach (engine_init toy_unmarshal ''rbac.yaml'') (engine_step toy_unmarshal) ?e"
    using toy_engine by (intro reach_init) (auto simp: engine_init_def)
  moreover have "engine_step toy_unmarshal ?e (snd (Reload toy_unmarshal (\<lambda>_. None) ?e))"
    by (rule step_Reload) (rule prod.collapse [symmetric])
  ultimately have "reach (engine_init toy_unmarshal ''rbac.yaml'') (engine_step toy_unmarshal)
      (snd (Reload toy_unmarshal (\<lambda>_. None) ?e))"
    by (rule reach_step)
  from engine_policy_valid [OF this] show ?thesis by simp
qed

text \<open>A reload that fails, for whatever reason, leaves the engine as it was; one that succeeds
  decides every later request by the document in the file; and the watcher, on a file event, does
  the one or the other.\<close>

theorem Reload_atomic:
  "Reload unmarshal read e = (case read (engine_path e) of
     None \<Rightarrow> (Some ReadError, e)
   | Some data \<Rightarrow> (case unmarshal data of
       None \<Rightarrow> (Some YamlError, e)
     | Some p \<Rightarrow> (case validate_policy p of
         Some err \<Rightarrow> (Some err, e)
       | None \<Rightarrow> (None, e\<lparr>current := p\<rparr>)))) \<and>
   (Watch unmarshal True ((read, FsEvent (engine_path e)) # evs) e =
      Watch unmarshal True evs (snd (Reload unmarshal read e)))"
  by (auto simp: Reload_def loadPolicyFile_def ParsePolicy_def Watch_def split: option.splits)

text \<open>Roles and bindings only add: a policy with more bindings and more roles (or rules under the
  same names) grants everything the smaller one grants.\<close>

theorem policy_allows_mono:
  assumes "policy_allows p subject req"
    and "\<And>role. role \<in> set (Roles p) \<Longrightarrow> \<exists>role'. role' \<in> set (Roles q) \<and> role_Name role' = role_Name role \<and>
           set (Rules role) \<subseteq> set (Rules role')"
    and "set (Bindings p) \<subseteq> set (Bindings q)"
    and "Default p = [] \<or> Default q = Default p"
  shows "policy_allows q subject req"
proof -
  obtain role rule where r: "role \<in> set (Roles p)" "rule \<in> set (Rules role)"
      "role_Name role \<in> set (rolesFor p subject)" "rule_allows rule req"
    using assms(1) by (auto simp: policy_allows_iff)
  from assms(2) [OF r(1)] obtain role' where r': "role' \<in> set (Roles q)"
      "role_Name role' = role_Name role" "set (Rules role) \<subseteq> set (Rules role')" by auto
  have "role_Name role \<in> set (rolesFor q subject)"
    using r(3) assms(3,4) by (auto simp: set_rolesFor)
  then show ?thesis using r(2,4) r' by (auto simp: policy_allows_iff intro!: bexI [of _ role'])
qed

theorem policy_allows_mono_witness:
  "policy_allows (viewer_policy\<lparr>Bindings := [\<lparr>Subject = ''a@b'', binding_Roles = []\<rparr>]\<rparr>) ''u''
     \<lparr>Cluster = ''c'', Namespace = ''n'', Resource = ''pods'', Verb = ''get''\<rparr>"
proof (rule policy_allows_mono [of viewer_policy])
  show "policy_allows viewer_policy ''u''
      \<lparr>Cluster = ''c'', Namespace = ''n'', Resource = ''pods'', Verb = ''get''\<rparr>"
    by (simp add: viewer_policy_def policy_allows_iff set_rolesFor rule_allows_def anyMatch_def
        anyVerb_def matchPattern_complete equal_fold_def trim_space_def is_space_def)
qed (auto simp: viewer_policy_def)

end
