(* ===== verification/Command_Queue.thy ===== *)
theory Command_Queue
  imports Prelude
begin

text \<open>
  The queue of commands waiting for agents (\<open>internal/central/commands.go\<close>).

  The code keeps pointers: the map leads from the request ID to a \<open>*PendingCommand\<close>, and a waiter
  goes on with its pointer after the command has left the map. The model has the same sharing: the
  commands live in the list \<open>cmd_heap\<close>, a reference is an index into it, and \<open>commands\<close> maps request
  IDs to references. A result channel (capacity one) is what it holds.

  Where Go's \<open>range\<close> over a map visits the entries in an order of its own, the operation has that
  order as an argument, a list of the keys. An operation that releases the lock before it sends on
  the channel is composed of its two halves, which the step relation interleaves freely.
\<close>

datatype CommandStatus = Pending | Running | Completed | Failed | Timeout

record CommandResult =
  result_RequestID :: string
  Stdout :: bytes
  Stderr :: bytes
  ExitCode :: "32 word"
  ErrorMessage :: string
  result_Completed :: bool

record PendingCommand =
  RequestID :: string
  AgentID :: string
  ClusterName :: string
  Command :: "string list"
  cmd_Namespace :: string
  TimeoutSeconds :: "32 word"
  Stdin :: bytes
  CreatedAt :: int
  Status :: CommandStatus
  resultCh :: "CommandResult option"

record CommandQueue =
  cmd_heap :: "PendingCommand list"
  commands :: "string \<rightharpoonup> nat"

definition NewCommandQueue :: CommandQueue where
  "NewCommandQueue = \<lparr>cmd_heap = [], commands = Map.empty\<rparr>"

abbreviation cmd_at :: "CommandQueue \<Rightarrow> nat \<Rightarrow> PendingCommand" where
  "cmd_at q r \<equiv> cmd_heap q ! r"

definition upd_cmd :: "nat \<Rightarrow> (PendingCommand \<Rightarrow> PendingCommand) \<Rightarrow> CommandQueue \<Rightarrow> CommandQueue" where
  "upd_cmd r f q = q\<lparr>cmd_heap := (cmd_heap q)[r := f (cmd_at q r)]\<rparr>"


section \<open>Operations\<close>

text \<open>The eight random bytes are an argument; the error of \<open>rand.Read\<close> is \<open>None\<close>.\<close>

definition generateRequestID :: "bytes option \<Rightarrow> string option" where
  "generateRequestID rand = map_option (\<lambda>bs. ''req-'' @ hex_encode bs) rand"

definition Enqueue ::
  "bytes option \<Rightarrow> int \<Rightarrow> string \<Rightarrow> string \<Rightarrow> string list \<Rightarrow> string \<Rightarrow> 32 word \<Rightarrow> bytes \<Rightarrow>
     CommandQueue \<Rightarrow> string option \<times> CommandQueue" where
  "Enqueue rand now agentID clusterName command namespace timeoutSeconds stdin q =
     (case generateRequestID rand of
        None \<Rightarrow> (None, q)
      | Some requestID \<Rightarrow>
          let cmd = \<lparr>RequestID = requestID, AgentID = agentID, ClusterName = clusterName,
                     Command = command, cmd_Namespace = namespace, TimeoutSeconds = timeoutSeconds,
                     Stdin = stdin, CreatedAt = now, Status = Pending, resultCh = None\<rparr>
          in (Some requestID,
              q\<lparr>cmd_heap := cmd_heap q @ [cmd], commands := (commands q)(requestID \<mapsto> length (cmd_heap q))\<rparr>))"

text \<open>The map lookup, and the command found.\<close>

definition Get :: "string \<Rightarrow> CommandQueue \<Rightarrow> nat option" where
  "Get requestID q = commands q requestID"

definition cmd_lookup :: "CommandQueue \<Rightarrow> string \<Rightarrow> PendingCommand option" where
  "cmd_lookup q requestID = map_option (cmd_at q) (Get requestID q)"

fun GetPendingForAgent :: "string list \<Rightarrow> string \<Rightarrow> CommandQueue \<Rightarrow> PendingCommand list" where
  "GetPendingForAgent [] agentID q = []"
| "GetPendingForAgent (rid # rids) agentID q =
     (case cmd_lookup q rid of
        None \<Rightarrow> GetPendingForAgent rids agentID q
      | Some cmd \<Rightarrow>
          if AgentID cmd = agentID \<and> Status cmd = Pending then cmd # GetPendingForAgent rids agentID q
          else GetPendingForAgent rids agentID q)"

definition MarkRunning :: "string \<Rightarrow> CommandQueue \<Rightarrow> bool \<times> CommandQueue" where
  "MarkRunning requestID q = (case Get requestID q of
     None \<Rightarrow> (False, q)
   | Some r \<Rightarrow> (True, upd_cmd r (Status_update (\<lambda>_. Running)) q))"

text \<open>The non-blocking send: a channel that holds a result drops the new one.\<close>

definition send_result :: "nat \<Rightarrow> CommandResult \<Rightarrow> CommandQueue \<Rightarrow> CommandQueue" where
  "send_result r res q = (case resultCh (cmd_at q r) of
     None \<Rightarrow> upd_cmd r (resultCh_update (\<lambda>_. Some res)) q
   | Some _ \<Rightarrow> q)"

definition finish_locked :: "CommandStatus \<Rightarrow> string \<Rightarrow> CommandQueue \<Rightarrow> (nat \<times> CommandQueue) option" where
  "finish_locked st requestID q = (case Get requestID q of
     None \<Rightarrow> None
   | Some r \<Rightarrow> Some (r, upd_cmd r (Status_update (\<lambda>_. st)) q))"

definition Complete :: "string \<Rightarrow> CommandResult \<Rightarrow> CommandQueue \<Rightarrow> bool \<times> CommandQueue" where
  "Complete requestID result q = (case finish_locked Completed requestID q of
     None \<Rightarrow> (False, q)
   | Some (r, q') \<Rightarrow> (True, send_result r (result\<lparr>result_Completed := True\<rparr>) q'))"

definition fail_result :: "string \<Rightarrow> string \<Rightarrow> CommandResult" where
  "fail_result requestID msg =
     \<lparr>result_RequestID = requestID, Stdout = [], Stderr = [], ExitCode = - 1, ErrorMessage = msg,
      result_Completed = True\<rparr>"

definition Fail :: "string \<Rightarrow> string \<Rightarrow> CommandQueue \<Rightarrow> bool \<times> CommandQueue" where
  "Fail requestID msg q = (case finish_locked Failed requestID q of
     None \<Rightarrow> (False, q)
   | Some (r, q') \<Rightarrow> (True, send_result r (fail_result requestID msg) q'))"

text \<open>
  \<open>WaitForResult\<close>: the lookup, then the \<open>select\<close> on the reference. With both the result and the
  end of the context ready, Go chooses; the choice is the argument \<open>pick\<close>. \<open>WaitBlocked\<close>: neither is
  ready and the goroutine waits.
\<close>

datatype wait_outcome = WaitResult CommandResult | WaitNotFound | WaitDone | WaitBlocked

definition wait_timeout :: "nat \<Rightarrow> CommandQueue \<Rightarrow> CommandQueue" where
  "wait_timeout r q =
     (if Status (cmd_at q r) = Pending \<or> Status (cmd_at q r) = Running
      then upd_cmd r (Status_update (\<lambda>_. Timeout)) q else q)"

definition wait_select :: "bool \<Rightarrow> bool \<Rightarrow> nat \<Rightarrow> CommandQueue \<Rightarrow> wait_outcome \<times> CommandQueue" where
  "wait_select ctx_done pick r q = (case resultCh (cmd_at q r) of
     Some res \<Rightarrow>
       if ctx_done \<and> \<not> pick then (WaitDone, wait_timeout r q)
       else (WaitResult res, upd_cmd r (resultCh_update (\<lambda>_. None)) q)
   | None \<Rightarrow> if ctx_done then (WaitDone, wait_timeout r q) else (WaitBlocked, q))"

definition WaitForResult :: "bool \<Rightarrow> bool \<Rightarrow> string \<Rightarrow> CommandQueue \<Rightarrow> wait_outcome \<times> CommandQueue" where
  "WaitForResult ctx_done pick requestID q = (case Get requestID q of
     None \<Rightarrow> (WaitNotFound, q)
   | Some r \<Rightarrow> wait_select ctx_done pick r q)"

definition Remove :: "string \<Rightarrow> CommandQueue \<Rightarrow> CommandQueue" where
  "Remove requestID q = q\<lparr>commands := (commands q)(requestID := None)\<rparr>"

fun CleanupOld :: "string list \<Rightarrow> int \<Rightarrow> CommandQueue \<Rightarrow> nat \<times> CommandQueue" where
  "CleanupOld [] cutoff q = (0, q)"
| "CleanupOld (rid # rids) cutoff q =
     (case cmd_lookup q rid of
        None \<Rightarrow> CleanupOld rids cutoff q
      | Some cmd \<Rightarrow>
          if CreatedAt cmd < cutoff then
            (case CleanupOld rids cutoff (Remove rid q) of (n, q') \<Rightarrow> (n + 1, q'))
          else CleanupOld rids cutoff q)"


section \<open>Well-formed queues\<close>

definition queue_ok :: "CommandQueue \<Rightarrow> bool" where
  "queue_ok q \<longleftrightarrow>
     (\<forall>rid r. commands q rid = Some r \<longrightarrow> r < length (cmd_heap q) \<and> RequestID (cmd_at q r) = rid) \<and>
     (\<forall>c \<in> set (cmd_heap q). \<forall>res. resultCh c = Some res \<longrightarrow> result_Completed res)"

named_theorems queue_defs \<open>the operations of the command queue\<close>

lemmas [queue_defs] = Get_def MarkRunning_def finish_locked_def Complete_def Fail_def
  WaitForResult_def Remove_def cmd_lookup_def

lemma queue_okD:
  "queue_ok q \<Longrightarrow> commands q rid = Some r \<Longrightarrow> r < length (cmd_heap q) \<and> RequestID (cmd_at q r) = rid"
  by (simp add: queue_ok_def)

lemma commands_upd [simp]: "commands (upd_cmd r f q) = commands q"
  by (simp add: upd_cmd_def)

lemma length_upd [simp]: "length (cmd_heap (upd_cmd r f q)) = length (cmd_heap q)"
  by (simp add: upd_cmd_def)

lemma cmd_at_upd [simp]:
  "r < length (cmd_heap q) \<Longrightarrow> cmd_at (upd_cmd r f q) s = (if s = r then f (cmd_at q r) else cmd_at q s)"
  by (simp add: upd_cmd_def)

lemma queue_ok_upd:
  assumes "queue_ok q" and "r < length (cmd_heap q)" and "RequestID (f (cmd_at q r)) = RequestID (cmd_at q r)"
    and "\<And>res. resultCh (f (cmd_at q r)) = Some res \<Longrightarrow> result_Completed res"
  shows "queue_ok (upd_cmd r f q)"
proof -
  have "\<forall>c \<in> set (cmd_heap (upd_cmd r f q)). \<forall>res. resultCh c = Some res \<longrightarrow> result_Completed res"
    using assms(1,4) set_update_subset_insert [of "cmd_heap q" r "f (cmd_at q r)"]
    by (auto simp: upd_cmd_def queue_ok_def)
  then show ?thesis using assms(1-3) by (auto simp: queue_ok_def)
qed

lemma queue_ok_channel:
  "queue_ok q \<Longrightarrow> r < length (cmd_heap q) \<Longrightarrow> resultCh (cmd_at q r) = Some res \<Longrightarrow> result_Completed res"
  by (auto simp: queue_ok_def)

lemma queue_ok_status:
  "queue_ok q \<Longrightarrow> r < length (cmd_heap q) \<Longrightarrow> queue_ok (upd_cmd r (Status_update (\<lambda>_. st)) q)"
  by (rule queue_ok_upd) (auto dest: queue_ok_channel)

lemma queue_ok_send:
  "queue_ok q \<Longrightarrow> r < length (cmd_heap q) \<Longrightarrow> result_Completed res \<Longrightarrow> queue_ok (send_result r res q)"
  by (auto simp: send_result_def intro!: queue_ok_upd split: option.splits)

lemma queue_ok_Enqueue: "queue_ok q \<Longrightarrow> queue_ok (snd (Enqueue rand now a c cmd ns t i q))"
  by (auto simp: Enqueue_def queue_ok_def nth_append dest: less_SucI split: option.splits)

lemma queue_ok_Remove: "queue_ok q \<Longrightarrow> queue_ok (Remove rid q)"
  by (auto simp: Remove_def queue_ok_def split: if_splits)

lemma queue_ok_wait:
  "queue_ok q \<Longrightarrow> r < length (cmd_heap q) \<Longrightarrow> queue_ok (snd (wait_select done pick r q))"
  by (auto simp: wait_select_def wait_timeout_def dest: queue_ok_channel intro: queue_ok_status
      intro!: queue_ok_upd split: option.splits)

lemma queue_ok_CleanupOld: "queue_ok q \<Longrightarrow> queue_ok (snd (CleanupOld rids cutoff q))"
  by (induction rids cutoff q rule: CleanupOld.induct)
    (auto split: option.splits prod.splits simp: queue_ok_Remove)


section \<open>The queue as a keyed store\<close>

text \<open>Insertion of a command under its request ID, as \<open>Enqueue\<close> does it.\<close>

definition put_cmd :: "string \<Rightarrow> PendingCommand \<Rightarrow> CommandQueue \<Rightarrow> CommandQueue" where
  "put_cmd rid c q =
     q\<lparr>cmd_heap := cmd_heap q @ [c], commands := (commands q)(rid \<mapsto> length (cmd_heap q))\<rparr>"

definition refs_ok :: "CommandQueue \<Rightarrow> bool" where
  "refs_ok q \<longleftrightarrow> (\<forall>rid r. commands q rid = Some r \<longrightarrow> r < length (cmd_heap q))"

interpretation queue: keyed_store cmd_lookup put_cmd Remove refs_ok
proof unfold_locales
  fix q k v j
  show "refs_ok q \<Longrightarrow> cmd_lookup (put_cmd k v q) j = (if j = k then Some v else cmd_lookup q j)"
    by (cases "commands q j") (auto simp: cmd_lookup_def Get_def put_cmd_def refs_ok_def nth_append)
  show "refs_ok q \<Longrightarrow> cmd_lookup (Remove k q) j = (if j = k then None else cmd_lookup q j)"
    by (simp add: cmd_lookup_def Get_def Remove_def)
  show "refs_ok q \<Longrightarrow> refs_ok (put_cmd k v q)"
    by (auto simp: put_cmd_def refs_ok_def dest: less_SucI split: if_splits)
  show "refs_ok q \<Longrightarrow> refs_ok (Remove k q)"
    by (auto simp: Remove_def refs_ok_def split: if_splits)
qed

lemma queue_ok_refs: "queue_ok q \<Longrightarrow> refs_ok q"
  by (simp add: queue_ok_def refs_ok_def)

lemma Enqueue_put:
  "Enqueue (Some bs) now a c cmd ns t i q =
     (Some (''req-'' @ hex_encode bs),
      put_cmd (''req-'' @ hex_encode bs)
        \<lparr>RequestID = ''req-'' @ hex_encode bs, AgentID = a, ClusterName = c, Command = cmd,
         cmd_Namespace = ns, TimeoutSeconds = t, Stdin = i, CreatedAt = now, Status = Pending,
         resultCh = None\<rparr> q)"
  by (simp add: Enqueue_def generateRequestID_def put_cmd_def Let_def)

lemma cmd_lookup_upd:
  assumes "queue_ok q" and "commands q rid = Some r"
  shows "cmd_lookup (upd_cmd r f q) j =
    (if j = rid then Some (f (cmd_at q r)) else cmd_lookup q j)"
proof (cases "commands q j")
  case (Some s)
  have "j \<noteq> rid \<Longrightarrow> s \<noteq> r"
    using queue_okD [OF assms] queue_okD [OF assms(1) Some] by auto
  then show ?thesis
    using Some assms(2) queue_okD [OF assms] by (auto simp: cmd_lookup_def Get_def)
qed (use assms(2) in \<open>auto simp: cmd_lookup_def Get_def\<close>)

lemma cmd_lookup_MarkRunning:
  "queue_ok q \<Longrightarrow> cmd_lookup (snd (MarkRunning rid q)) j =
     (if j = rid then map_option (Status_update (\<lambda>_. Running)) (cmd_lookup q rid) else cmd_lookup q j)"
  by (cases "commands q rid")
    (auto simp: MarkRunning_def Get_def cmd_lookup_upd, auto simp: cmd_lookup_def Get_def)

lemma queue_ok_MarkRunning: "queue_ok q \<Longrightarrow> queue_ok (snd (MarkRunning rid q))"
  by (auto simp: MarkRunning_def Get_def dest: queue_okD intro!: queue_ok_status split: option.splits)

lemma set_GetPendingForAgent:
  "set (GetPendingForAgent rids a q) =
     {c. \<exists>rid \<in> set rids. cmd_lookup q rid = Some c \<and> AgentID c = a \<and> Status c = Pending}"
  by (induction rids) (auto split: option.splits)

lemma cmd_lookup_RequestID: "queue_ok q \<Longrightarrow> cmd_lookup q rid = Some c \<Longrightarrow> RequestID c = rid"
  by (auto simp: cmd_lookup_def Get_def dest: queue_okD)

lemma distinct_GetPendingForAgent:
  assumes "queue_ok q" and "distinct rids"
  shows "distinct (map RequestID (GetPendingForAgent rids a q))"
  using assms(2)
proof (induction rids)
  case Nil
  then show ?case by simp
next
  case (Cons rid rids)
  then have "RequestID c \<in> set rids" if "c \<in> set (GetPendingForAgent rids a q)" for c
    using that cmd_lookup_RequestID [OF assms(1)] by (auto simp: set_GetPendingForAgent)
  then show ?case
    using Cons cmd_lookup_RequestID [OF assms(1), of rid] by (auto split: option.splits)
qed

lemma dom_cmd_lookup: "dom (cmd_lookup q) = dom (commands q)"
  by (auto simp: cmd_lookup_def Get_def)


section \<open>Interleaved operations\<close>

text \<open>
  One step is what runs under one hold of the lock, or one operation on a channel: \<open>Complete\<close> and
  \<open>Fail\<close> are \<open>step_finish\<close> and later \<open>step_send\<close>, with any step of another goroutine between them.
\<close>

inductive queue_step :: "CommandQueue \<Rightarrow> CommandQueue \<Rightarrow> bool" where
  step_Enqueue: "queue_step q (snd (Enqueue rand now a c cmd ns t i q))"
| step_MarkRunning: "queue_step q (snd (MarkRunning rid q))"
| step_finish: "finish_locked st rid q = Some (r, q') \<Longrightarrow> queue_step q q'"
| step_send: "r < length (cmd_heap q) \<Longrightarrow> result_Completed res \<Longrightarrow> queue_step q (send_result r res q)"
| step_wait: "r < length (cmd_heap q) \<Longrightarrow> queue_step q (snd (wait_select done pick r q))"
| step_Remove: "queue_step q (Remove rid q)"
| step_CleanupOld: "queue_step q (snd (CleanupOld rids cutoff q))"

lemma queue_ok_New: "queue_ok NewCommandQueue"
  by (simp add: queue_ok_def NewCommandQueue_def)

lemma queue_ok_finish: "queue_ok q \<Longrightarrow> finish_locked st rid q = Some (r, q') \<Longrightarrow> queue_ok q'"
  by (auto simp: finish_locked_def Get_def dest: queue_okD intro!: queue_ok_status split: option.splits)

interpretation command_queue: invariant_system "\<lambda>q. q = NewCommandQueue" queue_step queue_ok
proof unfold_locales
  fix q assume "q = NewCommandQueue"
  then show "queue_ok q" by (simp add: queue_ok_New)
next
  fix q q' assume "queue_ok q" and "queue_step q q'"
  from this(2,1) show "queue_ok q'"
    by cases (auto intro: queue_ok_Enqueue queue_ok_MarkRunning queue_ok_finish queue_ok_send
        queue_ok_wait queue_ok_Remove queue_ok_CleanupOld)
qed

abbreviation queue_reach :: "CommandQueue \<Rightarrow> bool" where
  "queue_reach \<equiv> reach (\<lambda>q. q = NewCommandQueue) queue_step"

text \<open>Once a channel holds a result, only the waiter takes it out: no other step changes it.\<close>

lemma send_result_full:
  "resultCh (cmd_at q r) = Some res \<Longrightarrow> send_result r res' q = q"
  by (simp add: send_result_def)

lemma finish_channel:
  assumes "queue_ok q" and "Get rid q = Some r"
  obtains q' where "finish_locked st rid q = Some (r, q')" and "queue_ok q'"
    and "resultCh (cmd_at q' r) = resultCh (cmd_at q r)" and "Get rid q' = Some r"
    and "length (cmd_heap q') = length (cmd_heap q)"
proof -
  let ?q = "upd_cmd r (Status_update (\<lambda>_. st)) q"
  have r: "r < length (cmd_heap q)" using assms queue_okD by (auto simp: Get_def)
  have f: "finish_locked st rid q = Some (r, ?q)" using assms(2) by (simp add: finish_locked_def)
  show thesis
    using f queue_ok_finish [OF assms(1) f] r assms(2) by (intro that [of ?q]) (simp_all add: Get_def)
qed

lemma Complete_channel:
  assumes "queue_ok q" and "Get rid q = Some r" and "resultCh (cmd_at q r) = None"
  obtains q' where "Complete rid res q = (True, q')" and "queue_ok q'" and "Get rid q' = Some r"
    and "resultCh (cmd_at q' r) = Some (res\<lparr>result_Completed := True\<rparr>)"
proof -
  obtain q1 where q1: "finish_locked Completed rid q = Some (r, q1)" "queue_ok q1"
      "resultCh (cmd_at q1 r) = None" "Get rid q1 = Some r" "length (cmd_heap q1) = length (cmd_heap q)"
    using finish_channel [OF assms(1,2), of Completed] assms(3) by metis
  have r: "r < length (cmd_heap q1)" using q1(2,4) queue_okD by (auto simp: Get_def)
  then show thesis
    using q1 queue_ok_send [OF q1(2) r, of "res\<lparr>result_Completed := True\<rparr>"]
    by (intro that [of "send_result r (res\<lparr>result_Completed := True\<rparr>) q1"])
      (auto simp: Complete_def send_result_def Get_def)
qed

lemma Fail_channel:
  assumes "queue_ok q" and "Get rid q = Some r" and "resultCh (cmd_at q r) = None"
  obtains q' where "Fail rid msg q = (True, q')" and "queue_ok q'" and "Get rid q' = Some r"
    and "resultCh (cmd_at q' r) = Some (fail_result rid msg)"
proof -
  obtain q1 where q1: "finish_locked Failed rid q = Some (r, q1)" "queue_ok q1"
      "resultCh (cmd_at q1 r) = None" "Get rid q1 = Some r" "length (cmd_heap q1) = length (cmd_heap q)"
    using finish_channel [OF assms(1,2), of Failed] assms(3) by metis
  have r: "r < length (cmd_heap q1)" using q1(2,4) queue_okD by (auto simp: Get_def)
  then show thesis
    using q1 queue_ok_send [OF q1(2) r, of "fail_result rid msg"]
    by (intro that [of "send_result r (fail_result rid msg) q1"])
      (auto simp: Fail_def send_result_def Get_def fail_result_def)
qed

lemma finished_again:
  assumes "queue_ok q" and "Get rid q = Some r" and "resultCh (cmd_at q r) = Some res"
    and "q2 = snd (Complete rid res2 q) \<or> q2 = snd (Fail rid msg q)"
  shows "Get rid q2 = Some r \<and> resultCh (cmd_at q2 r) = Some res"
proof -
  obtain q1 where q1: "finish_locked Completed rid q = Some (r, q1)" "Get rid q1 = Some r"
      "resultCh (cmd_at q1 r) = Some res"
    using finish_channel [OF assms(1,2), of Completed] assms(3) by metis
  obtain q1' where q1': "finish_locked Failed rid q = Some (r, q1')" "Get rid q1' = Some r"
      "resultCh (cmd_at q1' r) = Some res"
    using finish_channel [OF assms(1,2), of Failed] assms(3) by metis
  show ?thesis
    using assms(4) q1 q1' by (auto simp: Complete_def Fail_def send_result_full)
qed


lemma queue_ok_submit:
  assumes "queue_ok q"
  shows "queue_ok (snd (Complete rid res q))" and "queue_ok (snd (Fail rid msg q))"
proof -
  have "queue_ok (snd (case finish_locked st rid q of None \<Rightarrow> (False, q)
      | Some (r, q') \<Rightarrow> (True, send_result r res q')))" if "result_Completed res" for st res
  proof (cases "Get rid q")
    case None
    then show ?thesis using assms by (simp add: finish_locked_def)
  next
    case (Some r)
    obtain q1 where q1: "finish_locked st rid q = Some (r, q1)" "queue_ok q1" "Get rid q1 = Some r"
      using finish_channel [OF assms Some] by metis
    then show ?thesis
      using that queue_okD [OF q1(2), of rid r] by (auto simp: Get_def intro: queue_ok_send)
  qed
  from this [of "res\<lparr>result_Completed := True\<rparr>" Completed] this [of "fail_result rid msg" Failed]
  show "queue_ok (snd (Complete rid res q))" and "queue_ok (snd (Fail rid msg q))"
    by (simp_all add: Complete_def Fail_def fail_result_def)
qed


section \<open>Properties\<close>

text \<open>In every state the queue can reach, whatever the order in which the map is visited, an agent
  is offered exactly the commands that are its own and still pending, each once.\<close>

theorem pending_exact:
  assumes "queue_reach q" and "distinct rids" and "set rids = dom (commands q)"
  shows "distinct (map RequestID (GetPendingForAgent rids a q)) \<and>
    (c \<in> set (GetPendingForAgent rids a q) \<longleftrightarrow>
      cmd_lookup q (RequestID c) = Some c \<and> AgentID c = a \<and> Status c = Pending)"
proof -
  have ok: "queue_ok q" by (rule command_queue.reach_inv [OF assms(1)])
  show ?thesis
    using cmd_lookup_RequestID [OF ok] assms(2,3) distinct_GetPendingForAgent [OF ok]
    by (auto simp: set_GetPendingForAgent dom_cmd_lookup [symmetric])
qed

abbreviation one_queue :: CommandQueue where
  "one_queue \<equiv> snd (Enqueue (Some [1]) 0 ''agent-a'' ''c'' [''get'', ''pods''] [] 30 [] NewCommandQueue)"

lemma one_queue_reach: "queue_reach one_queue"
proof -
  have "queue_reach NewCommandQueue" by (simp add: reach_init)
  then show ?thesis using step_Enqueue by (rule reach_step)
qed

lemma one_queue_simps:
  "commands one_queue = [''req-01'' \<mapsto> 0]" "Get ''req-01'' one_queue = Some 0"
  "length (cmd_heap one_queue) = 1" "Status (cmd_at one_queue 0) = Pending"
  "AgentID (cmd_at one_queue 0) = ''agent-a''" "resultCh (cmd_at one_queue 0) = None"
  by (simp_all add: Enqueue_put put_cmd_def NewCommandQueue_def hex_digit_def Get_def)

theorem pending_exact_witness:
  "\<forall>c. c \<in> set (GetPendingForAgent [''req-01''] ''agent-a'' one_queue) \<longleftrightarrow>
     cmd_lookup one_queue (RequestID c) = Some c \<and> AgentID c = ''agent-a'' \<and> Status c = Pending"
  using pending_exact [OF one_queue_reach, of "[''req-01'']" "''agent-a''"]
  by (simp add: one_queue_simps(1))

text \<open>C18. The first result wins: after \<open>Complete\<close> on a command whose channel is empty, any number of
  later \<open>Complete\<close>s and \<open>Fail\<close>s (a result submitted twice) do not replace the result, and the waiter
  receives it, marked complete.\<close>

theorem first_result_wins:
  assumes "queue_reach q" and "Get rid q = Some r" and "resultCh (cmd_at q r) = None"
  shows "fst (WaitForResult ctx_done True rid
      (fold (\<lambda>res q. snd (if ErrorMessage res \<noteq> [] then Fail rid (ErrorMessage res) q else Complete rid res q))
        later (snd (Complete rid res q)))) =
    WaitResult (res\<lparr>result_Completed := True\<rparr>)"
proof -
  let ?submit = "\<lambda>res q. snd (if ErrorMessage res \<noteq> [] then Fail rid (ErrorMessage res) q else Complete rid res q)"
  let ?res = "res\<lparr>result_Completed := True\<rparr>"
  have ok: "queue_ok q" by (rule command_queue.reach_inv [OF assms(1)])
  obtain q1 where q1: "Complete rid res q = (True, q1)" "queue_ok q1" "Get rid q1 = Some r"
      "resultCh (cmd_at q1 r) = Some ?res"
    using Complete_channel [OF ok assms(2,3)] by metis
  have "Get rid (fold ?submit later q1) = Some r \<and> resultCh (cmd_at (fold ?submit later q1) r) = Some ?res"
    using q1(2-4)
  proof (induction later arbitrary: q1)
    case Nil
    then show ?case by simp
  next
    case (Cons l later)
    have "queue_ok (?submit l q1)"
      using Cons.prems(1,2) queue_ok_submit by auto
    moreover have "Get rid (?submit l q1) = Some r \<and> resultCh (cmd_at (?submit l q1) r) = Some ?res"
      using finished_again [OF Cons.prems] by (cases "ErrorMessage l = []") auto
    ultimately show ?case using Cons.IH by simp
  qed
  then show ?thesis
    using q1(1) by (simp add: WaitForResult_def wait_select_def)
qed

theorem first_result_wins_witness:
  "fst (WaitForResult False True ''req-01'' (snd (Complete ''req-01'' ((fail_result ''req-01'' [])\<lparr>ExitCode := 1\<rparr>)
      (snd (Complete ''req-01'' (fail_result ''req-01'' ''first'') one_queue))))) =
    WaitResult ((fail_result ''req-01'' ''first'')\<lparr>result_Completed := True\<rparr>)"
  using first_result_wins [OF one_queue_reach one_queue_simps(2,6), of False
      "[(fail_result ''req-01'' [])\<lparr>ExitCode := 1\<rparr>]" "fail_result ''req-01'' ''first''"]
  by (simp add: fail_result_def)

text \<open>A wait that ends with its context marks a command that is pending or running as timed out,
  and an agent that polls afterwards is not offered it.\<close>

theorem timed_out_not_offered:
  assumes "queue_reach q" and "Get rid q = Some r"
    and "Status (cmd_at q r) = Pending \<or> Status (cmd_at q r) = Running"
    and "WaitForResult True pick rid q = (WaitDone, q')"
  shows "map_option Status (cmd_lookup q' rid) = Some Timeout \<and>
    rid \<notin> RequestID ` set (GetPendingForAgent rids a q')"
proof -
  have ok: "queue_ok q" by (rule command_queue.reach_inv [OF assms(1)])
  have r: "commands q rid = Some r" "r < length (cmd_heap q)"
    using assms(2) queue_okD [OF ok] by (auto simp: Get_def)
  have q': "q' = upd_cmd r (Status_update (\<lambda>_. Timeout)) q"
    using assms(2-4) by (auto simp: WaitForResult_def wait_select_def wait_timeout_def split: option.splits if_splits)
  have st: "map_option Status (cmd_lookup q' rid) = Some Timeout"
    using q' cmd_lookup_upd [OF ok r(1)] by simp
  have ok': "queue_ok q'" using q' ok r(2) by (simp add: queue_ok_status)
  have "RequestID c \<noteq> rid" if "c \<in> set (GetPendingForAgent rids a q')" for c
  proof
    assume "RequestID c = rid"
    with that have "cmd_lookup q' rid = Some c \<and> Status c = Pending"
      using cmd_lookup_RequestID [OF ok'] by (auto simp: set_GetPendingForAgent)
    with st show False by simp
  qed
  with st show ?thesis by auto
qed

theorem timed_out_not_offered_witness:
  "''req-01'' \<notin> RequestID ` set (GetPendingForAgent [''req-01''] ''agent-a''
     (snd (WaitForResult True True ''req-01'' one_queue)))"
proof -
  have "WaitForResult True True ''req-01'' one_queue =
      (WaitDone, snd (WaitForResult True True ''req-01'' one_queue))"
    unfolding WaitForResult_def one_queue_simps(2) by (simp add: wait_select_def one_queue_simps(6))
  from timed_out_not_offered [OF one_queue_reach one_queue_simps(2) _ this] show ?thesis
    by (simp only: one_queue_simps(4) simp_thms)
qed

end
