(* ===== verification/Agent_Store.thy ===== *)
theory Agent_Store
  imports Prelude
begin

text \<open>
  The registry of live agents (\<open>internal/central/store.go\<close>). The methods hand out copies, so the
  map holds values. The calls of \<open>time.Now\<close> are arguments, and so is the order in which Go's
  \<open>range\<close> visits the map where the result depends on it.
\<close>

record AgentInfo =
  ID :: string
  info_ClusterName :: string
  Token :: string
  info_Status :: string
  RegisteredAt :: int
  LastSeen :: int

abbreviation AgentStatusConnected :: string where
  "AgentStatusConnected \<equiv> ''connected''"

abbreviation AgentStatusDisconnected :: string where
  "AgentStatusDisconnected \<equiv> ''disconnected''"

definition DisconnectTimeout :: int where
  "DisconnectTimeout = 60 * second"

record AgentStore =
  agents :: "string \<rightharpoonup> AgentInfo"
  validTokens :: "string \<Rightarrow> bool"

definition NewAgentStore :: AgentStore where
  "NewAgentStore = \<lparr>agents = Map.empty, validTokens = (\<lambda>_. False)\<rparr>"

definition AddValidToken :: "string \<Rightarrow> AgentStore \<Rightarrow> AgentStore" where
  "AddValidToken token s = s\<lparr>validTokens := (validTokens s)(token := True)\<rparr>"

definition ValidateToken :: "string \<Rightarrow> AgentStore \<Rightarrow> bool" where
  "ValidateToken token s = validTokens s token"

definition store_Register :: "int \<Rightarrow> int \<Rightarrow> AgentInfo \<Rightarrow> AgentStore \<Rightarrow> AgentStore" where
  "store_Register now1 now2 info s =
     s\<lparr>agents := (agents s)(ID info \<mapsto>
         info\<lparr>RegisteredAt := now1, LastSeen := now2, info_Status := AgentStatusConnected\<rparr>)\<rparr>"

definition UpdateHeartbeat :: "int \<Rightarrow> string \<Rightarrow> string \<Rightarrow> AgentStore \<Rightarrow> bool \<times> AgentStore" where
  "UpdateHeartbeat now agentID status s = (case agents s agentID of
     None \<Rightarrow> (False, s)
   | Some a \<Rightarrow> (True, s\<lparr>agents := (agents s)(agentID \<mapsto> a\<lparr>LastSeen := now, info_Status := status\<rparr>)\<rparr>))"

definition store_Get :: "AgentStore \<Rightarrow> string \<Rightarrow> AgentInfo option" where
  "store_Get s agentID = agents s agentID"

fun GetByClusterName :: "string list \<Rightarrow> string \<Rightarrow> AgentStore \<Rightarrow> AgentInfo option" where
  "GetByClusterName [] clusterName s = None"
| "GetByClusterName (i # is) clusterName s = (case agents s i of
     None \<Rightarrow> GetByClusterName is clusterName s
   | Some a \<Rightarrow> if info_ClusterName a = clusterName then Some a else GetByClusterName is clusterName s)"

definition store_List :: "string list \<Rightarrow> AgentStore \<Rightarrow> AgentInfo list" where
  "store_List is s = List.map_filter (agents s) is"

definition mark_one :: "int \<Rightarrow> AgentInfo \<Rightarrow> AgentInfo" where
  "mark_one cutoff a =
     (if info_Status a = AgentStatusConnected \<and> LastSeen a < cutoff
      then a\<lparr>info_Status := AgentStatusDisconnected\<rparr> else a)"

definition MarkDisconnected :: "int \<Rightarrow> AgentStore \<Rightarrow> AgentStore" where
  "MarkDisconnected now s = s\<lparr>agents := (\<lambda>i. map_option (mark_one (now - DisconnectTimeout)) (agents s i))\<rparr>"

definition store_Remove :: "string \<Rightarrow> AgentStore \<Rightarrow> bool \<times> AgentStore" where
  "store_Remove agentID s = (case agents s agentID of
     None \<Rightarrow> (False, s)
   | Some _ \<Rightarrow> (True, s\<lparr>agents := (agents s)(agentID := None)\<rparr>))"


section \<open>The registry as a keyed store\<close>

definition put_agent :: "string \<Rightarrow> AgentInfo \<Rightarrow> AgentStore \<Rightarrow> AgentStore" where
  "put_agent i a s = s\<lparr>agents := (agents s)(i \<mapsto> a)\<rparr>"

definition del_agent :: "string \<Rightarrow> AgentStore \<Rightarrow> AgentStore" where
  "del_agent i s = snd (store_Remove i s)"

interpretation agent_store: keyed_store store_Get put_agent del_agent "\<lambda>_. True"
  by unfold_locales
    (auto simp: store_Get_def put_agent_def del_agent_def store_Remove_def split: option.splits)

lemma store_Register_put:
  "store_Register now1 now2 info s =
     put_agent (ID info) (info\<lparr>RegisteredAt := now1, LastSeen := now2, info_Status := AgentStatusConnected\<rparr>) s"
  by (simp add: store_Register_def put_agent_def)

lemma store_Get_Register:
  "store_Get (store_Register now1 now2 info s) i =
     (if i = ID info
      then Some (info\<lparr>RegisteredAt := now1, LastSeen := now2, info_Status := AgentStatusConnected\<rparr>)
      else store_Get s i)"
  by (simp add: store_Register_put agent_store.lookup_put)

lemma store_Get_Heartbeat:
  "store_Get (snd (UpdateHeartbeat now i st s)) j =
     (if i = j then map_option (\<lambda>a. a\<lparr>LastSeen := now, info_Status := st\<rparr>) (store_Get s i) else store_Get s j)"
  by (auto simp: UpdateHeartbeat_def store_Get_def split: option.splits)

lemma store_Get_Mark:
  "store_Get (MarkDisconnected now s) i = map_option (mark_one (now - DisconnectTimeout)) (store_Get s i)"
  by (simp add: MarkDisconnected_def store_Get_def)

lemma store_Get_Remove: "store_Get (snd (store_Remove i s)) j = (if j = i then None else store_Get s j)"
  using agent_store.lookup_del [where s = s and k = i and j = j] by (simp add: del_agent_def)

lemma store_Get_AddValidToken [simp]: "store_Get (AddValidToken t s) i = store_Get s i"
  by (simp add: AddValidToken_def store_Get_def)


section \<open>The registry as a system\<close>

text \<open>
  The state is the clock and the store. The status a heartbeat reports is always \<open>connected\<close>
  (\<open>convertAgentStatus\<close>), and the clock does not go back.
\<close>

inductive store_step :: "int \<times> AgentStore \<Rightarrow> int \<times> AgentStore \<Rightarrow> bool" where
  step_Register: "t \<le> now1 \<Longrightarrow> now1 \<le> now2 \<Longrightarrow> store_step (t, s) (now2, store_Register now1 now2 info s)"
| step_Heartbeat: "t \<le> now \<Longrightarrow>
    store_step (t, s) (now, snd (UpdateHeartbeat now i AgentStatusConnected s))"
| step_Mark: "t \<le> now \<Longrightarrow> store_step (t, s) (now, MarkDisconnected now s)"
| step_Remove: "t \<le> now \<Longrightarrow> store_step (t, s) (now, snd (store_Remove i s))"
| step_Token: "t \<le> now \<Longrightarrow> store_step (t, s) (now, AddValidToken token s)"

definition info_ok :: "int \<Rightarrow> string \<Rightarrow> AgentInfo \<Rightarrow> bool" where
  "info_ok t i a \<longleftrightarrow> ID a = i \<and> RegisteredAt a \<le> LastSeen a \<and> LastSeen a \<le> t \<and>
     (info_Status a = AgentStatusConnected \<or>
      info_Status a = AgentStatusDisconnected \<and> LastSeen a < t - DisconnectTimeout)"

fun agents_ok :: "int \<times> AgentStore \<Rightarrow> bool" where
  "agents_ok (t, s) \<longleftrightarrow> (\<forall>i a. store_Get s i = Some a \<longrightarrow> info_ok t i a)"

lemma info_ok_mono: "info_ok t i a \<Longrightarrow> t \<le> t' \<Longrightarrow> info_ok t' i a"
  by (auto simp: info_ok_def)

lemma info_ok_mark: "info_ok t i a \<Longrightarrow> t \<le> now \<Longrightarrow> info_ok now i (mark_one (now - DisconnectTimeout) a)"
  by (auto simp: info_ok_def mark_one_def)

interpretation agent_registry: invariant_system "\<lambda>ts :: int \<times> AgentStore. snd ts = NewAgentStore" store_step agents_ok
proof unfold_locales
  fix ts :: "int \<times> AgentStore" assume "snd ts = NewAgentStore"
  then show "agents_ok ts" by (cases ts) (simp add: NewAgentStore_def store_Get_def)
next
  fix ts ts' assume "agents_ok ts" and "store_step ts ts'"
  from this(2,1) show "agents_ok ts'"
  proof cases
    case (step_Register t now1 now2 s info)
    have "info_ok now2 j a" if "store_Get s j = Some a" for j a
      using that step_Register info_ok_mono [of t j a now2] \<open>agents_ok ts\<close> by auto
    then show ?thesis using step_Register by (auto simp: store_Get_Register info_ok_def)
  next
    case (step_Heartbeat t now s i)
    have "info_ok now j a" if "store_Get s j = Some a" for j a
      using that step_Heartbeat info_ok_mono [of t j a now] \<open>agents_ok ts\<close> by auto
    then show ?thesis
      using step_Heartbeat by (auto simp: store_Get_Heartbeat info_ok_def split: if_splits) fastforce+
  next
    case (step_Mark t now s)
    then show ?thesis using \<open>agents_ok ts\<close> info_ok_mark [of t _ _ now] by (auto simp: store_Get_Mark)
  next
    case (step_Remove t now s i)
    then show ?thesis
      using \<open>agents_ok ts\<close> info_ok_mono [of t _ _ now] by (auto simp: store_Get_Remove split: if_splits)
  next
    case (step_Token t now s token)
    then show ?thesis using \<open>agents_ok ts\<close> info_ok_mono [of t _ _ now] by auto
  qed
qed

abbreviation registry_reach :: "int \<times> AgentStore \<Rightarrow> bool" where
  "registry_reach \<equiv> reach (\<lambda>ts. snd ts = NewAgentStore) store_step"

lemma GetByClusterName_Some:
  "GetByClusterName is c s = Some a \<Longrightarrow> info_ClusterName a = c \<and> (\<exists>i \<in> set is. store_Get s i = Some a)"
  by (induction "is") (auto simp: store_Get_def split: option.splits if_splits)

lemma GetByClusterName_None:
  "GetByClusterName is c s = None \<longleftrightarrow>
     (\<forall>i \<in> set is. \<forall>a. store_Get s i = Some a \<longrightarrow> info_ClusterName a \<noteq> c)"
  by (induction "is") (auto simp: store_Get_def split: option.splits)


section \<open>Properties\<close>

text \<open>Directly after the disconnect checker has run at time \<open>now\<close>, in any state the registry can
  reach, an agent is listed as connected exactly when it was heard from (registration or heartbeat)
  within the last 60 seconds.\<close>

theorem connected_iff_recent:
  assumes "registry_reach (t, s)" and "t \<le> now" and "store_Get (MarkDisconnected now s) i = Some a"
  shows "info_Status a = AgentStatusConnected \<longleftrightarrow> LastSeen a \<ge> now - DisconnectTimeout"
proof -
  obtain b where b: "store_Get s i = Some b" "a = mark_one (now - DisconnectTimeout) b"
    using assms(3) by (auto simp: store_Get_Mark)
  have "info_ok t i b" using agent_registry.reach_inv [OF assms(1)] b(1) by simp
  then show ?thesis using b(2) assms(2) by (auto simp: mark_one_def info_ok_def)
qed

theorem connected_iff_recent_witness:
  "\<exists>a. store_Get (MarkDisconnected (61 * second) (store_Register 0 0
      \<lparr>ID = ''agent-1'', info_ClusterName = ''c'', Token = [], info_Status = [], RegisteredAt = 0, LastSeen = 0\<rparr>
      NewAgentStore)) ''agent-1'' = Some a \<and> info_Status a \<noteq> AgentStatusConnected"
proof -
  let ?s = "store_Register 0 0
      \<lparr>ID = ''agent-1'', info_ClusterName = ''c'', Token = [], info_Status = [], RegisteredAt = 0, LastSeen = 0\<rparr>
      NewAgentStore"
  have init: "registry_reach (0, NewAgentStore)" by (rule reach_init) simp
  have "registry_reach (0, ?s)" by (rule reach_step [OF init step_Register]) simp_all
  moreover have "store_Get (MarkDisconnected (61 * second) ?s) ''agent-1'' = Some
      \<lparr>ID = ''agent-1'', info_ClusterName = ''c'', Token = [], info_Status = ''disconnected'',
       RegisteredAt = 0, LastSeen = 0\<rparr>"
    by (simp add: store_Get_Mark store_Get_Register mark_one_def DisconnectTimeout_def)
  ultimately show ?thesis
    using connected_iff_recent [of 0 ?s "61 * second" "''agent-1''"] by (simp add: DisconnectTimeout_def)
qed

text \<open>The lookup by cluster name finds an agent of the cluster whenever one is registered, and only
  such an agent; but with two registrations of one cluster (an agent that reconnected: nothing
  removes the old entry) each of them is the answer for some order of the map, also the one that is
  disconnected.\<close>

theorem cluster_lookup_order:
  assumes "set is = dom (store_Get s)"
  shows "(case GetByClusterName is c s of
      Some a \<Rightarrow> info_ClusterName a = c \<and> a \<in> ran (store_Get s)
    | None \<Rightarrow> \<nexists>a. a \<in> ran (store_Get s) \<and> info_ClusterName a = c) \<and>
    ((\<exists>order. distinct order \<and> set order = dom (store_Get s) \<and> GetByClusterName order c s = Some a) \<longleftrightarrow>
      a \<in> ran (store_Get s) \<and> info_ClusterName a = c)"
  (is "?A \<and> ?B")
proof
  show ?A
    using assms
    by (auto split: option.splits simp: GetByClusterName_None ran_def dest: GetByClusterName_Some) 
  have "\<exists>order. distinct order \<and> set order = dom (store_Get s) \<and> GetByClusterName order c s = Some a"
    if "store_Get s i = Some a" "info_ClusterName a = c" for i
  proof (intro exI conjI)
    let ?order = "i # remdups (filter (\<lambda>j. j \<noteq> i) is)"
    show "distinct ?order" by simp
    show "set ?order = dom (store_Get s)" using assms that(1) by auto
    show "GetByClusterName ?order c s = Some a" using that by (simp add: store_Get_def)
  qed
  then show ?B by (auto simp: ran_def dest: GetByClusterName_Some)
qed

definition two_agents :: AgentStore where
  "two_agents = put_agent ''a'' \<lparr>ID = ''a'', info_ClusterName = ''c'', Token = [], info_Status = ''disconnected'',
       RegisteredAt = 0, LastSeen = 0\<rparr>
     (put_agent ''b'' \<lparr>ID = ''b'', info_ClusterName = ''c'', Token = [], info_Status = ''connected'',
       RegisteredAt = 90 * second, LastSeen = 90 * second\<rparr> NewAgentStore)"

theorem cluster_lookup_order_witness:
  "\<exists>order a. set order = dom (store_Get two_agents) \<and>
     GetByClusterName order ''c'' two_agents = Some a \<and> info_Status a = AgentStatusDisconnected"
proof -
  have d: "set [''a'', ''b''] = dom (store_Get two_agents)"
    by (auto simp: two_agents_def agent_store.dom_put) (simp add: store_Get_def NewAgentStore_def)
  let ?a = "\<lparr>ID = ''a'', info_ClusterName = ''c'', Token = [], info_Status = ''disconnected'',
       RegisteredAt = 0, LastSeen = 0\<rparr>"
  have "store_Get two_agents ''a'' = Some ?a"
    by (simp add: two_agents_def agent_store.lookup_put)
  then have "?a \<in> ran (store_Get two_agents) \<and> info_ClusterName ?a = ''c''" by (auto intro: ranI)
  with cluster_lookup_order [OF d, of "''c''" ?a]
  obtain order where "set order = dom (store_Get two_agents)"
      "GetByClusterName order ''c'' two_agents = Some ?a" by blast
  then show ?thesis by (intro exI [of _ order] exI [of _ ?a]) simp
qed

end
