(* ===== verification/Messages.thy ===== *)
theory Messages
  imports Prelude
begin

text \<open>
  The messages between the central server and the agents, as \<open>api/proto/agent.proto\<close> declares them
  (package \<open>agentpb\<close>). A oneof is a datatype with a constructor per member; the wire format is the
  generated code's and is not modelled.
\<close>

datatype OutputType = OUTPUT_TYPE_UNKNOWN | OUTPUT_TYPE_STDOUT | OUTPUT_TYPE_STDERR

record StartStream =
  start_SessionId :: string
  start_Command :: "string list"
  start_Namespace :: string
  start_Tty :: bool
  start_Rows :: "32 word"
  start_Cols :: "32 word"

datatype CentralStreamMessage =
    MsgStart StartStream
  | MsgCancel string
  | MsgStdin string bytes
  | MsgResize string "32 word" "32 word"
  | MsgPfStart string string string "32 word list"
  | MsgPfOpen string "32 word" "32 word"
  | MsgPfData string "32 word" bytes
  | MsgPfClose string "32 word"

datatype AgentStreamMessage =
    MsgRegister string
  | MsgOutput string OutputType bytes
  | MsgExit string "32 word" string
  | MsgPfReady string
  | MsgAgentPfData string "32 word" bytes
  | MsgAgentPfClose string "32 word"
  | MsgPfConnError string "32 word" string
  | MsgPfSessionError string string
  | MsgNone

datatype AgentStatus = AGENT_STATUS_UNKNOWN | AGENT_STATUS_HEALTHY | AGENT_STATUS_DEGRADED

record CommandRequest =
  cr_RequestId :: string
  cr_AgentId :: string
  cr_Command :: "string list"
  cr_Namespace :: string
  cr_TimeoutSeconds :: "32 word"
  cr_Stdin :: bytes

record SubmitCommandResultRequest =
  sr_RequestId :: string
  sr_Stdout :: bytes
  sr_Stderr :: bytes
  sr_ExitCode :: "32 word"
  sr_ErrorMessage :: string

record RegisterRequest =
  rr_AgentToken :: string
  rr_ClusterName :: string

record RegisterResponse =
  rr_Success :: bool
  rr_AgentId :: string
  rr_ErrorMessage :: string

text \<open>The session a message names.\<close>

fun msg_session :: "CentralStreamMessage \<Rightarrow> string" where
  "msg_session (MsgStart st) = start_SessionId st"
| "msg_session (MsgCancel sid) = sid"
| "msg_session (MsgStdin sid _) = sid"
| "msg_session (MsgResize sid _ _) = sid"
| "msg_session (MsgPfStart sid _ _ _) = sid"
| "msg_session (MsgPfOpen sid _ _) = sid"
| "msg_session (MsgPfData sid _ _) = sid"
| "msg_session (MsgPfClose sid _) = sid"

fun agent_msg_session :: "AgentStreamMessage \<Rightarrow> string option" where
  "agent_msg_session (MsgOutput sid _ _) = Some sid"
| "agent_msg_session (MsgExit sid _ _) = Some sid"
| "agent_msg_session (MsgPfReady sid) = Some sid"
| "agent_msg_session (MsgAgentPfData sid _ _) = Some sid"
| "agent_msg_session (MsgAgentPfClose sid _) = Some sid"
| "agent_msg_session (MsgPfConnError sid _ _) = Some sid"
| "agent_msg_session (MsgPfSessionError sid _) = Some sid"
| "agent_msg_session _ = None"

end
