(* ===== verification/Session_Manager.thy ===== *)
theory Session_Manager
  imports Messages "HOL-Library.AList"
begin

text \<open>
  The multiplexer of streaming sessions over the agents' streams
  (\<open>internal/central/stream_manager.go\<close>).

  Sessions and connections are pointers in the code, and a handler or a stream goes on with its
  pointer after the maps have forgotten it. They live in two lists here, \<open>sess_heap\<close> and
  \<open>conn_heap\<close>, and references are indices into them; the code's three maps are association lists
  from IDs to references.

  A buffered channel is the list of what it holds, \<open>None\<close> is the nil channel. \<open>ended\<close> is \<open>None\<close> until
  \<open>once.Do\<close> has run in \<open>close\<close>; from then on both channels and \<open>done\<close> are closed. A send on a closed
  channel panics, also inside a \<open>select\<close> with a default. The log \<open>sent\<close> of a connection holds what
  its gRPC stream accepted; whether a \<open>Send\<close> succeeds is an argument.
\<close>

datatype PfKind = PfKindData | PfKindClose | PfKindConnError | PfKindReady | PfKindSessionError

record PfChunk =
  Kind :: PfKind
  ConnID :: "32 word"
  pf_Data :: bytes
  Err :: string

record StreamChunk =
  chunk_Type :: OutputType
  chunk_Data :: bytes

record Session =
  sess_ID :: string
  sess_AgentID :: string
  Output :: "StreamChunk list option"
  PfOutput :: "PfChunk list option"
  ended :: "(32 word \<times> string) option"

record agentConn =
  sent :: "CentralStreamMessage list"
  conn_sessions :: "(string \<times> nat) list"

record SessionManager =
  sess_heap :: "Session list"
  conn_heap :: "agentConn list"
  sm_agents :: "(string \<times> nat) list"
  sm_sessions :: "(string \<times> nat) list"
  max_sessions :: int

datatype start_error = ErrNoAgentStream | ErrTooManyStreams | ErrSend

definition sessionOutputBuffer :: nat where
  "sessionOutputBuffer = 64"

definition NewSessionManager :: "int \<Rightarrow> SessionManager" where
  "NewSessionManager maxConcurrent =
     \<lparr>sess_heap = [], conn_heap = [], sm_agents = [], sm_sessions = [],
      max_sessions = (if maxConcurrent \<le> 0 then 50 else maxConcurrent)\<rparr>"

abbreviation sess_at :: "SessionManager \<Rightarrow> nat \<Rightarrow> Session" where
  "sess_at m r \<equiv> sess_heap m ! r"

abbreviation conn_at :: "SessionManager \<Rightarrow> nat \<Rightarrow> agentConn" where
  "conn_at m c \<equiv> conn_heap m ! c"

definition upd_sess :: "nat \<Rightarrow> (Session \<Rightarrow> Session) \<Rightarrow> SessionManager \<Rightarrow> SessionManager" where
  "upd_sess r f m = m\<lparr>sess_heap := (sess_heap m)[r := f (sess_at m r)]\<rparr>"

definition upd_conn :: "nat \<Rightarrow> (agentConn \<Rightarrow> agentConn) \<Rightarrow> SessionManager \<Rightarrow> SessionManager" where
  "upd_conn c f m = m\<lparr>conn_heap := (conn_heap m)[c := f (conn_at m c)]\<rparr>"


section \<open>Sessions\<close>

definition close_session :: "nat \<Rightarrow> 32 word \<Rightarrow> string \<Rightarrow> SessionManager \<Rightarrow> SessionManager" where
  "close_session r code msg m = (case ended (sess_at m r) of
     None \<Rightarrow> upd_sess r (ended_update (\<lambda>_. Some (code, msg))) m
   | Some _ \<Rightarrow> m)"

text \<open>\<open>Wait\<close>: the result once the session has ended, \<open>None\<close> while it blocks.\<close>

definition Wait :: "nat \<Rightarrow> SessionManager \<Rightarrow> (32 word \<times> string) option" where
  "Wait r m = ended (sess_at m r)"

datatype send_outcome = SendOk SessionManager | SendFull | SendPanic

definition send_output :: "nat \<Rightarrow> StreamChunk \<Rightarrow> SessionManager \<Rightarrow> send_outcome" where
  "send_output r chunk m = (case Output (sess_at m r) of
     None \<Rightarrow> SendFull
   | Some q \<Rightarrow>
       if ended (sess_at m r) \<noteq> None then SendPanic
       else if length q < sessionOutputBuffer
         then SendOk (upd_sess r (Output_update (\<lambda>_. Some (q @ [chunk]))) m)
       else SendFull)"

definition send_pf_output :: "nat \<Rightarrow> PfChunk \<Rightarrow> SessionManager \<Rightarrow> send_outcome" where
  "send_pf_output r chunk m = (case PfOutput (sess_at m r) of
     None \<Rightarrow> SendFull
   | Some q \<Rightarrow>
       if ended (sess_at m r) \<noteq> None then SendPanic
       else if length q < sessionOutputBuffer
         then SendOk (upd_sess r (PfOutput_update (\<lambda>_. Some (q @ [chunk]))) m)
       else SendFull)"

text \<open>A receive of the handler: an element, the end of a closed and drained channel, or it blocks.\<close>

datatype 'a recv_outcome = RecvChunk 'a | RecvClosed | RecvBlocked

definition recv_output :: "nat \<Rightarrow> SessionManager \<Rightarrow> StreamChunk recv_outcome \<times> SessionManager" where
  "recv_output r m = (case Output (sess_at m r) of
     Some (x # q) \<Rightarrow> (RecvChunk x, upd_sess r (Output_update (\<lambda>_. Some q)) m)
   | Some [] \<Rightarrow> (if ended (sess_at m r) \<noteq> None then RecvClosed else RecvBlocked, m)
   | None \<Rightarrow> (RecvBlocked, m))"

definition recv_pf_output :: "nat \<Rightarrow> SessionManager \<Rightarrow> PfChunk recv_outcome \<times> SessionManager" where
  "recv_pf_output r m = (case PfOutput (sess_at m r) of
     Some (x # q) \<Rightarrow> (RecvChunk x, upd_sess r (PfOutput_update (\<lambda>_. Some q)) m)
   | Some [] \<Rightarrow> (if ended (sess_at m r) \<noteq> None then RecvClosed else RecvBlocked, m)
   | None \<Rightarrow> (RecvBlocked, m))"


section \<open>Agent streams\<close>

definition RegisterAgentStream :: "string \<Rightarrow> SessionManager \<Rightarrow> SessionManager" where
  "RegisterAgentStream agentID m =
     m\<lparr>conn_heap := conn_heap m @ [\<lparr>sent = [], conn_sessions = []\<rparr>],
       sm_agents := AList.update agentID (length (conn_heap m)) (sm_agents m)\<rparr>"

text \<open>Under the lock: the maps forget the agent and its sessions; then the sessions are closed.\<close>

definition unregister_locked :: "string \<Rightarrow> SessionManager \<Rightarrow> nat list \<times> SessionManager" where
  "unregister_locked agentID m = (case map_of (sm_agents m) agentID of
     None \<Rightarrow> ([], m)
   | Some c \<Rightarrow>
       (map snd (conn_sessions (conn_at m c)),
        m\<lparr>sm_agents := AList.delete agentID (sm_agents m),
          sm_sessions := fold AList.delete (map fst (conn_sessions (conn_at m c))) (sm_sessions m)\<rparr>))"

definition UnregisterAgentStream :: "string \<Rightarrow> SessionManager \<Rightarrow> SessionManager" where
  "UnregisterAgentStream agentID m = (case unregister_locked agentID m of
     (dead, m') \<Rightarrow> fold (\<lambda>r. close_session r (- 1) ''agent disconnected'') dead m')"

definition sendLocked :: "bool \<Rightarrow> nat \<Rightarrow> CentralStreamMessage \<Rightarrow> SessionManager \<Rightarrow> SessionManager" where
  "sendLocked ok c msg m = (if ok then upd_conn c (sent_update (\<lambda>s. s @ [msg])) m else m)"


section \<open>Starting a session\<close>

text \<open>
  \<open>startSession\<close> and \<open>StartPortForward\<close> hold the lock twice: to check the agent and the bound and to
  create the session, and, after the message is sent, to insert the session into the maps.
\<close>

definition start_check :: "string \<Rightarrow> SessionManager \<Rightarrow> start_error + nat" where
  "start_check agentID m = (case map_of (sm_agents m) agentID of
     None \<Rightarrow> Inl ErrNoAgentStream
   | Some c \<Rightarrow> if int (length (sm_sessions m)) \<ge> max_sessions m then Inl ErrTooManyStreams else Inr c)"

definition new_session :: "Session \<Rightarrow> SessionManager \<Rightarrow> nat \<times> SessionManager" where
  "new_session s m = (length (sess_heap m), m\<lparr>sess_heap := sess_heap m @ [s]\<rparr>)"

definition start_commit :: "nat \<Rightarrow> nat \<Rightarrow> SessionManager \<Rightarrow> SessionManager" where
  "start_commit c r m =
     (let sid = sess_ID (sess_at m r);
          m' = upd_conn c (conn_sessions_update (AList.update sid r)) m
      in m'\<lparr>sm_sessions := AList.update sid r (sm_sessions m')\<rparr>)"

definition start_session ::
  "bool \<Rightarrow> string \<Rightarrow> Session \<Rightarrow> CentralStreamMessage \<Rightarrow> SessionManager \<Rightarrow> (start_error + nat) \<times> SessionManager" where
  "start_session ok agentID s msg m = (case start_check agentID m of
     Inl e \<Rightarrow> (Inl e, m)
   | Inr c \<Rightarrow>
       (case new_session s m of (r, m1) \<Rightarrow>
          let m2 = sendLocked ok c msg m1
          in if ok then (Inr r, start_commit c r m2) else (Inl ErrSend, m2)))"

definition startSession ::
  "bool \<Rightarrow> string \<Rightarrow> string \<Rightarrow> StartStream \<Rightarrow> SessionManager \<Rightarrow> (start_error + nat) \<times> SessionManager" where
  "startSession ok uuid agentID start m =
     start_session ok agentID
       \<lparr>sess_ID = uuid, sess_AgentID = agentID, Output = Some [], PfOutput = None, ended = None\<rparr>
       (MsgStart (start\<lparr>start_SessionId := uuid\<rparr>)) m"

definition Start where
  "Start ok uuid agentID command namespace m =
     startSession ok uuid agentID
       \<lparr>start_SessionId = [], start_Command = command, start_Namespace = namespace,
        start_Tty = False, start_Rows = 0, start_Cols = 0\<rparr> m"

definition StartInteractive ::
  "bool \<Rightarrow> string \<Rightarrow> string \<Rightarrow> string list \<Rightarrow> string \<Rightarrow> 16 word \<Rightarrow> 16 word \<Rightarrow> SessionManager \<Rightarrow>
     (start_error + nat) \<times> SessionManager" where
  "StartInteractive ok uuid agentID command namespace rows cols m =
     startSession ok uuid agentID
       \<lparr>start_SessionId = [], start_Command = command, start_Namespace = namespace,
        start_Tty = True, start_Rows = ucast rows, start_Cols = ucast cols\<rparr> m"

definition StartWithStdin where
  "StartWithStdin ok uuid agentID command namespace m =
     startSession ok uuid agentID
       \<lparr>start_SessionId = [], start_Command = command, start_Namespace = namespace,
        start_Tty = False, start_Rows = 0, start_Cols = 0\<rparr> m"

definition StartPortForward ::
  "bool \<Rightarrow> string \<Rightarrow> string \<Rightarrow> string \<Rightarrow> string \<Rightarrow> 32 word list \<Rightarrow> SessionManager \<Rightarrow>
     (start_error + nat) \<times> SessionManager" where
  "StartPortForward ok uuid agentID pod namespace ports m =
     start_session ok agentID
       \<lparr>sess_ID = uuid, sess_AgentID = agentID, Output = None, PfOutput = Some [], ended = None\<rparr>
       (MsgPfStart uuid pod namespace ports) m"


section \<open>Messages to the agent\<close>

definition lookup_session :: "string \<Rightarrow> SessionManager \<Rightarrow> nat option" where
  "lookup_session sid m = map_of (sm_sessions m) sid"

definition connFor :: "string \<Rightarrow> SessionManager \<Rightarrow> nat option" where
  "connFor sid m = (case lookup_session sid m of
     None \<Rightarrow> None
   | Some r \<Rightarrow> map_of (sm_agents m) (sess_AgentID (sess_at m r)))"

definition send_for :: "bool \<Rightarrow> string \<Rightarrow> CentralStreamMessage \<Rightarrow> SessionManager \<Rightarrow> start_error option \<times> SessionManager" where
  "send_for ok sid msg m = (case connFor sid m of
     None \<Rightarrow> (Some ErrNoAgentStream, m)
   | Some c \<Rightarrow> (if ok then None else Some ErrSend, sendLocked ok c msg m))"

definition SendStdin where
  "SendStdin ok sid data m = send_for ok sid (MsgStdin sid data) m"

definition SendResize where
  "SendResize ok sid rows cols m = send_for ok sid (MsgResize sid rows cols) m"

definition SendPfOpen where
  "SendPfOpen ok sid connID remotePort m = send_for ok sid (MsgPfOpen sid connID remotePort) m"

definition SendPfData where
  "SendPfData ok sid connID data m = send_for ok sid (MsgPfData sid connID data) m"

definition SendPfClose where
  "SendPfClose ok sid connID m = send_for ok sid (MsgPfClose sid connID) m"

definition dropSession :: "string \<Rightarrow> SessionManager \<Rightarrow> SessionManager" where
  "dropSession sid m =
     (let m' = (case connFor sid m of
          None \<Rightarrow> m
        | Some c \<Rightarrow> upd_conn c (conn_sessions_update (AList.delete sid)) m)
      in m'\<lparr>sm_sessions := AList.delete sid (sm_sessions m')\<rparr>)"

text \<open>\<open>Cancel\<close>: the lookup under the lock, the send, the removal under the lock, the close.\<close>

definition Cancel :: "bool \<Rightarrow> string \<Rightarrow> SessionManager \<Rightarrow> SessionManager" where
  "Cancel ok sid m = (case lookup_session sid m of
     None \<Rightarrow> m
   | Some r \<Rightarrow>
       let m1 = (case connFor sid m of None \<Rightarrow> m | Some c \<Rightarrow> sendLocked ok c (MsgCancel sid) m)
       in close_session r (- 1) ''canceled'' (dropSession sid m1))"


section \<open>Messages from the agent\<close>

text \<open>The outcome of \<open>Route\<close> is \<open>None\<close> when it panics.\<close>

definition after_send :: "bool \<Rightarrow> nat \<Rightarrow> send_outcome \<Rightarrow> SessionManager \<Rightarrow> SessionManager option" where
  "after_send ok r out m = (case out of
     SendOk m' \<Rightarrow> Some m'
   | SendFull \<Rightarrow> Some (Cancel ok (sess_ID (sess_at m r)) m)
   | SendPanic \<Rightarrow> None)"

definition routePf :: "bool \<Rightarrow> string \<Rightarrow> PfChunk \<Rightarrow> SessionManager \<Rightarrow> SessionManager option" where
  "routePf ok sid chunk m = (case lookup_session sid m of
     None \<Rightarrow> Some m
   | Some r \<Rightarrow>
       if PfOutput (sess_at m r) = None then Some m
       else after_send ok r (send_pf_output r chunk m) m)"

text \<open>The chunk a port-forward message of the agent becomes; fields the code leaves out are zero.\<close>

fun pf_chunk :: "AgentStreamMessage \<Rightarrow> (string \<times> PfChunk) option" where
  "pf_chunk (MsgPfReady sid) = Some (sid, \<lparr>Kind = PfKindReady, ConnID = 0, pf_Data = [], Err = []\<rparr>)"
| "pf_chunk (MsgAgentPfData sid c d) = Some (sid, \<lparr>Kind = PfKindData, ConnID = c, pf_Data = d, Err = []\<rparr>)"
| "pf_chunk (MsgAgentPfClose sid c) = Some (sid, \<lparr>Kind = PfKindClose, ConnID = c, pf_Data = [], Err = []\<rparr>)"
| "pf_chunk (MsgPfConnError sid c e) = Some (sid, \<lparr>Kind = PfKindConnError, ConnID = c, pf_Data = [], Err = e\<rparr>)"
| "pf_chunk (MsgPfSessionError sid e) = Some (sid, \<lparr>Kind = PfKindSessionError, ConnID = 0, pf_Data = [], Err = e\<rparr>)"
| "pf_chunk _ = None"

fun Route :: "bool \<Rightarrow> AgentStreamMessage \<Rightarrow> SessionManager \<Rightarrow> SessionManager option" where
  "Route ok (MsgOutput sid ty data) m = (case lookup_session sid m of
     None \<Rightarrow> Some m
   | Some r \<Rightarrow> after_send ok r (send_output r \<lparr>chunk_Type = ty, chunk_Data = data\<rparr> m) m)"
| "Route ok (MsgExit sid code msg) m = (case lookup_session sid m of
     None \<Rightarrow> Some m
   | Some r \<Rightarrow> Some (close_session r code msg (dropSession (sess_ID (sess_at m r)) m)))"
| "Route ok msg m = (case pf_chunk msg of
     None \<Rightarrow> Some m
   | Some (sid, chunk) \<Rightarrow> routePf ok sid chunk m)"


section \<open>What each operation changes\<close>

lemma upd_sess_fields [simp]:
  "conn_heap (upd_sess r f m) = conn_heap m" "sm_agents (upd_sess r f m) = sm_agents m"
  "sm_sessions (upd_sess r f m) = sm_sessions m" "max_sessions (upd_sess r f m) = max_sessions m"
  "length (sess_heap (upd_sess r f m)) = length (sess_heap m)"
  by (simp_all add: upd_sess_def)

lemma upd_conn_fields [simp]:
  "sess_heap (upd_conn r f m) = sess_heap m" "sm_agents (upd_conn r f m) = sm_agents m"
  "sm_sessions (upd_conn r f m) = sm_sessions m" "max_sessions (upd_conn r f m) = max_sessions m"
  "length (conn_heap (upd_conn r f m)) = length (conn_heap m)"
  by (simp_all add: upd_conn_def)

lemma sess_at_upd:
  "r < length (sess_heap m) \<Longrightarrow> sess_at (upd_sess r f m) j = (if j = r then f (sess_at m r) else sess_at m j)"
  by (simp add: upd_sess_def)

lemma conn_at_upd:
  "c < length (conn_heap m) \<Longrightarrow> conn_at (upd_conn c f m) j = (if j = c then f (conn_at m c) else conn_at m j)"
  by (simp add: upd_conn_def)

lemma upd_sess_out [simp]: "\<not> r < length (sess_heap m) \<Longrightarrow> upd_sess r f m = m"
  by (simp add: upd_sess_def list_update_beyond)

lemma upd_conn_out [simp]: "\<not> c < length (conn_heap m) \<Longrightarrow> upd_conn c f m = m"
  by (simp add: upd_conn_def list_update_beyond)

lemma upd_sess_same: "f (sess_at m r) = sess_at m r \<Longrightarrow> upd_sess r f m = m"
  by (simp add: upd_sess_def)

lemma sess_ID_upd [simp]:
  "(\<And>s. sess_ID (f s) = sess_ID s) \<Longrightarrow> sess_ID (sess_at (upd_sess r f m) j) = sess_ID (sess_at m j)"
  by (cases "r < length (sess_heap m)") (simp_all add: sess_at_upd)

lemma sess_AgentID_upd [simp]:
  "(\<And>s. sess_AgentID (f s) = sess_AgentID s) \<Longrightarrow>
     sess_AgentID (sess_at (upd_sess r f m) j) = sess_AgentID (sess_at m j)"
  by (cases "r < length (sess_heap m)") (simp_all add: sess_at_upd)

lemma sendLocked_fields [simp]:
  "sess_heap (sendLocked ok c msg m) = sess_heap m" "sm_agents (sendLocked ok c msg m) = sm_agents m"
  "sm_sessions (sendLocked ok c msg m) = sm_sessions m" "max_sessions (sendLocked ok c msg m) = max_sessions m"
  "length (conn_heap (sendLocked ok c msg m)) = length (conn_heap m)"
  by (simp_all add: sendLocked_def)

lemma conn_sessions_sendLocked [simp]:
  "conn_sessions (conn_at (sendLocked ok c msg m) j) = conn_sessions (conn_at m j)"
  by (cases "c < length (conn_heap m)") (simp_all add: sendLocked_def conn_at_upd)

lemma close_session_fields [simp]:
  "conn_heap (close_session r c e m) = conn_heap m" "sm_agents (close_session r c e m) = sm_agents m"
  "sm_sessions (close_session r c e m) = sm_sessions m" "max_sessions (close_session r c e m) = max_sessions m"
  "length (sess_heap (close_session r c e m)) = length (sess_heap m)"
  "sess_ID (sess_at (close_session r c e m) j) = sess_ID (sess_at m j)"
  "sess_AgentID (sess_at (close_session r c e m) j) = sess_AgentID (sess_at m j)"
  "Output (sess_at (close_session r c e m) j) = Output (sess_at m j)"
  "PfOutput (sess_at (close_session r c e m) j) = PfOutput (sess_at m j)"
  by (cases "r < length (sess_heap m)"; auto simp: close_session_def sess_at_upd split: option.splits)+

lemma ended_close:
  "r < length (sess_heap m) \<Longrightarrow> ended (sess_at (close_session r c e m) j) =
     (if j = r \<and> ended (sess_at m r) = None then Some (c, e) else ended (sess_at m j))"
  by (auto simp: close_session_def sess_at_upd split: option.splits)

lemma ended_close_other: "j \<noteq> r \<Longrightarrow> ended (sess_at (close_session r c e m) j) = ended (sess_at m j)"
  by (cases "r < length (sess_heap m)") (auto simp: close_session_def sess_at_upd split: option.splits)

text \<open>The first end of a session is the one that stays.\<close>

lemma ended_stable: "ended (sess_at m j) = Some x \<Longrightarrow> ended (sess_at (close_session r c e m) j) = Some x"
  by (cases "r < length (sess_heap m)") (auto simp: close_session_def sess_at_upd split: option.splits)

lemma dropSession_fields [simp]:
  "sess_heap (dropSession sid m) = sess_heap m" "sm_agents (dropSession sid m) = sm_agents m"
  "sm_sessions (dropSession sid m) = AList.delete sid (sm_sessions m)"
  "max_sessions (dropSession sid m) = max_sessions m"
  "length (conn_heap (dropSession sid m)) = length (conn_heap m)"
  by (simp_all add: dropSession_def Let_def split: option.splits)

lemma conn_sessions_drop:
  "map_of (conn_sessions (conn_at (dropSession sid m) c)) t =
     (if t = sid \<and> connFor sid m = Some c \<and> c < length (conn_heap m) then None
      else map_of (conn_sessions (conn_at m c)) t)"
proof (cases "connFor sid m")
  case None
  then show ?thesis by (simp add: dropSession_def Let_def)
next
  case (Some d)
  then show ?thesis
    by (cases "d < length (conn_heap m)") (auto simp: dropSession_def Let_def conn_at_upd delete_conv')
qed

lemma start_commit_fields [simp]:
  "sess_heap (start_commit c r m) = sess_heap m" "sm_agents (start_commit c r m) = sm_agents m"
  "sm_sessions (start_commit c r m) = AList.update (sess_ID (sess_at m r)) r (sm_sessions m)"
  "max_sessions (start_commit c r m) = max_sessions m"
  "length (conn_heap (start_commit c r m)) = length (conn_heap m)"
  by (simp_all add: start_commit_def Let_def)

lemma conn_sessions_commit:
  "c < length (conn_heap m) \<Longrightarrow> map_of (conn_sessions (conn_at (start_commit c r m) d)) =
     (if d = c then (map_of (conn_sessions (conn_at m c)))(sess_ID (sess_at m r) \<mapsto> r)
      else map_of (conn_sessions (conn_at m d)))"
  by (simp add: start_commit_def Let_def conn_at_upd update_conv')

lemma map_of_fold_delete:
  "map_of (fold AList.delete ks al) = (\<lambda>k. if k \<in> set ks then None else map_of al k)"
  by (induction ks arbitrary: al) (auto simp: delete_conv')

lemma distinct_fold_delete:
  "distinct (map fst al) \<Longrightarrow> distinct (map fst (fold AList.delete ks al))"
  by (induction ks arbitrary: al) (auto simp: distinct_delete)

lemma length_delete_le: "length (AList.delete k al) \<le> length al"
  by (simp add: AList.delete_eq)

lemma length_fold_delete_le: "length (fold AList.delete ks al) \<le> length al"
  by (induction ks arbitrary: al) (auto intro: le_trans length_delete_le)

lemma length_alist_update:
  "length (AList.update k v al) = (if map_of al k = None then length al + 1 else length al)"
  by (induction al) auto

end
