(* ===== verification/Session_Steps.thy ===== *)
theory Session_Steps
  imports Session_Manager
begin

text \<open>
  The session manager under concurrency. Handlers, the agents' receive loops and cancellations run
  in goroutines of their own and release the manager's lock between their parts. A \<open>pending\<close> is a
  goroutine stopped between two parts; \<open>resume\<close> runs its next part, up to the next release of the
  lock or operation on a channel or a stream. The state \<open>None\<close> is the panic of the process.
\<close>

datatype pending =
    AtSend nat nat CentralStreamMessage
  | AtCommit nat nat
  | AtOutput nat StreamChunk
  | AtPfOutput nat PfChunk
  | AtCancelSend nat string "nat option"
  | AtDrop nat string "32 word" string
  | AtClose nat "32 word" string

definition begin_start ::
  "string \<Rightarrow> Session \<Rightarrow> CentralStreamMessage \<Rightarrow> SessionManager \<Rightarrow> pending list \<times> SessionManager" where
  "begin_start agentID s msg m = (case start_check agentID m of
     Inl _ \<Rightarrow> ([], m)
   | Inr c \<Rightarrow> (case new_session s m of (r, m1) \<Rightarrow> ([AtSend c r msg], m1)))"

definition begin_cancel :: "string \<Rightarrow> SessionManager \<Rightarrow> pending list" where
  "begin_cancel sid m = (case lookup_session sid m of
     None \<Rightarrow> []
   | Some r \<Rightarrow> [AtCancelSend r sid (connFor sid m)])"

definition begin_unregister :: "string \<Rightarrow> SessionManager \<Rightarrow> pending list \<times> SessionManager" where
  "begin_unregister agentID m = (case unregister_locked agentID m of
     (dead, m') \<Rightarrow> (map (\<lambda>r. AtClose r (- 1) ''agent disconnected'') dead, m'))"

fun begin_route :: "AgentStreamMessage \<Rightarrow> SessionManager \<Rightarrow> pending list" where
  "begin_route (MsgOutput sid ty data) m = (case lookup_session sid m of
     None \<Rightarrow> []
   | Some r \<Rightarrow> [AtOutput r \<lparr>chunk_Type = ty, chunk_Data = data\<rparr>])"
| "begin_route (MsgExit sid code msg) m = (case lookup_session sid m of
     None \<Rightarrow> []
   | Some r \<Rightarrow> [AtDrop r (sess_ID (sess_at m r)) code msg])"
| "begin_route msg m = (case pf_chunk msg of
     None \<Rightarrow> []
   | Some (sid, chunk) \<Rightarrow> (case lookup_session sid m of
       None \<Rightarrow> []
     | Some r \<Rightarrow> if PfOutput (sess_at m r) = None then [] else [AtPfOutput r chunk]))"

definition resume_send :: "nat \<Rightarrow> send_outcome \<Rightarrow> SessionManager \<Rightarrow> (pending list \<times> SessionManager) option" where
  "resume_send r out m = (case out of
     SendOk m' \<Rightarrow> Some ([], m')
   | SendFull \<Rightarrow> Some (begin_cancel (sess_ID (sess_at m r)) m, m)
   | SendPanic \<Rightarrow> None)"

fun resume :: "bool \<Rightarrow> pending \<Rightarrow> SessionManager \<Rightarrow> (pending list \<times> SessionManager) option" where
  "resume ok (AtSend c r msg) m = Some (if ok then [AtCommit c r] else [], sendLocked ok c msg m)"
| "resume ok (AtCommit c r) m = Some ([], start_commit c r m)"
| "resume ok (AtOutput r chunk) m = resume_send r (send_output r chunk m) m"
| "resume ok (AtPfOutput r chunk) m = resume_send r (send_pf_output r chunk m) m"
| "resume ok (AtCancelSend r sid conn) m =
     Some ([AtDrop r sid (- 1) ''canceled''],
       case conn of None \<Rightarrow> m | Some c \<Rightarrow> sendLocked ok c (MsgCancel sid) m)"
| "resume ok (AtDrop r sid code msg) m = Some ([AtClose r code msg], dropSession sid m)"
| "resume ok (AtClose r code msg) m = Some ([], close_session r code msg m)"

text \<open>A new session has an identifier of \<open>uuid.New\<close>, which no session had before, and is open and
  empty.\<close>

definition fresh_session :: "SessionManager \<Rightarrow> Session \<Rightarrow> bool" where
  "fresh_session m s \<longleftrightarrow> sess_ID s \<notin> sess_ID ` set (sess_heap m) \<and> ended s = None \<and>
     Output s \<in> {None, Some []} \<and> PfOutput s \<in> {None, Some []}"

inductive mgr_step :: "(pending list \<times> SessionManager) option \<Rightarrow> (pending list \<times> SessionManager) option \<Rightarrow> bool" where
  go_register: "mgr_step (Some (ps, m)) (Some (ps, RegisterAgentStream a m))"
| go_unregister: "begin_unregister a m = (qs, m') \<Longrightarrow> mgr_step (Some (ps, m)) (Some (ps @ qs, m'))"
| go_start: "fresh_session m s \<Longrightarrow> sess_AgentID s = a \<Longrightarrow> begin_start a s msg m = (qs, m') \<Longrightarrow>
    mgr_step (Some (ps, m)) (Some (ps @ qs, m'))"
| go_route: "mgr_step (Some (ps, m)) (Some (ps @ begin_route msg m, m))"
| go_cancel: "mgr_step (Some (ps, m)) (Some (ps @ begin_cancel sid m, m))"
| go_send: "mgr_step (Some (ps, m)) (Some (ps, snd (send_for ok sid msg m)))"
| go_recv: "mgr_step (Some (ps, m)) (Some (ps, snd (recv_output r m)))"
| go_recv_pf: "mgr_step (Some (ps, m)) (Some (ps, snd (recv_pf_output r m)))"
| go_resume: "resume ok p m = Some (qs, m') \<Longrightarrow>
    mgr_step (Some (ps1 @ p # ps2, m)) (Some (ps1 @ qs @ ps2, m'))"
| go_panic: "resume ok p m = None \<Longrightarrow> mgr_step (Some (ps1 @ p # ps2, m)) None"

definition mgr_init :: "(pending list \<times> SessionManager) option \<Rightarrow> bool" where
  "mgr_init x \<longleftrightarrow> (\<exists>n. x = Some ([], NewSessionManager n))"


section \<open>What holds under every interleaving\<close>

definition sess_ok :: "Session \<Rightarrow> bool" where
  "sess_ok s \<longleftrightarrow> (\<forall>q. Output s = Some q \<longrightarrow> length q \<le> sessionOutputBuffer) \<and>
     (\<forall>q. PfOutput s = Some q \<longrightarrow> length q \<le> sessionOutputBuffer)"

definition entries_ok :: "SessionManager \<Rightarrow> (string \<times> nat) list \<Rightarrow> bool" where
  "entries_ok m al \<longleftrightarrow>
     (\<forall>sid r. map_of al sid = Some r \<longrightarrow> r < length (sess_heap m) \<and> sess_ID (sess_at m r) = sid)"

definition mgr_ok :: "SessionManager \<Rightarrow> bool" where
  "mgr_ok m \<longleftrightarrow>
     entries_ok m (sm_sessions m) \<and>
     (\<forall>c < length (conn_heap m). entries_ok m (conn_sessions (conn_at m c))) \<and>
     (\<forall>a c. map_of (sm_agents m) a = Some c \<longrightarrow> c < length (conn_heap m)) \<and>
     (\<forall>r < length (sess_heap m). sess_ok (sess_at m r)) \<and>
     distinct (map sess_ID (sess_heap m)) \<and> distinct (map fst (sm_sessions m)) \<and>
     (\<forall>c < length (conn_heap m). distinct (map fst (conn_sessions (conn_at m c))))"

fun pending_ok :: "SessionManager \<Rightarrow> pending \<Rightarrow> bool" where
  "pending_ok m (AtSend c r msg) = (c < length (conn_heap m) \<and> r < length (sess_heap m))"
| "pending_ok m (AtCommit c r) = (c < length (conn_heap m) \<and> r < length (sess_heap m))"
| "pending_ok m (AtOutput r chunk) = (r < length (sess_heap m))"
| "pending_ok m (AtPfOutput r chunk) = (r < length (sess_heap m))"
| "pending_ok m (AtCancelSend r sid conn) = (r < length (sess_heap m))"
| "pending_ok m (AtDrop r sid code msg) = (r < length (sess_heap m))"
| "pending_ok m (AtClose r code msg) = (r < length (sess_heap m))"

fun state_ok :: "(pending list \<times> SessionManager) option \<Rightarrow> bool" where
  "state_ok None = True"
| "state_ok (Some (ps, m)) = (mgr_ok m \<and> list_all (pending_ok m) ps)"

text \<open>A step keeps the sessions there are, with their identifiers, and how they ended.\<close>

definition extends :: "SessionManager \<Rightarrow> SessionManager \<Rightarrow> bool" where
  "extends m m' \<longleftrightarrow> length (sess_heap m) \<le> length (sess_heap m') \<and> length (conn_heap m) \<le> length (conn_heap m') \<and>
     (\<forall>r < length (sess_heap m). sess_ID (sess_at m' r) = sess_ID (sess_at m r) \<and>
        (\<forall>x. ended (sess_at m r) = Some x \<longrightarrow> ended (sess_at m' r) = Some x))"

lemma extends_refl [simp]: "extends m m"
  by (simp add: extends_def)

lemma extends_trans: "extends m m' \<Longrightarrow> extends m' m'' \<Longrightarrow> extends m m''"
  by (auto simp: extends_def)

lemma extends_same_heap:
  "sess_heap m' = sess_heap m \<Longrightarrow> length (conn_heap m) \<le> length (conn_heap m') \<Longrightarrow> extends m m'"
  by (simp add: extends_def)

lemma pending_ok_extends: "pending_ok m p \<Longrightarrow> extends m m' \<Longrightarrow> pending_ok m' p"
  by (cases p) (auto simp: extends_def)

lemma entries_ok_extends: "entries_ok m al \<Longrightarrow> extends m m' \<Longrightarrow> entries_ok m' al"
  by (fastforce simp: entries_ok_def extends_def)

lemma entries_okD: "entries_ok m al \<Longrightarrow> map_of al sid = Some r \<Longrightarrow> r < length (sess_heap m) \<and> sess_ID (sess_at m r) = sid"
  by (simp add: entries_ok_def)

lemma entries_ok_sub: "entries_ok m al \<Longrightarrow> map_of bl \<subseteq>\<^sub>m map_of al \<Longrightarrow> entries_ok m bl"
  by (metis (no_types, lifting) domI entries_ok_def map_le_def)

lemma entries_ok_delete: "entries_ok m al \<Longrightarrow> entries_ok m (AList.delete k al)"
  by (auto simp: entries_ok_def delete_conv' split: if_splits)

lemma entries_ok_fold_delete: "entries_ok m al \<Longrightarrow> entries_ok m (fold AList.delete ks al)"
  by (auto simp: entries_ok_def map_of_fold_delete split: if_splits)

lemma entries_ok_update:
  "entries_ok m al \<Longrightarrow> r < length (sess_heap m) \<Longrightarrow> entries_ok m (AList.update (sess_ID (sess_at m r)) r al)"
  by (auto simp: entries_ok_def update_conv' split: if_splits)


section \<open>Every operation keeps it\<close>

lemma mgr_ok_upd_sess:
  assumes "mgr_ok m" and "sess_ID (f (sess_at m r)) = sess_ID (sess_at m r)"
    and "r < length (sess_heap m) \<Longrightarrow> sess_ok (sess_at m r) \<Longrightarrow> sess_ok (f (sess_at m r))"
  shows "mgr_ok (upd_sess r f m)"
proof (cases "r < length (sess_heap m)")
  case True
  have ids: "sess_ID (sess_at (upd_sess r f m) j) = sess_ID (sess_at m j)" for j
    using True assms(2) by (simp add: sess_at_upd)
  have "map sess_ID (sess_heap (upd_sess r f m)) = map sess_ID (sess_heap m)"
    by (rule nth_equalityI) (simp_all add: ids)
  then show ?thesis
    using assms True by (simp add: mgr_ok_def entries_ok_def ids) (simp add: sess_at_upd)
qed (use assms(1) in simp)

lemma extends_upd_sess:
  "sess_ID (f (sess_at m r)) = sess_ID (sess_at m r) \<Longrightarrow>
     (\<And>x. ended (sess_at m r) = Some x \<Longrightarrow> ended (f (sess_at m r)) = Some x) \<Longrightarrow>
     extends m (upd_sess r f m)"
  by (cases "r < length (sess_heap m)") (auto simp: extends_def sess_at_upd)

text \<open>Operations that leave the sessions alone and work on the maps.\<close>

lemma mgr_ok_maps:
  assumes "mgr_ok m" and "sess_heap m' = sess_heap m"
    and "entries_ok m (sm_sessions m')" and "distinct (map fst (sm_sessions m'))"
    and "\<And>c. c < length (conn_heap m') \<Longrightarrow>
       entries_ok m (conn_sessions (conn_at m' c)) \<and> distinct (map fst (conn_sessions (conn_at m' c)))"
    and "\<And>a c. map_of (sm_agents m') a = Some c \<Longrightarrow> c < length (conn_heap m')"
  shows "mgr_ok m'"
  using assms by (simp add: mgr_ok_def entries_ok_def)

lemma mgr_okD:
  assumes "mgr_ok m"
  shows "entries_ok m (sm_sessions m)" "distinct (map fst (sm_sessions m))"
    "c < length (conn_heap m) \<Longrightarrow> entries_ok m (conn_sessions (conn_at m c))"
    "c < length (conn_heap m) \<Longrightarrow> distinct (map fst (conn_sessions (conn_at m c)))"
    "map_of (sm_agents m) a = Some c \<Longrightarrow> c < length (conn_heap m)"
    "r < length (sess_heap m) \<Longrightarrow> sess_ok (sess_at m r)"
    "distinct (map sess_ID (sess_heap m))"
  using assms by (simp_all add: mgr_ok_def)

lemma mgr_ok_New: "mgr_ok (NewSessionManager n)"
  by (simp add: mgr_ok_def NewSessionManager_def entries_ok_def)

lemma mgr_ok_sendLocked: "mgr_ok m \<Longrightarrow> mgr_ok (sendLocked ok c msg m)"
  by (rule mgr_ok_maps [of m]) (simp_all add: mgr_okD)

lemma extends_sendLocked: "extends m (sendLocked ok c msg m)"
  by (rule extends_same_heap) simp_all

lemma entries_ok_Nil [simp]: "entries_ok m []"
  by (simp add: entries_ok_def)

lemma mgr_ok_Register:
  assumes "mgr_ok m"
  shows "mgr_ok (RegisterAgentStream a m)"
proof (rule mgr_ok_maps [OF assms])
  show "map_of (sm_agents (RegisterAgentStream a m)) b = Some c \<Longrightarrow>
      c < length (conn_heap (RegisterAgentStream a m))" for b c
    using mgr_okD(5) [OF assms, of b c]
    by (auto simp: RegisterAgentStream_def update_conv' split: if_splits)
qed (auto simp: RegisterAgentStream_def mgr_okD [OF assms] nth_append less_Suc_eq)

lemma extends_Register: "extends m (RegisterAgentStream a m)"
  by (rule extends_same_heap) (simp_all add: RegisterAgentStream_def)

lemma mgr_ok_unregister:
  assumes "mgr_ok m"
  shows "mgr_ok (snd (unregister_locked a m))"
proof (rule mgr_ok_maps [OF assms])
  show "map_of (sm_agents (snd (unregister_locked a m))) b = Some c \<Longrightarrow>
      c < length (conn_heap (snd (unregister_locked a m)))" for b c
    using mgr_okD(5) [OF assms, of b c]
    by (auto simp: unregister_locked_def delete_conv' split: option.splits if_splits)
qed (auto simp: unregister_locked_def mgr_okD [OF assms] entries_ok_fold_delete distinct_fold_delete
    split: option.splits)

lemma extends_unregister: "extends m (snd (unregister_locked a m))"
  by (rule extends_same_heap) (simp_all add: unregister_locked_def split: option.splits)

lemma unregister_dead:
  assumes "mgr_ok m" and "r \<in> set (fst (unregister_locked a m))"
  shows "r < length (sess_heap m)"
proof -
  obtain c where c: "map_of (sm_agents m) a = Some c" "r \<in> snd ` set (conn_sessions (conn_at m c))"
    using assms(2) by (auto simp: unregister_locked_def split: option.splits)
  have "c < length (conn_heap m)" by (rule mgr_okD(5) [OF assms(1) c(1)])
  then show ?thesis
    using c(2) mgr_okD(3,4) [OF assms(1)] by (force simp: entries_ok_def)
qed

lemma mgr_ok_drop:
  assumes "mgr_ok m"
  shows "mgr_ok (dropSession sid m)"
proof (rule mgr_ok_maps [OF assms])
  fix c assume "c < length (conn_heap (dropSession sid m))"
  then have c: "c < length (conn_heap m)" by simp
  have "conn_sessions (conn_at (dropSession sid m) c) \<in>
      {conn_sessions (conn_at m c), AList.delete sid (conn_sessions (conn_at m c))}"
  proof (cases "connFor sid m")
    case (Some d)
    then show ?thesis
      by (cases "d < length (conn_heap m)") (auto simp: dropSession_def Let_def conn_at_upd)
  qed (simp add: dropSession_def Let_def)
  then show "entries_ok m (conn_sessions (conn_at (dropSession sid m) c)) \<and>
      distinct (map fst (conn_sessions (conn_at (dropSession sid m) c)))"
    using mgr_okD(3,4) [OF assms c] by (auto simp: entries_ok_delete distinct_delete)
qed (use assms in \<open>auto simp: mgr_okD entries_ok_delete distinct_delete dest: mgr_okD(5)\<close>)

lemma extends_drop: "extends m (dropSession sid m)"
  by (rule extends_same_heap) simp_all

lemma mgr_ok_close: "mgr_ok m \<Longrightarrow> mgr_ok (close_session r c e m)"
  by (auto simp: close_session_def sess_ok_def intro!: mgr_ok_upd_sess split: option.splits)

lemma extends_close: "extends m (close_session r c e m)"
  by (auto simp: close_session_def intro!: extends_upd_sess split: option.splits)

lemma mgr_ok_commit:
  assumes "mgr_ok m" and "c < length (conn_heap m)" and "r < length (sess_heap m)"
  shows "mgr_ok (start_commit c r m)"
proof (rule mgr_ok_maps [OF assms(1)])
  fix d assume "d < length (conn_heap (start_commit c r m))"
  then have d: "d < length (conn_heap m)" by simp
  show "entries_ok m (conn_sessions (conn_at (start_commit c r m) d)) \<and>
      distinct (map fst (conn_sessions (conn_at (start_commit c r m) d)))"
    using mgr_okD(3,4) [OF assms(1) d] assms(2,3)
    by (auto simp: start_commit_def Let_def conn_at_upd entries_ok_update distinct_update)
qed (use assms in \<open>auto simp: mgr_okD entries_ok_update distinct_update dest: mgr_okD(5)\<close>)

lemma extends_commit: "extends m (start_commit c r m)"
  by (rule extends_same_heap) simp_all

lemma extends_new_session: "extends m (snd (new_session s m))"
  by (simp add: extends_def new_session_def nth_append)

lemma mgr_ok_new_session:
  assumes "mgr_ok m" and "fresh_session m s"
  shows "mgr_ok (snd (new_session s m))"
proof -
  have "sess_ok s" using assms(2) by (auto simp: fresh_session_def sess_ok_def)
  moreover have "entries_ok (snd (new_session s m)) al" if "entries_ok m al" for al
    using that extends_new_session by (rule entries_ok_extends)
  ultimately show ?thesis
    using assms
    by (auto simp: mgr_ok_def new_session_def fresh_session_def nth_append less_Suc_eq)
qed

lemma mgr_ok_send_for: "mgr_ok m \<Longrightarrow> mgr_ok (snd (send_for ok sid msg m))"
  by (auto simp: send_for_def mgr_ok_sendLocked split: option.splits)

lemma extends_send_for: "extends m (snd (send_for ok sid msg m))"
  by (auto simp: send_for_def extends_sendLocked split: option.splits)

lemma mgr_ok_recv: "mgr_ok m \<Longrightarrow> mgr_ok (snd (recv_output r m))" "mgr_ok m \<Longrightarrow> mgr_ok (snd (recv_pf_output r m))"
  by (auto simp: recv_output_def recv_pf_output_def sess_ok_def intro!: mgr_ok_upd_sess
      split: option.splits list.splits)

lemma extends_recv: "extends m (snd (recv_output r m))" "extends m (snd (recv_pf_output r m))"
  by (auto simp: recv_output_def recv_pf_output_def intro!: extends_upd_sess split: option.splits list.splits)

lemma send_output_ok:
  "mgr_ok m \<Longrightarrow> send_output r ch m = SendOk m' \<Longrightarrow> mgr_ok m' \<and> extends m m'"
  by (auto simp: send_output_def sess_ok_def intro!: mgr_ok_upd_sess extends_upd_sess
      split: option.splits if_splits)

lemma send_pf_output_ok:
  "mgr_ok m \<Longrightarrow> send_pf_output r ch m = SendOk m' \<Longrightarrow> mgr_ok m' \<and> extends m m'"
  by (auto simp: send_pf_output_def sess_ok_def intro!: mgr_ok_upd_sess extends_upd_sess
      split: option.splits if_splits)

lemma begin_cancel_ok: "mgr_ok m \<Longrightarrow> list_all (pending_ok m) (begin_cancel sid m)"
  by (auto simp: begin_cancel_def lookup_session_def dest: entries_okD [OF mgr_okD(1)] split: option.splits)

lemma lookup_session_ok: "mgr_ok m \<Longrightarrow> lookup_session sid m = Some r \<Longrightarrow>
    r < length (sess_heap m) \<and> sess_ID (sess_at m r) = sid"
  by (auto simp: lookup_session_def dest: entries_okD [OF mgr_okD(1)])

lemma begin_route_ok: "mgr_ok m \<Longrightarrow> list_all (pending_ok m) (begin_route msg m)"
  by (cases msg) (auto dest: lookup_session_ok split: option.splits)

lemma resume_ok:
  assumes "mgr_ok m" and "pending_ok m p" and "resume ok p m = Some (qs, m')"
  shows "mgr_ok m' \<and> extends m m' \<and> list_all (pending_ok m') qs"
proof (cases p)
  case (AtSend c r msg)
  then show ?thesis
    using assms pending_ok_extends [OF _ extends_sendLocked, of m "AtCommit c r" ok c msg]
    by (auto simp: mgr_ok_sendLocked extends_sendLocked)
next
  case (AtCommit c r)
  then show ?thesis using assms by (auto simp: mgr_ok_commit extends_commit)
next
  case (AtOutput r chunk)
  then show ?thesis
    using assms send_output_ok [OF assms(1), of r chunk]
    by (auto simp: resume_send_def begin_cancel_ok split: send_outcome.splits)
next
  case (AtPfOutput r chunk)
  then show ?thesis
    using assms send_pf_output_ok [OF assms(1), of r chunk]
    by (auto simp: resume_send_def begin_cancel_ok split: send_outcome.splits)
next
  case (AtCancelSend r sid conn)
  then show ?thesis
    using assms by (auto simp: mgr_ok_sendLocked extends_sendLocked split: option.splits)
next
  case (AtDrop r sid code msg)
  then show ?thesis using assms by (auto simp: mgr_ok_drop extends_drop)
next
  case (AtClose r code msg)
  then show ?thesis using assms by (auto simp: mgr_ok_close extends_close)
qed

lemma begin_start_ok:
  assumes "mgr_ok m" and "fresh_session m s" and "begin_start a s msg m = (qs, m')"
  shows "mgr_ok m' \<and> extends m m' \<and> list_all (pending_ok m') qs"
  using assms mgr_ok_new_session [OF assms(1,2)] extends_new_session [of m s]
  by (auto simp: begin_start_def start_check_def new_session_def dest: mgr_okD(5)
      split: sum.splits option.splits if_splits prod.splits)

lemma begin_unregister_ok:
  assumes "mgr_ok m" and "begin_unregister a m = (qs, m')"
  shows "mgr_ok m' \<and> extends m m' \<and> list_all (pending_ok m') qs"
proof -
  obtain dead where u: "unregister_locked a m = (dead, m')" "qs = map (\<lambda>r. AtClose r (- 1) ''agent disconnected'') dead"
    using assms(2) by (auto simp: begin_unregister_def split: prod.splits)
  have "sess_heap m' = sess_heap m"
    using u(1) by (auto simp: unregister_locked_def split: option.splits)
  then show ?thesis
    using mgr_ok_unregister [OF assms(1), of a] extends_unregister [of m a]
      unregister_dead [OF assms(1), of _ a] u by (auto simp: list_all_iff)
qed

lemma list_all_pending_extends:
  "list_all (pending_ok m) ps \<Longrightarrow> extends m m' \<Longrightarrow> list_all (pending_ok m') ps"
  by (auto simp: list_all_iff pending_ok_extends)

lemma mgr_step_ok:
  assumes "mgr_step (Some (ps, m)) (Some (ps', m'))" and "mgr_ok m" and "list_all (pending_ok m) ps"
  shows "mgr_ok m' \<and> extends m m' \<and> list_all (pending_ok m') ps'"
  using assms(1)
proof cases
  case (go_register a)
  then show ?thesis
    using assms(2,3) mgr_ok_Register extends_Register list_all_pending_extends by metis
next
  case (go_unregister a qs)
  then show ?thesis
    using assms(2,3) begin_unregister_ok [OF assms(2)] list_all_pending_extends by (metis list_all_append)
next
  case (go_start s a msg qs)
  then show ?thesis
    using assms(2,3) begin_start_ok [OF assms(2)] list_all_pending_extends by (metis list_all_append)
next
  case (go_resume ok p qs ps1 ps2)
  then have "mgr_ok m' \<and> extends m m' \<and> list_all (pending_ok m') qs"
    using assms(2,3) by (intro resume_ok) auto
  then show ?thesis
    using go_resume assms(3) list_all_pending_extends [of m _ m'] by auto
qed (use assms(2,3) in \<open>auto simp: begin_route_ok begin_cancel_ok mgr_ok_send_for mgr_ok_recv extends_recv
    extends_send_for intro: list_all_pending_extends\<close>)

interpretation session_manager: invariant_system mgr_init mgr_step state_ok
proof unfold_locales
  fix x assume "mgr_init x"
  then show "state_ok x" by (auto simp: mgr_init_def mgr_ok_New)
next
  fix x y assume ok: "state_ok x" and step: "mgr_step x y"
  obtain ps m where x: "x = Some (ps, m)" using step by cases auto
  show "state_ok y"
  proof (cases y)
    case (Some qm)
    then show ?thesis using mgr_step_ok [of ps m "fst qm" "snd qm"] ok step x by (cases qm) auto
  qed simp
qed

end
