(* ===== verification/Session_Props.thy ===== *)
theory Session_Props
  imports Session_Steps
begin

text \<open>
  The operations of the session manager as a whole: each is one run of the interleaved system, and
  when they run one after the other the manager keeps its bound, holds only open sessions in its
  maps and does not panic. The last section shows what interleaving adds.
\<close>


section \<open>An operation is a run of the interleaved system\<close>

abbreviation mgr_run where
  "mgr_run \<equiv> mgr_step\<^sup>*\<^sup>*"

lemma run_resume:
  "resume ok p m = Some (qs, m') \<Longrightarrow> mgr_run (Some (ps @ p # rest, m)) (Some (ps @ qs @ rest, m'))"
  by (rule r_into_rtranclp) (rule go_resume)

lemma run_resume_last:
  "resume ok p m = Some (qs, m') \<Longrightarrow> mgr_run (Some (ps @ [p], m)) (Some (ps @ qs, m'))"
  using run_resume [of ok p m qs m' ps "[]"] by simp

lemma run2: "mgr_run x y \<Longrightarrow> mgr_run y z \<Longrightarrow> mgr_run x z"
  by (rule rtranclp_trans)

lemma run3: "mgr_run x y \<Longrightarrow> mgr_run y z \<Longrightarrow> mgr_run z u \<Longrightarrow> mgr_run x u"
  by (blast intro: rtranclp_trans)

lemma run_begin_cancel:
  "mgr_run (Some (ps @ begin_cancel sid m, m)) (Some (ps, Cancel ok sid m))"
proof (cases "lookup_session sid m")
  case None
  then show ?thesis by (simp add: begin_cancel_def Cancel_def)
next
  case (Some r)
  let ?m1 = "case connFor sid m of None \<Rightarrow> m | Some c \<Rightarrow> sendLocked ok c (MsgCancel sid) m"
  have "mgr_run (Some (ps @ [AtCancelSend r sid (connFor sid m)], m))
      (Some (ps @ [], close_session r (- 1) ''canceled'' (dropSession sid ?m1)))"
  proof (rule run3)
    show "mgr_run (Some (ps @ [AtCancelSend r sid (connFor sid m)], m))
        (Some (ps @ [AtDrop r sid (- 1) ''canceled''], ?m1))"
      by (rule run_resume_last [of ok]) simp
    show "mgr_run (Some (ps @ [AtDrop r sid (- 1) ''canceled''], ?m1))
        (Some (ps @ [AtClose r (- 1) ''canceled''], dropSession sid ?m1))"
      by (rule run_resume_last [of ok]) simp
  qed (rule run_resume_last [of ok], simp)
  then show ?thesis using Some by (simp add: begin_cancel_def Cancel_def Let_def)
qed

lemma run_Cancel: "mgr_run (Some (ps, m)) (Some (ps, Cancel ok sid m))"
  using converse_rtranclp_into_rtranclp [of mgr_step, OF go_cancel run_begin_cancel] .

lemma run_after_send:
  assumes "resume ok p m = resume_send r out m"
  shows "mgr_run (Some (ps @ [p], m)) (map_option (\<lambda>m'. (ps, m')) (after_send ok r out m))"
proof (cases out)
  case (SendOk m')
  then show ?thesis
    using assms run_resume_last [of ok p m "[]" m' ps] by (simp add: resume_send_def after_send_def)
next
  case SendFull
  then have "mgr_run (Some (ps @ [p], m)) (Some (ps @ begin_cancel (sess_ID (sess_at m r)) m, m))"
    using assms by (intro run_resume_last [of ok]) (simp add: resume_send_def)
  from run2 [OF this run_begin_cancel [of _ _ _ ok]] show ?thesis
    using SendFull by (simp add: after_send_def)
next
  case SendPanic
  then show ?thesis
    using assms go_panic [of ok p m ps "[]"] by (simp add: resume_send_def after_send_def r_into_rtranclp)
qed

lemma Route_pf:
  assumes "pf_chunk msg = Some (sid, chunk)"
  shows "Route ok msg m = routePf ok sid chunk m"
    and "begin_route msg m = (case lookup_session sid m of
       None \<Rightarrow> [] | Some r \<Rightarrow> if PfOutput (sess_at m r) = None then [] else [AtPfOutput r chunk])"
  using assms by (cases msg; simp)+

lemma run_Route: "mgr_run (Some (ps, m)) (map_option (\<lambda>m'. (ps, m')) (Route ok msg m))"
proof -
  have "mgr_run (Some (ps @ begin_route msg m, m)) (map_option (\<lambda>m'. (ps, m')) (Route ok msg m))"
  proof (cases "pf_chunk msg")
    case None
    show ?thesis
    proof (cases msg)
      case (MsgOutput sid ty data)
      then show ?thesis
        using run_after_send [of ok "AtOutput r \<lparr>chunk_Type = ty, chunk_Data = data\<rparr>" m r _ ps for r]
        by (auto split: option.splits)
    next
      case (MsgExit sid code e)
      show ?thesis
      proof (cases "lookup_session sid m")
        case (Some r)
        let ?i = "sess_ID (sess_at m r)"
        have "mgr_run (Some (ps @ [AtDrop r ?i code e], m)) (Some (ps @ [AtClose r code e], dropSession ?i m))"
          by (rule run_resume_last [of ok]) simp
        moreover have "mgr_run (Some (ps @ [AtClose r code e], dropSession ?i m))
            (Some (ps @ [], close_session r code e (dropSession ?i m)))"
          by (rule run_resume_last [of ok]) simp
        ultimately show ?thesis using run2 MsgExit Some by simp
      qed (simp add: MsgExit)
    qed (use None in simp_all)
  next
    case (Some sc)
    then obtain sid chunk where sc: "pf_chunk msg = Some (sid, chunk)" by (cases sc) auto
    show ?thesis
      using run_after_send [of ok "AtPfOutput r chunk" m r _ ps for r]
      by (auto simp: Route_pf [OF sc] routePf_def split: option.splits)
  qed
  with go_route show ?thesis by (rule converse_rtranclp_into_rtranclp)
qed

lemma run_close_all:
  "mgr_run (Some (ps @ map (\<lambda>r. AtClose r c e) rs, m)) (Some (ps, fold (\<lambda>r. close_session r c e) rs m))"
proof (induction rs arbitrary: m)
  case (Cons r rs)
  have "mgr_run (Some (ps @ AtClose r c e # map (\<lambda>r. AtClose r c e) rs, m))
      (Some (ps @ [] @ map (\<lambda>r. AtClose r c e) rs, close_session r c e m))"
    by (rule run_resume [of True]) simp
  then show ?case using run2 Cons.IH [of "close_session r c e m"] by simp
qed simp

lemma run_Unregister: "mgr_run (Some (ps, m)) (Some (ps, UnregisterAgentStream a m))"
proof -
  obtain dead m' where u: "unregister_locked a m = (dead, m')" by (cases "unregister_locked a m")
  have "mgr_step (Some (ps, m)) (Some (ps @ map (\<lambda>r. AtClose r (- 1) ''agent disconnected'') dead, m'))"
    by (rule go_unregister [of a]) (simp add: begin_unregister_def u)
  then show ?thesis
    using run_close_all by (simp add: UnregisterAgentStream_def u converse_rtranclp_into_rtranclp)
qed

lemma run_start:
  assumes "fresh_session m s" and "sess_AgentID s = a"
  shows "mgr_run (Some (ps, m)) (Some (ps, snd (start_session ok a s msg m)))"
proof (cases "start_check a m")
  case (Inl e)
  then show ?thesis by (simp add: start_session_def)
next
  case (Inr c)
  obtain r m1 where n: "new_session s m = (r, m1)" by (cases "new_session s m")
  have "mgr_run (Some (ps, m)) (Some (ps @ [AtSend c r msg], m1))"
    using assms Inr n by (intro r_into_rtranclp go_start) (auto simp: begin_start_def)
  moreover have "mgr_run (Some (ps @ [AtSend c r msg], m1))
      (Some (ps @ (if ok then [AtCommit c r] else []), sendLocked ok c msg m1))"
    by (rule run_resume_last [of ok]) simp
  moreover have "mgr_run (Some (ps @ (if ok then [AtCommit c r] else []), sendLocked ok c msg m1))
      (Some (ps, snd (start_session ok a s msg m)))"
    using run_resume_last [of True "AtCommit c r" "sendLocked ok c msg m1" "[]" _ ps] Inr n
    by (auto simp: start_session_def Let_def)
  ultimately show ?thesis by (rule run3)
qed


section \<open>The operations one after the other\<close>

inductive seq_step :: "SessionManager \<Rightarrow> SessionManager \<Rightarrow> bool" where
  seq_register: "seq_step m (RegisterAgentStream a m)"
| seq_unregister: "seq_step m (UnregisterAgentStream a m)"
| seq_start: "fresh_session m s \<Longrightarrow> sess_AgentID s = a \<Longrightarrow> seq_step m (snd (start_session ok a s msg m))"
| seq_send: "seq_step m (snd (send_for ok sid msg m))"
| seq_cancel: "seq_step m (Cancel ok sid m)"
| seq_route: "Route ok msg m = Some m' \<Longrightarrow> seq_step m m'"
| seq_recv: "seq_step m (snd (recv_output r m))"
| seq_recv_pf: "seq_step m (snd (recv_pf_output r m))"

lemma seq_step_run: "seq_step m m' \<Longrightarrow> mgr_run (Some (ps, m)) (Some (ps, m'))"
proof (induction rule: seq_step.induct)
  case (seq_route ok msg m m')
  then show ?case using run_Route [of ps m ok msg] by simp
qed (auto intro: run_Unregister run_start run_Cancel r_into_rtranclp [where r = mgr_step, OF go_register]
    r_into_rtranclp [where r = mgr_step, OF go_send] r_into_rtranclp [where r = mgr_step, OF go_recv] r_into_rtranclp [where r = mgr_step, OF go_recv_pf])

lemma run_ok:
  assumes "mgr_run x y" and "x = Some (ps, m)" and "y = Some (ps', m')" and "state_ok x"
  shows "state_ok y \<and> extends m m'"
  using assms
proof (induction arbitrary: ps' m' rule: rtranclp_induct)
  case base
  then show ?case by simp
next
  case (step y z)
  obtain qs n where y: "y = Some (qs, n)" using step.hyps(2) by cases auto
  have "state_ok y \<and> extends m n" using step.IH y step.prems by simp
  moreover have "mgr_ok m' \<and> extends n m' \<and> list_all (pending_ok m') ps'"
    using step.hyps(2) step.prems(2) y calculation by (intro mgr_step_ok) auto
  ultimately show ?case using step.prems extends_trans by auto
qed

lemma seq_step_mgr_ok: "seq_step m m' \<Longrightarrow> mgr_ok m \<Longrightarrow> mgr_ok m' \<and> extends m m'"
  using run_ok [OF seq_step_run, of m m' "[]"] by simp


text \<open>What runs one after the other keeps besides: the sessions in the map are open, and there are at
  most \<open>max_sessions\<close> of them.\<close>

definition seq_ok :: "SessionManager \<Rightarrow> bool" where
  "seq_ok m \<longleftrightarrow> mgr_ok m \<and>
     (\<forall>sid r. lookup_session sid m = Some r \<longrightarrow> ended (sess_at m r) = None) \<and>
     int (length (sm_sessions m)) \<le> max_sessions m"

lemma seq_okI:
  assumes "seq_ok m" and "mgr_ok m'" and "max_sessions m' = max_sessions m"
    and "length (sm_sessions m') \<le> length (sm_sessions m)"
    and "\<And>sid r. lookup_session sid m' = Some r \<Longrightarrow>
       lookup_session sid m = Some r \<and> ended (sess_at m' r) = ended (sess_at m r)"
  shows "seq_ok m'"
  using assms by (fastforce simp: seq_ok_def)

lemma lookup_drop: "lookup_session t (dropSession sid m) = (if t = sid then None else lookup_session t m)"
  by (simp add: lookup_session_def delete_conv')

lemma lookup_close [simp]: "lookup_session t (close_session r c e m) = lookup_session t m"
  by (simp add: lookup_session_def)

lemma lookup_sendLocked [simp]: "lookup_session t (sendLocked ok c msg m) = lookup_session t m"
  by (simp add: lookup_session_def)

lemma mgr_ok_Cancel: "mgr_ok m \<Longrightarrow> mgr_ok (Cancel ok sid m)"
  by (auto simp: Cancel_def Let_def mgr_ok_close mgr_ok_drop mgr_ok_sendLocked split: option.splits)

text \<open>The end of one session, as \<open>Cancel\<close> and the exit message do it.\<close>

lemma seq_ok_end:
  assumes "seq_ok m" and "lookup_session sid m = Some r" and "mgr_ok m1" and "sess_heap m1 = sess_heap m"
    and "sm_sessions m1 = sm_sessions m" and "max_sessions m1 = max_sessions m"
  shows "seq_ok (close_session r c e (dropSession sid m1))"
proof (rule seq_okI [OF assms(1)])
  show "mgr_ok (close_session r c e (dropSession sid m1))" using assms(3) by (simp add: mgr_ok_close mgr_ok_drop)
  fix t j assume t: "lookup_session t (close_session r c e (dropSession sid m1)) = Some j"
  then have l: "lookup_session t m = Some j" "t \<noteq> sid"
    using assms(5) by (auto simp: lookup_session_def delete_conv' split: if_splits)
  then have "j \<noteq> r"
    using lookup_session_ok [of m t j] lookup_session_ok [of m sid r] assms(1,2) by (auto simp: seq_ok_def)
  then show "lookup_session t m = Some j \<and>
      ended (sess_at (close_session r c e (dropSession sid m1)) j) = ended (sess_at m j)"
    using l assms(4) by (simp add: ended_close_other)
qed (use assms length_delete_le in auto)

lemma seq_ok_Cancel:
  assumes "seq_ok m"
  shows "seq_ok (Cancel ok sid m)"
proof (cases "lookup_session sid m")
  case (Some r)
  then show ?thesis
    using seq_ok_end [OF assms Some] assms
    by (auto simp: Cancel_def Let_def seq_ok_def mgr_ok_sendLocked split: option.splits)
qed (simp add: Cancel_def assms)

lemma seq_ok_upd:
  assumes "seq_ok m" and "mgr_ok (upd_sess r f m)" and "ended (f (sess_at m r)) = ended (sess_at m r)"
  shows "seq_ok (upd_sess r f m)"
proof (cases "r < length (sess_heap m)")
  case True
  then show ?thesis
    using assms by (intro seq_okI [OF assms(1)]) (auto simp: lookup_session_def sess_at_upd)
qed (simp add: assms(1))

lemma seq_ok_send_output:
  "seq_ok m \<Longrightarrow> send_output r ch m = SendOk m' \<Longrightarrow> seq_ok m'"
  using send_output_ok [of m r ch m']
  by (auto simp: send_output_def seq_ok_def [of m] intro!: seq_ok_upd split: option.splits if_splits)

lemma seq_ok_send_pf_output:
  "seq_ok m \<Longrightarrow> send_pf_output r ch m = SendOk m' \<Longrightarrow> seq_ok m'"
  using send_pf_output_ok [of m r ch m']
  by (auto simp: send_pf_output_def seq_ok_def [of m] intro!: seq_ok_upd split: option.splits if_splits)

lemma seq_ok_after_send:
  assumes "seq_ok m" and "\<And>m'. out = SendOk m' \<Longrightarrow> seq_ok m'" and "after_send ok r out m = Some m'"
  shows "seq_ok m'"
  using assms by (cases out) (auto simp: after_send_def seq_ok_Cancel)

lemma seq_ok_Route:
  assumes "seq_ok m" and "Route ok msg m = Some m'"
  shows "seq_ok m'"
proof (cases "pf_chunk msg")
  case (Some sc)
  then obtain sid chunk where sc: "pf_chunk msg = Some (sid, chunk)" by (cases sc) auto
  show ?thesis
    using assms seq_ok_after_send [OF assms(1) seq_ok_send_pf_output [OF assms(1)]]
    by (auto simp: Route_pf(1) [OF sc] routePf_def split: option.splits if_splits)
next
  case None
  then show ?thesis
  proof (cases msg)
    case (MsgOutput sid ty data)
    then show ?thesis
      using assms seq_ok_after_send [OF assms(1) seq_ok_send_output [OF assms(1)]]
      by (auto split: option.splits)
  next
    case (MsgExit sid code e)
    show ?thesis
    proof (cases "lookup_session sid m")
      case (Some r)
      then show ?thesis
        using assms MsgExit seq_ok_end [OF assms(1) Some, of m code e] lookup_session_ok [of m sid r]
        by (auto simp: seq_ok_def [of m])
    qed (use assms MsgExit in simp)
  qed (use assms in auto)
qed

lemma close_all_fields [simp]:
  "sm_sessions (fold (\<lambda>r. close_session r c e) rs m) = sm_sessions m"
  "sm_agents (fold (\<lambda>r. close_session r c e) rs m) = sm_agents m"
  "max_sessions (fold (\<lambda>r. close_session r c e) rs m) = max_sessions m"
  "lookup_session t (fold (\<lambda>r. close_session r c e) rs m) = lookup_session t m"
  "length (sess_heap (fold (\<lambda>r. close_session r c e) rs m)) = length (sess_heap m)"
  by (induction rs arbitrary: m) simp_all

lemma ended_close_all:
  "\<forall>r \<in> set rs. r < length (sess_heap m) \<Longrightarrow>
     ended (sess_at (fold (\<lambda>r. close_session r c e) rs m) j) =
       (if j \<in> set rs \<and> ended (sess_at m j) = None then Some (c, e) else ended (sess_at m j))"
  by (induction rs arbitrary: m) (auto simp: ended_close)

lemma seq_ok_Unregister:
  assumes "seq_ok m"
  shows "seq_ok (UnregisterAgentStream a m)"
proof (cases "map_of (sm_agents m) a")
  case (Some c)
  let ?al = "conn_sessions (conn_at m c)"
  have ok: "mgr_ok m" using assms by (simp add: seq_ok_def)
  have c: "c < length (conn_heap m)" by (rule mgr_okD(5) [OF ok Some])
  obtain m' where u: "unregister_locked a m = (map snd ?al, m')" and heap: "sess_heap m' = sess_heap m"
      and maps: "sm_sessions m' = fold AList.delete (map fst ?al) (sm_sessions m)"
      and mx: "max_sessions m' = max_sessions m"
    using Some by (simp add: unregister_locked_def)
  have ok': "mgr_ok (UnregisterAgentStream a m)"
    using run_ok [OF run_Unregister [of "[]" m a]] ok by simp
  show ?thesis
  proof (rule seq_okI [OF assms ok'])
    fix t j assume "lookup_session t (UnregisterAgentStream a m) = Some j"
    then have l: "lookup_session t m = Some j" "t \<notin> fst ` set ?al"
      using u maps by (auto simp: UnregisterAgentStream_def lookup_session_def map_of_fold_delete split: if_splits)
    have "j \<notin> set (map snd ?al)"
    proof
      assume "j \<in> set (map snd ?al)"
      then obtain sid where "(sid, j) \<in> set ?al" by auto
      then have "map_of ?al sid = Some j" using mgr_okD(4) [OF ok c] by simp
      then have "sess_ID (sess_at m j) = sid" using entries_okD [OF mgr_okD(3) [OF ok c]] by blast
      then have "t = sid" using lookup_session_ok [OF ok l(1)] by simp
      then show False using l(2) \<open>(sid, j) \<in> set ?al\<close> by force
    qed
    moreover have "\<forall>r \<in> set (map snd ?al). r < length (sess_heap m')"
      using unregister_dead [OF ok, of _ a] u heap by auto
    ultimately show "lookup_session t m = Some j \<and>
        ended (sess_at (UnregisterAgentStream a m) j) = ended (sess_at m j)"
      using l(1) u heap by (simp add: UnregisterAgentStream_def ended_close_all)
  qed (use u maps mx length_fold_delete_le in \<open>auto simp: UnregisterAgentStream_def\<close>)
next
  case None
  then show ?thesis using assms by (simp add: UnregisterAgentStream_def unregister_locked_def)
qed

lemma seq_ok_start:
  assumes "seq_ok m" and "fresh_session m s" and "sess_AgentID s = a"
  shows "seq_ok (snd (start_session ok a s msg m))"
proof (cases "start_check a m")
  case (Inr c)
  obtain r m1 where n: "new_session s m = (r, m1)" by (cases "new_session s m")
  have r: "r = length (sess_heap m)" "sess_heap m1 = sess_heap m @ [s]" "sm_sessions m1 = sm_sessions m"
      "max_sessions m1 = max_sessions m"
    using n by (auto simp: new_session_def)
  have lt: "int (length (sm_sessions m)) < max_sessions m"
    using Inr by (auto simp: start_check_def split: option.splits if_splits)
  have old: "lookup_session t m = Some j \<Longrightarrow> j < length (sess_heap m) \<and> ended (sess_at m j) = None" for t j
    using assms(1) lookup_session_ok by (auto simp: seq_ok_def)
  have "mgr_ok (snd (start_session ok a s msg m))"
    using run_ok [OF run_start [OF assms(2,3), of "[]"]] assms(1) by (simp add: seq_ok_def)
  then show ?thesis
    using Inr n r lt assms(1,2) old
    by (auto simp: start_session_def seq_ok_def Let_def lookup_session_def update_conv'
        length_alist_update fresh_session_def nth_append split: if_splits)
qed (use assms(1) in \<open>simp add: start_session_def\<close>)

lemma seq_ok_same:
  "seq_ok m \<Longrightarrow> mgr_ok m' \<Longrightarrow> sess_heap m' = sess_heap m \<Longrightarrow> sm_sessions m' = sm_sessions m \<Longrightarrow>
     max_sessions m' = max_sessions m \<Longrightarrow> seq_ok m'"
  by (simp add: seq_ok_def lookup_session_def)

lemma seq_ok_recv: "seq_ok m \<Longrightarrow> seq_ok (snd (recv_output r m))" "seq_ok m \<Longrightarrow> seq_ok (snd (recv_pf_output r m))"
  using mgr_ok_recv [of m r]
  by (auto simp: recv_output_def recv_pf_output_def seq_ok_def [of m] intro!: seq_ok_upd
      split: option.splits list.splits)

definition seq_init :: "SessionManager \<Rightarrow> bool" where
  "seq_init m \<longleftrightarrow> (\<exists>n. m = NewSessionManager n)"

interpretation sequential_manager: invariant_system seq_init seq_step seq_ok
proof unfold_locales
  fix m assume "seq_init m"
  then obtain n where n: "m = NewSessionManager n" by (auto simp: seq_init_def)
  show "seq_ok m"
    by (simp add: n seq_ok_def mgr_ok_New lookup_session_def) (simp add: NewSessionManager_def)
next
  fix m m' assume "seq_ok m" and "seq_step m m'"
  from this(2,1) show "seq_ok m'"
  proof (induction rule: seq_step.induct)
    case (seq_register m a)
    then show ?case
      using seq_ok_same [of m "RegisterAgentStream a m"] mgr_ok_Register [of m a]
      by (simp add: seq_ok_def [of m] RegisterAgentStream_def)
  next
    case (seq_send m ok sid msg)
    then show ?case
      using seq_ok_same [of m "snd (send_for ok sid msg m)"] mgr_ok_send_for [of m ok sid msg]
      by (simp add: seq_ok_def [of m] send_for_def split: option.splits)
  qed (simp_all add: seq_ok_Unregister seq_ok_start seq_ok_Cancel seq_ok_Route seq_ok_recv)
qed


abbreviation mgr_reach :: "(pending list \<times> SessionManager) option \<Rightarrow> bool" where
  "mgr_reach \<equiv> reach mgr_init mgr_step"

abbreviation seq_reach :: "SessionManager \<Rightarrow> bool" where
  "seq_reach \<equiv> reach seq_init seq_step"

lemma reach_run: "mgr_reach x \<Longrightarrow> mgr_run x y \<Longrightarrow> mgr_reach y"
  by (rotate_tac 1, induction rule: rtranclp_induct) (auto intro: reach_step)

lemma mgr_reach_ok: "mgr_reach (Some (ps, m)) \<Longrightarrow> mgr_ok m"
  using session_manager.reach_inv [of "Some (ps, m)"] by simp

lemma seq_reach_ok: "seq_reach m \<Longrightarrow> seq_ok m"
  by (rule sequential_manager.reach_inv)

lemma seq_reach_mgr_ok: "seq_reach m \<Longrightarrow> mgr_ok m"
  using seq_reach_ok by (simp add: seq_ok_def)


section \<open>A manager with one session\<close>

definition demo_session :: "string \<Rightarrow> Session" where
  "demo_session sid = \<lparr>sess_ID = sid, sess_AgentID = ''a'', Output = Some [], PfOutput = None, ended = None\<rparr>"

definition demo_start :: "string \<Rightarrow> CentralStreamMessage" where
  "demo_start sid = MsgStart \<lparr>start_SessionId = sid, start_Command = [''logs'', ''-f'', ''p''],
     start_Namespace = [], start_Tty = False, start_Rows = 0, start_Cols = 0\<rparr>"

definition demo_base :: SessionManager where
  "demo_base = RegisterAgentStream ''a'' (NewSessionManager 1)"

definition demo_mgr :: SessionManager where
  "demo_mgr = snd (Start True ''s1'' ''a'' [''logs'', ''-f'', ''p''] [] demo_base)"

lemma demo_mgr_start: "demo_mgr = snd (start_session True ''a'' (demo_session ''s1'') (demo_start ''s1'') demo_base)"
  by (simp add: demo_mgr_def Start_def startSession_def demo_session_def demo_start_def)

lemma demo_fresh: "fresh_session demo_base (demo_session sid)"
  by (simp add: fresh_session_def demo_session_def demo_base_def RegisterAgentStream_def NewSessionManager_def)

lemma seq_reach_base: "seq_reach demo_base"
  unfolding demo_base_def
  by (rule reach_step, rule reach_init) (auto simp: seq_init_def intro: seq_register)

lemma seq_reach_demo: "seq_reach demo_mgr"
  unfolding demo_mgr_start
  by (rule reach_step [OF seq_reach_base seq_start [OF demo_fresh]]) (simp add: demo_session_def)

lemma mgr_reach_base: "mgr_reach (Some ([], demo_base))"
  unfolding demo_base_def
  by (rule reach_step, rule reach_init) (auto simp: mgr_init_def intro: go_register)

lemma mgr_reach_demo: "mgr_reach (Some ([], demo_mgr))"
  unfolding demo_mgr_start
  by (rule reach_run [OF mgr_reach_base run_start [OF demo_fresh]]) (simp add: demo_session_def)

lemma demo_mgr_eq:
  "demo_mgr = \<lparr>sess_heap = [demo_session ''s1''],
     conn_heap = [\<lparr>sent = [demo_start ''s1''], conn_sessions = [(''s1'', 0)]\<rparr>],
     sm_agents = [(''a'', 0)], sm_sessions = [(''s1'', 0)], max_sessions = 1\<rparr>"
  by (simp add: demo_mgr_start start_session_def start_check_def new_session_def sendLocked_def upd_conn_def
      start_commit_def Let_def demo_base_def RegisterAgentStream_def NewSessionManager_def demo_session_def)


section \<open>Properties\<close>



text \<open>A session ends once: the exit code and message a waiter can read never change afterwards,
  whatever else runs (a cancel that races with the exit message, the agent's disconnect).\<close>

theorem session_result_stable:
  assumes "mgr_reach (Some (ps, m))" and "mgr_run (Some (ps, m)) (Some (ps', m'))"
    and "r < length (sess_heap m)" and "Wait r m = Some res"
  shows "Wait r m' = Some res"
  using run_ok [OF assms(2) refl refl session_manager.reach_inv [OF assms(1)]] assms(3,4)
  by (cases res) (simp add: extends_def Wait_def)

theorem session_result_stable_witness:
  "Wait 0 (UnregisterAgentStream ''a'' (Cancel True ''s1'' demo_mgr)) = Some (- 1, ''canceled'')"
proof (rule session_result_stable [OF reach_run [OF mgr_reach_demo run_Cancel [of "[]" demo_mgr True "''s1''"]]
      run_Unregister])
  show "0 < length (sess_heap (Cancel True ''s1'' demo_mgr))"
      "Wait 0 (Cancel True ''s1'' demo_mgr) = Some (- 1, ''canceled'')"
    by (simp_all add: demo_mgr_eq Cancel_def lookup_session_def Let_def Wait_def ended_close demo_session_def
        split: option.splits)
qed



text \<open>C8. With the operations called one after the other, the manager never panics on a message of an
  agent, keeps to its bound, and every session it still knows is open.\<close>

theorem sequential_safe:
  assumes "seq_reach m"
  shows "Route ok msg m \<noteq> None \<and> int (length (sm_sessions m)) \<le> max_sessions m \<and>
    list_all (\<lambda>(sid, r). Wait r m = None) (sm_sessions m)"
proof -
  have ok: "seq_ok m" by (rule seq_reach_ok [OF assms])
  have op: "lookup_session sid m = Some r \<Longrightarrow> ended (sess_at m r) = None" for sid r
    using ok by (simp add: seq_ok_def)
  have "Route ok msg m \<noteq> None"
  proof (cases "pf_chunk msg")
    case (Some sc)
    then obtain sid chunk where sc: "pf_chunk msg = Some (sid, chunk)" by (cases sc) auto
    then show ?thesis
      using op by (auto simp: Route_pf(1) [OF sc] routePf_def after_send_def send_pf_output_def
          split: option.splits send_outcome.splits if_splits)
  next
    case None
    then show ?thesis
      using op by (cases msg) (auto simp: after_send_def send_output_def
          split: option.splits send_outcome.splits if_splits)
  qed
  moreover have "Wait r m = None" if "(sid, r) \<in> set (sm_sessions m)" for sid r
    using that op [of sid r] ok mgr_okD(2) [of m] by (simp add: seq_ok_def lookup_session_def Wait_def)
  ultimately show ?thesis using ok by (auto simp: seq_ok_def list_all_iff)
qed

theorem sequential_safe_witness:
  "Route True (MsgOutput ''s1'' OUTPUT_TYPE_STDOUT [1]) demo_mgr \<noteq> None"
  using sequential_safe [OF seq_reach_demo, of True "MsgOutput ''s1'' OUTPUT_TYPE_STDOUT [1]"] by simp


text \<open>The effect of a cancel on the heap of sessions: only the session it names is touched.\<close>

lemma sess_at_Cancel:
  assumes "mgr_ok m" and "lookup_session sid m = Some r"
  shows "sess_at (Cancel ok sid m) j =
    (if j = r \<and> ended (sess_at m r) = None then (sess_at m r)\<lparr>ended := Some (- 1, ''canceled'')\<rparr> else sess_at m j)"
  using lookup_session_ok [OF assms]
  by (auto simp: Cancel_def assms(2) Let_def close_session_def sess_at_upd split: option.splits)

lemma lookup_Cancel:
  "lookup_session t (Cancel ok sid m) = (if t = sid then None else lookup_session t m)"
  by (auto simp: Cancel_def Let_def lookup_drop split: option.splits)

text \<open>A chunk of output reaches its session in order, behind what is queued; when 64 chunks wait for
  a slow client, the chunk is dropped and that session is cancelled. No other session is touched
  either way, so one slow client does not hold up the agent's receive loop for the others.\<close>

theorem Route_output_delivery:
  assumes "seq_reach m" and "lookup_session sid m = Some r" and "Output (sess_at m r) = Some q"
  obtains m' where "Route ok (MsgOutput sid ty data) m = Some m'"
    and "if length q < 64
      then Output (sess_at m' r) = Some (q @ [\<lparr>chunk_Type = ty, chunk_Data = data\<rparr>]) \<and> Wait r m' = None \<and>
        lookup_session sid m' = Some r
      else Output (sess_at m' r) = Some q \<and> Wait r m' = Some (- 1, ''canceled'') \<and> lookup_session sid m' = None"
    and "j = r \<or> sess_at m' j = sess_at m j"
proof -
  have ok: "seq_ok m" by (rule seq_reach_ok [OF assms(1)])
  then have e: "ended (sess_at m r) = None" and mok: "mgr_ok m"
    using assms(2) by (auto simp: seq_ok_def)
  have r: "r < length (sess_heap m)" "sess_ID (sess_at m r) = sid"
    using lookup_session_ok [OF mok assms(2)] by auto
  show thesis
  proof (cases "length q < 64")
    case True
    then show ?thesis
      using assms(2,3) e r
      by (intro that [of "upd_sess r (Output_update (\<lambda>_. Some (q @ [\<lparr>chunk_Type = ty, chunk_Data = data\<rparr>]))) m"])
        (auto simp: after_send_def send_output_def sessionOutputBuffer_def sess_at_upd Wait_def lookup_session_def)
  next
    case False
    then show ?thesis
      using assms(2,3) e r
      by (intro that [of "Cancel ok sid m"])
        (auto simp: after_send_def send_output_def sessionOutputBuffer_def Wait_def
          sess_at_Cancel [OF mok assms(2)] lookup_Cancel)
  qed
qed

theorem Route_output_delivery_witness:
  "\<exists>m'. Route True (MsgOutput ''s1'' OUTPUT_TYPE_STDOUT [104, 105]) demo_mgr = Some m' \<and>
     Output (sess_at m' 0) = Some [\<lparr>chunk_Type = OUTPUT_TYPE_STDOUT, chunk_Data = [104, 105]\<rparr>]"
proof -
  have "lookup_session ''s1'' demo_mgr = Some 0" "Output (sess_at demo_mgr 0) = Some []"
    by (simp_all add: demo_mgr_eq lookup_session_def demo_session_def)
  from Route_output_delivery [OF seq_reach_demo this, of True OUTPUT_TYPE_STDOUT "[104, 105]"]
  show ?thesis by (metis append_Nil length_0_conv list.size(3) zero_less_numeral)
qed

text \<open>When an agent's stream ends, every session of its connection is forgotten and its waiter is
  released, with code -1 and the message \<open>agent disconnected\<close> unless it had ended before.\<close>

theorem disconnect_ends_sessions:
  assumes "mgr_reach (Some (ps, m))" and "map_of (sm_agents m) a = Some c"
    and "map_of (conn_sessions (conn_at m c)) sid = Some r"
  shows "lookup_session sid (UnregisterAgentStream a m) = None \<and>
    Wait r (UnregisterAgentStream a m) =
      (case Wait r m of None \<Rightarrow> Some (- 1, ''agent disconnected'') | Some res \<Rightarrow> Some res) \<and>
    start_check a (UnregisterAgentStream a m) = Inl ErrNoAgentStream"
proof -
  let ?al = "conn_sessions (conn_at m c)"
  have ok: "mgr_ok m" by (rule mgr_reach_ok [OF assms(1)])
  obtain m' where u: "unregister_locked a m = (map snd ?al, m')" and heap: "sess_heap m' = sess_heap m"
      and maps: "sm_sessions m' = fold AList.delete (map fst ?al) (sm_sessions m)"
      and ag: "sm_agents m' = AList.delete a (sm_agents m)"
    using assms(2) by (simp add: unregister_locked_def)
  have mem: "(sid, r) \<in> set ?al" by (rule map_of_SomeD [OF assms(3)])
  have "\<forall>r \<in> set (map snd ?al). r < length (sess_heap m')"
    using unregister_dead [OF ok, of _ a] u heap by auto
  moreover have "r \<in> set (map snd ?al)" "sid \<in> set (map fst ?al)" using mem by force+
  ultimately show ?thesis
    using u heap maps ag
    by (auto simp: UnregisterAgentStream_def ended_close_all Wait_def lookup_session_def map_of_fold_delete
        start_check_def delete_conv' split: option.splits)
qed

theorem disconnect_ends_sessions_witness:
  "Wait 0 (UnregisterAgentStream ''a'' demo_mgr) = Some (- 1, ''agent disconnected'')"
  using disconnect_ends_sessions [OF mgr_reach_demo, of "''a''" 0 "''s1''" 0]
  by (simp add: demo_mgr_eq Wait_def demo_session_def)

text \<open>The bound can be exceeded: the check and the insertion are under two holds of the lock, so two
  handlers that check one after the other both find room. With a bound of one, two sessions are in
  the map at once.\<close>

theorem max_sessions_exceeded:
  "\<exists>ps m. mgr_reach (Some (ps, m)) \<and> int (length (sm_sessions m)) > max_sessions m"
proof -
  let ?s = demo_session and ?msg = demo_start
  obtain m1 where m1: "begin_start ''a'' (?s ''s1'') (?msg ''s1'') demo_base = ([AtSend 0 0 (?msg ''s1'')], m1)"
      "m1 = snd (new_session (?s ''s1'') demo_base)"
    by (simp add: begin_start_def start_check_def new_session_def demo_base_def RegisterAgentStream_def
        NewSessionManager_def)
  have m1_eq: "m1 = \<lparr>sess_heap = [?s ''s1''], conn_heap = [\<lparr>sent = [], conn_sessions = []\<rparr>],
      sm_agents = [(''a'', 0)], sm_sessions = [], max_sessions = 1\<rparr>"
    by (simp add: m1(2) new_session_def demo_base_def RegisterAgentStream_def NewSessionManager_def)
  obtain m2 where m2: "begin_start ''a'' (?s ''s2'') (?msg ''s2'') m1 = ([AtSend 0 1 (?msg ''s2'')], m2)"
      "m2 = snd (new_session (?s ''s2'') m1)"
    by (simp add: begin_start_def start_check_def new_session_def m1_eq)
  let ?m3 = "sendLocked True 0 (?msg ''s2'') (sendLocked True 0 (?msg ''s1'') m2)"
  let ?m4 = "start_commit 0 1 (start_commit 0 0 ?m3)"
  have "mgr_reach (Some ([AtSend 0 0 (?msg ''s1'')], m1))"
    using go_start [OF demo_fresh _ m1(1), of "[]"] reach_step [OF mgr_reach_base] by (simp add: demo_session_def)
  moreover have "fresh_session m1 (?s ''s2'')"
    by (simp add: m1_eq fresh_session_def demo_session_def)
  ultimately have "mgr_reach (Some ([AtSend 0 0 (?msg ''s1''), AtSend 0 1 (?msg ''s2'')], m2))"
    using go_start [OF _ _ m2(1), of "[AtSend 0 0 (?msg ''s1'')]"] reach_step
    by (fastforce simp: demo_session_def)
  moreover have "mgr_run (Some ([AtSend 0 0 (?msg ''s1''), AtSend 0 1 (?msg ''s2'')], m2))
      (Some ([AtCommit 0 0, AtSend 0 1 (?msg ''s2'')], sendLocked True 0 (?msg ''s1'') m2))"
    using run_resume [of True "AtSend 0 0 (?msg ''s1'')" m2 "[AtCommit 0 0]" _ "[]"] by simp
  moreover have "mgr_run (Some ([AtCommit 0 0, AtSend 0 1 (?msg ''s2'')], sendLocked True 0 (?msg ''s1'') m2))
      (Some ([AtCommit 0 0, AtCommit 0 1], ?m3))"
    using run_resume [of True "AtSend 0 1 (?msg ''s2'')" _ "[AtCommit 0 1]" ?m3 "[AtCommit 0 0]" "[]"] by simp
  moreover have "mgr_run (Some ([AtCommit 0 0, AtCommit 0 1], ?m3)) (Some ([AtCommit 0 1], start_commit 0 0 ?m3))"
    using run_resume [of True "AtCommit 0 0" ?m3 "[]" _ "[]" "[AtCommit 0 1]"] by simp
  moreover have "mgr_run (Some ([AtCommit 0 1], start_commit 0 0 ?m3)) (Some ([], ?m4))"
    using run_resume [of True "AtCommit 0 1" _ "[]" ?m4 "[]" "[]"] by simp
  ultimately have "mgr_reach (Some ([], ?m4))" by (meson reach_run)
  moreover have "int (length (sm_sessions ?m4)) > max_sessions ?m4"
    by (simp add: m2(2) new_session_def m1_eq demo_session_def length_alist_update)
  ultimately show ?thesis by blast
qed

text \<open>The process can panic: a receive loop that has looked a session up sends on its channel after
  the lock is released, and a cancel in between has closed it. The send stands in a \<open>select\<close> with a
  default, which does not save it.\<close>

theorem route_cancel_panic: "mgr_reach None"
proof -
  let ?chunk = "\<lparr>chunk_Type = OUTPUT_TYPE_STDOUT, chunk_Data = []\<rparr>"
  have "begin_route (MsgOutput ''s1'' OUTPUT_TYPE_STDOUT []) demo_mgr = [AtOutput 0 ?chunk]"
    by (simp add: demo_mgr_eq lookup_session_def)
  then have "mgr_reach (Some ([AtOutput 0 ?chunk], demo_mgr))"
    using reach_step [OF mgr_reach_demo go_route [of "[]" demo_mgr "MsgOutput ''s1'' OUTPUT_TYPE_STDOUT []"]] by simp
  then have "mgr_reach (Some ([AtOutput 0 ?chunk], Cancel True ''s1'' demo_mgr))"
    using run_Cancel by (rule reach_run)
  moreover have "resume True (AtOutput 0 ?chunk) (Cancel True ''s1'' demo_mgr) = None"
    using sess_at_Cancel [OF seq_reach_mgr_ok [OF seq_reach_demo], of "''s1''" 0 True 0]
    by (simp add: demo_mgr_eq lookup_session_def demo_session_def resume_send_def send_output_def)
  ultimately show ?thesis
    using reach_step go_panic [of True "AtOutput 0 ?chunk" _ "[]" "[]"] by fastforce
qed

text \<open>An agent that reconnects before its old stream is noticed to be dead loses its new stream: the
  old receive loop, when it ends, unregisters by agent ID and so removes the new connection. The
  sessions of the old connection stay in the session map, open, and go on counting against the bound.\<close>

theorem reconnect_loses_stream:
  "start_check a (UnregisterAgentStream a (RegisterAgentStream a m)) = Inl ErrNoAgentStream \<and>
   sm_sessions (UnregisterAgentStream a (RegisterAgentStream a m)) = sm_sessions m \<and>
   Wait r (UnregisterAgentStream a (RegisterAgentStream a m)) = Wait r m"
  by (simp add: UnregisterAgentStream_def unregister_locked_def RegisterAgentStream_def update_conv'
      start_check_def delete_conv' Wait_def nth_append)

end
