(* ===== verification/Db_Store.thy ===== *)
theory Db_Store
  imports Prelude
begin

text \<open>
  The persistent store of the central server: the entities (\<open>internal/central/entities.go\<close>), the
  schema (\<open>migrations.go\<close>) and the statements of \<open>sqlite_store.go\<close>.

  A table is the list of its rows in the order of insertion. A row is the entity as the scan
  functions read it back: a NULL text is the empty string (\<open>nilIfEmpty\<close>, \<open>derefStr\<close>), a time is cut
  to whole seconds (\<open>timeFormat\<close>); comparing two formatted times is comparing the times for the
  years 0 to 9999. The constraints the schema declares (primary keys, UNIQUE, REFERENCES with their
  ON DELETE) are checks of the insert, update and delete statements. \<open>foreign_keys\<close> is on.

  Every statement can fail (\<open>faults\<close>: for each statement to come, whether it does; past the end of
  the list none fails), and a failed statement changes nothing. The generated identifiers and the
  clock are arguments.
\<close>


section \<open>Entities\<close>

record User =
  u_ID :: string
  u_Email :: string
  u_PasswordHash :: string
  u_Name :: string
  u_IsActive :: bool
  u_IsAdmin :: bool
  u_CreatedAt :: int
  u_UpdatedAt :: int

record Cluster =
  c_ID :: string
  c_Name :: string
  c_Status :: string
  c_AgentID :: string
  c_LastSeenAt :: "int option"
  c_CreatedAt :: int
  c_UpdatedAt :: int

record AgentToken =
  t_ID :: string
  t_ClusterID :: string
  t_TokenHash :: string
  t_TokenPrefix :: string
  t_Description :: string
  t_IsRevoked :: bool
  t_LastUsedAt :: "int option"
  t_ExpiresAt :: "int option"
  t_CreatedAt :: int

record AuditLog =
  log_ID :: string
  log_UserID :: string
  log_UserEmail :: string
  log_ClusterName :: string
  log_ClusterID :: string
  log_Command :: string
  log_Namespace :: string
  log_Status :: string
  log_ExitCode :: "32 word option"
  log_DurationMs :: "int option"
  log_ErrorMessage :: string
  log_ClientIP :: string
  log_CreatedAt :: int

record RefreshToken =
  rt_ID :: string
  rt_UserID :: string
  rt_TokenHash :: string
  rt_ExpiresAt :: int
  rt_CreatedAt :: int

record AuditLogFilter =
  f_UserEmail :: string
  f_ClusterName :: string
  f_Status :: string
  f_From :: "int option"
  f_To :: "int option"
  f_Page :: int
  f_PerPage :: int

record Db =
  users :: "User list"
  clusters :: "Cluster list"
  agent_tokens :: "AgentToken list"
  audit_logs :: "AuditLog list"
  refresh_tokens :: "RefreshToken list"
  faults :: "bool list"

datatype store_error = ErrStatement | ErrConstraint

text \<open>A freshly migrated database.\<close>

definition createSchema :: "bool list \<Rightarrow> Db" where
  "createSchema fs = \<lparr>users = [], clusters = [], agent_tokens = [], audit_logs = [], refresh_tokens = [],
     faults = fs\<rparr>"

text \<open>\<open>timeFormat\<close> and back: whole seconds.\<close>

definition stored_time :: "int \<Rightarrow> int" where
  "stored_time t = t div second * second"

type_synonym 'a stmt = "Db \<Rightarrow> (store_error + 'a) \<times> Db"

definition statement :: "'a stmt \<Rightarrow> 'a stmt" where
  "statement run db = (case faults db of
     [] \<Rightarrow> run db
   | f # fs \<Rightarrow>
       let db' = db\<lparr>faults := fs\<rparr> in if f then (Inl ErrStatement, db') else run db')"

definition new_id :: "string \<Rightarrow> string \<Rightarrow> string" where
  "new_id uuid i = (if i = [] then uuid else i)"


section \<open>Users\<close>

definition CreateUser :: "string \<Rightarrow> int \<Rightarrow> User \<Rightarrow> User stmt" where
  "CreateUser uuid now user = statement (\<lambda>db.
     let u = user\<lparr>u_ID := new_id uuid (u_ID user), u_CreatedAt := stored_time now, u_UpdatedAt := stored_time now\<rparr> in
     if list_ex (\<lambda>r. u_ID r = u_ID u \<or> u_Email r = u_Email u) (users db) then (Inl ErrConstraint, db)
     else (Inr u, db\<lparr>users := users db @ [u]\<rparr>))"

definition GetUserByID :: "string \<Rightarrow> User option stmt" where
  "GetUserByID i = statement (\<lambda>db. (Inr (find (\<lambda>u. u_ID u = i) (users db)), db))"

definition GetUserByEmail :: "string \<Rightarrow> User option stmt" where
  "GetUserByEmail email = statement (\<lambda>db. (Inr (find (\<lambda>u. u_Email u = email) (users db)), db))"

definition ListUsers :: "User list stmt" where
  "ListUsers = statement (\<lambda>db. (Inr (users db), db))"

definition UpdateUser :: "int \<Rightarrow> User \<Rightarrow> User stmt" where
  "UpdateUser now user = statement (\<lambda>db.
     if list_ex (\<lambda>r. u_ID r = u_ID user) (users db) \<and>
        list_ex (\<lambda>r. u_ID r \<noteq> u_ID user \<and> u_Email r = u_Email user) (users db) then (Inl ErrConstraint, db)
     else (Inr (user\<lparr>u_UpdatedAt := stored_time now\<rparr>),
       db\<lparr>users := map (\<lambda>r. if u_ID r = u_ID user
            then r\<lparr>u_Email := u_Email user, u_Name := u_Name user, u_PasswordHash := u_PasswordHash user,
                   u_IsActive := u_IsActive user, u_IsAdmin := u_IsAdmin user, u_UpdatedAt := stored_time now\<rparr>
            else r) (users db)\<rparr>))"

text \<open>Refresh tokens CASCADE, audit entries keep the e-mail and lose the reference (SET NULL).\<close>

definition DeleteUser :: "string \<Rightarrow> unit stmt" where
  "DeleteUser i = statement (\<lambda>db. (Inr (),
     if list_ex (\<lambda>u. u_ID u = i) (users db) then
       db\<lparr>users := filter (\<lambda>u. u_ID u \<noteq> i) (users db),
          refresh_tokens := filter (\<lambda>r. rt_UserID r \<noteq> i) (refresh_tokens db),
          audit_logs := map (\<lambda>l. if log_UserID l = i then l\<lparr>log_UserID := []\<rparr> else l) (audit_logs db)\<rparr>
     else db))"


section \<open>Clusters\<close>

definition CreateCluster :: "string \<Rightarrow> int \<Rightarrow> Cluster \<Rightarrow> Cluster stmt" where
  "CreateCluster uuid now cluster = statement (\<lambda>db.
     let c = cluster\<lparr>c_ID := new_id uuid (c_ID cluster), c_CreatedAt := stored_time now, c_UpdatedAt := stored_time now\<rparr> in
     if list_ex (\<lambda>r. c_ID r = c_ID c \<or> c_Name r = c_Name c) (clusters db) then (Inl ErrConstraint, db)
     else (Inr c, db\<lparr>clusters := clusters db @ [c\<lparr>c_LastSeenAt := map_option stored_time (c_LastSeenAt c)\<rparr>]\<rparr>))"

definition GetClusterByID :: "string \<Rightarrow> Cluster option stmt" where
  "GetClusterByID i = statement (\<lambda>db. (Inr (find (\<lambda>c. c_ID c = i) (clusters db)), db))"

definition GetClusterByName :: "string \<Rightarrow> Cluster option stmt" where
  "GetClusterByName name = statement (\<lambda>db. (Inr (find (\<lambda>c. c_Name c = name) (clusters db)), db))"

definition ListClusters :: "Cluster list stmt" where
  "ListClusters = statement (\<lambda>db. (Inr (clusters db), db))"

definition UpdateCluster :: "int \<Rightarrow> Cluster \<Rightarrow> Cluster stmt" where
  "UpdateCluster now cluster = statement (\<lambda>db.
     if list_ex (\<lambda>r. c_ID r = c_ID cluster) (clusters db) \<and>
        list_ex (\<lambda>r. c_ID r \<noteq> c_ID cluster \<and> c_Name r = c_Name cluster) (clusters db) then (Inl ErrConstraint, db)
     else (Inr (cluster\<lparr>c_UpdatedAt := stored_time now\<rparr>),
       db\<lparr>clusters := map (\<lambda>r. if c_ID r = c_ID cluster
            then r\<lparr>c_Name := c_Name cluster, c_Status := c_Status cluster, c_AgentID := c_AgentID cluster,
                   c_LastSeenAt := map_option stored_time (c_LastSeenAt cluster), c_UpdatedAt := stored_time now\<rparr>
            else r) (clusters db)\<rparr>))"

definition DeleteCluster :: "string \<Rightarrow> unit stmt" where
  "DeleteCluster i = statement (\<lambda>db. (Inr (),
     if list_ex (\<lambda>c. c_ID c = i) (clusters db) then
       db\<lparr>clusters := filter (\<lambda>c. c_ID c \<noteq> i) (clusters db),
          agent_tokens := filter (\<lambda>t. t_ClusterID t \<noteq> i) (agent_tokens db),
          audit_logs := map (\<lambda>l. if log_ClusterID l = i then l\<lparr>log_ClusterID := []\<rparr> else l) (audit_logs db)\<rparr>
     else db))"


section \<open>Agent tokens\<close>

definition CreateAgentToken :: "string \<Rightarrow> int \<Rightarrow> AgentToken \<Rightarrow> AgentToken stmt" where
  "CreateAgentToken uuid now token = statement (\<lambda>db.
     let t = token\<lparr>t_ID := new_id uuid (t_ID token), t_CreatedAt := stored_time now\<rparr> in
     if list_ex (\<lambda>r. t_ID r = t_ID t) (agent_tokens db) \<or>
        \<not> list_ex (\<lambda>c. c_ID c = t_ClusterID t) (clusters db) then (Inl ErrConstraint, db)
     else (Inr t,
       db\<lparr>agent_tokens := agent_tokens db @
            [t\<lparr>t_LastUsedAt := map_option stored_time (t_LastUsedAt t),
               t_ExpiresAt := map_option stored_time (t_ExpiresAt t)\<rparr>]\<rparr>))"

definition GetAgentTokenByHash :: "string \<Rightarrow> AgentToken option stmt" where
  "GetAgentTokenByHash h = statement (\<lambda>db. (Inr (find (\<lambda>t. t_TokenHash t = h) (agent_tokens db)), db))"

definition ListAgentTokensByCluster :: "string \<Rightarrow> AgentToken list stmt" where
  "ListAgentTokensByCluster i = statement (\<lambda>db. (Inr (filter (\<lambda>t. t_ClusterID t = i) (agent_tokens db)), db))"

definition RevokeAgentToken :: "string \<Rightarrow> unit stmt" where
  "RevokeAgentToken i = statement (\<lambda>db. (Inr (),
     db\<lparr>agent_tokens := map (\<lambda>t. if t_ID t = i then t\<lparr>t_IsRevoked := True\<rparr> else t) (agent_tokens db)\<rparr>))"

definition TouchAgentToken :: "string \<Rightarrow> int \<Rightarrow> unit stmt" where
  "TouchAgentToken i usedAt = statement (\<lambda>db. (Inr (),
     db\<lparr>agent_tokens := map (\<lambda>t. if t_ID t = i then t\<lparr>t_LastUsedAt := Some (stored_time usedAt)\<rparr> else t)
          (agent_tokens db)\<rparr>))"


section \<open>Refresh tokens\<close>

definition CreateRefreshToken :: "string \<Rightarrow> int \<Rightarrow> RefreshToken \<Rightarrow> RefreshToken stmt" where
  "CreateRefreshToken uuid now rt = statement (\<lambda>db.
     let r = rt\<lparr>rt_ID := new_id uuid (rt_ID rt), rt_CreatedAt := stored_time now\<rparr> in
     if list_ex (\<lambda>s. rt_ID s = rt_ID r) (refresh_tokens db) \<or>
        \<not> list_ex (\<lambda>u. u_ID u = rt_UserID r) (users db) then (Inl ErrConstraint, db)
     else (Inr r, db\<lparr>refresh_tokens := refresh_tokens db @ [r\<lparr>rt_ExpiresAt := stored_time (rt_ExpiresAt r)\<rparr>]\<rparr>))"

definition GetRefreshTokenByHash :: "string \<Rightarrow> RefreshToken option stmt" where
  "GetRefreshTokenByHash h = statement (\<lambda>db. (Inr (find (\<lambda>r. rt_TokenHash r = h) (refresh_tokens db)), db))"

definition DeleteRefreshToken :: "string \<Rightarrow> unit stmt" where
  "DeleteRefreshToken i = statement (\<lambda>db. (Inr (),
     db\<lparr>refresh_tokens := filter (\<lambda>r. rt_ID r \<noteq> i) (refresh_tokens db)\<rparr>))"

definition DeleteRefreshTokensByUser :: "string \<Rightarrow> unit stmt" where
  "DeleteRefreshTokensByUser i = statement (\<lambda>db. (Inr (),
     db\<lparr>refresh_tokens := filter (\<lambda>r. rt_UserID r \<noteq> i) (refresh_tokens db)\<rparr>))"

definition CleanupExpiredRefreshTokens :: "int \<Rightarrow> unit stmt" where
  "CleanupExpiredRefreshTokens now = statement (\<lambda>db. (Inr (),
     db\<lparr>refresh_tokens := filter (\<lambda>r. \<not> rt_ExpiresAt r < stored_time now) (refresh_tokens db)\<rparr>))"


section \<open>Audit log\<close>

definition CreateAuditLog :: "string \<Rightarrow> int \<Rightarrow> AuditLog \<Rightarrow> AuditLog stmt" where
  "CreateAuditLog uuid now log = statement (\<lambda>db.
     let l = log\<lparr>log_ID := new_id uuid (log_ID log), log_CreatedAt := stored_time now\<rparr> in
     if list_ex (\<lambda>r. log_ID r = log_ID l) (audit_logs db) \<or>
        log_UserID l \<noteq> [] \<and> \<not> list_ex (\<lambda>u. u_ID u = log_UserID l) (users db) \<or>
        log_ClusterID l \<noteq> [] \<and> \<not> list_ex (\<lambda>c. c_ID c = log_ClusterID l) (clusters db)
     then (Inl ErrConstraint, db)
     else (Inr l, db\<lparr>audit_logs := audit_logs db @ [l]\<rparr>))"

text \<open>The WHERE clause \<open>buildAuditFilter\<close> writes: each field that is set is a condition.\<close>

definition buildAuditFilter :: "AuditLogFilter \<Rightarrow> AuditLog \<Rightarrow> bool" where
  "buildAuditFilter f l \<longleftrightarrow>
     (f_UserEmail f \<noteq> [] \<longrightarrow> log_UserEmail l = f_UserEmail f) \<and>
     (f_ClusterName f \<noteq> [] \<longrightarrow> log_ClusterName l = f_ClusterName f) \<and>
     (f_Status f \<noteq> [] \<longrightarrow> log_Status l = f_Status f) \<and>
     (case f_From f of None \<Rightarrow> True | Some t \<Rightarrow> log_CreatedAt l \<ge> stored_time t) \<and>
     (case f_To f of None \<Rightarrow> True | Some t \<Rightarrow> log_CreatedAt l \<le> stored_time t)"

text \<open>
  \<open>ORDER BY created_at DESC\<close> leaves the order of equal times to the engine: the argument \<open>order_by\<close>
  is the engine's choice. Then LIMIT and OFFSET; the offset is a product of 64-bit integers and wraps,
  and a negative OFFSET is none.
\<close>

definition audit_page :: "AuditLogFilter \<Rightarrow> AuditLog list \<Rightarrow> AuditLog list" where
  "audit_page f rows =
     (if f_PerPage f > 0
      then take (nat (f_PerPage f)) (drop (nat (if f_Page f > 1 then int64_wrap ((f_Page f - 1) * f_PerPage f) else 0)) rows)
      else rows)"

definition ListAuditLogs ::
  "(AuditLog list \<Rightarrow> AuditLog list) \<Rightarrow> AuditLogFilter \<Rightarrow> (AuditLog list \<times> nat) stmt" where
  "ListAuditLogs order_by f db =
     (case statement (\<lambda>db. (Inr (length (filter (buildAuditFilter f) (audit_logs db))), db)) db of
        (Inl e, db1) \<Rightarrow> (Inl e, db1)
      | (Inr n, db1) \<Rightarrow>
          (case statement (\<lambda>db. (Inr (audit_page f (order_by (filter (buildAuditFilter f) (audit_logs db)))), db)) db1 of
             (Inl e, db2) \<Rightarrow> (Inl e, db2)
           | (Inr logs, db2) \<Rightarrow> (Inr (logs, n), db2)))"

definition CleanupOldAuditLogs :: "int \<Rightarrow> nat stmt" where
  "CleanupOldAuditLogs before = statement (\<lambda>db.
     (Inr (length (filter (\<lambda>l. log_CreatedAt l < stored_time before) (audit_logs db))),
      db\<lparr>audit_logs := filter (\<lambda>l. \<not> log_CreatedAt l < stored_time before) (audit_logs db)\<rparr>))"


section \<open>The constraints of the schema\<close>

definition db_ok :: "Db \<Rightarrow> bool" where
  "db_ok db \<longleftrightarrow>
     distinct (map u_ID (users db)) \<and> distinct (map u_Email (users db)) \<and>
     distinct (map c_ID (clusters db)) \<and> distinct (map c_Name (clusters db)) \<and>
     distinct (map t_ID (agent_tokens db)) \<and> t_ClusterID ` set (agent_tokens db) \<subseteq> c_ID ` set (clusters db) \<and>
     distinct (map rt_ID (refresh_tokens db)) \<and> rt_UserID ` set (refresh_tokens db) \<subseteq> u_ID ` set (users db) \<and>
     distinct (map log_ID (audit_logs db)) \<and>
     log_UserID ` set (audit_logs db) \<subseteq> insert [] (u_ID ` set (users db)) \<and>
     log_ClusterID ` set (audit_logs db) \<subseteq> insert [] (c_ID ` set (clusters db))"

lemma db_ok_faults [simp]: "db_ok (db\<lparr>faults := fs\<rparr>) = db_ok db"
  by (simp add: db_ok_def)

lemma statement_cases:
  obtains (fault) fs where "statement run db = (Inl ErrStatement, db\<lparr>faults := fs\<rparr>)"
  | (runs) fs where "statement run db = run (db\<lparr>faults := fs\<rparr>)"
proof (cases "faults db")
  case Nil
  then have eq: "db\<lparr>faults := []\<rparr> = db" by (cases db) simp
  have "statement run db = run (db\<lparr>faults := []\<rparr>)" unfolding eq by (simp add: statement_def Nil)
  then show thesis by (rule runs)
next
  case (Cons f fs)
  then show thesis using fault [of fs] runs [of fs] by (cases f) (simp_all add: statement_def Let_def)
qed

lemma statement_ok:
  assumes "db_ok db" and "\<And>db. db_ok db \<Longrightarrow> db_ok (snd (run db))"
  shows "db_ok (snd (statement run db))"
  using assms by (cases rule: statement_cases [of run db]) auto

lemma statement_no_faults [simp]: "faults db = [] \<Longrightarrow> statement run db = run db"
  by (simp add: statement_def)

named_theorems stmt_defs \<open>the statements of the store\<close>

lemmas [stmt_defs] = CreateUser_def GetUserByID_def GetUserByEmail_def ListUsers_def UpdateUser_def
  DeleteUser_def CreateCluster_def GetClusterByID_def GetClusterByName_def ListClusters_def
  UpdateCluster_def DeleteCluster_def CreateAgentToken_def GetAgentTokenByHash_def
  ListAgentTokensByCluster_def RevokeAgentToken_def TouchAgentToken_def CreateRefreshToken_def
  GetRefreshTokenByHash_def DeleteRefreshToken_def DeleteRefreshTokensByUser_def
  CleanupExpiredRefreshTokens_def CreateAuditLog_def CleanupOldAuditLogs_def

lemma map_key_update:
  "(\<And>r. P r \<Longrightarrow> k (f r) = k r) \<Longrightarrow> map k (map (\<lambda>r. if P r then f r else r) rs) = map k rs"
  by (induction rs) auto

lemma key_image_update:
  "(\<And>r. P r \<Longrightarrow> k (f r) = k r) \<Longrightarrow> k ` (\<lambda>r. if P r then f r else r) ` R = k ` R"
proof -
  assume "\<And>r. P r \<Longrightarrow> k (f r) = k r"
  then have eq: "(\<lambda>r. k (if P r then f r else r)) = k" by auto
  show ?thesis unfolding image_image eq by (rule refl)
qed

lemma distinct_key_filter: "distinct (map k rs) \<Longrightarrow> distinct (map k (filter P rs))"
  by (simp add: distinct_map inj_on_def)

text \<open>Changing a second key of the row with one value of the first.\<close>

lemma distinct_update_key:
  assumes "distinct (map k rs)" and "distinct (map e rs)"
    and "\<And>r. r \<in> set rs \<Longrightarrow> k r \<noteq> i \<Longrightarrow> e r \<noteq> x" and "\<And>r. k r = i \<Longrightarrow> e (f r) = x"
  shows "distinct (map e (map (\<lambda>r. if k r = i then f r else r) rs))"
  using assms(1-3)
proof (induction rs)
  case Nil
  then show ?case by simp
next
  case (Cons a rs)
  show ?case
  proof (cases "k a = i")
    case True
    then have no: "\<And>r. r \<in> set rs \<Longrightarrow> k r \<noteq> i" using Cons.prems(1) by (auto simp: image_iff dest: sym)
    then have "map (\<lambda>r. if k r = i then f r else r) rs = rs" by (simp add: map_idI)
    then show ?thesis using True Cons.prems no assms(4) by force
  next
    case False
    have "e a \<notin> set (map e (map (\<lambda>r. if k r = i then f r else r) rs))"
      using Cons.prems(2,3) False assms(4) by force
    then show ?thesis using Cons False by simp
  qed
qed


lemma list_ex_key: "list_ex (\<lambda>r. k r = x) rs \<longleftrightarrow> x \<in> k ` set rs"
  by (auto simp: list_ex_iff)

lemma statement_query:
  "statement (\<lambda>db. (Inr (q db), db)) db =
     (if faults db \<noteq> [] \<and> hd (faults db) then Inl ErrStatement else Inr (q (db\<lparr>faults := tl (faults db)\<rparr>)),
      db\<lparr>faults := tl (faults db)\<rparr>)"
proof (cases "faults db")
  case Nil
  then have eq: "db\<lparr>faults := []\<rparr> = db" by (cases db) simp
  show ?thesis using Nil by (simp add: statement_def eq)
qed (simp add: statement_def Let_def)

lemma CreateUser_ok: "db_ok db \<Longrightarrow> db_ok (snd (CreateUser uuid now u db))"
  unfolding CreateUser_def
  by (erule statement_ok) (auto simp: db_ok_def Let_def list_ex_iff)

lemma UpdateUser_ok: "db_ok db \<Longrightarrow> db_ok (snd (UpdateUser now u db))"
  unfolding UpdateUser_def
proof (erule statement_ok)
  fix db :: Db assume ok: "db_ok db"
  let ?f = "\<lambda>r. r\<lparr>u_Email := u_Email u, u_Name := u_Name u, u_PasswordHash := u_PasswordHash u,
    u_IsActive := u_IsActive u, u_IsAdmin := u_IsAdmin u, u_UpdatedAt := stored_time now\<rparr>"
  let ?us = "map (\<lambda>r. if u_ID r = u_ID u then ?f r else r) (users db)"
  have ids: "map u_ID ?us = map u_ID (users db)" by (rule map_key_update) simp
  then have sids: "u_ID ` set ?us = u_ID ` set (users db)" by (metis list.set_map)
  have "distinct (map u_Email ?us)"
    if "\<not> (list_ex (\<lambda>r. u_ID r = u_ID u) (users db) \<and> list_ex (\<lambda>r. u_ID r \<noteq> u_ID u \<and> u_Email r = u_Email u) (users db))"
  proof (cases "list_ex (\<lambda>r. u_ID r = u_ID u) (users db)")
    case True
    then show ?thesis
      using ok that by (intro distinct_update_key [where x = "u_Email u"]) (auto simp: db_ok_def list_ex_iff)
  next
    case False
    then have "?us = users db" by (auto simp: list_ex_iff intro!: map_idI)
    then show ?thesis using ok by (simp add: db_ok_def)
  qed
  then show "db_ok (snd (if list_ex (\<lambda>r. u_ID r = u_ID u) (users db) \<and>
        list_ex (\<lambda>r. u_ID r \<noteq> u_ID u \<and> u_Email r = u_Email u) (users db) then (Inl ErrConstraint, db)
     else (Inr (u\<lparr>u_UpdatedAt := stored_time now\<rparr>), db\<lparr>users := ?us\<rparr>)))"
    using ok ids sids by (simp add: db_ok_def del: map_map list.set_map)
qed

lemma DeleteUser_ok: "db_ok db \<Longrightarrow> db_ok (snd (DeleteUser i db))"
  unfolding DeleteUser_def
  by (erule statement_ok)
    (auto simp: db_ok_def distinct_key_filter key_image_update comp_def if_distrib [of log_ID] cong: if_cong)


lemma CreateCluster_ok: "db_ok db \<Longrightarrow> db_ok (snd (CreateCluster uuid now c db))"
  unfolding CreateCluster_def
  by (erule statement_ok) (auto simp: db_ok_def Let_def list_ex_iff)

lemma UpdateCluster_ok: "db_ok db \<Longrightarrow> db_ok (snd (UpdateCluster now c db))"
  unfolding UpdateCluster_def
proof (erule statement_ok)
  fix db :: Db assume ok: "db_ok db"
  let ?f = "\<lambda>r. r\<lparr>c_Name := c_Name c, c_Status := c_Status c, c_AgentID := c_AgentID c,
    c_LastSeenAt := map_option stored_time (c_LastSeenAt c), c_UpdatedAt := stored_time now\<rparr>"
  let ?cs = "map (\<lambda>r. if c_ID r = c_ID c then ?f r else r) (clusters db)"
  have ids: "map c_ID ?cs = map c_ID (clusters db)" by (rule map_key_update) simp
  then have sids: "c_ID ` set ?cs = c_ID ` set (clusters db)" by (metis list.set_map)
  have "distinct (map c_Name ?cs)"
    if "\<not> (list_ex (\<lambda>r. c_ID r = c_ID c) (clusters db) \<and> list_ex (\<lambda>r. c_ID r \<noteq> c_ID c \<and> c_Name r = c_Name c) (clusters db))"
  proof (cases "list_ex (\<lambda>r. c_ID r = c_ID c) (clusters db)")
    case True
    then show ?thesis
      using ok that by (intro distinct_update_key [where x = "c_Name c"]) (auto simp: db_ok_def list_ex_iff)
  next
    case False
    then have "?cs = clusters db" by (auto simp: list_ex_iff intro!: map_idI)
    then show ?thesis using ok by (simp add: db_ok_def)
  qed
  then show "db_ok (snd (if list_ex (\<lambda>r. c_ID r = c_ID c) (clusters db) \<and>
        list_ex (\<lambda>r. c_ID r \<noteq> c_ID c \<and> c_Name r = c_Name c) (clusters db) then (Inl ErrConstraint, db)
     else (Inr (c\<lparr>c_UpdatedAt := stored_time now\<rparr>), db\<lparr>clusters := ?cs\<rparr>)))"
    using ok ids sids by (simp add: db_ok_def del: map_map list.set_map)
qed

lemma DeleteCluster_ok: "db_ok db \<Longrightarrow> db_ok (snd (DeleteCluster i db))"
  unfolding DeleteCluster_def
  by (erule statement_ok)
    (auto simp: db_ok_def distinct_key_filter key_image_update comp_def if_distrib [of log_ID] cong: if_cong)

lemma CreateAgentToken_ok: "db_ok db \<Longrightarrow> db_ok (snd (CreateAgentToken uuid now t db))"
  unfolding CreateAgentToken_def
  by (erule statement_ok) (auto simp: db_ok_def Let_def list_ex_key)

lemma update_tokens_ok:
  assumes "db_ok db" and "\<And>t. t_ID (f t) = t_ID t \<and> t_ClusterID (f t) = t_ClusterID t"
  shows "db_ok (db\<lparr>agent_tokens := map f (agent_tokens db)\<rparr>)"
  using assms by (simp add: db_ok_def comp_def image_image)

lemma RevokeAgentToken_ok: "db_ok db \<Longrightarrow> db_ok (snd (RevokeAgentToken i db))"
  unfolding RevokeAgentToken_def by (erule statement_ok) (simp add: update_tokens_ok)

lemma TouchAgentToken_ok: "db_ok db \<Longrightarrow> db_ok (snd (TouchAgentToken i t db))"
  unfolding TouchAgentToken_def by (erule statement_ok) (simp add: update_tokens_ok)

lemma CreateRefreshToken_ok: "db_ok db \<Longrightarrow> db_ok (snd (CreateRefreshToken uuid now r db))"
  unfolding CreateRefreshToken_def
  by (erule statement_ok) (auto simp: db_ok_def Let_def list_ex_key)

lemma filter_refresh_ok: "db_ok db \<Longrightarrow> db_ok (db\<lparr>refresh_tokens := filter P (refresh_tokens db)\<rparr>)"
  by (auto simp: db_ok_def distinct_key_filter)

lemma delete_refresh_ok:
  "db_ok db \<Longrightarrow> db_ok (snd (DeleteRefreshToken i db))"
  "db_ok db \<Longrightarrow> db_ok (snd (DeleteRefreshTokensByUser i db))"
  "db_ok db \<Longrightarrow> db_ok (snd (CleanupExpiredRefreshTokens now db))"
  unfolding DeleteRefreshToken_def DeleteRefreshTokensByUser_def CleanupExpiredRefreshTokens_def
  by (erule statement_ok, simp add: filter_refresh_ok)+

lemma CreateAuditLog_ok: "db_ok db \<Longrightarrow> db_ok (snd (CreateAuditLog uuid now l db))"
  unfolding CreateAuditLog_def
  by (erule statement_ok) (auto simp: db_ok_def Let_def list_ex_key)

lemma CleanupOldAuditLogs_ok: "db_ok db \<Longrightarrow> db_ok (snd (CleanupOldAuditLogs before db))"
  unfolding CleanupOldAuditLogs_def
  by (erule statement_ok) (auto simp: db_ok_def distinct_key_filter)

text \<open>A query changes nothing but consumes its faults.\<close>

lemma query_ok:
  "db_ok db \<Longrightarrow> db_ok (snd (statement (\<lambda>db. (Inr (q db), db)) db))"
  by (erule statement_ok) simp

lemma ListAuditLogs_ok: "db_ok db \<Longrightarrow> db_ok (snd (ListAuditLogs order_by f db))"
  by (simp add: ListAuditLogs_def statement_query)

inductive db_step :: "Db \<Rightarrow> Db \<Rightarrow> bool" where
  "db_step db (snd (CreateUser uuid now u db))"
| "db_step db (snd (UpdateUser now u db))"
| "db_step db (snd (DeleteUser i db))"
| "db_step db (snd (CreateCluster uuid now c db))"
| "db_step db (snd (UpdateCluster now c db))"
| "db_step db (snd (DeleteCluster i db))"
| "db_step db (snd (CreateAgentToken uuid now t db))"
| "db_step db (snd (RevokeAgentToken i db))"
| "db_step db (snd (TouchAgentToken i t' db))"
| "db_step db (snd (CreateRefreshToken uuid now r db))"
| "db_step db (snd (DeleteRefreshToken i db))"
| "db_step db (snd (DeleteRefreshTokensByUser i db))"
| "db_step db (snd (CleanupExpiredRefreshTokens now db))"
| "db_step db (snd (CreateAuditLog uuid now l db))"
| "db_step db (snd (CleanupOldAuditLogs before db))"
| db_query: "db_step db (snd (statement (\<lambda>db. (Inr (), db)) db))"

definition db_init :: "Db \<Rightarrow> bool" where
  "db_init db \<longleftrightarrow> (\<exists>fs. db = createSchema fs)"

interpretation database: invariant_system db_init db_step db_ok
proof unfold_locales
  fix db assume "db_init db"
  then show "db_ok db" by (auto simp: db_init_def createSchema_def db_ok_def)
next
  fix db db' assume "db_ok db" and "db_step db db'"
  from this(2,1) show "db_ok db'"
    by (induction rule: db_step.induct)
      (simp_all add: CreateUser_ok UpdateUser_ok DeleteUser_ok CreateCluster_ok UpdateCluster_ok
        DeleteCluster_ok CreateAgentToken_ok RevokeAgentToken_ok TouchAgentToken_ok CreateRefreshToken_ok
        delete_refresh_ok CreateAuditLog_ok CleanupOldAuditLogs_ok query_ok)
qed

abbreviation db_reach :: "Db \<Rightarrow> bool" where
  "db_reach \<equiv> reach db_init db_step"


section \<open>Properties\<close>

text \<open>C27. In every state the database can reach by its statements, whichever of them fail: identifiers,
  e-mail addresses and cluster names are unique, every agent token belongs to a cluster and every
  refresh token to a user that exist, and an audit entry refers to an existing user and cluster or
  to none.\<close>

theorem database_constraints:
  assumes "db_reach db"
  shows "distinct (map u_ID (users db)) \<and> distinct (map u_Email (users db)) \<and>
    distinct (map c_ID (clusters db)) \<and> distinct (map c_Name (clusters db)) \<and>
    t_ClusterID ` set (agent_tokens db) \<subseteq> c_ID ` set (clusters db) \<and>
    rt_UserID ` set (refresh_tokens db) \<subseteq> u_ID ` set (users db) \<and>
    log_UserID ` set (audit_logs db) \<subseteq> insert [] (u_ID ` set (users db)) \<and>
    log_ClusterID ` set (audit_logs db) \<subseteq> insert [] (c_ID ` set (clusters db))"
  using database.reach_inv [OF assms] by (simp add: db_ok_def)

theorem database_constraints_witness:
  "distinct (map c_Name (clusters (snd (CreateCluster ''1'' 0
     \<lparr>c_ID = [], c_Name = ''c'', c_Status = [], c_AgentID = [], c_LastSeenAt = None, c_CreatedAt = 0, c_UpdatedAt = 0\<rparr>
     (createSchema [False, True])))))"
proof -
  have "db_reach (createSchema [False, True])" by (rule reach_init) (auto simp: db_init_def)
  then have "db_reach (snd (CreateCluster ''1'' 0
      \<lparr>c_ID = [], c_Name = ''c'', c_Status = [], c_AgentID = [], c_LastSeenAt = None, c_CreatedAt = 0, c_UpdatedAt = 0\<rparr>
      (createSchema [False, True])))"
    by (rule reach_step) (rule db_step.intros)
  from database_constraints [OF this] show ?thesis by blast
qed

text \<open>Pages of \<open>n\<close> rows, one after the other.\<close>

lemma take_drop_pages:
  "concat (map (\<lambda>i. take n (drop (i * n) xs)) [0..<k]) = take (k * n) xs"
proof (induction k)
  case 0
  then show ?case by simp
next
  case (Suc k)
  have "take (Suc k * n) xs = take (k * n) xs @ take n (drop (k * n) xs)"
    by (metis add.commute mult_Suc take_add)
  then show ?case using Suc by simp
qed

text \<open>The page \<open>i\<close> of \<open>n\<close> entries, as the handler asks for it.\<close>

definition audit_query ::
  "(AuditLog list \<Rightarrow> AuditLog list) \<Rightarrow> AuditLogFilter \<Rightarrow> nat \<Rightarrow> Db \<Rightarrow> nat \<Rightarrow> store_error + AuditLog list \<times> nat" where
  "audit_query order_by f n db i = fst (ListAuditLogs order_by (f\<lparr>f_Page := int i + 1, f_PerPage := int n\<rparr>) db)"

lemma audit_query_page:
  assumes "faults db = []" and "0 < n" and "int (i * n) < 2 ^ 63"
  shows "audit_query order_by f n db i =
    Inr (take n (drop (i * n) (order_by (filter (buildAuditFilter f) (audit_logs db)))),
      length (filter (buildAuditFilter f) (audit_logs db)))"
proof -
  have same: "buildAuditFilter (f\<lparr>f_Page := i, f_PerPage := j\<rparr>) = buildAuditFilter f" for i j
    by (rule ext) (simp add: buildAuditFilter_def)
  have off: "nat (int64_wrap (int i * int n)) = i * n"
    using assms(3) int64_wrap_id [of "int (i * n)"] by (simp del: of_nat_mult add: of_nat_mult [symmetric])
  show ?thesis
    using assms(1,2) by (cases "i = 0") (auto simp: audit_query_def ListAuditLogs_def audit_page_def same off)
qed

text \<open>Paging through the audit log loses and repeats nothing: with an engine that orders the rows the
  same way for every query, the pages of \<open>n\<close> entries put together are the filtered log in that
  order, cut at \<open>k n\<close> entries after \<open>k\<close> pages, and every page reports the number of all matching
  entries; as long as the offsets are in the range of 64-bit integers.\<close>

theorem audit_pages_partition:
  assumes "faults db = []" and "0 < n" and "int (k * n) < 2 ^ 63"
  shows "concat (map (\<lambda>i. fst (projr (audit_query order_by f n db i))) [0..<k]) =
      take (k * n) (order_by (filter (buildAuditFilter f) (audit_logs db))) \<and>
    map (\<lambda>i. snd (projr (audit_query order_by f n db i))) [0..<k] =
      replicate k (length (filter (buildAuditFilter f) (audit_logs db)))"
proof -
  have "audit_query order_by f n db i =
      Inr (take n (drop (i * n) (order_by (filter (buildAuditFilter f) (audit_logs db)))),
        length (filter (buildAuditFilter f) (audit_logs db)))" if "i \<in> set [0..<k]" for i
  proof (rule audit_query_page [OF assms(1,2)])
    have "i * n \<le> k * n" using that by simp
    then show "int (i * n) < 2 ^ 63" using assms(3) by linarith
  qed
  then have pages: "map (\<lambda>i. fst (projr (audit_query order_by f n db i))) [0..<k] =
        map (\<lambda>i. take n (drop (i * n) (order_by (filter (buildAuditFilter f) (audit_logs db))))) [0..<k]"
      "map (\<lambda>i. snd (projr (audit_query order_by f n db i))) [0..<k] =
        map (\<lambda>_. length (filter (buildAuditFilter f) (audit_logs db))) [0..<k]"
    by (auto intro!: map_cong)
  show ?thesis unfolding pages take_drop_pages by (simp add: map_replicate_const)
qed

definition sample_log :: "string \<Rightarrow> AuditLog" where
  "sample_log i = \<lparr>log_ID = i, log_UserID = [], log_UserEmail = ''u'', log_ClusterName = ''c'', log_ClusterID = [],
     log_Command = ''get pods'', log_Namespace = [], log_Status = ''success'', log_ExitCode = Some 0,
     log_DurationMs = Some 5, log_ErrorMessage = [], log_ClientIP = [], log_CreatedAt = 0\<rparr>"

definition no_filter :: AuditLogFilter where
  "no_filter = \<lparr>f_UserEmail = [], f_ClusterName = [], f_Status = [], f_From = None, f_To = None,
     f_Page = 0, f_PerPage = 0\<rparr>"

theorem audit_pages_partition_witness:
  "concat (map (\<lambda>i. fst (projr (audit_query rev no_filter 2
      ((createSchema [])\<lparr>audit_logs := [sample_log ''1'', sample_log ''2'', sample_log ''3'']\<rparr>) i))) [0..<2]) =
    [sample_log ''3'', sample_log ''2'', sample_log ''1'']"
  using audit_pages_partition [of "(createSchema [])\<lparr>audit_logs := [sample_log ''1'', sample_log ''2'', sample_log ''3'']\<rparr>"
      2 2 rev no_filter]
  by (simp add: createSchema_def buildAuditFilter_def no_filter_def)

end
