(* ===== verification/Agent_Auth.thy ===== *)
theory Agent_Auth
  imports Db_Store
begin

text \<open>
  Authentication of agents by their tokens (\<open>internal/central/agent_auth.go\<close>). The keyed hash of a
  token, HMAC-SHA256 in hexadecimal, is the argument \<open>hmac\<close> (pepper, then token): nothing below
  depends on which function it is.
\<close>

datatype agent_auth_error =
    ErrStore store_error
  | ErrInvalidAgentToken
  | ErrRevokedAgentToken
  | ErrExpiredAgentToken
  | ErrClusterMismatch

definition hashAgentToken :: "(string \<Rightarrow> string \<Rightarrow> string) \<Rightarrow> string \<Rightarrow> string \<Rightarrow> string" where
  "hashAgentToken hmac pepper token = hmac pepper token"

text \<open>The clock is read for the expiry check and for the last use; a failed touch is ignored.\<close>

definition Authenticate ::
  "(string \<Rightarrow> string \<Rightarrow> string) \<Rightarrow> string \<Rightarrow> int \<Rightarrow> int \<Rightarrow> string \<Rightarrow> string \<Rightarrow> Db \<Rightarrow>
     (agent_auth_error + Cluster) \<times> Db" where
  "Authenticate hmac pepper now now2 plaintext requested db =
     (case GetAgentTokenByHash (hashAgentToken hmac pepper plaintext) db of
        (Inl e, db1) \<Rightarrow> (Inl (ErrStore e), db1)
      | (Inr None, db1) \<Rightarrow> (Inl ErrInvalidAgentToken, db1)
      | (Inr (Some token), db1) \<Rightarrow>
          if t_IsRevoked token then (Inl ErrRevokedAgentToken, db1)
          else if (case t_ExpiresAt token of None \<Rightarrow> False | Some t \<Rightarrow> now > t)
            then (Inl ErrExpiredAgentToken, db1)
          else (case GetClusterByID (t_ClusterID token) db1 of
              (Inl e, db2) \<Rightarrow> (Inl (ErrStore e), db2)
            | (Inr None, db2) \<Rightarrow> (Inl ErrInvalidAgentToken, db2)
            | (Inr (Some cluster), db2) \<Rightarrow>
                if requested \<noteq> [] \<and> requested \<noteq> c_Name cluster then (Inl ErrClusterMismatch, db2)
                else (Inr cluster, snd (TouchAgentToken (t_ID token) now2 db2))))"

text \<open>What a token must be for a registration to pass.\<close>

definition token_accepted :: "string \<Rightarrow> int \<Rightarrow> string \<Rightarrow> Cluster \<Rightarrow> Db \<Rightarrow> bool" where
  "token_accepted h now requested cluster db \<longleftrightarrow>
     (\<exists>t. find (\<lambda>t. t_TokenHash t = h) (agent_tokens db) = Some t \<and> \<not> t_IsRevoked t \<and>
        (case t_ExpiresAt t of None \<Rightarrow> True | Some e \<Rightarrow> now \<le> e) \<and>
        find (\<lambda>c. c_ID c = t_ClusterID t) (clusters db) = Some cluster \<and>
        (requested = [] \<or> requested = c_Name cluster))"

lemma GetAgentTokenByHash_eq:
  "GetAgentTokenByHash h db =
     (if faults db \<noteq> [] \<and> hd (faults db) then Inl ErrStatement
      else Inr (find (\<lambda>t. t_TokenHash t = h) (agent_tokens db)), db\<lparr>faults := tl (faults db)\<rparr>)"
  unfolding GetAgentTokenByHash_def by (subst statement_query) simp

lemma GetClusterByID_eq:
  "GetClusterByID i db =
     (if faults db \<noteq> [] \<and> hd (faults db) then Inl ErrStatement
      else Inr (find (\<lambda>c. c_ID c = i) (clusters db)), db\<lparr>faults := tl (faults db)\<rparr>)"
  unfolding GetClusterByID_def by (subst statement_query) simp

lemma Authenticate_accepted:
  "fst (Authenticate hmac pepper now now2 plaintext requested db) = Inr cluster \<Longrightarrow>
     token_accepted (hmac pepper plaintext) now requested cluster db"
  by (auto simp: Authenticate_def token_accepted_def GetAgentTokenByHash_eq GetClusterByID_eq hashAgentToken_def not_less
      split: option.splits if_splits prod.splits)

lemma Authenticate_no_faults:
  assumes "faults db = []" and "token_accepted (hmac pepper plaintext) now requested cluster db"
  shows "fst (Authenticate hmac pepper now now2 plaintext requested db) = Inr cluster"
  using assms
  by (auto simp: Authenticate_def token_accepted_def GetAgentTokenByHash_eq GetClusterByID_eq hashAgentToken_def
      split: option.splits)

text \<open>Authentication writes nothing but the time of the last use.\<close>

lemma TouchAgentToken_frame:
  "snd (TouchAgentToken i t db) = db' \<Longrightarrow>
     users db' = users db \<and> clusters db' = clusters db \<and> audit_logs db' = audit_logs db \<and>
     refresh_tokens db' = refresh_tokens db \<and>
     map (t_LastUsedAt_update (\<lambda>_. None)) (agent_tokens db') = map (t_LastUsedAt_update (\<lambda>_. None)) (agent_tokens db)"
  by (cases rule: statement_cases [of "\<lambda>db. (Inr (), db\<lparr>agent_tokens := map (\<lambda>r. if t_ID r = i
        then r\<lparr>t_LastUsedAt := Some (stored_time t)\<rparr> else r) (agent_tokens db)\<rparr>)" db])
    (auto simp: TouchAgentToken_def)

lemma Authenticate_frame:
  assumes "snd (Authenticate hmac pepper now now2 plaintext requested db) = db'"
  shows "users db' = users db \<and> clusters db' = clusters db \<and> audit_logs db' = audit_logs db \<and>
    refresh_tokens db' = refresh_tokens db \<and>
    map (t_LastUsedAt_update (\<lambda>_. None)) (agent_tokens db') = map (t_LastUsedAt_update (\<lambda>_. None)) (agent_tokens db)"
  using assms TouchAgentToken_frame [OF refl]
  by (auto simp: Authenticate_def GetAgentTokenByHash_eq GetClusterByID_eq split: option.splits if_splits)


section \<open>Revocation is for ever\<close>

text \<open>What a statement that deletes no cluster does to the table of tokens: it maps the rows, keeping
  identifier and hash, and never takes a revocation back; then it may append. (No handler of the
  server deletes a cluster.)\<close>

definition tokens_kept :: "AgentToken list \<Rightarrow> AgentToken list \<Rightarrow> bool" where
  "tokens_kept ts ts' \<longleftrightarrow> (\<exists>f new. ts' = map f ts @ new \<and>
     (\<forall>t. t_TokenHash (f t) = t_TokenHash t \<and> (t_IsRevoked t \<longrightarrow> t_IsRevoked (f t))))"

lemma tokens_kept_map:
  "(\<And>t. t_TokenHash (f t) = t_TokenHash t \<and> (t_IsRevoked t \<longrightarrow> t_IsRevoked (f t))) \<Longrightarrow> tokens_kept ts (map f ts)"
  unfolding tokens_kept_def by (rule exI [of _ f]) simp

lemma tokens_kept_append: "tokens_kept ts (ts @ new)"
  unfolding tokens_kept_def by (rule exI [of _ id]) simp

lemma tokens_kept_refl [simp]: "tokens_kept ts ts"
  using tokens_kept_append [of ts "[]"] by simp

lemma tokens_kept_trans:
  assumes "tokens_kept ts us" and "tokens_kept us vs"
  shows "tokens_kept ts vs"
proof -
  obtain f new where us: "us = map f ts @ new"
      "\<And>t. t_TokenHash (f t) = t_TokenHash t \<and> (t_IsRevoked t \<longrightarrow> t_IsRevoked (f t))"
    using assms(1) by (auto simp: tokens_kept_def)
  obtain g more where vs: "vs = map g us @ more"
      "\<And>t. t_TokenHash (g t) = t_TokenHash t \<and> (t_IsRevoked t \<longrightarrow> t_IsRevoked (g t))"
    using assms(2) by (auto simp: tokens_kept_def)
  have "vs = map (g \<circ> f) ts @ map g new @ more" by (simp add: vs(1) us(1))
  then show ?thesis
    unfolding tokens_kept_def using us(2) vs(2) by (intro exI [of _ "g \<circ> f"]) auto
qed

definition keeping_step :: "Db \<Rightarrow> Db \<Rightarrow> bool" where
  "keeping_step db db' \<longleftrightarrow> db_step db db' \<and> c_ID ` set (clusters db) \<subseteq> c_ID ` set (clusters db')"

lemma statement_tokens:
  assumes "\<And>db. tokens_kept (agent_tokens db) (agent_tokens (snd (run db)))"
  shows "tokens_kept (agent_tokens db) (agent_tokens (snd (statement run db)))"
proof (cases rule: statement_cases [of run db])
  case (runs fs)
  then show ?thesis using assms [of "db\<lparr>faults := fs\<rparr>"] by simp
qed simp

lemma DeleteCluster_tokens:
  assumes "c_ID ` set (clusters db) \<subseteq> c_ID ` set (clusters (snd (DeleteCluster i db)))"
  shows "agent_tokens (snd (DeleteCluster i db)) = agent_tokens db"
proof (cases rule: statement_cases [of "\<lambda>db. (Inr (), if list_ex (\<lambda>c. c_ID c = i) (clusters db) then
       db\<lparr>clusters := filter (\<lambda>c. c_ID c \<noteq> i) (clusters db),
          agent_tokens := filter (\<lambda>t. t_ClusterID t \<noteq> i) (agent_tokens db),
          audit_logs := map (\<lambda>l. if log_ClusterID l = i then l\<lparr>log_ClusterID := []\<rparr> else l) (audit_logs db)\<rparr>
     else db)" db])
  case (fault fs)
  then show ?thesis by (simp add: DeleteCluster_def)
next
  case (runs fs)
  have "\<not> list_ex (\<lambda>c. c_ID c = i) (clusters db)"
  proof
    assume l: "list_ex (\<lambda>c. c_ID c = i) (clusters db)"
    then have "i \<notin> c_ID ` set (clusters (snd (DeleteCluster i db)))"
      using runs by (auto simp: DeleteCluster_def)
    then show False using l assms by (auto simp: list_ex_key)
  qed
  then show ?thesis using runs by (simp add: DeleteCluster_def)
qed

lemma keeping_step_tokens:
  assumes "keeping_step db db'"
  shows "tokens_kept (agent_tokens db) (agent_tokens db')"
proof -
  have "db_step db db'" "c_ID ` set (clusters db) \<subseteq> c_ID ` set (clusters db')"
    using assms by (auto simp: keeping_step_def)
  then show ?thesis
    by (induction rule: db_step.induct)
      (auto simp: DeleteCluster_tokens, auto simp: stmt_defs Let_def intro!: statement_tokens tokens_kept_map tokens_kept_append)
qed

lemma keeping_steps_tokens: "keeping_step\<^sup>*\<^sup>* db db' \<Longrightarrow> tokens_kept (agent_tokens db) (agent_tokens db')"
  by (induction rule: rtranclp_induct) (auto intro: tokens_kept_trans keeping_step_tokens)

lemma find_map_append:
  "find P ts = Some t \<Longrightarrow> (\<And>t. P (f t) = P t) \<Longrightarrow> find P (map f ts @ new) = Some (f t)"
  by (induction ts) (auto split: if_splits)

lemma find_revoked:
  assumes "tokens_kept ts us" and "find (\<lambda>t. t_TokenHash t = h) ts = Some t" and "t_IsRevoked t"
  shows "\<exists>u. find (\<lambda>t. t_TokenHash t = h) us = Some u \<and> t_IsRevoked u"
proof -
  obtain f new where f: "us = map f ts @ new"
      "\<And>t. t_TokenHash (f t) = t_TokenHash t \<and> (t_IsRevoked t \<longrightarrow> t_IsRevoked (f t))"
    using assms(1) by (auto simp: tokens_kept_def)
  then have "find (\<lambda>t. t_TokenHash t = h) us = Some (f t)"
    using find_map_append [OF assms(2), of f new] by simp
  then show ?thesis using f(2) assms(3) by blast
qed


section \<open>Properties\<close>

text \<open>C10. A registration is let through only with a token that is stored under the hash of what the agent
  presents, not revoked, not expired at that moment, and bound to the cluster that is returned, which
  is the requested one when one is requested; whichever statements fail. Without failures every such
  token is let through. Whatever the outcome, nothing is written but a token's time of last use.\<close>

theorem Authenticate_exact:
  "(fst (Authenticate hmac pepper now now2 plaintext requested db) = Inr cluster \<longrightarrow>
      token_accepted (hmac pepper plaintext) now requested cluster db) \<and>
   (faults db = [] \<and> token_accepted (hmac pepper plaintext) now requested cluster db \<longrightarrow>
      fst (Authenticate hmac pepper now now2 plaintext requested db) = Inr cluster) \<and>
   clusters (snd (Authenticate hmac pepper now now2 plaintext requested db)) = clusters db \<and>
   map (t_LastUsedAt_update (\<lambda>_. None)) (agent_tokens (snd (Authenticate hmac pepper now now2 plaintext requested db))) =
     map (t_LastUsedAt_update (\<lambda>_. None)) (agent_tokens db)"
proof (intro conjI impI)
  note frame = Authenticate_frame [of hmac pepper now now2 plaintext requested db, OF refl]
  show "clusters (snd (Authenticate hmac pepper now now2 plaintext requested db)) = clusters db"
    using frame by blast
  show "map (t_LastUsedAt_update (\<lambda>_. None)) (agent_tokens (snd (Authenticate hmac pepper now now2 plaintext requested db))) =
     map (t_LastUsedAt_update (\<lambda>_. None)) (agent_tokens db)"
    using frame by blast
qed (elim conjE | rule Authenticate_accepted Authenticate_no_faults, assumption+)+

definition demo_db :: "bool \<Rightarrow> Db" where
  "demo_db revoked = (createSchema [])\<lparr>
     clusters := [\<lparr>c_ID = ''1'', c_Name = ''prod'', c_Status = ''pending'', c_AgentID = [], c_LastSeenAt = None,
        c_CreatedAt = 0, c_UpdatedAt = 0\<rparr>],
     agent_tokens := [\<lparr>t_ID = ''t'', t_ClusterID = ''1'', t_TokenHash = ''pepper:kbat'', t_TokenPrefix = ''kbat'',
        t_Description = [], t_IsRevoked = revoked, t_LastUsedAt = None, t_ExpiresAt = Some 100, t_CreatedAt = 0\<rparr>]\<rparr>"

theorem Authenticate_exact_witness:
  "\<exists>c. fst (Authenticate (\<lambda>p t. p @ '':'' @ t) ''pepper'' 50 51 ''kbat'' ''prod'' (demo_db False)) = Inr c \<and>
     c_Name c = ''prod''"
  using Authenticate_exact [of "\<lambda>p t. p @ '':'' @ t" "''pepper''" 50 51 "''kbat''" "''prod''" "demo_db False"
      "hd (clusters (demo_db False))"]
  by (simp add: token_accepted_def demo_db_def createSchema_def)

text \<open>Revocation is for ever: once the token an agent presents is revoked, no run of the statements of
  the store that deletes no cluster makes a registration with it succeed again.\<close>

theorem revocation_permanent:
  assumes "find (\<lambda>t. t_TokenHash t = hmac pepper plaintext) (agent_tokens db) = Some t" and "t_IsRevoked t"
    and "keeping_step\<^sup>*\<^sup>* db db'"
  shows "fst (Authenticate hmac pepper now now2 plaintext requested db') \<noteq> Inr cluster"
  using find_revoked [OF keeping_steps_tokens [OF assms(3)] assms(1,2)]
    Authenticate_accepted [of hmac pepper now now2 plaintext requested db' cluster]
  by (auto simp: token_accepted_def)

theorem revocation_permanent_witness:
  "fst (Authenticate (\<lambda>p t. p @ '':'' @ t) ''pepper'' 50 51 ''kbat'' ''prod'' (demo_db True)) \<noteq>
     Inr (hd (clusters (demo_db True)))"
  by (rule revocation_permanent [of _ _ _ "demo_db True" "hd (agent_tokens (demo_db True))"]) (simp_all add: demo_db_def)

end
