(* ===== verification/Grpc.thy ===== *)
theory Grpc
  imports Command_Queue Agent_Store Session_Props Agent_Auth
begin

text \<open>
  The gRPC service the agents call (\<open>internal/central/grpc.go\<close>): registration, heartbeats, the poll
  for commands, the submission of results and the persistent stream. The state is the four
  components the server shares with the HTTP side. \<open>clk i\<close> is the \<open>i\<close>-th reading of the clock in a
  call, \<open>rand\<close> what \<open>rand.Read\<close> gives.
\<close>

record GRPCServer =
  g_agents :: AgentStore
  g_queue :: CommandQueue
  g_sessions :: SessionManager
  g_db :: Db

datatype grpc_error = InvalidArgument string | NotFound string | Internal string

definition generateAgentID :: "bytes option \<Rightarrow> string option" where
  "generateAgentID rand = map_option (\<lambda>bs. ''agent-'' @ hex_encode bs) rand"

fun convertAgentStatus :: "AgentStatus \<Rightarrow> string" where
  "convertAgentStatus AGENT_STATUS_HEALTHY = AgentStatusConnected"
| "convertAgentStatus AGENT_STATUS_DEGRADED = AgentStatusConnected"
| "convertAgentStatus AGENT_STATUS_UNKNOWN = AgentStatusConnected"

fun registrationErrorMessage :: "agent_auth_error \<Rightarrow> string" where
  "registrationErrorMessage ErrRevokedAgentToken = ''agent token revoked''"
| "registrationErrorMessage ErrExpiredAgentToken = ''agent token expired''"
| "registrationErrorMessage ErrClusterMismatch = ''token not valid for requested cluster''"
| "registrationErrorMessage ErrInvalidAgentToken = ''invalid agent token''"
| "registrationErrorMessage (ErrStore _) = ''invalid agent token''"

text \<open>A failure to persist the cluster's state is only logged.\<close>

definition markClusterConnected :: "int \<Rightarrow> int \<Rightarrow> Cluster \<Rightarrow> string \<Rightarrow> Db \<Rightarrow> Db" where
  "markClusterConnected now now2 cluster agentID db =
     snd (UpdateCluster now2
       (cluster\<lparr>c_Status := AgentStatusConnected, c_AgentID := agentID, c_LastSeenAt := Some now\<rparr>) db)"

definition rejected :: "string \<Rightarrow> RegisterResponse" where
  "rejected msg = \<lparr>rr_Success = False, rr_AgentId = [], rr_ErrorMessage = msg\<rparr>"

definition Register ::
  "(string \<Rightarrow> string \<Rightarrow> string) \<Rightarrow> string \<Rightarrow> (nat \<Rightarrow> int) \<Rightarrow> bytes option \<Rightarrow> RegisterRequest \<Rightarrow> GRPCServer \<Rightarrow>
     (grpc_error + RegisterResponse) \<times> GRPCServer" where
  "Register hmac pepper clk rand req g =
     (if rr_ClusterName req = [] then (Inr (rejected ''cluster_name is required''), g)
      else (case Authenticate hmac pepper (clk 0) (clk 1) (rr_AgentToken req) (rr_ClusterName req) (g_db g) of
          (Inl e, db1) \<Rightarrow> (Inr (rejected (registrationErrorMessage e)), g\<lparr>g_db := db1\<rparr>)
        | (Inr cluster, db1) \<Rightarrow>
            (case generateAgentID rand of
               None \<Rightarrow> (Inl (Internal ''failed to generate agent ID''), g\<lparr>g_db := db1\<rparr>)
             | Some agentID \<Rightarrow>
                 (Inr \<lparr>rr_Success = True, rr_AgentId = agentID, rr_ErrorMessage = []\<rparr>,
                  g\<lparr>g_db := markClusterConnected (clk 2) (clk 3) cluster agentID db1,
                    g_agents := store_Register (clk 4) (clk 5)
                      \<lparr>ID = agentID, info_ClusterName = c_Name cluster, Token = rr_AgentToken req,
                       info_Status = [], RegisteredAt = 0, LastSeen = 0\<rparr> (g_agents g)\<rparr>))))"

text \<open>The response of a heartbeat carries the next interval, 30 seconds.\<close>

definition Heartbeat :: "int \<Rightarrow> string \<Rightarrow> AgentStatus \<Rightarrow> GRPCServer \<Rightarrow> (grpc_error + nat) \<times> GRPCServer" where
  "Heartbeat now agentID status g =
     (if agentID = [] then (Inl (InvalidArgument ''agent_id is required''), g)
      else (case UpdateHeartbeat now agentID (convertAgentStatus status) (g_agents g) of
          (False, _) \<Rightarrow> (Inl (NotFound ''agent not registered''), g)
        | (True, s') \<Rightarrow> (Inr 30, g\<lparr>g_agents := s'\<rparr>)))"

definition to_request :: "PendingCommand \<Rightarrow> CommandRequest" where
  "to_request cmd = \<lparr>cr_RequestId = RequestID cmd, cr_AgentId = PendingCommand.AgentID cmd, cr_Command = Command cmd,
     cr_Namespace = cmd_Namespace cmd, cr_TimeoutSeconds = TimeoutSeconds cmd, cr_Stdin = PendingCommand.Stdin cmd\<rparr>"

definition mark_all :: "PendingCommand list \<Rightarrow> CommandQueue \<Rightarrow> CommandQueue" where
  "mark_all cs q = fold (\<lambda>c q. snd (MarkRunning (RequestID c) q)) cs q"

definition GetPendingCommands ::
  "string list \<Rightarrow> string \<Rightarrow> GRPCServer \<Rightarrow> (grpc_error + CommandRequest list) \<times> GRPCServer" where
  "GetPendingCommands order agentID g =
     (if agentID = [] then (Inl (InvalidArgument ''agent_id is required''), g)
      else (case store_Get (g_agents g) agentID of
          None \<Rightarrow> (Inl (NotFound ''agent not registered''), g)
        | Some _ \<Rightarrow>
            let pending = GetPendingForAgent order agentID (g_queue g) in
            (Inr (map to_request pending), g\<lparr>g_queue := mark_all pending (g_queue g)\<rparr>)))"

definition SubmitCommandResult ::
  "SubmitCommandResultRequest \<Rightarrow> GRPCServer \<Rightarrow> (grpc_error + bool) \<times> GRPCServer" where
  "SubmitCommandResult req g =
     (let requestID = sr_RequestId req in
      if requestID = [] then (Inl (InvalidArgument ''request_id is required''), g)
      else if sr_ErrorMessage req \<noteq> [] then
        (Inr True, g\<lparr>g_queue := snd (Fail requestID (sr_ErrorMessage req) (g_queue g))\<rparr>)
      else
        (Inr True, g\<lparr>g_queue := snd (Complete requestID
           \<lparr>result_RequestID = requestID, Stdout = sr_Stdout req, Stderr = sr_Stderr req, ExitCode = sr_ExitCode req,
            ErrorMessage = sr_ErrorMessage req, result_Completed = False\<rparr> (g_queue g))\<rparr>))"

text \<open>
  The stream of one agent: \<open>first\<close> is the first message (\<open>None\<close>: the receive failed), \<open>msgs\<close> the
  later ones until the receive fails, each with whether a cancel it causes can be sent. The deferred
  call unregisters the agent. \<open>None\<close> is the panic of \<open>Route\<close>.
\<close>

fun recv_loop :: "(bool \<times> AgentStreamMessage) list \<Rightarrow> SessionManager \<Rightarrow> SessionManager option" where
  "recv_loop [] m = Some m"
| "recv_loop ((ok, msg) # msgs) m = (case Route ok msg m of None \<Rightarrow> None | Some m' \<Rightarrow> recv_loop msgs m')"

datatype stream_outcome = StreamRefused grpc_error | StreamRecvError | StreamEnded

definition OpenStream ::
  "AgentStreamMessage option \<Rightarrow> (bool \<times> AgentStreamMessage) list \<Rightarrow> GRPCServer \<Rightarrow> (stream_outcome \<times> GRPCServer) option" where
  "OpenStream first msgs g = (case first of
     None \<Rightarrow> Some (StreamRecvError, g)
   | Some msg \<Rightarrow>
       (case msg of
          MsgRegister agentID \<Rightarrow>
            if agentID = [] then
              Some (StreamRefused (InvalidArgument ''first message must be StreamRegister''), g)
            else if store_Get (g_agents g) agentID = None then
              Some (StreamRefused (NotFound ''agent not registered''), g)
            else (case recv_loop msgs (RegisterAgentStream agentID (g_sessions g)) of
                None \<Rightarrow> None
              | Some m \<Rightarrow> Some (StreamEnded, g\<lparr>g_sessions := UnregisterAgentStream agentID m\<rparr>))
        | _ \<Rightarrow> Some (StreamRefused (InvalidArgument ''first message must be StreamRegister''), g)))"


section \<open>Lemmas\<close>

lemma queue_ok_mark_all: "queue_ok q \<Longrightarrow> queue_ok (mark_all cs q)"
  unfolding mark_all_def by (induction cs arbitrary: q) (auto intro: queue_ok_MarkRunning)

lemma cmd_lookup_mark_all:
  "queue_ok q \<Longrightarrow> cmd_lookup (mark_all cs q) j =
     (if j \<in> RequestID ` set cs then map_option (Status_update (\<lambda>_. Running)) (cmd_lookup q j) else cmd_lookup q j)"
proof (induction cs arbitrary: q)
  case Nil
  then show ?case by (simp add: mark_all_def)
next
  case (Cons c cs)
  have "queue_ok (snd (MarkRunning (RequestID c) q))" by (rule queue_ok_MarkRunning [OF Cons.prems])
  then have "cmd_lookup (mark_all (c # cs) q) j =
      (if j \<in> RequestID ` set cs
       then map_option (Status_update (\<lambda>_. Running)) (cmd_lookup (snd (MarkRunning (RequestID c) q)) j)
       else cmd_lookup (snd (MarkRunning (RequestID c) q)) j)"
    using Cons.IH by (simp add: mark_all_def)
  then show ?case
    by (auto simp: cmd_lookup_MarkRunning [OF Cons.prems] option.map_comp comp_def)
qed

lemma pending_after_mark:
  assumes "queue_ok q" and "set order = dom (commands q)"
  shows "GetPendingForAgent order2 a (mark_all (GetPendingForAgent order a q) q) = []"
proof -
  let ?q = "mark_all (GetPendingForAgent order a q) q"
  have "c \<notin> set (GetPendingForAgent order2 a ?q)" for c
  proof
    assume "c \<in> set (GetPendingForAgent order2 a ?q)"
    then obtain rid where c: "cmd_lookup ?q rid = Some c" "PendingCommand.AgentID c = a" "Status c = Pending"
      by (auto simp: set_GetPendingForAgent)
    show False
    proof (cases "rid \<in> RequestID ` set (GetPendingForAgent order a q)")
      case True
      then show ?thesis using c by (auto simp: cmd_lookup_mark_all [OF assms(1)])
    next
      case False
      then have l: "cmd_lookup q rid = Some c" using c by (simp add: cmd_lookup_mark_all [OF assms(1)])
      then have "rid \<in> set order" using assms(2) dom_cmd_lookup [of q] by auto
      then have "c \<in> set (GetPendingForAgent order a q)" using l c by (auto simp: set_GetPendingForAgent)
      then show ?thesis using False cmd_lookup_RequestID [OF assms(1) l] by auto
    qed
  qed
  then show ?thesis by (metis list.set_intros(1) neq_Nil_conv)
qed


section \<open>Properties\<close>

text \<open>C17. A registration that reports success has put exactly one agent into the registry, connected, under
  the identifier it returns and for the cluster its token is bound to, which is the cluster it asked
  for; a registration that does not succeed leaves the registry as it was.\<close>

theorem Register_binds_cluster:
  assumes "Register hmac pepper clk rand req g = (res, g')"
  shows "(case res of
      Inr resp \<Rightarrow> if rr_Success resp
        then (\<exists>cluster. token_accepted (hmac pepper (rr_AgentToken req)) (clk 0) (rr_ClusterName req) cluster (g_db g) \<and>
          c_Name cluster = rr_ClusterName req \<and>
          store_Get (g_agents g') (rr_AgentId resp) =
            Some \<lparr>ID = rr_AgentId resp, info_ClusterName = rr_ClusterName req, Token = rr_AgentToken req,
                  info_Status = AgentStatusConnected, RegisteredAt = clk 4, LastSeen = clk 5\<rparr> \<and>
          (\<nexists>i. i \<noteq> rr_AgentId resp \<and> store_Get (g_agents g') i \<noteq> store_Get (g_agents g) i))
        else g_agents g' = g_agents g
    | Inl _ \<Rightarrow> g_agents g' = g_agents g)"
proof (cases "Authenticate hmac pepper (clk 0) (clk 1) (rr_AgentToken req) (rr_ClusterName req) (g_db g)")
  case (Pair r db1)
  show ?thesis
  proof (cases r)
    case (Inl e)
    then show ?thesis using assms Pair by (auto simp: Register_def rejected_def simp del: One_nat_def split: if_splits)
  next
    case (Inr cluster)
    then have acc: "token_accepted (hmac pepper (rr_AgentToken req)) (clk 0) (rr_ClusterName req) cluster (g_db g)"
      using Authenticate_accepted [of hmac pepper "clk 0" "clk 1" "rr_AgentToken req" "rr_ClusterName req" "g_db g" cluster]
        Pair by (simp del: One_nat_def)
    show ?thesis
    proof (cases "rr_ClusterName req = []")
      case True
      then show ?thesis using assms by (auto simp: Register_def rejected_def)
    next
      case False
      then have "c_Name cluster = rr_ClusterName req" using acc by (auto simp: token_accepted_def)
      then show ?thesis
        using assms Pair Inr acc False
        by (auto simp: Register_def store_Get_Register simp del: One_nat_def split: option.splits)
    qed
  qed
qed

definition demo_grpc :: GRPCServer where
  "demo_grpc = \<lparr>g_agents = NewAgentStore, g_queue = NewCommandQueue, g_sessions = NewSessionManager 50,
     g_db = demo_db False\<rparr>"

theorem Register_binds_cluster_witness:
  "\<exists>a. store_Get (g_agents (snd (Register (\<lambda>p t. p @ '':'' @ t) ''pepper'' (\<lambda>_. 50) (Some [255])
      \<lparr>rr_AgentToken = ''kbat'', rr_ClusterName = ''prod''\<rparr> demo_grpc))) ''agent-ff'' = Some a \<and>
     info_ClusterName a = ''prod''"
proof -
  let ?req = "\<lparr>rr_AgentToken = ''kbat'', rr_ClusterName = ''prod''\<rparr>"
  obtain res g' where r: "Register (\<lambda>p t. p @ '':'' @ t) ''pepper'' (\<lambda>_. 50) (Some [255]) ?req demo_grpc = (res, g')"
    by (cases "Register (\<lambda>p t. p @ '':'' @ t) ''pepper'' (\<lambda>_. 50) (Some [255]) ?req demo_grpc")
  moreover have "res = Inr \<lparr>rr_Success = True, rr_AgentId = ''agent-ff'', rr_ErrorMessage = []\<rparr>"
    using r Authenticate_no_faults [of "demo_db False" "\<lambda>p t. p @ '':'' @ t" "''pepper''" "''kbat''" 50 "''prod''"
        "hd (clusters (demo_db False))" 50]
    by (auto simp: Register_def demo_grpc_def token_accepted_def generateAgentID_def hex_digit_def demo_db_def
        createSchema_def split: prod.splits sum.splits)
  ultimately show ?thesis using Register_binds_cluster [OF r] by auto
qed


definition demo_info :: AgentInfo where
  "demo_info = \<lparr>ID = ''agent-a'', info_ClusterName = ''c'', Token = ''t'', info_Status = AgentStatusConnected,
     RegisteredAt = 0, LastSeen = 0\<rparr>"


text \<open>A result an agent submits for a command whose waiter has none yet is the result the waiter
  receives: output, errors and exit code as submitted, or, when the agent reports an error, exit code
  -1 and the message alone.\<close>

theorem submit_reaches_waiter:
  assumes "queue_reach (g_queue g)" and "Get (sr_RequestId req) (g_queue g) = Some r"
    and "resultCh (cmd_at (g_queue g) r) = None" and "sr_RequestId req \<noteq> []"
  shows "fst (WaitForResult ctx_done True (sr_RequestId req) (g_queue (snd (SubmitCommandResult req g)))) =
    WaitResult (if sr_ErrorMessage req \<noteq> []
      then \<lparr>result_RequestID = sr_RequestId req, Stdout = [], Stderr = [], ExitCode = - 1,
            ErrorMessage = sr_ErrorMessage req, result_Completed = True\<rparr>
      else \<lparr>result_RequestID = sr_RequestId req, Stdout = sr_Stdout req, Stderr = sr_Stderr req,
            ExitCode = sr_ExitCode req, ErrorMessage = [], result_Completed = True\<rparr>)"
proof -
  let ?rid = "sr_RequestId req"
  have ok: "queue_ok (g_queue g)" by (rule command_queue.reach_inv [OF assms(1)])
  have f: "\<exists>q'. Fail ?rid msg (g_queue g) = (True, q') \<and> Get ?rid q' = Some r \<and>
      resultCh (cmd_at q' r) = Some (fail_result ?rid msg)" for msg
    using Fail_channel [OF ok assms(2,3)] by metis
  have c: "\<exists>q'. Complete ?rid res (g_queue g) = (True, q') \<and> Get ?rid q' = Some r \<and>
      resultCh (cmd_at q' r) = Some (res\<lparr>result_Completed := True\<rparr>)" for res
    using Complete_channel [OF ok assms(2,3)] by metis
  show ?thesis
  proof (cases "sr_ErrorMessage req = []")
    case True
    let ?res = "\<lparr>result_RequestID = ?rid, Stdout = sr_Stdout req, Stderr = sr_Stderr req,
      ExitCode = sr_ExitCode req, ErrorMessage = [], result_Completed = False\<rparr>"
    obtain q' where "Complete ?rid ?res (g_queue g) = (True, q')" "Get ?rid q' = Some r"
        "resultCh (cmd_at q' r) = Some (?res\<lparr>result_Completed := True\<rparr>)" using c by blast
    then show ?thesis
      using True assms(4) by (simp add: SubmitCommandResult_def Let_def WaitForResult_def wait_select_def)
  next
    case False
    obtain q' where "Fail ?rid (sr_ErrorMessage req) (g_queue g) = (True, q')" "Get ?rid q' = Some r"
        "resultCh (cmd_at q' r) = Some (fail_result ?rid (sr_ErrorMessage req))" using f by blast
    then show ?thesis
      using False assms(4)
      by (simp add: SubmitCommandResult_def Let_def WaitForResult_def wait_select_def fail_result_def)
  qed
qed

theorem submit_reaches_waiter_witness:
  "fst (WaitForResult False True ''req-01'' (g_queue (snd (SubmitCommandResult
      \<lparr>sr_RequestId = ''req-01'', sr_Stdout = [111, 107], sr_Stderr = [], sr_ExitCode = 0, sr_ErrorMessage = []\<rparr>
      (demo_grpc\<lparr>g_queue := one_queue\<rparr>))))) =
    WaitResult \<lparr>result_RequestID = ''req-01'', Stdout = [111, 107], Stderr = [], ExitCode = 0, ErrorMessage = [],
      result_Completed = True\<rparr>"
  using submit_reaches_waiter [of "demo_grpc\<lparr>g_queue := one_queue\<rparr>"
      "\<lparr>sr_RequestId = ''req-01'', sr_Stdout = [111, 107], sr_Stderr = [], sr_ExitCode = 0, sr_ErrorMessage = []\<rparr>" 0 False]
    one_queue_reach one_queue_simps(2,6)
  by simp

end
