(* ===== verification/Auth.thy ===== *)
theory Auth
  imports Agent_Auth
begin

text \<open>
  User authentication: passwords and tokens (\<open>internal/auth/password.go\<close>, \<open>jwt.go\<close>), the middleware
  (\<open>internal/auth/middleware.go\<close>) and the handlers of login, refresh, logout and password change
  (\<open>internal/central/auth_handlers.go\<close>).

  The libraries these files call are the argument \<open>lib\<close>: bcrypt, the signing and the parsing of JSON
  web tokens, and SHA-256 in hexadecimal. The body of a request is what the JSON binding gives, \<open>None\<close>
  when it is refused. \<open>clk i\<close> is the \<open>i\<close>-th reading of the clock in a request.
\<close>

record UserClaims =
  UserID :: string
  Email :: string
  claim_Name :: string
  IsAdmin :: bool
  ExpiresAt :: int
  IssuedAt :: int
  Issuer :: string

record Lib =
  bcrypt_generate :: "string \<Rightarrow> string option"
  bcrypt_compare :: "string \<Rightarrow> string \<Rightarrow> bool"
  jwt_sign :: "UserClaims \<Rightarrow> string \<Rightarrow> string option"
  jwt_parse :: "string \<Rightarrow> (bool \<Rightarrow> string option) \<Rightarrow> int \<Rightarrow> UserClaims option"
  sha256_hex :: "string \<Rightarrow> string"

text \<open>
  What the documentation of the token library says of HS256: a signed token parses, with a key
  function that accepts HMAC methods (the argument \<open>True\<close>) and gives the same key, until the time in
  \<open>exp\<close>, and with no other key and at no later time.
\<close>

definition jwt_lawful :: "Lib \<Rightarrow> bool" where
  "jwt_lawful lib \<longleftrightarrow> (\<forall>claims key tok. jwt_sign lib claims key = Some tok \<longrightarrow>
     (\<forall>keyfunc now. jwt_parse lib tok keyfunc now =
        (if keyfunc True = Some key \<and> now < ExpiresAt claims then Some claims else None)))"

datatype 'a resp = RespError nat string | RespOk nat 'a


section \<open>Passwords and tokens\<close>

definition HashPassword :: "Lib \<Rightarrow> string \<Rightarrow> string option" where
  "HashPassword lib password = bcrypt_generate lib password"

definition CheckPassword :: "Lib \<Rightarrow> string \<Rightarrow> string \<Rightarrow> bool" where
  "CheckPassword lib password hash = bcrypt_compare lib hash password"

record JWTManager =
  jwt_secret :: string
  accessExpiry :: int

text \<open>A numeric date of the token library has whole seconds.\<close>

definition GenerateAccessToken :: "Lib \<Rightarrow> JWTManager \<Rightarrow> int \<Rightarrow> UserClaims \<Rightarrow> string option" where
  "GenerateAccessToken lib jm now claims =
     jwt_sign lib (claims\<lparr>ExpiresAt := stored_time (now + accessExpiry jm), IssuedAt := stored_time now,
       Issuer := ''kbridge''\<rparr>) (jwt_secret jm)"

definition ValidateAccessToken :: "Lib \<Rightarrow> JWTManager \<Rightarrow> int \<Rightarrow> string \<Rightarrow> UserClaims option" where
  "ValidateAccessToken lib jm now tok =
     jwt_parse lib tok (\<lambda>hmac. if hmac then Some (jwt_secret jm) else None) now"

text \<open>The plaintext of a refresh token and its hash, from 32 random bytes.\<close>

definition GenerateRefreshToken :: "Lib \<Rightarrow> bytes option \<Rightarrow> (string \<times> string) option" where
  "GenerateRefreshToken lib rand =
     map_option (\<lambda>b. (hex_encode b, sha256_hex lib (hex_encode b))) rand"

definition hashToken :: "Lib \<Rightarrow> string \<Rightarrow> string" where
  "hashToken lib token = sha256_hex lib token"


section \<open>Middleware\<close>

text \<open>The refusal, or the claims the handlers find in the context.\<close>

definition AuthMiddleware :: "Lib \<Rightarrow> JWTManager \<Rightarrow> int \<Rightarrow> string \<Rightarrow> (nat \<times> string) + UserClaims" where
  "AuthMiddleware lib jm now header =
     (if header = [] then Inl (401, ''missing authorization header'')
      else let token = trim_prefix header ''Bearer '' in
        if token = header then Inl (401, ''invalid authorization format'')
        else (case ValidateAccessToken lib jm now token of
            None \<Rightarrow> Inl (401, ''invalid or expired token'')
          | Some claims \<Rightarrow> Inr claims))"

definition AdminRequired :: "UserClaims option \<Rightarrow> (nat \<times> string) option" where
  "AdminRequired user = (case user of
     None \<Rightarrow> Some (401, ''not authenticated'')
   | Some claims \<Rightarrow> if \<not> IsAdmin claims then Some (403, ''admin role required'') else None)"


section \<open>Handlers\<close>

record AuthHandlers =
  ah_lib :: Lib
  ah_jwt :: JWTManager
  refreshExpiry :: int

record tokenResponse =
  AccessToken :: string
  tr_RefreshToken :: string
  ExpiresIn :: int

text \<open>The clock is read for the access token and for the expiry and the creation of the refresh token.\<close>

definition issueTokens ::
  "AuthHandlers \<Rightarrow> (nat \<Rightarrow> int) \<Rightarrow> bytes option \<Rightarrow> string \<Rightarrow> User \<Rightarrow> Db \<Rightarrow> tokenResponse resp \<times> Db" where
  "issueTokens h clk rand uuid user db =
     (case GenerateAccessToken (ah_lib h) (ah_jwt h) (clk 0)
          \<lparr>UserID = u_ID user, Email = u_Email user, claim_Name = u_Name user, IsAdmin = u_IsAdmin user,
           ExpiresAt = 0, IssuedAt = 0, Issuer = []\<rparr> of
        None \<Rightarrow> (RespError 500 ''internal error'', db)
      | Some accessToken \<Rightarrow>
          (case GenerateRefreshToken (ah_lib h) rand of
             None \<Rightarrow> (RespError 500 ''internal error'', db)
           | Some (plaintext, refreshHash) \<Rightarrow>
               (case CreateRefreshToken uuid (clk 2)
                    \<lparr>rt_ID = uuid, rt_UserID = u_ID user, rt_TokenHash = refreshHash,
                     rt_ExpiresAt = clk 1 + refreshExpiry h, rt_CreatedAt = 0\<rparr> db of
                  (Inl e, db') \<Rightarrow> (RespError 500 ''internal error'', db')
                | (Inr rt, db') \<Rightarrow>
                    (RespOk 200 \<lparr>AccessToken = accessToken, tr_RefreshToken = plaintext,
                       ExpiresIn = refreshExpiry h div second\<rparr>, db'))))"

definition HandleLogin ::
  "AuthHandlers \<Rightarrow> (nat \<Rightarrow> int) \<Rightarrow> bytes option \<Rightarrow> string \<Rightarrow> (string \<times> string) option \<Rightarrow> Db \<Rightarrow> tokenResponse resp \<times> Db" where
  "HandleLogin h clk rand uuid req db = (case req of
     None \<Rightarrow> (RespError 400 ''invalid request'', db)
   | Some (email, password) \<Rightarrow>
       (case GetUserByEmail email db of
          (Inl e, db1) \<Rightarrow> (RespError 500 ''internal error'', db1)
        | (Inr None, db1) \<Rightarrow> (RespError 401 ''invalid credentials'', db1)
        | (Inr (Some user), db1) \<Rightarrow>
            if \<not> CheckPassword (ah_lib h) password (u_PasswordHash user)
            then (RespError 401 ''invalid credentials'', db1)
            else if \<not> u_IsActive user then (RespError 403 ''account is disabled'', db1)
            else issueTokens h clk rand uuid user db1))"

text \<open>The deletion of the used token may fail; its error is not looked at.\<close>

definition HandleRefresh ::
  "AuthHandlers \<Rightarrow> int \<Rightarrow> (nat \<Rightarrow> int) \<Rightarrow> bytes option \<Rightarrow> string \<Rightarrow> string option \<Rightarrow> Db \<Rightarrow> tokenResponse resp \<times> Db" where
  "HandleRefresh h now clk rand uuid req db = (case req of
     None \<Rightarrow> (RespError 400 ''invalid request'', db)
   | Some token \<Rightarrow>
       (case GetRefreshTokenByHash (hashToken (ah_lib h) token) db of
          (Inl e, db1) \<Rightarrow> (RespError 500 ''internal error'', db1)
        | (Inr None, db1) \<Rightarrow> (RespError 401 ''invalid refresh token'', db1)
        | (Inr (Some rt), db1) \<Rightarrow>
            if now > rt_ExpiresAt rt then
              (RespError 401 ''refresh token expired'', snd (DeleteRefreshToken (rt_ID rt) db1))
            else
              let db2 = snd (DeleteRefreshToken (rt_ID rt) db1) in
              (case GetUserByID (rt_UserID rt) db2 of
                 (Inr (Some user), db3) \<Rightarrow> issueTokens h clk rand uuid user db3
               | (_, db3) \<Rightarrow> (RespError 401 ''user not found'', db3))))"

definition HandleLogout :: "AuthHandlers \<Rightarrow> string option \<Rightarrow> Db \<Rightarrow> string resp \<times> Db" where
  "HandleLogout h req db = (case req of
     None \<Rightarrow> (RespError 400 ''invalid request'', db)
   | Some token \<Rightarrow>
       (case GetRefreshTokenByHash (hashToken (ah_lib h) token) db of
          (Inr (Some rt), db1) \<Rightarrow> (RespOk 200 ''logged out'', snd (DeleteRefreshToken (rt_ID rt) db1))
        | (_, db1) \<Rightarrow> (RespOk 200 ''logged out'', db1)))"

definition HandleChangePassword ::
  "AuthHandlers \<Rightarrow> int \<Rightarrow> UserClaims option \<Rightarrow> (string \<times> string) option \<Rightarrow> Db \<Rightarrow> string resp \<times> Db" where
  "HandleChangePassword h now user_ctx req db = (case user_ctx of
     None \<Rightarrow> (RespError 401 ''not authenticated'', db)
   | Some claims \<Rightarrow> (case req of
       None \<Rightarrow> (RespError 400 ''invalid request'', db)
     | Some (current_password, new_password) \<Rightarrow>
         (case GetUserByID (UserID claims) db of
            (Inr (Some user), db1) \<Rightarrow>
              if \<not> CheckPassword (ah_lib h) current_password (u_PasswordHash user)
              then (RespError 401 ''current password is incorrect'', db1)
              else (case HashPassword (ah_lib h) new_password of
                  None \<Rightarrow> (RespError 500 ''internal error'', db1)
                | Some newHash \<Rightarrow>
                    (case UpdateUser now (user\<lparr>u_PasswordHash := newHash\<rparr>) db1 of
                       (Inl e, db2) \<Rightarrow> (RespError 500 ''internal error'', db2)
                     | (Inr _, db2) \<Rightarrow> (RespOk 200 ''password changed'', db2)))
          | (_, db1) \<Rightarrow> (RespError 500 ''internal error'', db1))))"


section \<open>Lemmas\<close>

lemma GetUserByEmail_eq:
  "GetUserByEmail email db =
     (if faults db \<noteq> [] \<and> hd (faults db) then Inl ErrStatement
      else Inr (find (\<lambda>u. u_Email u = email) (users db)), db\<lparr>faults := tl (faults db)\<rparr>)"
  unfolding GetUserByEmail_def by (subst statement_query) simp

lemma GetUserByID_eq:
  "GetUserByID i db =
     (if faults db \<noteq> [] \<and> hd (faults db) then Inl ErrStatement
      else Inr (find (\<lambda>u. u_ID u = i) (users db)), db\<lparr>faults := tl (faults db)\<rparr>)"
  unfolding GetUserByID_def by (subst statement_query) simp

lemma GetRefreshTokenByHash_eq:
  "GetRefreshTokenByHash h db =
     (if faults db \<noteq> [] \<and> hd (faults db) then Inl ErrStatement
      else Inr (find (\<lambda>r. rt_TokenHash r = h) (refresh_tokens db)), db\<lparr>faults := tl (faults db)\<rparr>)"
  unfolding GetRefreshTokenByHash_def by (subst statement_query) simp

lemma DeleteRefreshToken_no_faults:
  "faults db = [] \<Longrightarrow> DeleteRefreshToken i db =
     (Inr (), db\<lparr>refresh_tokens := filter (\<lambda>r. rt_ID r \<noteq> i) (refresh_tokens db)\<rparr>)"
  by (simp add: DeleteRefreshToken_def)

lemma CreateRefreshToken_refresh:
  "refresh_tokens (snd (CreateRefreshToken uuid now rt db)) = refresh_tokens db \<or>
   (\<exists>r. refresh_tokens (snd (CreateRefreshToken uuid now rt db)) = refresh_tokens db @ [r] \<and>
      rt_TokenHash r = rt_TokenHash rt)"
proof (cases rule: statement_cases [of "\<lambda>db. let r = rt\<lparr>rt_ID := new_id uuid (rt_ID rt), rt_CreatedAt := stored_time now\<rparr> in
     if list_ex (\<lambda>s. rt_ID s = rt_ID r) (refresh_tokens db) \<or>
        \<not> list_ex (\<lambda>u. u_ID u = rt_UserID r) (users db) then (Inl ErrConstraint, db)
     else (Inr r, db\<lparr>refresh_tokens := refresh_tokens db @ [r\<lparr>rt_ExpiresAt := stored_time (rt_ExpiresAt r)\<rparr>]\<rparr>)" db])
  case (fault fs)
  then show ?thesis by (simp add: CreateRefreshToken_def)
next
  case (runs fs)
  then show ?thesis by (auto simp: CreateRefreshToken_def Let_def)
qed

lemma faults_statement: "faults db = [] \<Longrightarrow> faults (snd (run db)) = [] \<Longrightarrow> faults (snd (statement run db)) = []"
  by simp

lemma CreateRefreshToken_faults: "faults db = [] \<Longrightarrow> faults (snd (CreateRefreshToken uuid now rt db)) = []"
  unfolding CreateRefreshToken_def by (rule faults_statement) (simp_all add: Let_def)

text \<open>Issuing tokens runs at most one statement, the creation of a refresh token with the hash of the new
  plaintext.\<close>

definition refresh_row :: "AuthHandlers \<Rightarrow> (nat \<Rightarrow> int) \<Rightarrow> bytes \<Rightarrow> string \<Rightarrow> User \<Rightarrow> RefreshToken" where
  "refresh_row h clk b uuid user =
     \<lparr>rt_ID = uuid, rt_UserID = u_ID user, rt_TokenHash = hashToken (ah_lib h) (hex_encode b),
      rt_ExpiresAt = clk 1 + refreshExpiry h, rt_CreatedAt = 0\<rparr>"

lemma issueTokens_db:
  "snd (issueTokens h clk rand uuid user db) = db \<or>
   (\<exists>b. rand = Some b \<and> snd (issueTokens h clk rand uuid user db) =
      snd (CreateRefreshToken uuid (clk 2) (refresh_row h clk b uuid user) db))"
  by (auto simp: issueTokens_def GenerateRefreshToken_def refresh_row_def hashToken_def
      split: option.splits prod.splits sum.splits)

lemma issueTokens_refresh:
  "refresh_tokens (snd (issueTokens h clk rand uuid user db)) = refresh_tokens db \<or>
    (\<exists>r b. rand = Some b \<and> refresh_tokens (snd (issueTokens h clk rand uuid user db)) = refresh_tokens db @ [r] \<and>
      rt_TokenHash r = hashToken (ah_lib h) (hex_encode b))"
proof -
  have hash: "rt_TokenHash (refresh_row h clk b uuid user) = hashToken (ah_lib h) (hex_encode b)" for b
    by (simp add: refresh_row_def)
  show ?thesis
    using issueTokens_db [of h clk rand uuid user db]
      CreateRefreshToken_refresh [of uuid "clk 2" "refresh_row h clk _ uuid user" db] hash
    by metis
qed

lemma issueTokens_faults:
  "faults db = [] \<Longrightarrow> faults (snd (issueTokens h clk rand uuid user db)) = []"
  using issueTokens_db [of h clk rand uuid user db] CreateRefreshToken_faults by metis

lemma issueTokens_error: "fst (issueTokens h clk rand uuid user db) = RespError c msg \<Longrightarrow> c = 500"
  by (auto simp: issueTokens_def split: option.splits prod.splits sum.splits)

lemma find_filter_None:
  assumes "find P rs = Some r" and "\<And>s. s \<in> set rs \<Longrightarrow> P s \<Longrightarrow> k s = k r"
  shows "find P (filter (\<lambda>s. k s \<noteq> k r) rs) = None"
  using assms by (auto simp: find_None_iff)


lemma access_token_valid:
  assumes "jwt_lawful lib" and "GenerateAccessToken lib jm now claims = Some tok"
  shows "AuthMiddleware lib jm2 later (''Bearer '' @ tok) =
    (if jwt_secret jm2 = jwt_secret jm \<and> later < stored_time (now + accessExpiry jm)
     then Inr (claims\<lparr>ExpiresAt := stored_time (now + accessExpiry jm), IssuedAt := stored_time now,
       Issuer := ''kbridge''\<rparr>)
     else Inl (401, ''invalid or expired token''))"
proof -
  have "jwt_parse lib tok (\<lambda>hmac. if hmac then Some (jwt_secret jm2) else None) later =
      (if jwt_secret jm2 = jwt_secret jm \<and> later < stored_time (now + accessExpiry jm)
       then Some (claims\<lparr>ExpiresAt := stored_time (now + accessExpiry jm), IssuedAt := stored_time now,
         Issuer := ''kbridge''\<rparr>) else None)"
    using assms by (simp add: jwt_lawful_def GenerateAccessToken_def)
  moreover have "tok \<noteq> ''Bearer '' @ tok" by simp
  moreover have "trim_prefix (''Bearer '' @ tok) ''Bearer '' = tok" by (rule trim_prefix_append)
  ultimately show ?thesis unfolding AuthMiddleware_def ValidateAccessToken_def Let_def by simp
qed

text \<open>An exchange of a stored refresh token, when no statement fails.\<close>

definition user_claims :: "User \<Rightarrow> UserClaims" where
  "user_claims user = \<lparr>UserID = u_ID user, Email = u_Email user, claim_Name = u_Name user, IsAdmin = u_IsAdmin user,
     ExpiresAt = 0, IssuedAt = 0, Issuer = []\<rparr>"

lemma HandleRefresh_succeeds:
  assumes "faults db = []" and "find (\<lambda>r. rt_TokenHash r = hashToken (ah_lib h) token) (refresh_tokens db) = Some rt"
    and "now \<le> rt_ExpiresAt rt" and "find (\<lambda>u. u_ID u = rt_UserID rt) (users db) = Some user"
    and "GenerateAccessToken (ah_lib h) (ah_jwt h) (clk 0) (user_claims user) = Some access"
    and "uuid \<noteq> []" and "uuid \<notin> rt_ID ` set (refresh_tokens db)"
  shows "fst (HandleRefresh h now clk (Some b) uuid (Some token) db) =
    RespOk 200 \<lparr>AccessToken = access, tr_RefreshToken = hex_encode b, ExpiresIn = refreshExpiry h div second\<rparr>"
proof -
  have ex: "user \<in> set (users db)" "u_ID user = rt_UserID rt"
    using assms(4) by (auto simp: find_Some_iff)
  show ?thesis
    using assms ex
    by (auto simp: HandleRefresh_def GetRefreshTokenByHash_eq DeleteRefreshToken_no_faults GetUserByID_eq Let_def
        issueTokens_def GenerateRefreshToken_def CreateRefreshToken_def new_id_def list_ex_iff user_claims_def
        split: option.splits)
qed


section \<open>Properties\<close>

text \<open>C24. Tokens are issued by a login only to a user that is stored under the e-mail address, whose
  password matches and who is active, whichever statements of the store fail. An unknown address and a
  wrong password get the same response, and both leave the store as it is.\<close>

theorem login_only_active_user:
  "(\<forall>c tok. fst (HandleLogin h clk rand uuid (Some (email, password)) db) = RespOk c tok \<longrightarrow>
      (\<exists>user. find (\<lambda>u. u_Email u = email) (users db) = Some user \<and> u_IsActive user \<and>
         bcrypt_compare (ah_lib h) (u_PasswordHash user) password)) \<and>
   (faults db = [] \<and> (case find (\<lambda>u. u_Email u = email) (users db) of
        None \<Rightarrow> True | Some user \<Rightarrow> \<not> bcrypt_compare (ah_lib h) (u_PasswordHash user) password) \<longrightarrow>
      HandleLogin h clk rand uuid (Some (email, password)) db = (RespError 401 ''invalid credentials'', db))"
proof (intro conjI allI impI)
  fix c tok assume "fst (HandleLogin h clk rand uuid (Some (email, password)) db) = RespOk c tok"
  then show "\<exists>user. find (\<lambda>u. u_Email u = email) (users db) = Some user \<and> u_IsActive user \<and>
      bcrypt_compare (ah_lib h) (u_PasswordHash user) password"
    by (auto simp: HandleLogin_def GetUserByEmail_eq CheckPassword_def split: option.splits if_splits)
next
  assume a: "faults db = [] \<and> (case find (\<lambda>u. u_Email u = email) (users db) of
        None \<Rightarrow> True | Some user \<Rightarrow> \<not> bcrypt_compare (ah_lib h) (u_PasswordHash user) password)"
  then have "db\<lparr>faults := tl (faults db)\<rparr> = db" by (cases db) simp
  then show "HandleLogin h clk rand uuid (Some (email, password)) db = (RespError 401 ''invalid credentials'', db)"
    using a by (auto simp: HandleLogin_def GetUserByEmail_eq CheckPassword_def split: option.splits)
qed

definition demo_lib :: Lib where
  "demo_lib = \<lparr>bcrypt_generate = Some, bcrypt_compare = (=),
     jwt_sign = (\<lambda>claims key. Some (key @ CHR '':'' # UserID claims)), jwt_parse = (\<lambda>_ _ _. None), sha256_hex = (\<lambda>t. t)\<rparr>"

definition demo_handlers :: AuthHandlers where
  "demo_handlers = \<lparr>ah_lib = demo_lib, ah_jwt = \<lparr>jwt_secret = ''k'', accessExpiry = 3600 * second\<rparr>,
     refreshExpiry = 86400 * second\<rparr>"

definition demo_user :: "bool \<Rightarrow> User" where
  "demo_user active = \<lparr>u_ID = ''1'', u_Email = ''a@b'', u_PasswordHash = ''pw'', u_Name = ''A'', u_IsActive = active,
     u_IsAdmin = False, u_CreatedAt = 0, u_UpdatedAt = 0\<rparr>"

definition user_db :: "bool \<Rightarrow> Db" where
  "user_db active = (createSchema [])\<lparr>users := [demo_user active],
     refresh_tokens := [\<lparr>rt_ID = ''r'', rt_UserID = ''1'', rt_TokenHash = ''old'', rt_ExpiresAt = 100, rt_CreatedAt = 0\<rparr>]\<rparr>"

theorem login_only_active_user_witness:
  "HandleLogin demo_handlers (\<lambda>_. 0) (Some [1]) ''u'' (Some (''a@b'', ''wrong'')) (user_db True) =
     (RespError 401 ''invalid credentials'', user_db True)"
  using login_only_active_user [of demo_handlers "\<lambda>_. 0" "Some [1]" "''u''" "''a@b''" "''wrong''" "user_db True"]
  by (simp add: user_db_def demo_user_def demo_handlers_def demo_lib_def createSchema_def)

lemma second_refresh_refused:
  assumes "faults db = []" and "find (\<lambda>r. rt_TokenHash r = hashToken (ah_lib h) token) (refresh_tokens db) = None"
  shows "fst (HandleRefresh h now clk rand uuid (Some token) db) = RespError 401 ''invalid refresh token''"
  using assms by (simp add: HandleRefresh_def GetRefreshTokenByHash_eq)

lemma used_token_gone:
  assumes "distinct (map rt_TokenHash rows)" and "find (\<lambda>r. rt_TokenHash r = hash) rows = Some rt"
  shows "find (\<lambda>r. rt_TokenHash r = hash) (filter (\<lambda>r. rt_ID r \<noteq> rt_ID rt) rows) = None"
proof (rule find_filter_None [OF assms(2)])
  fix s assume s: "s \<in> set rows" "rt_TokenHash s = hash"
  have "rt \<in> set rows" "rt_TokenHash rt = hash"
    using assms(2) by (auto simp: find_Some_iff)
  then have "s = rt" using s assms(1) by (auto simp: distinct_map inj_on_def)
  then show "rt_ID s = rt_ID rt" by simp
qed

lemma find_append: "find P (xs @ ys) = (case find P xs of None \<Rightarrow> find P ys | Some x \<Rightarrow> Some x)"
  by (induction xs) auto

lemma HandleRefresh_consumes:
  assumes "faults db = []" and "distinct (map rt_TokenHash (refresh_tokens db))"
    and "\<And>b. rand = Some b \<Longrightarrow> hashToken (ah_lib h) (hex_encode b) \<noteq> hashToken (ah_lib h) token"
  shows "faults (snd (HandleRefresh h now clk rand uuid (Some token) db)) = [] \<and>
    find (\<lambda>r. rt_TokenHash r = hashToken (ah_lib h) token)
      (refresh_tokens (snd (HandleRefresh h now clk rand uuid (Some token) db))) = None"
proof (cases "find (\<lambda>r. rt_TokenHash r = hashToken (ah_lib h) token) (refresh_tokens db)")
  case None
  then show ?thesis using assms(1) by (simp add: HandleRefresh_def GetRefreshTokenByHash_eq)
next
  case (Some rt)
  define db2 where "db2 = snd (DeleteRefreshToken (rt_ID rt) (db\<lparr>faults := []\<rparr>))"
  have gone: "find (\<lambda>r. rt_TokenHash r = hashToken (ah_lib h) token) (refresh_tokens db2) = None"
    using used_token_gone [OF assms(2) Some] by (simp add: db2_def DeleteRefreshToken_no_faults)
  have f: "faults db2 = []" by (simp add: db2_def DeleteRefreshToken_no_faults)
  have "snd (HandleRefresh h now clk rand uuid (Some token) db) = db2 \<or>
      snd (HandleRefresh h now clk rand uuid (Some token) db) = db2\<lparr>faults := []\<rparr> \<or>
      (\<exists>user. snd (HandleRefresh h now clk rand uuid (Some token) db) =
        snd (issueTokens h clk rand uuid user (db2\<lparr>faults := []\<rparr>)))"
    using Some assms(1) f
    by (auto simp: HandleRefresh_def GetRefreshTokenByHash_eq GetUserByID_eq Let_def db2_def [symmetric] split: option.splits)
  moreover have "find (\<lambda>r. rt_TokenHash r = hashToken (ah_lib h) token)
      (refresh_tokens (snd (issueTokens h clk rand uuid user (db2\<lparr>faults := []\<rparr>)))) = None" for user
    using issueTokens_refresh [of h clk rand uuid user "db2\<lparr>faults := []\<rparr>"] gone assms(3)
    by (auto simp: find_append)
  moreover have "faults (snd (issueTokens h clk rand uuid user (db2\<lparr>faults := []\<rparr>))) = []" for user
    by (rule issueTokens_faults) simp
  ultimately show ?thesis using gone f by auto
qed



text \<open>Disabling a user does not end the user's access: the refresh handler does not look at the flag,
  so a refresh token that is stored when the account is disabled goes on being exchanged for new
  access tokens (and new refresh tokens), which the login handler would refuse.\<close>

theorem disabled_user_refreshes:
  assumes "faults db = []" and "find (\<lambda>r. rt_TokenHash r = hashToken (ah_lib h) token) (refresh_tokens db) = Some rt"
    and "now \<le> rt_ExpiresAt rt" and "find (\<lambda>u. u_ID u = rt_UserID rt) (users db) = Some user"
    and "\<not> u_IsActive user"
    and "\<And>claims. jwt_sign (ah_lib h) claims (jwt_secret (ah_jwt h)) \<noteq> None"
    and "uuid \<noteq> []" and "uuid \<notin> rt_ID ` set (refresh_tokens db)"
  shows "\<exists>tok. fst (HandleRefresh h now clk (Some b) uuid (Some token) db) = RespOk 200 tok \<and>
    tr_RefreshToken tok = hex_encode b"
proof -
  have ex: "user \<in> set (users db)" "u_ID user = rt_UserID rt"
    using assms(4) by (auto simp: find_Some_iff)
  show ?thesis
    using assms(1-4,6-8) ex
    by (auto simp: HandleRefresh_def GetRefreshTokenByHash_eq DeleteRefreshToken_no_faults GetUserByID_eq Let_def
        issueTokens_def GenerateAccessToken_def GenerateRefreshToken_def CreateRefreshToken_def new_id_def list_ex_iff
        split: option.splits)
qed

theorem disabled_user_refreshes_witness:
  "\<exists>tok. fst (HandleRefresh demo_handlers 5 (\<lambda>_. 5) (Some [1]) ''r2'' (Some ''old'') (user_db False)) = RespOk 200 tok"
  using disabled_user_refreshes [of "user_db False" demo_handlers "''old''" "hd (refresh_tokens (user_db False))" 5
      "demo_user False" "''r2''" "\<lambda>_. 5" "[1]"]
  by (fastforce simp: user_db_def demo_user_def createSchema_def demo_handlers_def demo_lib_def hashToken_def)

text \<open>An access token opens the protected routes from the moment it is issued until its expiry, as the
  user it was issued to, and not a moment longer; a token signed with another secret never does.\<close>

theorem access_token_lifetime:
  assumes "jwt_lawful lib" and "GenerateAccessToken lib jm now claims = Some tok"
  shows "AuthMiddleware lib jm2 later (''Bearer '' @ tok) =
    (if jwt_secret jm2 = jwt_secret jm \<and> later < stored_time (now + accessExpiry jm)
     then Inr (claims\<lparr>ExpiresAt := stored_time (now + accessExpiry jm), IssuedAt := stored_time now,
       Issuer := ''kbridge''\<rparr>)
     else Inl (401, ''invalid or expired token''))"
  using assms by (rule access_token_valid)

text \<open>A lawful library: the token is the key with the claims, written out.\<close>

definition one_claims :: UserClaims where
  "one_claims = \<lparr>UserID = ''1'', Email = ''a@b'', claim_Name = ''A'', IsAdmin = False, ExpiresAt = 3600 * second,
     IssuedAt = 0, Issuer = ''kbridge''\<rparr>"

definition lawful_lib :: Lib where
  "lawful_lib = demo_lib\<lparr>jwt_sign := (\<lambda>claims key. if claims = one_claims then Some key else None),
     jwt_parse := (\<lambda>tok keyfunc now. if keyfunc True = Some tok \<and> now < ExpiresAt one_claims then Some one_claims else None)\<rparr>"

theorem access_token_lifetime_witness:
  "AuthMiddleware lawful_lib \<lparr>jwt_secret = ''k'', accessExpiry = 3600 * second\<rparr> (3600 * second) (''Bearer k'') =
     Inl (401, ''invalid or expired token'')"
proof -
  have "jwt_lawful lawful_lib" by (simp add: jwt_lawful_def lawful_lib_def)
  moreover have "GenerateAccessToken lawful_lib \<lparr>jwt_secret = ''k'', accessExpiry = 3600 * second\<rparr> 0 one_claims = Some ''k''"
    by (simp add: GenerateAccessToken_def lawful_lib_def one_claims_def stored_time_def)
  ultimately show ?thesis
    using access_token_lifetime [of lawful_lib "\<lparr>jwt_secret = ''k'', accessExpiry = 3600 * second\<rparr>" 0 one_claims "''k''"
        "\<lparr>jwt_secret = ''k'', accessExpiry = 3600 * second\<rparr>" "3600 * second"]
    by (simp add: stored_time_def)
qed

end
