(* ===== verification/Admin.thy ===== *)
theory Admin
  imports Auth
begin

text \<open>
  The administrators' handlers (\<open>internal/central/admin_handlers.go\<close>): agent tokens, users, the audit
  log; and the audit recorder (\<open>audit.go\<close>). The body of a request is \<open>None\<close> when the JSON binding
  refuses it. The parser of RFC 3339 timestamps is the argument \<open>rfc3339\<close>.
\<close>

definition agentTokenPrefixLen :: nat where
  "agentTokenPrefixLen = 13"

definition ClusterStatusPending :: string where
  "ClusterStatusPending = ''pending''"

record AdminHandlers =
  adm_lib :: Lib
  adm_hmac :: "string \<Rightarrow> string \<Rightarrow> string"
  adm_pepper :: string

record createAgentTokenRequest =
  req_ClusterName :: string
  req_Description :: string
  req_ExpiresInDays :: int

record agentTokenResponse =
  tok_ID :: string
  tok_ClusterName :: string
  tok_TokenPrefix :: string
  tok_Description :: string
  tok_IsRevoked :: bool
  tok_LastUsedAt :: "int option"
  tok_ExpiresAt :: "int option"
  tok_CreatedAt :: int

definition toAgentTokenResponse :: "AgentToken \<Rightarrow> string \<Rightarrow> agentTokenResponse" where
  "toAgentTokenResponse t clusterName = \<lparr>tok_ID = t_ID t, tok_ClusterName = clusterName,
     tok_TokenPrefix = t_TokenPrefix t, tok_Description = t_Description t, tok_IsRevoked = t_IsRevoked t,
     tok_LastUsedAt = t_LastUsedAt t, tok_ExpiresAt = t_ExpiresAt t, tok_CreatedAt = t_CreatedAt t\<rparr>"

definition toAgentTokenResponses :: "AgentToken list \<Rightarrow> string \<Rightarrow> agentTokenResponse list" where
  "toAgentTokenResponses ts clusterName = map (\<lambda>t. toAgentTokenResponse t clusterName) ts"

text \<open>The plaintext from 24 random bytes, and its first characters.\<close>

definition generateAgentToken :: "bytes option \<Rightarrow> (string \<times> string) option" where
  "generateAgentToken rand =
     map_option (\<lambda>b. let plaintext = ''kbat_'' @ hex_encode b in (plaintext, take agentTokenPrefixLen plaintext)) rand"

definition findOrCreateCluster :: "string \<Rightarrow> int \<Rightarrow> string \<Rightarrow> Cluster stmt" where
  "findOrCreateCluster uuid now name db = (case GetClusterByName name db of
     (Inl e, db1) \<Rightarrow> (Inl e, db1)
   | (Inr (Some cluster), db1) \<Rightarrow> (Inr cluster, db1)
   | (Inr None, db1) \<Rightarrow>
       CreateCluster uuid now \<lparr>c_ID = [], c_Name = name, c_Status = ClusterStatusPending, c_AgentID = [],
         c_LastSeenAt = None, c_CreatedAt = 0, c_UpdatedAt = 0\<rparr> db1)"

text \<open>The lifetime in days is a product of 64-bit durations and wraps.\<close>

definition days_duration :: "int \<Rightarrow> int" where
  "days_duration days = int64_wrap (int64_wrap (days * 24) * (3600 * second))"

definition HandleCreateAgentToken ::
  "AdminHandlers \<Rightarrow> (nat \<Rightarrow> int) \<Rightarrow> bytes option \<Rightarrow> string \<Rightarrow> string \<Rightarrow> createAgentTokenRequest option \<Rightarrow> Db \<Rightarrow>
     (agentTokenResponse \<times> string) resp \<times> Db" where
  "HandleCreateAgentToken h clk rand uuid uuid2 req db = (case req of
     None \<Rightarrow> (RespError 400 ''invalid request'', db)
   | Some r \<Rightarrow>
       (case findOrCreateCluster uuid (clk 0) (req_ClusterName r) db of
          (Inl e, db1) \<Rightarrow> (RespError 500 ''internal error'', db1)
        | (Inr cluster, db1) \<Rightarrow>
            (case generateAgentToken rand of
               None \<Rightarrow> (RespError 500 ''internal error'', db1)
             | Some (plaintext, prefix) \<Rightarrow>
                 let expiresAt = (if req_ExpiresInDays r > 0 then Some (clk 1 + days_duration (req_ExpiresInDays r)) else None);
                     token = \<lparr>t_ID = [], t_ClusterID = c_ID cluster,
                       t_TokenHash = hashAgentToken (adm_hmac h) (adm_pepper h) plaintext,
                       t_TokenPrefix = prefix, t_Description = req_Description r, t_IsRevoked = False,
                       t_LastUsedAt = None, t_ExpiresAt = expiresAt, t_CreatedAt = 0\<rparr>
                 in (case CreateAgentToken uuid2 (clk 2) token db1 of
                       (Inl e, db2) \<Rightarrow> (RespError 500 ''internal error'', db2)
                     | (Inr t, db2) \<Rightarrow> (RespOk 201 (toAgentTokenResponse t (c_Name cluster), plaintext), db2)))))"

text \<open>The loop over all clusters stops at the first statement that fails.\<close>

fun list_all_tokens :: "Cluster list \<Rightarrow> agentTokenResponse list stmt" where
  "list_all_tokens [] db = (Inr [], db)"
| "list_all_tokens (c # cs) db = (case ListAgentTokensByCluster (c_ID c) db of
     (Inl e, db1) \<Rightarrow> (Inl e, db1)
   | (Inr tokens, db1) \<Rightarrow> (case list_all_tokens cs db1 of
       (Inl e, db2) \<Rightarrow> (Inl e, db2)
     | (Inr out, db2) \<Rightarrow> (Inr (toAgentTokenResponses tokens (c_Name c) @ out), db2)))"

definition HandleListAgentTokens :: "string \<Rightarrow> Db \<Rightarrow> agentTokenResponse list resp \<times> Db" where
  "HandleListAgentTokens name db =
     (if name \<noteq> [] then
        (case GetClusterByName name db of
           (Inl e, db1) \<Rightarrow> (RespError 500 ''internal error'', db1)
         | (Inr None, db1) \<Rightarrow> (RespOk 200 [], db1)
         | (Inr (Some cluster), db1) \<Rightarrow>
             (case ListAgentTokensByCluster (c_ID cluster) db1 of
                (Inl e, db2) \<Rightarrow> (RespError 500 ''internal error'', db2)
              | (Inr tokens, db2) \<Rightarrow> (RespOk 200 (toAgentTokenResponses tokens (c_Name cluster)), db2)))
      else (case ListClusters db of
          (Inl e, db1) \<Rightarrow> (RespError 500 ''internal error'', db1)
        | (Inr cs, db1) \<Rightarrow> (case list_all_tokens cs db1 of
            (Inl e, db2) \<Rightarrow> (RespError 500 ''internal error'', db2)
          | (Inr out, db2) \<Rightarrow> (RespOk 200 out, db2))))"

definition HandleRevokeAgentToken :: "string \<Rightarrow> Db \<Rightarrow> string resp \<times> Db" where
  "HandleRevokeAgentToken i db = (case RevokeAgentToken i db of
     (Inl e, db1) \<Rightarrow> (RespError 500 ''internal error'', db1)
   | (Inr _, db1) \<Rightarrow> (RespOk 200 ''token revoked'', db1))"


section \<open>Users\<close>

record createUserRequest =
  cu_Email :: string
  cu_Name :: string
  cu_Password :: string
  cu_IsActive :: "bool option"

record updateUserRequest =
  uu_Name :: "string option"
  uu_IsActive :: "bool option"
  uu_Password :: "string option"

definition HandleListUsers :: "Db \<Rightarrow> User list resp \<times> Db" where
  "HandleListUsers db = (case ListUsers db of
     (Inl e, db1) \<Rightarrow> (RespError 500 ''internal error'', db1)
   | (Inr us, db1) \<Rightarrow> (RespOk 200 us, db1))"

text \<open>An error of the lookup by e-mail is not looked at.\<close>

definition HandleCreateUser ::
  "AdminHandlers \<Rightarrow> int \<Rightarrow> string \<Rightarrow> createUserRequest option \<Rightarrow> Db \<Rightarrow> User resp \<times> Db" where
  "HandleCreateUser h now uuid req db = (case req of
     None \<Rightarrow> (RespError 400 ''invalid request'', db)
   | Some r \<Rightarrow>
       (case GetUserByEmail (cu_Email r) db of
          (Inr (Some _), db1) \<Rightarrow> (RespError 409 ''email already in use'', db1)
        | (_, db1) \<Rightarrow>
            (case HashPassword (adm_lib h) (cu_Password r) of
               None \<Rightarrow> (RespError 500 ''internal error'', db1)
             | Some hash \<Rightarrow>
                 (case CreateUser uuid now
                      \<lparr>u_ID = [], u_Email = cu_Email r, u_PasswordHash = hash, u_Name = cu_Name r,
                       u_IsActive = (case cu_IsActive r of None \<Rightarrow> True | Some b \<Rightarrow> b), u_IsAdmin = False,
                       u_CreatedAt = 0, u_UpdatedAt = 0\<rparr> db1 of
                    (Inl e, db2) \<Rightarrow> (RespError 500 ''internal error'', db2)
                  | (Inr u, db2) \<Rightarrow> (RespOk 201 u, db2)))))"

text \<open>The three optional fields; \<open>None\<close> when the password cannot be hashed.\<close>

definition apply_update :: "Lib \<Rightarrow> updateUserRequest \<Rightarrow> User \<Rightarrow> User option" where
  "apply_update lib r user =
     (let u1 = (case uu_Name r of None \<Rightarrow> user | Some n \<Rightarrow> user\<lparr>u_Name := n\<rparr>);
          u2 = (case uu_IsActive r of None \<Rightarrow> u1 | Some b \<Rightarrow> u1\<lparr>u_IsActive := b\<rparr>)
      in case uu_Password r of
           None \<Rightarrow> Some u2
         | Some p \<Rightarrow> map_option (\<lambda>hash. u2\<lparr>u_PasswordHash := hash\<rparr>) (HashPassword lib p))"

definition HandleUpdateUser ::
  "AdminHandlers \<Rightarrow> int \<Rightarrow> string \<Rightarrow> updateUserRequest option \<Rightarrow> Db \<Rightarrow> User resp \<times> Db" where
  "HandleUpdateUser h now i req db = (case req of
     None \<Rightarrow> (RespError 400 ''invalid request'', db)
   | Some r \<Rightarrow>
       (case GetUserByID i db of
          (Inl e, db1) \<Rightarrow> (RespError 500 ''internal error'', db1)
        | (Inr None, db1) \<Rightarrow> (RespError 404 ''user not found'', db1)
        | (Inr (Some user), db1) \<Rightarrow>
            (case apply_update (adm_lib h) r user of
               None \<Rightarrow> (RespError 500 ''internal error'', db1)
             | Some u \<Rightarrow> (case UpdateUser now u db1 of
                 (Inl e, db2) \<Rightarrow> (RespError 500 ''internal error'', db2)
               | (Inr u', db2) \<Rightarrow> (RespOk 200 u', db2)))))"

definition HandleDeleteUser :: "string \<Rightarrow> Db \<Rightarrow> string resp \<times> Db" where
  "HandleDeleteUser i db = (case DeleteUser i db of
     (Inl e, db1) \<Rightarrow> (RespError 500 ''internal error'', db1)
   | (Inr _, db1) \<Rightarrow> (RespOk 200 ''user deleted'', db1))"


section \<open>The audit log\<close>

abbreviation AuditStatusSuccess :: string where "AuditStatusSuccess \<equiv> ''success''"
abbreviation AuditStatusFailed :: string where "AuditStatusFailed \<equiv> ''failed''"
abbreviation AuditStatusDenied :: string where "AuditStatusDenied \<equiv> ''denied''"
abbreviation AuditStatusTimeout :: string where "AuditStatusTimeout \<equiv> ''timeout''"
abbreviation AuditStatusCanceled :: string where "AuditStatusCanceled \<equiv> ''canceled''"

text \<open>\<open>Record\<close> never fails its caller: an entry the store does not take is lost.\<close>

definition Record :: "string \<Rightarrow> int \<Rightarrow> AuditLog \<Rightarrow> Db \<Rightarrow> Db" where
  "Record uuid now entry db = snd (CreateAuditLog uuid now entry db)"

definition atoiDefault :: "string \<Rightarrow> int \<Rightarrow> int" where
  "atoiDefault s def =
     (if s = [] then def
      else case atoi s of None \<Rightarrow> def | Some n \<Rightarrow> if n < 1 then def else n)"

definition clampPerPage :: "int \<Rightarrow> int" where
  "clampPerPage n = (if n > 200 then 200 else n)"

definition parseTimeParam :: "(string \<Rightarrow> int option) \<Rightarrow> string \<Rightarrow> int option option" where
  "parseTimeParam rfc3339 s =
     (if s = [] then Some None else map_option Some (rfc3339 s))"

text \<open>The query of a request: its parameters by name, the empty string when absent.\<close>

definition HandleListAuditLogs ::
  "(string \<Rightarrow> int option) \<Rightarrow> (AuditLog list \<Rightarrow> AuditLog list) \<Rightarrow> (string \<Rightarrow> string) \<Rightarrow> Db \<Rightarrow>
     (AuditLog list \<times> nat \<times> int \<times> int) resp \<times> Db" where
  "HandleListAuditLogs rfc3339 order_by query db =
     (case parseTimeParam rfc3339 (query ''from'') of
        None \<Rightarrow> (RespError 400 ''invalid 'from' timestamp (use RFC3339)'', db)
      | Some from \<Rightarrow> (case parseTimeParam rfc3339 (query ''to'') of
          None \<Rightarrow> (RespError 400 ''invalid 'to' timestamp (use RFC3339)'', db)
        | Some to \<Rightarrow>
            let filter = \<lparr>f_UserEmail = query ''user'', f_ClusterName = query ''cluster'', f_Status = query ''status'',
                  f_From = from, f_To = to, f_Page = atoiDefault (query ''page'') 1,
                  f_PerPage = clampPerPage (atoiDefault (query ''per_page'') 50)\<rparr>
            in (case ListAuditLogs order_by filter db of
                  (Inl e, db1) \<Rightarrow> (RespError 500 ''internal error'', db1)
                | (Inr (logs, n), db1) \<Rightarrow> (RespOk 200 (logs, n, f_Page filter, f_PerPage filter), db1))))"


section \<open>Lemmas\<close>

lemma GetClusterByName_eq:
  "GetClusterByName name db =
     (if faults db \<noteq> [] \<and> hd (faults db) then Inl ErrStatement
      else Inr (find (\<lambda>c. c_Name c = name) (clusters db)), db\<lparr>faults := tl (faults db)\<rparr>)"
  unfolding GetClusterByName_def by (subst statement_query) simp

lemma find_unique_key:
  assumes "distinct (map k rs)" and "r \<in> set rs"
  shows "find (\<lambda>s. k s = k r) rs = Some r"
proof -
  obtain s where s: "find (\<lambda>s. k s = k r) rs = Some s"
    using assms(2) find_None_iff [of "\<lambda>s. k s = k r" rs] by (cases "find (\<lambda>s. k s = k r) rs") auto
  then have "s \<in> set rs" "k s = k r" by (auto simp: find_Some_iff)
  then have "s = r" using assms by (auto simp: distinct_map inj_on_def)
  with s show ?thesis by simp
qed

text \<open>What finding or creating the cluster establishes when no statement fails.\<close>

lemma findOrCreateCluster_spec:
  assumes "findOrCreateCluster uuid now name db = (Inr cluster, db1)" and "faults db = []" and "db_ok db"
  shows "faults db1 = [] \<and> agent_tokens db1 = agent_tokens db \<and> c_Name cluster = name \<and> db_ok db1 \<and>
    (\<exists>c. c \<in> set (clusters db1) \<and> c_ID c = c_ID cluster \<and> c_Name c = name)"
proof (cases "find (\<lambda>c. c_Name c = name) (clusters db)")
  case (Some c)
  then have "c \<in> set (clusters db)" "c_Name c = name" by (auto simp: find_Some_iff)
  then show ?thesis
    using assms Some by (auto simp: findOrCreateCluster_def GetClusterByName_eq)
next
  case None
  let ?db = "db\<lparr>faults := []\<rparr>"
  have c: "CreateCluster uuid now \<lparr>c_ID = [], c_Name = name, c_Status = ClusterStatusPending, c_AgentID = [],
         c_LastSeenAt = None, c_CreatedAt = 0, c_UpdatedAt = 0\<rparr> ?db = (Inr cluster, db1)"
    using assms None by (simp add: findOrCreateCluster_def GetClusterByName_eq)
  then have "db_ok db1" using CreateCluster_ok [of ?db] assms(3) by (metis db_ok_faults snd_conv)
  then show ?thesis
    using c by (auto simp: CreateCluster_def Let_def split: if_splits)
qed

lemma list_length_take: "length (take n xs) \<le> n"
  by simp


section \<open>Properties\<close>

text \<open>A token the administrator is handed lets an agent register for the cluster it was made for, until
  it expires and whether the cluster existed or was made with it; provided no statement fails and no
  stored token has its hash.\<close>

theorem created_token_authenticates:
  assumes "HandleCreateAgentToken h clk rand uuid uuid2 (Some r) db = (RespOk c (resp, plaintext), db')"
    and "faults db = []" and "db_ok db"
    and "adm_hmac h (adm_pepper h) plaintext \<notin> t_TokenHash ` set (agent_tokens db)"
    and "case tok_ExpiresAt resp of None \<Rightarrow> True | Some e \<Rightarrow> now \<le> stored_time e"
  shows "\<exists>cluster. fst (Authenticate (adm_hmac h) (adm_pepper h) now now2 plaintext (req_ClusterName r) db') = Inr cluster \<and>
    c_Name cluster = req_ClusterName r"
proof -
  obtain cluster db1 where fc: "findOrCreateCluster uuid (clk 0) (req_ClusterName r) db = (Inr cluster, db1)"
    using assms(1) by (auto simp: HandleCreateAgentToken_def split: sum.splits prod.splits)
  note spec = findOrCreateCluster_spec [OF fc assms(2,3)]
  then obtain row where row: "row \<in> set (clusters db1)" "c_ID row = c_ID cluster" "c_Name row = req_ClusterName r" by blast
  have find_row: "find (\<lambda>c. c_ID c = c_ID cluster) (clusters db1) = Some row"
    using find_unique_key [of c_ID "clusters db1" row] row spec by (simp add: db_ok_def)
  obtain b where b: "rand = Some b" and p: "plaintext = ''kbat_'' @ hex_encode b"
    using assms(1) fc by (auto simp: HandleCreateAgentToken_def generateAgentToken_def Let_def split: option.splits sum.splits prod.splits)
  let ?exp = "if req_ExpiresInDays r > 0 then Some (clk 1 + days_duration (req_ExpiresInDays r)) else None"
  let ?t = "\<lparr>t_ID = [], t_ClusterID = c_ID cluster, t_TokenHash = hashAgentToken (adm_hmac h) (adm_pepper h) plaintext,
     t_TokenPrefix = take agentTokenPrefixLen plaintext, t_Description = req_Description r, t_IsRevoked = False,
     t_LastUsedAt = None, t_ExpiresAt = ?exp, t_CreatedAt = 0\<rparr>"
  obtain t where t: "CreateAgentToken uuid2 (clk 2) ?t db1 = (Inr t, db')" "resp = toAgentTokenResponse t (c_Name cluster)"
    using assms(1) fc b p
    by (auto simp: HandleCreateAgentToken_def generateAgentToken_def Let_def simp del: append.simps
        split: sum.splits prod.splits)
  have rows: "agent_tokens db' = agent_tokens db1 @
        [?t\<lparr>t_ID := uuid2, t_CreatedAt := stored_time (clk 2), t_ExpiresAt := map_option stored_time ?exp\<rparr>]"
      "clusters db' = clusters db1" "faults db' = []" "tok_ExpiresAt resp = ?exp"
    using t spec by (auto simp: CreateAgentToken_def Let_def new_id_def toAgentTokenResponse_def split: if_splits)
  have "find (\<lambda>t. t_TokenHash t = adm_hmac h (adm_pepper h) plaintext) (agent_tokens db1) = None"
    using assms(4) spec by (auto simp: find_None_iff image_iff)
  then have "token_accepted (adm_hmac h (adm_pepper h) plaintext) now (req_ClusterName r) row db'"
    using rows assms(5) find_row row(3)
    by (auto simp: token_accepted_def find_append hashAgentToken_def split: option.splits if_splits)
  then show ?thesis using Authenticate_no_faults rows(3) row(3) by blast
qed

definition demo_admin :: AdminHandlers where
  "demo_admin = \<lparr>adm_lib = demo_lib, adm_hmac = (\<lambda>p t. p @ '':'' @ t), adm_pepper = ''pepper''\<rparr>"

theorem created_token_authenticates_witness:
  "\<exists>cluster. fst (Authenticate (adm_hmac demo_admin) (adm_pepper demo_admin) 99 99 ''kbat_01'' ''dev''
      (snd (HandleCreateAgentToken demo_admin (\<lambda>_. 0) (Some [1]) ''u1'' ''u2''
        (Some \<lparr>req_ClusterName = ''dev'', req_Description = [], req_ExpiresInDays = 0\<rparr>) (demo_db False)))) = Inr cluster \<and>
     c_Name cluster = ''dev''"
proof -
  let ?r = "\<lparr>req_ClusterName = ''dev'', req_Description = [], req_ExpiresInDays = 0\<rparr>"
  let ?h = "HandleCreateAgentToken demo_admin (\<lambda>_. 0) (Some [1]) ''u1'' ''u2'' (Some ?r) (demo_db False)"
  obtain resp where "?h = (RespOk 201 (resp, ''kbat_01''), snd ?h)" "tok_ExpiresAt resp = None"
    by (simp add: HandleCreateAgentToken_def findOrCreateCluster_def GetClusterByName_eq demo_db_def createSchema_def
        CreateCluster_def generateAgentToken_def hex_digit_def CreateAgentToken_def Let_def new_id_def
        toAgentTokenResponse_def)
  from created_token_authenticates [OF this(1), of 99 99] this(2) show ?thesis
    by (simp add: demo_db_def createSchema_def db_ok_def demo_admin_def)
qed

text \<open>A token asked for with a lifetime of up to 106751 days lives that long from its creation. With one
  day more the 64-bit nanoseconds of the lifetime wrap, and the token is expired when it is created.\<close>

theorem token_lifetime_bound:
  "(0 < days \<and> days \<le> 106751 \<longrightarrow> days_duration days = days * 86400 * second) \<and> days_duration 106752 < 0"
proof
  show "days_duration 106752 < 0" by (simp add: days_duration_def int64_wrap_def)
  show "0 < days \<and> days \<le> 106751 \<longrightarrow> days_duration days = days * 86400 * second"
    by (auto simp: days_duration_def int64_wrap_id)
qed

theorem token_lifetime_bound_witness: "days_duration 30 = 30 * 86400 * second"
  using token_lifetime_bound [of 30] by simp

text \<open>Whatever a request for the audit log asks for, a page holds at most 200 entries, and the page
  number and size reported are at least 1.\<close>

theorem audit_page_bounds:
  assumes "fst (HandleListAuditLogs rfc3339 order_by query db) = RespOk c (logs, n, page, per_page)"
  shows "1 \<le> page \<and> 1 \<le> per_page \<and> per_page \<le> 200 \<and> length logs \<le> nat per_page"
proof -
  have at: "1 \<le> d \<Longrightarrow> 1 \<le> atoiDefault s d" for s d
    by (auto simp: atoiDefault_def split: option.splits)
  have cl: "1 \<le> clampPerPage (atoiDefault s 50) \<and> clampPerPage (atoiDefault s 50) \<le> 200" for s
    using at [of 50 s] by (simp add: clampPerPage_def)
  obtain f db1 where f: "ListAuditLogs order_by f db = (Inr (logs, n), db1)" "page = f_Page f" "per_page = f_PerPage f"
      "f_Page f = atoiDefault (query ''page'') 1" "f_PerPage f = clampPerPage (atoiDefault (query ''per_page'') 50)"
    using assms by (fastforce simp: HandleListAuditLogs_def Let_def split: option.splits prod.splits sum.splits)
  then have "length logs \<le> nat per_page"
    using cl [of "query ''per_page''"] by (auto simp: ListAuditLogs_def statement_query audit_page_def split: if_splits)
  then show ?thesis using f at [of 1] cl by simp
qed

theorem audit_page_bounds_witness:
  "\<exists>logs n page per_page. fst (HandleListAuditLogs (\<lambda>_. None) rev (\<lambda>k. if k = ''per_page'' then ''1000'' else [])
      (createSchema [])) = RespOk 200 (logs, n, page, per_page) \<and> per_page \<le> 200"
proof -
  let ?res = "HandleListAuditLogs (\<lambda>_. None) rev (\<lambda>k. if k = ''per_page'' then ''1000'' else []) (createSchema [])"
  obtain logs n page per_page where "fst ?res = RespOk 200 (logs, n, page, per_page)"
    by (auto simp: HandleListAuditLogs_def parseTimeParam_def Let_def ListAuditLogs_def statement_query createSchema_def)
  then show ?thesis using audit_page_bounds by blast
qed

end
