(* ===== verification/Http.thy ===== *)
theory Http
  imports Policy Grpc Admin
begin

text \<open>
  The REST side of the central server: \<open>internal/central/http.go\<close> (routes, the command handlers and
  their authorization and audit) and \<open>ratelimit.go\<close>. The handlers work on the state they share with
  the gRPC side (theory Grpc). A handler that waits is cut at the wait: what the agents and the other
  handlers do meanwhile is an argument, a function on the state.
\<close>

record ExecRequest =
  ex_Command :: "string list"
  ex_Namespace :: string
  ex_Timeout :: int
  ex_Stdin :: bytes

record ExecResponse =
  er_Output :: bytes
  er_ExitCode :: "32 word"
  er_Error :: string

definition DefaultExecTimeout :: int where
  "DefaultExecTimeout = 30 * second"

definition MaxExecTimeout :: int where
  "MaxExecTimeout = 300 * second"

text \<open>What the handlers use of the server's configuration, and of the request's context: the claims
  the middleware stored and the client's address.\<close>

record HTTPServer =
  h_policy :: "PolicyEngine option"
  h_audit :: bool

record ReqCtx =
  rq_user :: "UserClaims option"
  rq_ip :: string


section \<open>Authorization and audit\<close>

definition audit_entry ::
  "ReqCtx \<Rightarrow> string \<Rightarrow> ExecRequest \<Rightarrow> string \<Rightarrow> 32 word option \<Rightarrow> int option \<Rightarrow> string \<Rightarrow> AuditLog" where
  "audit_entry c cluster req status exitCode durationMs errMsg =
     \<lparr>log_ID = [],
      log_UserID = (case rq_user c of None \<Rightarrow> [] | Some claims \<Rightarrow> UserID claims),
      log_UserEmail = (case rq_user c of None \<Rightarrow> [] | Some claims \<Rightarrow> Email claims),
      log_ClusterName = cluster, log_ClusterID = [], log_Command = join '' '' (ex_Command req),
      log_Namespace = ex_Namespace req, log_Status = status, log_ExitCode = exitCode,
      log_DurationMs = durationMs, log_ErrorMessage = errMsg, log_ClientIP = rq_ip c, log_CreatedAt = 0\<rparr>"

definition recordExecAudit ::
  "HTTPServer \<Rightarrow> ReqCtx \<Rightarrow> string \<Rightarrow> int \<Rightarrow> string \<Rightarrow> ExecRequest \<Rightarrow> string \<Rightarrow> 32 word option \<Rightarrow> int option \<Rightarrow>
     string \<Rightarrow> Db \<Rightarrow> Db" where
  "recordExecAudit s c uuid now cluster req status exitCode durationMs errMsg db =
     (if \<not> h_audit s then db
      else Record uuid now (audit_entry c cluster req status exitCode durationMs errMsg) db)"

definition recordExecResult ::
  "HTTPServer \<Rightarrow> ReqCtx \<Rightarrow> string \<Rightarrow> int \<Rightarrow> string \<Rightarrow> ExecRequest \<Rightarrow> CommandResult \<Rightarrow> int \<Rightarrow> Db \<Rightarrow> Db" where
  "recordExecResult s c uuid now cluster req result durationMs db =
     recordExecAudit s c uuid now cluster req
       (if CommandResult.ExitCode result \<noteq> 0 \<or> ErrorMessage result \<noteq> [] then AuditStatusFailed else AuditStatusSuccess)
       (Some (CommandResult.ExitCode result)) (Some durationMs) (ErrorMessage result) db"

text \<open>The refusal, or \<open>None\<close> when the request may go on; a denial is audited.\<close>

definition authorizeExec ::
  "HTTPServer \<Rightarrow> ReqCtx \<Rightarrow> string \<Rightarrow> int \<Rightarrow> string \<Rightarrow> ExecRequest \<Rightarrow> Db \<Rightarrow> (nat \<times> string) option \<times> Db" where
  "authorizeExec s c uuid now clusterName req db = (case h_policy s of
     None \<Rightarrow> (None, db)
   | Some policy \<Rightarrow> (case rq_user c of
       None \<Rightarrow> (Some (401, ''not authenticated''), db)
     | Some claims \<Rightarrow>
         if \<not> Allows policy (Email claims) (parseAccessRequest clusterName (ex_Command req) (ex_Namespace req))
         then (Some (403, ''permission denied''),
               recordExecAudit s c uuid now clusterName req AuditStatusDenied None None ''permission denied'' db)
         else (None, db)))"


section \<open>Command execution\<close>

definition handleListClusters :: "string list \<Rightarrow> GRPCServer \<Rightarrow> (string \<times> string) list" where
  "handleListClusters order g =
     map (\<lambda>a. (info_ClusterName a, info_Status a)) (store_List order (g_agents g))"

text \<open>The product of the requested seconds is a 64-bit one and wraps.\<close>

definition exec_timeout :: "int \<Rightarrow> int" where
  "exec_timeout t =
     (if t > 0 then (let d = int64_wrap (t * second) in if d > MaxExecTimeout then MaxExecTimeout else d)
      else DefaultExecTimeout)"

text \<open>
  The common start of the handlers that talk to an agent: the cluster's agent, connected. \<open>order\<close> is
  the order in which the registry is visited.
\<close>

definition find_agent :: "string list \<Rightarrow> string \<Rightarrow> GRPCServer \<Rightarrow> (nat \<times> string) + AgentInfo" where
  "find_agent order clusterName g = (case GetByClusterName order clusterName (g_agents g) of
     None \<Rightarrow> Inl (404, ''cluster not found'')
   | Some agent \<Rightarrow>
       if info_Status agent \<noteq> AgentStatusConnected then Inl (503, ''cluster agent is disconnected'')
       else Inr agent)"

text \<open>The checks of the body and of the permission, with the audit entry of a denial.\<close>

definition check_exec ::
  "HTTPServer \<Rightarrow> ReqCtx \<Rightarrow> string \<Rightarrow> int \<Rightarrow> string \<Rightarrow> ExecRequest option \<Rightarrow> GRPCServer \<Rightarrow>
     ((nat \<times> string) + ExecRequest) \<times> GRPCServer" where
  "check_exec s c uuid now clusterName body g = (case body of
     None \<Rightarrow> (Inl (400, ''invalid request''), g)
   | Some req \<Rightarrow>
       if ex_Command req = [] then (Inl (400, ''command is required''), g)
       else (case authorizeExec s c uuid now clusterName req (g_db g) of
           (Some refusal, db) \<Rightarrow> (Inl refusal, g\<lparr>g_db := db\<rparr>)
         | (None, db) \<Rightarrow> (Inr req, g\<lparr>g_db := db\<rparr>)))"

text \<open>Up to the wait: a refusal, or the identifier of the queued command.\<close>

definition exec_begin ::
  "HTTPServer \<Rightarrow> ReqCtx \<Rightarrow> string list \<Rightarrow> string \<Rightarrow> (nat \<Rightarrow> int) \<Rightarrow> bytes option \<Rightarrow> string \<Rightarrow> ExecRequest option \<Rightarrow>
     GRPCServer \<Rightarrow> ((nat \<times> string) + (string \<times> ExecRequest)) \<times> GRPCServer" where
  "exec_begin s c order uuid clk rand clusterName body g =
     (case find_agent order clusterName g of
        Inl refusal \<Rightarrow> (Inl refusal, g)
      | Inr agent \<Rightarrow>
          (case check_exec s c uuid (clk 0) clusterName body g of
             (Inl refusal, g1) \<Rightarrow> (Inl refusal, g1)
           | (Inr req, g1) \<Rightarrow>
               (case Enqueue rand (clk 1) (AgentInfo.ID agent) clusterName (ex_Command req) (ex_Namespace req)
                    (word_of_int (exec_timeout (ex_Timeout req) div second)) (ex_Stdin req) (g_queue g1) of
                  (None, q) \<Rightarrow> (Inl (500, ''failed to queue command''), g1)
                | (Some rid, q) \<Rightarrow> (Inr (rid, req), g1\<lparr>g_queue := q\<rparr>))))"

definition exec_response :: "CommandResult \<Rightarrow> ExecResponse" where
  "exec_response result =
     \<lparr>er_Output = CommandResult.Stdout result @
        (if CommandResult.Stderr result \<noteq> []
         then (if CommandResult.Stdout result \<noteq> [] then [10] else []) @ CommandResult.Stderr result else []),
      er_ExitCode = CommandResult.ExitCode result, er_Error = ErrorMessage result\<rparr>"

text \<open>From the wait on, \<open>None\<close> while it blocks; the command is removed from the queue in the end.\<close>

definition exec_finish ::
  "HTTPServer \<Rightarrow> ReqCtx \<Rightarrow> string \<Rightarrow> (nat \<Rightarrow> int) \<Rightarrow> bool \<Rightarrow> bool \<Rightarrow> string \<Rightarrow> string \<Rightarrow> ExecRequest \<Rightarrow> GRPCServer \<Rightarrow>
     (ExecResponse resp \<times> GRPCServer) option" where
  "exec_finish s c uuid clk ctx_done pick clusterName rid req g =
     (case WaitForResult ctx_done pick rid (g_queue g) of
        (WaitBlocked, q) \<Rightarrow> None
      | (WaitResult result, q) \<Rightarrow>
          Some (RespOk 200 (exec_response result),
            g\<lparr>g_queue := Remove rid q,
              g_db := recordExecResult s c uuid (clk 4) clusterName req result ((clk 3 - clk 2) div 1000000) (g_db g)\<rparr>)
      | (_, q) \<Rightarrow>
          Some (RespError 504 ''command execution timed out'',
            g\<lparr>g_queue := Remove rid q,
              g_db := recordExecAudit s c uuid (clk 4) clusterName req AuditStatusTimeout None
                (Some ((clk 3 - clk 2) div 1000000)) ''command execution timed out'' (g_db g)\<rparr>))"

definition handleExecCommand where
  "handleExecCommand s c order uuid uuid2 clk rand ctx_done pick clusterName body env g =
     (case exec_begin s c order uuid clk rand clusterName body g of
        (Inl (code, msg), g1) \<Rightarrow> Some (RespError code msg, g1)
      | (Inr (rid, req), g1) \<Rightarrow> exec_finish s c uuid2 clk ctx_done pick clusterName rid req (env g1))"


section \<open>Streaming\<close>

fun start_refusal :: "string \<Rightarrow> start_error \<Rightarrow> nat \<times> string" where
  "start_refusal msg ErrTooManyStreams = (429, ''too many concurrent streams'')"
| "start_refusal msg ErrNoAgentStream = (503, msg)"
| "start_refusal msg ErrSend = (503, msg)"

definition stream_begin ::
  "HTTPServer \<Rightarrow> ReqCtx \<Rightarrow> string list \<Rightarrow> string \<Rightarrow> int \<Rightarrow> bool \<Rightarrow> string \<Rightarrow> string \<Rightarrow> ExecRequest option \<Rightarrow>
     GRPCServer \<Rightarrow> ((nat \<times> string) + (nat \<times> ExecRequest)) \<times> GRPCServer" where
  "stream_begin s c order uuid now ok sid clusterName body g =
     (case find_agent order clusterName g of
        Inl refusal \<Rightarrow> (Inl refusal, g)
      | Inr agent \<Rightarrow>
          (case check_exec s c uuid now clusterName body g of
             (Inl refusal, g1) \<Rightarrow> (Inl refusal, g1)
           | (Inr req, g1) \<Rightarrow>
               (case Start ok sid (AgentInfo.ID agent) (ex_Command req) (ex_Namespace req) (g_sessions g1) of
                  (Inl e, m) \<Rightarrow> (Inl (start_refusal ''streaming unavailable for this cluster'' e), g1\<lparr>g_sessions := m\<rparr>)
                | (Inr r, m) \<Rightarrow> (Inr (r, req), g1\<lparr>g_sessions := m\<rparr>))))"

text \<open>
  \<open>streamSessionToClient\<close>: the events of the \<open>select\<close>, each with what the other goroutines did to the
  manager before it, and whether the context is done and taken. The bytes written to the client and
  whether the loop has returned.
\<close>

fun stream_loop ::
  "((SessionManager \<Rightarrow> SessionManager) \<times> bool \<times> bool) list \<Rightarrow> nat \<Rightarrow> SessionManager \<Rightarrow> bytes \<times> bool \<times> SessionManager" where
  "stream_loop [] r m = ([], False, m)"
| "stream_loop ((env, ctx_done, ok) # evs) r m =
     (let m1 = env m in
      if ctx_done then ([], True, Cancel ok (sess_ID (sess_at m1 r)) m1)
      else (case recv_output r m1 of
          (RecvChunk chunk, m2) \<Rightarrow>
            (case stream_loop evs r m2 of (out, fin, m3) \<Rightarrow> (chunk_Data chunk @ out, fin, m3))
        | (RecvClosed, m2) \<Rightarrow> ([], True, m2)
        | (RecvBlocked, m2) \<Rightarrow> stream_loop evs r m2))"

text \<open>The status a streaming command is audited with.\<close>

definition stream_status :: "bool \<Rightarrow> 32 word \<Rightarrow> string \<Rightarrow> string" where
  "stream_status ctx_err exitCode errMsg =
     (if ctx_err then AuditStatusCanceled
      else if exitCode \<noteq> 0 \<or> errMsg \<noteq> [] then AuditStatusFailed else AuditStatusSuccess)"

text \<open>The handler: \<open>None\<close> while the session has not ended.\<close>

definition handleStreamCommand where
  "handleStreamCommand s c order uuid uuid2 clk ok sid ctx_err clusterName body evs g =
     (case stream_begin s c order uuid (clk 0) ok sid clusterName body g of
        (Inl (code, msg), g1) \<Rightarrow> Some (RespError code msg, g1)
      | (Inr (r, req), g1) \<Rightarrow>
          (case stream_loop evs r (g_sessions g1) of
             (out, fin, m) \<Rightarrow> (case Wait r m of
                 None \<Rightarrow> None
               | Some (exitCode, errMsg) \<Rightarrow>
                   if \<not> fin then None
                   else Some (RespOk 200 out, g1\<lparr>g_sessions := m,
                     g_db := recordExecAudit s c uuid2 (clk 3) clusterName req (stream_status ctx_err exitCode errMsg)
                       (Some exitCode) (Some ((clk 2 - clk 1) div 1000000)) errMsg (g_db g1)\<rparr>))))"


section \<open>Rate limiting of the login routes\<close>

text \<open>
  The token bucket is the library's: \<open>new\<close> makes one, \<open>take\<close> asks it for a token. The map from keys to
  buckets is dropped whole when a new key meets 10000 of them.
\<close>

record 'b loginLimiter =
  buckets :: "(string \<times> 'b) list"

definition newLoginLimiter :: "'b loginLimiter" where
  "newLoginLimiter = \<lparr>buckets = []\<rparr>"

definition maxBuckets :: nat where
  "maxBuckets = 10000"

definition limiter_allow ::
  "'b \<Rightarrow> ('b \<Rightarrow> bool \<times> 'b) \<Rightarrow> string \<Rightarrow> 'b loginLimiter \<Rightarrow> bool \<times> 'b loginLimiter" where
  "limiter_allow new take_token key l = (case map_of (buckets l) key of
     Some b \<Rightarrow> (case take_token b of (ok, b') \<Rightarrow> (ok, l\<lparr>buckets := AList.update key b' (buckets l)\<rparr>))
   | None \<Rightarrow>
       let bs = (if length (buckets l) \<ge> maxBuckets then [] else buckets l) in
       (case take_token new of (ok, b') \<Rightarrow> (ok, l\<lparr>buckets := AList.update key b' bs\<rparr>)))"

text \<open>\<open>peekEmail\<close>: the e-mail in the first 4096 bytes of the body, and the body it puts back; \<open>None\<close> is a
  body that cannot be read. The JSON decoder is the argument \<open>json_email\<close>.\<close>

definition peekEmail :: "(bytes \<Rightarrow> string) \<Rightarrow> bytes option \<Rightarrow> string \<times> bytes option" where
  "peekEmail json_email body = (case body of
     None \<Rightarrow> ([], None)
   | Some b \<Rightarrow> (json_email (take 4096 b), Some (take 4096 b)))"

definition loginRateLimitMiddleware where
  "loginRateLimitMiddleware json_email new take_token ip body l =
     (case peekEmail json_email body of (email, body') \<Rightarrow>
        (case limiter_allow new take_token (ip @ ''|'' @ email) l of
           (True, l') \<Rightarrow> (Inr body', l')
         | (False, l') \<Rightarrow> (Inl (429 :: nat, ''too many attempts, slow down''), l')))"


section \<open>Routes\<close>

datatype endpoint =
    Health | Login | Refresh | ListClustersRoute | Exec | StreamRoute | ExecAttach | PortForward
  | Logout | ChangePassword | CreateToken | ListTokens | RevokeToken
  | ListUsersRoute | CreateUserRoute | UpdateUserRoute | DeleteUserRoute | ListAudit

datatype middleware = RateLimit | BodyLimit | AuthMw | AdminMw

text \<open>The middleware of each route, in the order the groups add it, when all components are configured.\<close>

fun middlewares :: "endpoint \<Rightarrow> middleware list" where
  "middlewares Health = []"
| "middlewares Login = [RateLimit, BodyLimit]"
| "middlewares Refresh = [RateLimit, BodyLimit]"
| "middlewares ListClustersRoute = [AuthMw]"
| "middlewares Exec = [AuthMw, BodyLimit]"
| "middlewares StreamRoute = [AuthMw]"
| "middlewares ExecAttach = [AuthMw]"
| "middlewares PortForward = [AuthMw]"
| "middlewares Logout = [AuthMw]"
| "middlewares ChangePassword = [AuthMw]"
| "middlewares CreateToken = [AuthMw, AdminMw, BodyLimit]"
| "middlewares ListTokens = [AuthMw, AdminMw, BodyLimit]"
| "middlewares RevokeToken = [AuthMw, AdminMw, BodyLimit]"
| "middlewares ListUsersRoute = [AuthMw, AdminMw, BodyLimit]"
| "middlewares CreateUserRoute = [AuthMw, AdminMw, BodyLimit]"
| "middlewares UpdateUserRoute = [AuthMw, AdminMw, BodyLimit]"
| "middlewares DeleteUserRoute = [AuthMw, AdminMw, BodyLimit]"
| "middlewares ListAudit = [AuthMw, AdminMw, BodyLimit]"

text \<open>The chain up to the handler: the first refusal, or the user the handler sees. \<open>limited\<close> is the
  verdict of the rate limiter; the body limit lets every request pass here.\<close>

fun run_chain ::
  "Lib \<Rightarrow> JWTManager \<Rightarrow> int \<Rightarrow> string \<Rightarrow> bool \<Rightarrow> middleware list \<Rightarrow> UserClaims option \<Rightarrow>
     (nat \<times> string) + UserClaims option" where
  "run_chain lib jm now header limited [] user = Inr user"
| "run_chain lib jm now header limited (RateLimit # mws) user =
     (if limited then Inl (429, ''too many attempts, slow down'') else run_chain lib jm now header limited mws user)"
| "run_chain lib jm now header limited (BodyLimit # mws) user = run_chain lib jm now header limited mws user"
| "run_chain lib jm now header limited (AuthMw # mws) user = (case AuthMiddleware lib jm now header of
     Inl refusal \<Rightarrow> Inl refusal
   | Inr claims \<Rightarrow> run_chain lib jm now header limited mws (Some claims))"
| "run_chain lib jm now header limited (AdminMw # mws) user = (case AdminRequired user of
     Some refusal \<Rightarrow> Inl refusal
   | None \<Rightarrow> run_chain lib jm now header limited mws user)"

definition admin_endpoint :: "endpoint \<Rightarrow> bool" where
  "admin_endpoint e = (e \<in> {CreateToken, ListTokens, RevokeToken, ListUsersRoute, CreateUserRoute,
     UpdateUserRoute, DeleteUserRoute, ListAudit})"

end
