(* ===== verification/Bridges.thy ===== *)
theory Bridges
  imports Http Frames Session_Props
begin

text \<open>
  The bidirectional streams of the central server: interactive exec (\<open>internal/central/exec_http.go\<close>)
  and port-forward (\<open>portforward_http.go\<close>). A bridge joins the frames of the client (theory Frames)
  with a session (theory Session_Manager).

  Each bridge runs two loops. An iteration of a loop comes with what the other goroutines did to the
  manager before it (\<open>env\<close>) and whether a send to the agent succeeds (\<open>ok\<close>); the iteration of the
  \<open>select\<close> also with whether the context is done and taken. A list of iterations that ends before the
  loop returns is a loop that goes on.
\<close>

type_synonym env = "SessionManager \<Rightarrow> SessionManager"


section \<open>Exec: from the client to the agent\<close>

definition exec_up_frame :: "bool \<Rightarrow> string \<Rightarrow> byte \<times> bytes \<Rightarrow> SessionManager \<Rightarrow> SessionManager" where
  "exec_up_frame ok sid f m =
     (if fst f = Stdin then snd (SendStdin ok sid (snd f) m)
      else if fst f = Resize then (case DecodeResize (snd f) of
          Inl e \<Rightarrow> m
        | Inr (rows, cols) \<Rightarrow> snd (SendResize ok sid (ucast rows) (ucast cols) m))
      else m)"

fun exec_upstream :: "(env \<times> bool) list \<Rightarrow> string \<Rightarrow> bytes \<Rightarrow> SessionManager \<Rightarrow> SessionManager" where
  "exec_upstream [] sid r m = m"
| "exec_upstream ((env, ok) # evs) sid r m = (case Decode r of
     (Inl e, _) \<Rightarrow> m
   | (Inr f, r1) \<Rightarrow> exec_upstream evs sid r1 (exec_up_frame ok sid f (env m)))"


section \<open>Exec: from the agent to the client\<close>

text \<open>The error of a write to the client is not looked at. The result is \<open>None\<close> while the loop has not
  returned; \<open>sess.Wait\<close> after a cancellation blocks until the session is closed.\<close>

definition chunk_frame :: "StreamChunk \<Rightarrow> byte \<times> bytes" where
  "chunk_frame chunk = (if chunk_Type chunk = OUTPUT_TYPE_STDERR then Stderr else Stdout, chunk_Data chunk)"

fun exec_downstream ::
  "('w \<Rightarrow> bytes \<Rightarrow> 'w \<times> 'e option) \<Rightarrow> (env \<times> bool \<times> bool) list \<Rightarrow> nat \<Rightarrow> SessionManager \<Rightarrow> 'w \<Rightarrow>
     'w \<times> (32 word \<times> string) option \<times> SessionManager" where
  "exec_downstream write [] r m w = (w, None, m)"
| "exec_downstream write ((env, ctx_done, ok) # evs) r m w =
     (let m1 = env m in
      if ctx_done then (let m2 = Cancel ok (sess_ID (sess_at m1 r)) m1 in (w, Wait r m2, m2))
      else (case recv_output r m1 of
          (RecvClosed, m2) \<Rightarrow> (case Wait r m2 of
              None \<Rightarrow> (w, None, m2)
            | Some ce \<Rightarrow> (fst (Encode write w Exit (EncodeExit ce)), Some ce, m2))
        | (RecvChunk chunk, m2) \<Rightarrow>
            exec_downstream write evs r m2
              (fst (Encode write w (fst (chunk_frame chunk)) (snd (chunk_frame chunk))))
        | (RecvBlocked, m2) \<Rightarrow> exec_downstream write evs r m2 w))"

definition clampDim :: "int \<Rightarrow> 16 word" where
  "clampDim n = (if n < 1 then 1 else if n > 65535 then 65535 else word_of_int n)"

definition buildExecArgs :: "string \<Rightarrow> string \<Rightarrow> string list \<Rightarrow> bool \<Rightarrow> string list" where
  "buildExecArgs pod container command tty =
     [''exec'', ''-i''] @ (if tty then [''-t''] else []) @ [pod] @
     (if container \<noteq> [] then [''-c'', container] else []) @ [''--''] @ command"

record AttachParams =
  at_pod :: string
  at_container :: string
  at_command :: "string list"
  at_tty :: bool
  at_rows :: int
  at_cols :: int
  at_namespace :: string

text \<open>The query of the request as its keys and values, in order; \<open>Query\<close> takes the first value of a key.\<close>

type_synonym url_query = "(string \<times> string) list"

definition query_get :: "url_query \<Rightarrow> string \<Rightarrow> string" where
  "query_get q k = (case map_of q k of None \<Rightarrow> [] | Some v \<Rightarrow> v)"

definition query_array :: "url_query \<Rightarrow> string \<Rightarrow> string list" where
  "query_array q k = map snd (filter (\<lambda>e. fst e = k) q)"

definition attach_params :: "url_query \<Rightarrow> AttachParams" where
  "attach_params q =
     \<lparr>at_pod = query_get q ''pod'', at_container = query_get q ''container'', at_command = query_array q ''command'',
      at_tty = (query_get q ''tty'' = ''true''), at_rows = atoiDefault (query_get q ''rows'') 24,
      at_cols = atoiDefault (query_get q ''cols'') 80, at_namespace = query_get q ''namespace''\<rparr>"

definition attach_request :: "AttachParams \<Rightarrow> ExecRequest" where
  "attach_request p =
     \<lparr>ex_Command = buildExecArgs (at_pod p) (at_container p) (at_command p) (at_tty p),
      ex_Namespace = at_namespace p, ex_Timeout = 0, ex_Stdin = []\<rparr>"

text \<open>The request the completed session is audited with names the command without the transport flags.\<close>

definition attach_audit_request :: "AttachParams \<Rightarrow> ExecRequest" where
  "attach_audit_request p =
     \<lparr>ex_Command = [''exec'', at_pod p, ''--''] @ at_command p, ex_Namespace = at_namespace p,
      ex_Timeout = 0, ex_Stdin = []\<rparr>"

text \<open>Up to the bridge: a refusal or the session. The query has been read, rows and columns with their
  defaults.\<close>

definition attach_begin ::
  "HTTPServer \<Rightarrow> ReqCtx \<Rightarrow> string list \<Rightarrow> string \<Rightarrow> int \<Rightarrow> bool \<Rightarrow> string \<Rightarrow> string \<Rightarrow> AttachParams \<Rightarrow>
     GRPCServer \<Rightarrow> ((nat \<times> string) + nat) \<times> GRPCServer" where
  "attach_begin s c order uuid now ok sid clusterName p g =
     (case find_agent order clusterName g of
        Inl refusal \<Rightarrow> (Inl refusal, g)
      | Inr agent \<Rightarrow>
          if at_pod p = [] then (Inl (400, ''pod is required''), g)
          else if at_command p = [] then (Inl (400, ''command is required''), g)
          else (let req = attach_request p in
            case authorizeExec s c uuid now clusterName req (g_db g) of
              (Some refusal, db) \<Rightarrow> (Inl refusal, g\<lparr>g_db := db\<rparr>)
            | (None, db) \<Rightarrow>
                (case (if at_tty p
                       then StartInteractive ok sid (AgentInfo.ID agent) (ex_Command req) (at_namespace p)
                              (clampDim (at_rows p)) (clampDim (at_cols p)) (g_sessions g)
                       else StartWithStdin ok sid (AgentInfo.ID agent) (ex_Command req) (at_namespace p) (g_sessions g)) of
                   (Inl e, m) \<Rightarrow> (Inl (start_refusal ''exec unavailable for this cluster'' e), g\<lparr>g_db := db, g_sessions := m\<rparr>)
                 | (Inr r, m) \<Rightarrow> (Inr r, g\<lparr>g_db := db, g_sessions := m\<rparr>))))"

definition attach_status :: "bool \<Rightarrow> 32 word \<Rightarrow> string \<Rightarrow> string" where
  "attach_status ctx_err exitCode errMsg =
     (if ctx_err \<or> errMsg = ''canceled'' then AuditStatusCanceled
      else if exitCode \<noteq> 0 \<or> errMsg \<noteq> [] then AuditStatusFailed else AuditStatusSuccess)"

text \<open>The handler, with the upstream goroutine among what \<open>env\<close> does; \<open>None\<close> while the bridge runs.\<close>

definition handleExecAttach where
  "handleExecAttach write s c order uuid uuid2 clk ok sid ctx_err clusterName p evs w g =
     (case attach_begin s c order uuid (clk 0) ok sid clusterName p g of
        (Inl (code, msg), g1) \<Rightarrow> Some (RespError code msg, g1)
      | (Inr r, g1) \<Rightarrow>
          (case exec_downstream write evs r (g_sessions g1) w of
             (w', None, m) \<Rightarrow> None
           | (w', Some (exitCode, errMsg), m) \<Rightarrow>
               Some (RespOk 200 w', g1\<lparr>g_sessions := m,
                 g_db := recordExecAudit s c uuid2 (clk 3) clusterName (attach_audit_request p)
                   (attach_status ctx_err exitCode errMsg) (Some exitCode)
                   (Some ((clk 2 - clk 1) div 1000000)) errMsg (g_db g1)\<rparr>)))"


section \<open>Port-forward\<close>

definition pf_up_frame :: "bool \<Rightarrow> string \<Rightarrow> byte \<times> bytes \<Rightarrow> SessionManager \<Rightarrow> SessionManager" where
  "pf_up_frame ok sid f m =
     (if fst f = Open then (case DecodeOpen (snd f) of
          Inl e \<Rightarrow> m
        | Inr (cid, port) \<Rightarrow> snd (SendPfOpen ok sid cid (ucast port) m))
      else if fst f = Data then (case DecodeData (snd f) of
          Inl e \<Rightarrow> m
        | Inr (cid, data) \<Rightarrow> snd (SendPfData ok sid cid data m))
      else if fst f = Close then (case DecodeConnID (snd f) of
          Inl e \<Rightarrow> m
        | Inr cid \<Rightarrow> snd (SendPfClose ok sid cid m))
      else m)"

fun pf_upstream :: "(env \<times> bool) list \<Rightarrow> string \<Rightarrow> bytes \<Rightarrow> SessionManager \<Rightarrow> SessionManager" where
  "pf_upstream [] sid r m = m"
| "pf_upstream ((env, ok) # evs) sid r m = (case PfDecode r of
     (Inl e, _) \<Rightarrow> m
   | (Inr f, r1) \<Rightarrow> pf_upstream evs sid r1 (pf_up_frame ok sid f (env m)))"

definition pf_frame :: "PfChunk \<Rightarrow> byte \<times> bytes" where
  "pf_frame chunk = (case Kind chunk of
     PfKindReady \<Rightarrow> (Ready, [])
   | PfKindData \<Rightarrow> (Data, EncodeData (ConnID chunk, pf_Data chunk))
   | PfKindClose \<Rightarrow> (Close, EncodeConnID (ConnID chunk))
   | PfKindConnError \<Rightarrow> (ConnError, EncodeConnError (ConnID chunk, Err chunk))
   | PfKindSessionError \<Rightarrow> (SessionError, bytes_of (Err chunk)))"

fun pf_downstream ::
  "('w \<Rightarrow> bytes \<Rightarrow> 'w \<times> 'e option) \<Rightarrow> (env \<times> bool \<times> bool) list \<Rightarrow> nat \<Rightarrow> SessionManager \<Rightarrow> 'w \<Rightarrow>
     'w \<times> string option \<times> SessionManager" where
  "pf_downstream write [] r m w = (w, None, m)"
| "pf_downstream write ((env, ctx_done, ok) # evs) r m w =
     (let m1 = env m in
      if ctx_done then (let m2 = Cancel ok (sess_ID (sess_at m1 r)) m1 in (w, map_option snd (Wait r m2), m2))
      else (case recv_pf_output r m1 of
          (RecvClosed, m2) \<Rightarrow> (case Wait r m2 of
              None \<Rightarrow> (w, None, m2)
            | Some (code, errMsg) \<Rightarrow>
                (if errMsg \<noteq> [] then fst (PfEncode write w SessionError (bytes_of errMsg)) else w,
                 Some errMsg, m2))
        | (RecvChunk chunk, m2) \<Rightarrow>
            (let w1 = fst (PfEncode write w (fst (pf_frame chunk)) (snd (pf_frame chunk))) in
             if Kind chunk = PfKindSessionError then (w1, Some (Err chunk), m2)
             else pf_downstream write evs r m2 w1)
        | (RecvBlocked, m2) \<Rightarrow> pf_downstream write evs r m2 w))"

text \<open>The ports of the query; \<open>None\<close> for a value that is not a number, as \<open>strconv.Atoi\<close> reads it.\<close>

fun parse_ports :: "int option list \<Rightarrow> (nat \<times> string) + 32 word list" where
  "parse_ports [] = Inr []"
| "parse_ports (p # ps) = (case p of
     None \<Rightarrow> Inl (400, ''invalid port'')
   | Some n \<Rightarrow>
       if n \<le> 0 \<or> n > 65535 then Inl (400, ''invalid port'')
       else (case parse_ports ps of Inl e \<Rightarrow> Inl e | Inr ports \<Rightarrow> Inr (word_of_int n # ports)))"

definition pf_params :: "url_query \<Rightarrow> string \<times> string \<times> int option list" where
  "pf_params q = (query_get q ''pod'', query_get q ''namespace'', map atoi (query_array q ''port''))"

definition pf_request :: "string \<Rightarrow> string \<Rightarrow> ExecRequest" where
  "pf_request pod namespace =
     \<lparr>ex_Command = [''port-forward'', pod], ex_Namespace = namespace, ex_Timeout = 0, ex_Stdin = []\<rparr>"

definition pf_begin ::
  "HTTPServer \<Rightarrow> ReqCtx \<Rightarrow> string list \<Rightarrow> string \<Rightarrow> int \<Rightarrow> bool \<Rightarrow> string \<Rightarrow> string \<Rightarrow> string \<Rightarrow> string \<Rightarrow>
     int option list \<Rightarrow> GRPCServer \<Rightarrow> ((nat \<times> string) + nat) \<times> GRPCServer" where
  "pf_begin s c order uuid now ok sid clusterName pod namespace port_args g =
     (case find_agent order clusterName g of
        Inl refusal \<Rightarrow> (Inl refusal, g)
      | Inr agent \<Rightarrow>
          if pod = [] then (Inl (400, ''pod is required''), g)
          else (case parse_ports port_args of
              Inl refusal \<Rightarrow> (Inl refusal, g)
            | Inr ports \<Rightarrow>
                if ports = [] then (Inl (400, ''at least one port is required''), g)
                else (case authorizeExec s c uuid now clusterName (pf_request pod namespace) (g_db g) of
                    (Some refusal, db) \<Rightarrow> (Inl refusal, g\<lparr>g_db := db\<rparr>)
                  | (None, db) \<Rightarrow>
                      (case StartPortForward ok sid (AgentInfo.ID agent) pod namespace ports (g_sessions g) of
                         (Inl e, m) \<Rightarrow>
                           (Inl (start_refusal ''port-forward unavailable for this cluster'' e),
                            g\<lparr>g_db := db, g_sessions := m\<rparr>)
                       | (Inr r, m) \<Rightarrow> (Inr r, g\<lparr>g_db := db, g_sessions := m\<rparr>)))))"

definition pf_status :: "string \<Rightarrow> string" where
  "pf_status errMsg =
     (if errMsg = ''canceled'' then AuditStatusCanceled
      else if errMsg \<noteq> [] then AuditStatusFailed else AuditStatusSuccess)"

definition handlePortForward where
  "handlePortForward write s c order uuid uuid2 clk ok sid clusterName pod namespace port_args evs w g =
     (case pf_begin s c order uuid (clk 0) ok sid clusterName pod namespace port_args g of
        (Inl (code, msg), g1) \<Rightarrow> Some (RespError code msg, g1)
      | (Inr r, g1) \<Rightarrow>
          (case pf_downstream write evs r (g_sessions g1) w of
             (w', None, m) \<Rightarrow> None
           | (w', Some errMsg, m) \<Rightarrow>
               Some (RespOk 200 w', g1\<lparr>g_sessions := m,
                 g_db := recordExecAudit s c uuid2 (clk 3) clusterName (pf_request pod namespace)
                   (pf_status errMsg) None (Some ((clk 2 - clk 1) div 1000000)) errMsg (g_db g1)\<rparr>)))"

end
