(* ===== verification/Http_Props.thy ===== *)
theory Http_Props
  imports Http
begin

text \<open>
  What the REST handlers guarantee: no command without permission, the way of a command from the
  client to the agent and of its result back, the routes' protection, the bounds of the timeout and of
  the rate limiter's memory.
\<close>


section \<open>Permission\<close>

definition permitted :: "HTTPServer \<Rightarrow> ReqCtx \<Rightarrow> string \<Rightarrow> ExecRequest \<Rightarrow> bool" where
  "permitted s c cluster req \<longleftrightarrow> (case h_policy s of
     None \<Rightarrow> True
   | Some e \<Rightarrow> (\<exists>claims. rq_user c = Some claims \<and>
       policy_allows (current e) (Email claims) (parseAccessRequest cluster (ex_Command req) (ex_Namespace req))))"

lemma authorizeExec_permitted:
  "authorizeExec s c uuid now cluster req db = (None, db') \<Longrightarrow> permitted s c cluster req \<and> db' = db"
  by (auto simp: authorizeExec_def permitted_def Allows_def split: option.splits if_splits)

lemma authorizeExec_refused:
  "authorizeExec s c uuid now cluster req db = (Some refusal, db') \<Longrightarrow>
     \<not> permitted s c cluster req \<and> fst refusal \<in> {401, 403}"
  by (auto simp: authorizeExec_def permitted_def Allows_def split: option.splits if_splits)

lemma check_exec_Inr:
  "check_exec s c uuid now cluster body g = (Inr req, g1) \<Longrightarrow>
     body = Some req \<and> ex_Command req \<noteq> [] \<and> permitted s c cluster req \<and> g1 = g"
  by (auto simp: check_exec_def dest: authorizeExec_permitted split: option.splits if_splits prod.splits)

lemma check_exec_Inl:
  "check_exec s c uuid now cluster body g = (Inl refusal, g1) \<Longrightarrow>
     g_queue g1 = g_queue g \<and> g_sessions g1 = g_sessions g \<and> g_agents g1 = g_agents g"
  by (auto simp: check_exec_def split: option.splits if_splits prod.splits)

lemma find_agent_Inr:
  "find_agent order cluster g = Inr agent \<Longrightarrow> GetByClusterName order cluster (g_agents g) = Some agent \<and>
     info_Status agent = AgentStatusConnected \<and> info_ClusterName agent = cluster"
  by (auto simp: find_agent_def dest: GetByClusterName_Some split: option.splits if_splits)


section \<open>From the client to the agent and back\<close>

lemma exec_begin_Inr:
  assumes "exec_begin s c order uuid clk rand cluster body g = (Inr (rid, req), g1)"
  obtains agent bs where "find_agent order cluster g = Inr agent" and "body = Some req"
    and "permitted s c cluster req" and "rand = Some bs" and "rid = ''req-'' @ hex_encode bs"
    and "g1 = g\<lparr>g_queue := put_cmd rid
        \<lparr>RequestID = rid, PendingCommand.AgentID = AgentInfo.ID agent, ClusterName = cluster, Command = ex_Command req,
         cmd_Namespace = ex_Namespace req, TimeoutSeconds = word_of_int (exec_timeout (ex_Timeout req) div second),
         PendingCommand.Stdin = ex_Stdin req, CreatedAt = clk 1, Status = Pending, resultCh = None\<rparr> (g_queue g)\<rparr>"
proof -
  obtain agent where agent: "find_agent order cluster g = Inr agent"
    using assms by (auto simp: exec_begin_def split: sum.splits)
  obtain r g0 where ch: "check_exec s c uuid (clk 0) cluster body g = (r, g0)"
    by (cases "check_exec s c uuid (clk 0) cluster body g")
  then obtain req' where r: "r = Inr req'"
    using assms agent by (auto simp: exec_begin_def split: sum.splits)
  then have c: "body = Some req'" "permitted s c cluster req'" "g0 = g"
    using check_exec_Inr [of s c uuid "clk 0" cluster body g req' g0] ch by auto
  obtain bs where bs: "rand = Some bs"
    using assms agent ch r by (cases rand) (auto simp: exec_begin_def Enqueue_def generateRequestID_def)
  show thesis
    using assms agent ch r c bs by (intro that) (auto simp: exec_begin_def Enqueue_put)
qed

lemma exec_begin_Inl:
  assumes "exec_begin s c order uuid clk rand cluster body g = (Inl refusal, g1)"
  shows "g_queue g1 = g_queue g \<and> g_sessions g1 = g_sessions g"
proof (cases "find_agent order cluster g")
  case (Inr agent)
  obtain r g0 where ch: "check_exec s c uuid (clk 0) cluster body g = (r, g0)"
    by (cases "check_exec s c uuid (clk 0) cluster body g")
  then show ?thesis
    using assms Inr check_exec_Inl [of s c uuid "clk 0" cluster body g _ g0] check_exec_Inr [of s c uuid "clk 0" cluster body g _ g0]
    by (cases r) (auto simp: exec_begin_def split: prod.splits option.splits)
qed (use assms in \<open>simp add: exec_begin_def\<close>)

lemma stream_begin_sessions:
  assumes "stream_begin s c order uuid now ok sid cluster body g = (res, g1)" and "g_sessions g1 \<noteq> g_sessions g"
  shows "\<exists>req. body = Some req \<and> permitted s c cluster req"
proof -
  obtain agent where agent: "find_agent order cluster g = Inr agent"
    using assms by (auto simp: stream_begin_def split: sum.splits)
  obtain r g0 where ch: "check_exec s c uuid now cluster body g = (r, g0)"
    by (cases "check_exec s c uuid now cluster body g")
  show ?thesis
  proof (cases r)
    case (Inl refusal)
    then show ?thesis
      using assms agent ch check_exec_Inl [of s c uuid now cluster body g refusal g0] by (simp add: stream_begin_def)
  next
    case (Inr req)
    then show ?thesis using ch check_exec_Inr by blast
  qed
qed


text \<open>After the handler has queued a command, the poll of its agent delivers it, and what the agent then
  submits is what the handler answers.\<close>

lemma queue_reach_put:
  assumes "queue_reach q"
  shows "queue_reach (put_cmd (''req-'' @ hex_encode bs)
    \<lparr>RequestID = ''req-'' @ hex_encode bs, PendingCommand.AgentID = a, ClusterName = c, Command = cmd, cmd_Namespace = ns,
     TimeoutSeconds = t, PendingCommand.Stdin = i, CreatedAt = now, Status = Pending, resultCh = None\<rparr> q)"
  using reach_step [OF assms step_Enqueue [of q "Some bs" now a c cmd ns t i]] by (simp add: Enqueue_put)

lemma queue_reach_mark_all: "queue_reach q \<Longrightarrow> queue_reach (mark_all cs q)"
  unfolding mark_all_def
proof (induction cs arbitrary: q)
  case (Cons c cs)
  then show ?case using reach_step [OF Cons.prems step_MarkRunning] by simp
qed simp

definition submitted :: "SubmitCommandResultRequest \<Rightarrow> CommandResult" where
  "submitted sr = (if sr_ErrorMessage sr \<noteq> []
     then fail_result (sr_RequestId sr) (sr_ErrorMessage sr)
     else \<lparr>result_RequestID = sr_RequestId sr, CommandResult.Stdout = sr_Stdout sr, CommandResult.Stderr = sr_Stderr sr,
       CommandResult.ExitCode = sr_ExitCode sr, ErrorMessage = [], result_Completed = True\<rparr>)"

lemma submit_wait:
  assumes "queue_reach (g_queue g)" and "cmd_lookup (g_queue g) (sr_RequestId sr) = Some cmd" and "resultCh cmd = None"
    and "sr_RequestId sr \<noteq> []"
  shows "fst (WaitForResult done True (sr_RequestId sr) (g_queue (snd (SubmitCommandResult sr g)))) = WaitResult (submitted sr)"
proof -
  let ?rid = "sr_RequestId sr"
  obtain r where r: "Get ?rid (g_queue g) = Some r" "cmd_at (g_queue g) r = cmd"
    using assms(2) by (auto simp: cmd_lookup_def)
  have ok: "queue_ok (g_queue g)" by (rule command_queue.reach_inv [OF assms(1)])
  have ch: "resultCh (cmd_at (g_queue g) r) = None" using r(2) assms(3) by simp
  have f: "\<exists>q'. Fail ?rid msg (g_queue g) = (True, q') \<and> Get ?rid q' = Some r \<and>
      resultCh (cmd_at q' r) = Some (fail_result ?rid msg)" for msg
    using Fail_channel [OF ok r(1) ch] by metis
  have c: "\<exists>q'. Complete ?rid res (g_queue g) = (True, q') \<and> Get ?rid q' = Some r \<and>
      resultCh (cmd_at q' r) = Some (res\<lparr>result_Completed := True\<rparr>)" for res
    using Complete_channel [OF ok r(1) ch] by metis
  show ?thesis
  proof (cases "sr_ErrorMessage sr = []")
    case True
    let ?res = "\<lparr>result_RequestID = ?rid, CommandResult.Stdout = sr_Stdout sr, CommandResult.Stderr = sr_Stderr sr,
      CommandResult.ExitCode = sr_ExitCode sr, ErrorMessage = [], result_Completed = False\<rparr>"
    obtain q' where "Complete ?rid ?res (g_queue g) = (True, q')" "Get ?rid q' = Some r"
        "resultCh (cmd_at q' r) = Some (?res\<lparr>result_Completed := True\<rparr>)" using c by blast
    then show ?thesis
      using True assms(4) by (simp add: SubmitCommandResult_def Let_def WaitForResult_def wait_select_def submitted_def)
  next
    case False
    obtain q' where "Fail ?rid (sr_ErrorMessage sr) (g_queue g) = (True, q')" "Get ?rid q' = Some r"
        "resultCh (cmd_at q' r) = Some (fail_result ?rid (sr_ErrorMessage sr))" using f by blast
    then show ?thesis
      using False assms(4)
      by (simp add: SubmitCommandResult_def Let_def WaitForResult_def wait_select_def submitted_def)
  qed
qed


section \<open>Properties\<close>

text \<open>C2. No command reaches an agent without permission: whenever the handlers of command execution and
  streaming change the queue or the sessions (which alone lead to the agents), the body was read and,
  if there is a policy, the user of the request is permitted by it the access that is derived from the
  command line.\<close>

theorem no_command_without_permission:
  assumes "h_policy s = Some e"
    and "g_queue (snd (exec_begin s c order uuid clk rand cluster body g)) \<noteq> g_queue g \<or>
      g_sessions (snd (stream_begin s c order uuid now ok sid cluster body g)) \<noteq> g_sessions g"
  shows "\<exists>claims req. rq_user c = Some claims \<and> body = Some req \<and>
    policy_allows (current e) (Email claims) (parseAccessRequest cluster (ex_Command req) (ex_Namespace req))"
  using assms(2)
proof
  assume q: "g_queue (snd (exec_begin s c order uuid clk rand cluster body g)) \<noteq> g_queue g"
  obtain res g1 where res: "exec_begin s c order uuid clk rand cluster body g = (res, g1)"
    by (cases "exec_begin s c order uuid clk rand cluster body g")
  then obtain rid req where "res = Inr (rid, req)"
    using q exec_begin_Inl [of s c order uuid clk rand cluster body g] by (cases res) auto
  then have "body = Some req \<and> permitted s c cluster req"
    using exec_begin_Inr res by metis
  then show ?thesis using assms(1) by (auto simp: permitted_def)
next
  assume "g_sessions (snd (stream_begin s c order uuid now ok sid cluster body g)) \<noteq> g_sessions g"
  then show ?thesis
    using stream_begin_sessions [of s c order uuid now ok sid cluster body g "fst (stream_begin s c order uuid now ok sid cluster body g)"
        "snd (stream_begin s c order uuid now ok sid cluster body g)"] assms(1)
    by (auto simp: permitted_def)
qed

definition demo_server :: HTTPServer where
  "demo_server = \<lparr>h_policy = Some \<lparr>current = viewer_policy, engine_path = []\<rparr>, h_audit = False\<rparr>"

definition demo_ctx :: ReqCtx where
  "demo_ctx = \<lparr>rq_user = Some one_claims, rq_ip = []\<rparr>"

definition demo_req :: ExecRequest where
  "demo_req = \<lparr>ex_Command = [''get'', ''pods''], ex_Namespace = [], ex_Timeout = 0, ex_Stdin = []\<rparr>"

definition demo_agent :: AgentInfo where
  "demo_agent = \<lparr>ID = ''agent-a'', info_ClusterName = ''c'', Token = [], info_Status = ''connected'',
     RegisteredAt = 0, LastSeen = 0\<rparr>"

definition demo_state :: GRPCServer where
  "demo_state = demo_grpc\<lparr>g_agents := put_agent ''agent-a'' demo_agent NewAgentStore\<rparr>"

lemma demo_find: "find_agent [''agent-a''] ''c'' demo_state = Inr demo_agent"
  by (simp add: find_agent_def demo_state_def demo_agent_def put_agent_def)

lemma demo_allowed:
  "policy_allows viewer_policy ''a@b'' (parseAccessRequest ''c'' [''get'', ''pods''] [])"
  by (simp add: viewer_policy_def policy_allows_iff set_rolesFor rule_allows_def anyMatch_def
      anyVerb_def matchPattern_complete equal_fold_def trim_space_def is_space_def parseAccessRequest_def
      podScopedVerbs_def has_prefix_def Let_def strip_name_def)

lemma demo_begin:
  "exec_begin demo_server demo_ctx [''agent-a''] [] (\<lambda>_. 0) (Some [1]) ''c'' (Some demo_req) demo_state =
     (Inr (''req-01'', demo_req), demo_state\<lparr>g_queue := put_cmd ''req-01''
        \<lparr>RequestID = ''req-01'', PendingCommand.AgentID = ''agent-a'', ClusterName = ''c'', Command = [''get'', ''pods''],
         cmd_Namespace = [], TimeoutSeconds = 30, PendingCommand.Stdin = [], CreatedAt = 0, Status = Pending, resultCh = None\<rparr>
        NewCommandQueue\<rparr>)"
proof -
  have "Allows \<lparr>current = viewer_policy, engine_path = []\<rparr> ''a@b'' (parseAccessRequest ''c'' [''get'', ''pods''] [])"
    using demo_allowed by (simp add: Allows_def)
  then have "check_exec demo_server demo_ctx [] 0 ''c'' (Some demo_req) demo_state = (Inr demo_req, demo_state)"
    by (simp add: check_exec_def authorizeExec_def demo_server_def demo_ctx_def demo_req_def one_claims_def)
  moreover have "g_queue demo_state = NewCommandQueue" by (simp add: demo_state_def demo_grpc_def)
  ultimately show ?thesis
    by (simp add: exec_begin_def demo_find Enqueue_put hex_digit_def demo_req_def demo_agent_def
        exec_timeout_def DefaultExecTimeout_def)
qed

theorem no_command_without_permission_witness:
  "\<exists>claims. rq_user demo_ctx = Some claims \<and>
     policy_allows viewer_policy (Email claims) (parseAccessRequest ''c'' (ex_Command demo_req) [])"
proof -
  have "h_policy demo_server = Some \<lparr>current = viewer_policy, engine_path = []\<rparr>" by (simp add: demo_server_def)
  moreover have "g_queue (snd (exec_begin demo_server demo_ctx [''agent-a''] [] (\<lambda>_. 0) (Some [1]) ''c'' (Some demo_req) demo_state)) \<noteq>
      g_queue demo_state"
    unfolding demo_begin by (simp add: demo_state_def demo_grpc_def put_cmd_def NewCommandQueue_def)
  ultimately show ?thesis
    using no_command_without_permission [of demo_server _ demo_ctx "[''agent-a'']" "[]" "\<lambda>_. 0" "Some [1]" "''c''" "Some demo_req" demo_state]
    by (auto simp: demo_req_def)
qed

text \<open>The way of a command: once the handler has queued it under a new identifier, the next poll of the
  cluster's agent receives it with the command line, namespace, input and timeout of the request; and
  if the agent submits its result before the handler's time is over, the handler answers 200 with the
  output (standard output, then standard error on a new line), the exit code and the error, and the
  command has left the queue.\<close>

theorem command_round_trip:
  assumes "exec_begin s c order uuid clk rand cluster body g = (Inr (rid, req), g1)"
    and "queue_reach (g_queue g)" and "cmd_lookup (g_queue g) rid = None"
    and "find_agent order cluster g = Inr agent" and "store_Get (g_agents g) (AgentInfo.ID agent) = Some agent"
    and "AgentInfo.ID agent \<noteq> []" and "set rids = dom (commands (g_queue g1))"
    and "GetPendingCommands rids (AgentInfo.ID agent) g1 = (Inr cmds, g2)"
    and "sr_RequestId sr = rid"
  shows "\<lparr>cr_RequestId = rid, cr_AgentId = AgentInfo.ID agent, cr_Command = ex_Command req, cr_Namespace = ex_Namespace req,
      cr_TimeoutSeconds = word_of_int (exec_timeout (ex_Timeout req) div second), cr_Stdin = ex_Stdin req\<rparr> \<in> set cmds \<and>
    (\<exists>g4. exec_finish s c uuid2 clk2 ctx_done True cluster rid req (snd (SubmitCommandResult sr g2)) =
        Some (RespOk 200 (exec_response (submitted sr)), g4) \<and>
      rid \<notin> dom (commands (g_queue g4)))"
proof -
  obtain agent' bs where a': "find_agent order cluster g = Inr agent'" and bs: "rid = ''req-'' @ hex_encode bs"
    and g1': "g1 = g\<lparr>g_queue := put_cmd rid
        \<lparr>RequestID = rid, PendingCommand.AgentID = AgentInfo.ID agent', ClusterName = cluster, Command = ex_Command req,
         cmd_Namespace = ex_Namespace req, TimeoutSeconds = word_of_int (exec_timeout (ex_Timeout req) div second),
         PendingCommand.Stdin = ex_Stdin req, CreatedAt = clk 1, Status = Pending, resultCh = None\<rparr> (g_queue g)\<rparr>"
    by (rule exec_begin_Inr [OF assms(1)])
  let ?cmd = "\<lparr>RequestID = rid, PendingCommand.AgentID = AgentInfo.ID agent, ClusterName = cluster, Command = ex_Command req,
         cmd_Namespace = ex_Namespace req, TimeoutSeconds = word_of_int (exec_timeout (ex_Timeout req) div second),
         PendingCommand.Stdin = ex_Stdin req, CreatedAt = clk 1, Status = Pending, resultCh = None\<rparr>"
  have g1: "g1 = g\<lparr>g_queue := put_cmd rid ?cmd (g_queue g)\<rparr>" using g1' a' assms(4) by simp
  have reach1: "queue_reach (g_queue g1)" using queue_reach_put [OF assms(2)] g1 bs by simp
  have ok1: "queue_ok (g_queue g1)" by (rule command_queue.reach_inv [OF reach1])
  have look1: "cmd_lookup (g_queue g1) rid = Some ?cmd"
    using queue.lookup_put_same [OF queue_ok_refs [OF command_queue.reach_inv [OF assms(2)]]] g1 by simp
  let ?pending = "GetPendingForAgent rids (AgentInfo.ID agent) (g_queue g1)"
  have g2: "cmds = map to_request ?pending" "g2 = g1\<lparr>g_queue := mark_all ?pending (g_queue g1)\<rparr>"
    using assms(5,6,8) g1 by (auto simp: GetPendingCommands_def Let_def)
  have "rid \<in> set rids" using look1 assms(7) dom_cmd_lookup [of "g_queue g1"] by auto
  then have mem: "?cmd \<in> set ?pending" using look1 by (auto simp: set_GetPendingForAgent)
  have "to_request ?cmd \<in> set cmds" using mem by (simp add: g2(1))
  moreover have reach2: "queue_reach (g_queue g2)" using queue_reach_mark_all [OF reach1] g2(2) by simp
  moreover have "\<exists>cmd. cmd_lookup (g_queue g2) rid = Some cmd \<and> resultCh cmd = None"
    using cmd_lookup_mark_all [OF ok1] look1 g2(2) by simp
  then obtain cmd where "cmd_lookup (g_queue g2) (sr_RequestId sr) = Some cmd" "resultCh cmd = None"
    using assms(9) by blast
  then have "fst (WaitForResult ctx_done True rid (g_queue (snd (SubmitCommandResult sr g2)))) = WaitResult (submitted sr)"
    using submit_wait [OF reach2, of sr cmd ctx_done] assms(9) bs by simp
  then have "\<exists>g4. exec_finish s c uuid2 clk2 ctx_done True cluster rid req (snd (SubmitCommandResult sr g2)) =
        Some (RespOk 200 (exec_response (submitted sr)), g4) \<and> rid \<notin> dom (commands (g_queue g4))"
    by (auto simp: exec_finish_def Remove_def split: prod.splits)
  ultimately show ?thesis by (simp add: to_request_def)
qed

definition demo_result :: SubmitCommandResultRequest where
  "demo_result = \<lparr>sr_RequestId = ''req-01'', sr_Stdout = [111, 107], sr_Stderr = [33], sr_ExitCode = 0, sr_ErrorMessage = []\<rparr>"

lemma demo_poll:
  "GetPendingCommands [''req-01''] ''agent-a'' (snd (exec_begin demo_server demo_ctx [''agent-a''] [] (\<lambda>_. 0) (Some [1]) ''c''
      (Some demo_req) demo_state)) = (Inr cmds, g2) \<Longrightarrow> cmds \<noteq> []"
  unfolding demo_begin
  by (auto simp add: GetPendingCommands_def Let_def put_cmd_def cmd_lookup_def Get_def NewCommandQueue_def demo_state_def
      put_agent_def store_Get_def split: if_splits)

theorem command_round_trip_witness:
  "\<exists>cmds g2 g4. GetPendingCommands [''req-01''] ''agent-a'' (snd (exec_begin demo_server demo_ctx [''agent-a''] [] (\<lambda>_. 0)
        (Some [1]) ''c'' (Some demo_req) demo_state)) = (Inr cmds, g2) \<and> cmds \<noteq> [] \<and>
    exec_finish demo_server demo_ctx [] (\<lambda>_. 0) False True ''c'' ''req-01'' demo_req (snd (SubmitCommandResult demo_result g2)) =
      Some (RespOk 200 \<lparr>er_Output = [111, 107, 10, 33], er_ExitCode = 0, er_Error = []\<rparr>, g4)"
proof -
  let ?g1 = "snd (exec_begin demo_server demo_ctx [''agent-a''] [] (\<lambda>_. 0) (Some [1]) ''c'' (Some demo_req) demo_state)"
  have b: "exec_begin demo_server demo_ctx [''agent-a''] [] (\<lambda>_. 0) (Some [1]) ''c'' (Some demo_req) demo_state =
      (Inr (''req-01'', demo_req), ?g1)" by (simp only: demo_begin snd_conv)
  have id: "AgentInfo.ID demo_agent = ''agent-a''" "sr_RequestId demo_result = ''req-01''"
    by (simp_all add: demo_agent_def demo_result_def)
  have agents: "g_agents ?g1 = g_agents demo_state" unfolding demo_begin by simp
  have get: "store_Get (g_agents demo_state) (AgentInfo.ID demo_agent) = Some demo_agent"
    by (simp add: store_Get_def demo_state_def demo_agent_def put_agent_def)
  obtain cmds g2 where poll: "GetPendingCommands [''req-01''] ''agent-a'' ?g1 = (Inr cmds, g2)"
    using get agents by (cases "GetPendingCommands [''req-01''] ''agent-a'' ?g1")
      (auto simp: GetPendingCommands_def Let_def demo_agent_def)
  have "queue_reach (g_queue demo_state)" "cmd_lookup (g_queue demo_state) ''req-01'' = None"
    by (simp_all add: demo_state_def demo_grpc_def reach_init cmd_lookup_def Get_def NewCommandQueue_def)
  moreover have "set [''req-01''] = dom (commands (g_queue ?g1))"
    unfolding demo_begin by (simp add: put_cmd_def NewCommandQueue_def)
  ultimately have "\<exists>g4. exec_finish demo_server demo_ctx [] (\<lambda>_. 0) False True ''c'' ''req-01'' demo_req
      (snd (SubmitCommandResult demo_result g2)) = Some (RespOk 200 (exec_response (submitted demo_result)), g4)"
    using command_round_trip [OF b, of demo_agent "[''req-01'']" cmds g2 demo_result "[]" "\<lambda>_. 0" False]
      demo_find get agents poll id by auto
  then show ?thesis using poll demo_poll by (auto simp: exec_response_def submitted_def demo_result_def)
qed

text \<open>C11. The protection of the routes: the middleware of every route but the health check, login and refresh
  refuses a request without a valid bearer token, and that of the administration routes a request
  whose token does not carry the administrator flag; the handler sees the claims that the token was
  signed with.\<close>

theorem routes_protected:
  assumes "run_chain lib jm now header limited (middlewares e) None = Inr user"
    and "e \<notin> {Health, Login, Refresh}"
  shows "\<exists>claims. user = Some claims \<and> AuthMiddleware lib jm now header = Inr claims \<and>
    ValidateAccessToken lib jm now (trim_prefix header ''Bearer '') = Some claims \<and>
    (admin_endpoint e \<longrightarrow> IsAdmin claims)"
proof -
  have ok: "AuthMiddleware lib jm now header = Inr c \<Longrightarrow> ValidateAccessToken lib jm now (trim_prefix header ''Bearer '') = Some c" for c
    by (auto simp: AuthMiddleware_def Let_def split: if_splits option.splits)
  show ?thesis
    using assms
    by (cases e) (auto simp: admin_endpoint_def AdminRequired_def dest: ok split: sum.splits option.splits if_splits)
qed

definition admin_lib :: Lib where
  "admin_lib = demo_lib\<lparr>jwt_parse := (\<lambda>tok keyfunc now. if tok = ''t'' \<and> keyfunc True = Some ''k''
     then Some (one_claims\<lparr>IsAdmin := True\<rparr>) else None)\<rparr>"

theorem routes_protected_witness:
  "\<exists>claims. run_chain admin_lib \<lparr>jwt_secret = ''k'', accessExpiry = 1\<rparr> 0 ''Bearer t'' False (middlewares ListAudit) None = Inr (Some claims) \<and>
     IsAdmin claims"
proof -
  have "run_chain admin_lib \<lparr>jwt_secret = ''k'', accessExpiry = 1\<rparr> 0 ''Bearer t'' False (middlewares ListAudit) None =
      Inr (Some (one_claims\<lparr>IsAdmin := True\<rparr>))"
    by (simp add: AuthMiddleware_def ValidateAccessToken_def admin_lib_def trim_prefix_def has_prefix_def AdminRequired_def)
  from this routes_protected [OF this] show ?thesis by (simp add: admin_endpoint_def)
qed

section \<open>A permission that is evaded\<close>

text \<open>C37. The policy's resources are evaded with an option that takes its value as a word of its own, such as kubectl's
  \<open>--cache-dir\<close>: a user who may apply a verb to one resource type passes the permission check with every command
  line that gives the option the name of this type as its value, whatever resource it then names; no refusal and
  no audit entry is written.\<close>

theorem option_value_evades_policy:
  assumes "permitted s c cluster (req\<lparr>ex_Command := [verb, kind]\<rparr>)" and "\<not> has_prefix kind ''-''"
    and "has_prefix flag ''-''" and "\<not> ns_token flag" and "list_all (\<lambda>a. \<not> ns_token a) rest"
  shows "authorizeExec s c uuid now cluster (req\<lparr>ex_Command := verb # flag # kind # rest\<rparr>) db = (None, db)"
proof -
  have "\<not> ns_token kind"
    using assms(2) by (cases kind) (auto simp: ns_token_def has_prefix_def)
  moreover have "scan_namespace rest ns = ns" for ns
    using assms(5) by (induction rest) (simp_all del: scan_namespace.simps(2))
  ultimately have "scan_namespace (flag # kind # rest) ns = scan_namespace [kind] ns" for ns
    using assms(4) by (simp del: scan_namespace.simps(2))
  then have "parseAccessRequest cluster (verb # flag # kind # rest) ns = parseAccessRequest cluster [verb, kind] ns" for ns
    using assms(2,3) by (simp add: parseAccessRequest_def Let_def del: scan_namespace.simps)
  then show ?thesis
    using assms(1) by (auto simp: authorizeExec_def permitted_def Allows_def split: option.splits)
qed

theorem option_value_evades_policy_witness:
  "\<forall>db. authorizeExec demo_server demo_ctx [] 0 ''c''
      (demo_req\<lparr>ex_Command := [''get'', ''--cache-dir'', ''pods'', ''secrets'']\<rparr>) db = (None, db)"
  using option_value_evades_policy [of demo_server demo_ctx "''c''" "''get''" "''pods''" demo_req "''--cache-dir''" "[''secrets'']" "[]" 0]
    demo_allowed
  by (simp add: permitted_def demo_server_def demo_ctx_def demo_req_def one_claims_def has_prefix_def ns_token_def)


section \<open>Bounds\<close>



text \<open>The login limiter never holds more than 10000 buckets, and a request is passed on exactly when the
  bucket of its address and e-mail (a new one for a key it does not hold) has a token. A request that
  is passed on has its body cut to its first 4096 bytes.\<close>

theorem login_limiter_bounded:
  assumes "length (buckets l) \<le> maxBuckets"
    and "loginRateLimitMiddleware json_email new take_token ip (Some body) l = (r, l')"
  shows "length (buckets l') \<le> maxBuckets \<and>
    (r = Inr (Some (take 4096 body)) \<longleftrightarrow>
       fst (take_token (case map_of (buckets l) (ip @ ''|'' @ json_email (take 4096 body)) of None \<Rightarrow> new | Some b \<Rightarrow> b))) \<and>
    (\<forall>key. key \<noteq> ip @ ''|'' @ json_email (take 4096 body) \<longrightarrow>
       map_of (buckets l') key \<in> {map_of (buckets l) key, None})"
  using assms
  by (auto simp: loginRateLimitMiddleware_def peekEmail_def limiter_allow_def Let_def length_alist_update
      update_conv' maxBuckets_def split: option.splits prod.splits if_splits bool.splits)

theorem login_limiter_bounded_witness:
  "length (buckets (snd (loginRateLimitMiddleware (\<lambda>_. []) (5 :: nat) (\<lambda>n. (n > 0, n - 1)) ''ip'' (Some [1]) newLoginLimiter))) \<le> maxBuckets"
  using login_limiter_bounded [of newLoginLimiter "\<lambda>_. []" "5 :: nat" "\<lambda>n. (n > 0, n - 1)" "''ip''" "[1]", OF _ prod.collapse [symmetric]]
  by (simp add: newLoginLimiter_def)

end
