(* ===== verification/Bridges_Props.thy ===== *)
theory Bridges_Props
  imports Bridges Http_Props
begin

text \<open>
  What the bridges guarantee: the frames of a client arrive at the agent as messages in the order they
  were written, the output of the agent arrives at the client in order and is followed by the exit
  frame, and who may start such a session.
\<close>


section \<open>To the client\<close>

text \<open>What other goroutines may do to the manager while a bridge drains an ended session: everything but
  receive from it. Sends to an ended session panic, and a second close has no effect.\<close>

definition spares :: "nat \<Rightarrow> env \<Rightarrow> bool" where
  "spares r env \<longleftrightarrow> (\<forall>m. r < length (sess_heap m) \<and> ended (sess_at m r) \<noteq> None \<longrightarrow>
     r < length (sess_heap (env m)) \<and> sess_at (env m) r = sess_at m r)"

lemma spares_id [simp]: "spares r (\<lambda>m. m)"
  by (simp add: spares_def)

lemma spares_upd_sess: "j \<noteq> r \<Longrightarrow> spares r (upd_sess j f)"
  by (simp add: spares_def upd_sess_def)

lemma close_keeps_ended: "ended (sess_at m r) \<noteq> None \<Longrightarrow> sess_at (close_session j c e m) r = sess_at m r"
  by (cases "j = r") (auto simp: close_session_def upd_sess_def split: option.splits)

lemma spares_close: "spares r (close_session j c e)"
  by (simp add: spares_def close_keeps_ended)

lemma spares_comp: "spares r f \<Longrightarrow> spares r g \<Longrightarrow> spares r (\<lambda>m. g (f m))"
  by (simp add: spares_def)

lemma spares_Cancel: "spares r (Cancel ok sid)"
proof -
  have "r < length (sess_heap m) \<Longrightarrow> ended (sess_at m r) \<noteq> None \<Longrightarrow> sess_at (Cancel ok sid m) r = sess_at m r" for m
    by (auto simp: Cancel_def Let_def close_keeps_ended split: option.splits)
  moreover have "length (sess_heap (Cancel ok sid m)) = length (sess_heap m)" for m
    by (simp add: Cancel_def Let_def split: option.splits)
  ultimately show ?thesis by (simp add: spares_def)
qed

lemma recv_ended:
  assumes "ended (sess_at m r) = Some ce" and "Output (sess_at m r) = Some q" and "r < length (sess_heap m)"
  shows "recv_output r m = (case q of
     [] \<Rightarrow> (RecvClosed, m) | x # q' \<Rightarrow> (RecvChunk x, upd_sess r (Output_update (\<lambda>_. Some q')) m))"
  using assms by (simp add: recv_output_def split: list.splits)

lemma recv_pf_ended:
  assumes "ended (sess_at m r) = Some ce" and "PfOutput (sess_at m r) = Some q" and "r < length (sess_heap m)"
  shows "recv_pf_output r m = (case q of
     [] \<Rightarrow> (RecvClosed, m) | x # q' \<Rightarrow> (RecvChunk x, upd_sess r (PfOutput_update (\<lambda>_. Some q')) m))"
  using assms by (simp add: recv_pf_output_def split: list.splits)

lemma Encode_buf: "fst (Encode buf_write w (fst f) (snd f)) = (if frame_ok f then w @ frame_bytes f else w)"
  by (cases f) (simp add: Encode_def write_frame_buf)

lemma PfEncode_buf: "fst (PfEncode buf_write w (fst f) (snd f)) = (if frame_ok f then w @ frame_bytes f else w)"
  by (cases f) (simp add: PfEncode_def write_frame_buf)

definition bridge_quiet :: "nat \<Rightarrow> (env \<times> bool \<times> bool) list \<Rightarrow> bool" where
  "bridge_quiet r evs = list_all (\<lambda>(env, ctx_done, ok). spares r env \<and> \<not> ctx_done) evs"

lemma exec_downstream_drains:
  assumes "bridge_quiet r evs" and "length q < length evs" and "r < length (sess_heap m)"
    and "ended (sess_at m r) = Some ce" and "Output (sess_at m r) = Some q"
  shows "\<exists>m'. exec_downstream buf_write evs r m w =
    (w @ concat (map frame_bytes (filter frame_ok (map chunk_frame q @ [(Exit, EncodeExit ce)]))), Some ce, m')"
  using assms
proof (induction evs arbitrary: q m w)
  case (Cons ev evs)
  obtain env ctx_done ok where ev: "ev = (env, ctx_done, ok)" by (cases ev)
  let ?m = "env m"
  have m: "r < length (sess_heap ?m)" "ended (sess_at ?m r) = Some ce" "Output (sess_at ?m r) = Some q" "\<not> ctx_done"
    using Cons.prems ev by (auto simp: bridge_quiet_def spares_def)
  show ?case
  proof (cases q)
    case Nil
    then show ?thesis
      using m ev recv_ended [OF m(2,3,1)] Encode_buf [of w "(Exit, EncodeExit ce)"] by (simp add: Let_def Wait_def)
  next
    case (Cons x q')
    let ?m2 = "upd_sess r (Output_update (\<lambda>_. Some q')) ?m"
    let ?w = "if frame_ok (chunk_frame x) then w @ frame_bytes (chunk_frame x) else w"
    have "\<exists>m'. exec_downstream buf_write evs r ?m2 ?w =
        (?w @ concat (map frame_bytes (filter frame_ok (map chunk_frame q' @ [(Exit, EncodeExit ce)]))), Some ce, m')"
      using Cons.prems m \<open>q = x # q'\<close> by (intro Cons.IH) (simp_all add: sess_at_upd bridge_quiet_def)
    then show ?thesis
      using m ev \<open>q = x # q'\<close> recv_ended [OF m(2,3,1)] Encode_buf [of w "chunk_frame x"] by (auto simp: Let_def)
  qed
qed simp

lemma pf_downstream_drains:
  assumes "bridge_quiet r evs" and "length q < length evs" and "r < length (sess_heap m)"
    and "ended (sess_at m r) = Some ce" and "PfOutput (sess_at m r) = Some q"
    and "PfKindSessionError \<notin> Kind ` set q"
  shows "\<exists>m'. pf_downstream buf_write evs r m w =
    (w @ concat (map frame_bytes (filter frame_ok (map pf_frame q @
       (if snd ce = [] then [] else [(SessionError, bytes_of (snd ce))])))), Some (snd ce), m')"
  using assms
proof (induction evs arbitrary: q m w)
  case (Cons ev evs)
  obtain env ctx_done ok where ev: "ev = (env, ctx_done, ok)" by (cases ev)
  let ?m = "env m"
  have m: "r < length (sess_heap ?m)" "ended (sess_at ?m r) = Some ce" "PfOutput (sess_at ?m r) = Some q" "\<not> ctx_done"
    using Cons.prems ev by (auto simp: bridge_quiet_def spares_def)
  show ?case
  proof (cases q)
    case Nil
    then show ?thesis
      using m ev recv_pf_ended [OF m(2,3,1)] PfEncode_buf [of w "(SessionError, bytes_of (snd ce))"]
      by (cases ce) (simp add: Let_def Wait_def)
  next
    case (Cons x q')
    let ?m2 = "upd_sess r (PfOutput_update (\<lambda>_. Some q')) ?m"
    let ?w = "if frame_ok (pf_frame x) then w @ frame_bytes (pf_frame x) else w"
    have "\<exists>m'. pf_downstream buf_write evs r ?m2 ?w =
        (?w @ concat (map frame_bytes (filter frame_ok (map pf_frame q' @
          (if snd ce = [] then [] else [(SessionError, bytes_of (snd ce))])))), Some (snd ce), m')"
      using Cons.prems m \<open>q = x # q'\<close> by (intro Cons.IH) (simp_all add: sess_at_upd bridge_quiet_def)
    moreover have "Kind x \<noteq> PfKindSessionError" using Cons.prems(6) \<open>q = x # q'\<close> by auto
    ultimately show ?thesis
      using m ev \<open>q = x # q'\<close> recv_pf_ended [OF m(2,3,1)] PfEncode_buf [of w "pf_frame x"] by (auto simp: Let_def)
  qed
qed simp


section \<open>To the agent\<close>

text \<open>What a stream has accepted for one session.\<close>

definition sent_to :: "string \<Rightarrow> nat \<Rightarrow> SessionManager \<Rightarrow> CentralStreamMessage list" where
  "sent_to sid c m = filter (\<lambda>msg. msg_session msg = sid) (sent (conn_at m c))"

definition attached :: "string \<Rightarrow> nat \<Rightarrow> SessionManager \<Rightarrow> bool" where
  "attached sid c m \<longleftrightarrow> connFor sid m = Some c \<and> c < length (conn_heap m)"

text \<open>Other goroutines that leave the session attached to its stream and send nothing for it.\<close>

definition leaves_to :: "string \<Rightarrow> nat \<Rightarrow> env \<Rightarrow> bool" where
  "leaves_to sid c env \<longleftrightarrow> (\<forall>m. attached sid c m \<longrightarrow> attached sid c (env m) \<and> sent_to sid c (env m) = sent_to sid c m)"

lemma send_for_attached:
  assumes "attached sid c m" and "msg_session msg = sid"
  shows "attached sid c (snd (send_for ok sid msg m)) \<and>
    sent_to sid c (snd (send_for ok sid msg m)) = sent_to sid c m @ (if ok then [msg] else [])"
  using assms by (auto simp: attached_def send_for_def sendLocked_def sent_to_def conn_at_upd connFor_def lookup_session_def
      split: option.splits)

text \<open>The reading loop of both bridges: one frame per iteration, each frame at most one message.\<close>

locale upstream =
  fixes up :: "(env \<times> bool) list \<Rightarrow> string \<Rightarrow> bytes \<Rightarrow> SessionManager \<Rightarrow> SessionManager"
    and frame_of :: "'op \<Rightarrow> byte \<times> bytes" and msg_of :: "string \<Rightarrow> 'op \<Rightarrow> CentralStreamMessage"
    and handle :: "bool \<Rightarrow> string \<Rightarrow> byte \<times> bytes \<Rightarrow> SessionManager \<Rightarrow> SessionManager"
  assumes up_Nil: "up [] sid r m = m"
    and up_Cons: "up ((env, ok) # evs) sid r m = (case read_frame r of
       (Inl e, _) \<Rightarrow> m | (Inr f, r1) \<Rightarrow> up evs sid r1 (handle ok sid f (env m)))"
    and handle_op: "handle ok sid (frame_of op) m = snd (send_for ok sid (msg_of sid op) m)"
    and msg_of_session: "msg_session (msg_of sid op) = sid"
begin

lemma relays:
  assumes "list_all (\<lambda>op. frame_ok (frame_of op)) ops" and "list_all (\<lambda>(env, ok). leaves_to sid c env) evs"
    and "attached sid c m" and "length evs = length ops"
  shows "attached sid c (up evs sid (concat (map (\<lambda>op. frame_bytes (frame_of op)) ops)) m) \<and>
    sent_to sid c (up evs sid (concat (map (\<lambda>op. frame_bytes (frame_of op)) ops)) m) =
      sent_to sid c m @ map (msg_of sid \<circ> fst) (filter (snd \<circ> snd) (zip ops evs))"
  using assms
proof (induction ops arbitrary: evs m)
  case Nil
  then show ?case by (simp add: up_Nil)
next
  case (Cons op ops)
  then obtain env ok evs' where evs: "evs = (env, ok) # evs'" "leaves_to sid c env" by (cases evs) auto
  let ?m = "snd (send_for ok sid (msg_of sid op) (env m))"
  have env: "attached sid c (env m)" "sent_to sid c (env m) = sent_to sid c m"
    using evs(2) Cons.prems(3) by (auto simp: leaves_to_def)
  have m: "attached sid c ?m" "sent_to sid c ?m = sent_to sid c m @ (if ok then [msg_of sid op] else [])"
    using send_for_attached [OF env(1) msg_of_session] env(2) by auto
  have "frame_ok (frame_of op)" using Cons.prems(1) by simp
  then have "up evs sid (concat (map (\<lambda>op. frame_bytes (frame_of op)) (op # ops))) m =
      up evs' sid (concat (map (\<lambda>op. frame_bytes (frame_of op)) ops)) ?m"
    by (simp add: evs(1) up_Cons read_frame_bytes handle_op)
  then show ?case
    using Cons.IH [of evs' ?m] Cons.prems m evs(1) by simp
qed

end

datatype exec_op = Typed bytes | Window "16 word" "16 word"

fun exec_op_frame :: "exec_op \<Rightarrow> byte \<times> bytes" where
  "exec_op_frame (Typed d) = (Stdin, d)"
| "exec_op_frame (Window r c) = (Resize, EncodeResize (r, c))"

fun exec_op_msg :: "string \<Rightarrow> exec_op \<Rightarrow> CentralStreamMessage" where
  "exec_op_msg sid (Typed d) = MsgStdin sid d"
| "exec_op_msg sid (Window r c) = MsgResize sid (ucast r) (ucast c)"

datatype pf_op = OpenConn "32 word" "16 word" | ConnData "32 word" bytes | CloseConn "32 word"

fun pf_op_frame :: "pf_op \<Rightarrow> byte \<times> bytes" where
  "pf_op_frame (OpenConn i p) = (Open, EncodeOpen (i, p))"
| "pf_op_frame (ConnData i d) = (Data, EncodeData (i, d))"
| "pf_op_frame (CloseConn i) = (Close, EncodeConnID i)"

fun pf_op_msg :: "string \<Rightarrow> pf_op \<Rightarrow> CentralStreamMessage" where
  "pf_op_msg sid (OpenConn i p) = MsgPfOpen sid i (ucast p)"
| "pf_op_msg sid (ConnData i d) = MsgPfData sid i d"
| "pf_op_msg sid (CloseConn i) = MsgPfClose sid i"

lemma frame_types [simp]:
  "Resize \<noteq> Stdin" "Data \<noteq> Open" "Close \<noteq> Open" "Close \<noteq> Data"
  by (simp_all add: Resize_def Stdin_def Data_def Open_def Close_def)

interpretation exec_up: upstream exec_upstream exec_op_frame exec_op_msg exec_up_frame
proof unfold_locales
  fix ok sid op m show "exec_up_frame ok sid (exec_op_frame op) m = snd (send_for ok sid (exec_op_msg sid op) m)"
    by (cases op) (simp_all add: exec_up_frame_def SendStdin_def SendResize_def resize.dec_enc)
  fix sid op show "msg_session (exec_op_msg sid op) = sid" by (cases op) simp_all
qed (simp_all add: Decode_def)

interpretation pf_up: upstream pf_upstream pf_op_frame pf_op_msg pf_up_frame
proof unfold_locales
  fix ok sid op m show "pf_up_frame ok sid (pf_op_frame op) m = snd (send_for ok sid (pf_op_msg sid op) m)"
    by (cases op) (simp_all add: pf_up_frame_def SendPfOpen_def SendPfData_def SendPfClose_def
        open_payload.dec_enc data_payload.dec_enc conn_id_payload.dec_enc)
  fix sid op show "msg_session (pf_op_msg sid op) = sid" by (cases op) simp_all
qed (simp_all add: PfDecode_def)


section \<open>Starting a session\<close>

lemma start_session_Inr:
  assumes "start_session ok a s msg m = (Inr r, m')"
  obtains c where "map_of (sm_agents m) a = Some c" and "ok" and "r = length (sess_heap m)"
    and "c < length (conn_heap m) \<Longrightarrow> sent (conn_at m' c) = sent (conn_at m c) @ [msg]"
  using assms
  by (auto simp: start_session_def start_check_def new_session_def Let_def start_commit_def sendLocked_def conn_at_upd
      split: option.splits if_splits sum.splits)

definition attach_message :: "string \<Rightarrow> AttachParams \<Rightarrow> CentralStreamMessage" where
  "attach_message sid p = MsgStart
     \<lparr>start_SessionId = sid, start_Command = buildExecArgs (at_pod p) (at_container p) (at_command p) (at_tty p),
      start_Namespace = at_namespace p, start_Tty = at_tty p,
      start_Rows = (if at_tty p then ucast (clampDim (at_rows p)) else 0),
      start_Cols = (if at_tty p then ucast (clampDim (at_cols p)) else 0)\<rparr>"

lemma attach_begin_Inr:
  assumes "attach_begin s c order uuid now ok sid cluster p g = (Inr r, g')"
  obtains agent where "find_agent order cluster g = Inr agent" and "at_command p \<noteq> []" and "at_pod p \<noteq> []"
    and "permitted s c cluster (attach_request p)"
    and "start_session ok (AgentInfo.ID agent)
       \<lparr>sess_ID = sid, sess_AgentID = AgentInfo.ID agent, Output = Some [], PfOutput = None, ended = None\<rparr>
       (attach_message sid p) (g_sessions g) = (Inr r, g_sessions g')"
proof -
  obtain agent where agent: "find_agent order cluster g = Inr agent"
    using assms by (auto simp: attach_begin_def split: sum.splits)
  have args: "at_pod p \<noteq> []" "at_command p \<noteq> []"
    using assms agent by (auto simp: attach_begin_def split: if_splits)
  obtain res db where auth: "authorizeExec s c uuid now cluster (attach_request p) (g_db g) = (res, db)"
    by (cases "authorizeExec s c uuid now cluster (attach_request p) (g_db g)")
  have res: "res = None" using assms agent args auth by (auto simp: attach_begin_def Let_def split: option.splits)
  show thesis
    using assms agent args auth res authorizeExec_permitted [of s c uuid now cluster "attach_request p" "g_db g" db]
    by (intro that) (auto simp: attach_begin_def Let_def StartInteractive_def StartWithStdin_def startSession_def
        attach_message_def attach_request_def split: prod.splits sum.splits if_splits)
qed

lemma clampDim_bounds: "1 \<le> unat (clampDim n) \<and> (1 \<le> n \<and> n \<le> 65535 \<longrightarrow> uint (clampDim n) = n)"
proof (cases "1 \<le> n \<and> n \<le> 65535")
  case True
  then have "uint (clampDim n) = n"
    by (auto simp: clampDim_def uint_word_of_int intro!: mod_pos_pos_trivial)
  then show ?thesis using True by (metis nat_mono nat_one_as_int unat_eq_nat_uint)
next
  case False
  then show ?thesis by (auto simp: clampDim_def)
qed

lemma scan_namespace_skip:
  "list_all (\<lambda>a. \<not> ns_token a) as \<Longrightarrow> scan_namespace (as @ bs) ns = scan_namespace bs ns"
  by (induction as) (simp_all del: scan_namespace.simps)

lemma attach_access:
  assumes "\<not> ns_token pod" and "\<not> ns_token container" and "list_all (\<lambda>a. \<not> ns_token a) cmd"
  shows "parseAccessRequest cluster (buildExecArgs pod container (cmd @ rest) tty) ns =
    \<lparr>Cluster = cluster, Namespace = scan_namespace rest (if ns = [] then ''default'' else ns),
     Resource = ''pods'', Verb = ''exec''\<rparr>"
proof -
  let ?pre = "''-i'' # (if tty then [''-t''] else []) @ [pod] @
      (if container \<noteq> [] then [''-c'', container] else []) @ [''--''] @ cmd"
  have "\<not> ns_token ''-i''" "\<not> ns_token ''-t''" "\<not> ns_token ''-c''" "\<not> ns_token ''--''"
    by (simp_all add: ns_token_def has_prefix_def)
  then have "list_all (\<lambda>a. \<not> ns_token a) ?pre" using assms by simp
  from scan_namespace_skip [OF this] have "scan_namespace (?pre @ rest) d = scan_namespace rest d" for d .
  moreover have "buildExecArgs pod container (cmd @ rest) tty = ''exec'' # ?pre @ rest"
    by (simp add: buildExecArgs_def)
  moreover have "podScopedVerbs ''exec''" by (simp add: podScopedVerbs_def)
  moreover have "strip_name ''pods'' = ''pods''" by simp
  ultimately show ?thesis
    by (simp only: parseAccessRequest_def Let_def list.case if_True)
qed


section \<open>Properties\<close>

text \<open>Keystrokes arrive: when the client writes the frames of a sequence of inputs and window changes, the
  upstream loop of the exec bridge sends the agent one message for each, in that order, with the same
  bytes and sizes. Between the iterations other goroutines may do what they like with other sessions. A
  send that fails loses its message and nothing else.\<close>

theorem exec_input_arrives:
  assumes "list_all (\<lambda>op. frame_ok (exec_op_frame op)) ops" and "list_all (\<lambda>(env, ok). leaves_to sid c env) evs"
    and "attached sid c m" and "length evs = length ops"
  shows "sent_to sid c (exec_upstream evs sid (concat (map (\<lambda>op. frame_bytes (exec_op_frame op)) ops)) m) =
    sent_to sid c m @ map (exec_op_msg sid \<circ> fst) (filter (snd \<circ> snd) (zip ops evs))"
  using exec_up.relays [OF assms] by simp

lemma demo_attached: "attached ''s1'' 0 demo_mgr" "sent_to ''s1'' 0 demo_mgr = [demo_start ''s1'']"
  by (simp_all add: attached_def connFor_def lookup_session_def demo_mgr_eq demo_session_def sent_to_def demo_start_def)

lemma leaves_to_id [simp]: "leaves_to sid c (\<lambda>m. m)"
  by (simp add: leaves_to_def)

lemma small_frames [simp]:
  "frame_ok (t, put_uint32 a)" "frame_ok (t, put_uint32 a @ put_uint16 b)" "frame_ok (t, put_uint16 b @ put_uint16 c)"
  by (simp_all add: frame_ok_def MaxPayload_def put_uint32_def put_uint16_def)

theorem exec_input_arrives_witness:
  "sent_to ''s1'' 0 (exec_upstream [(\<lambda>m. m, True), (\<lambda>m. m, False), (\<lambda>m. m, True)] ''s1''
      (concat (map (\<lambda>op. frame_bytes (exec_op_frame op)) [Typed [104, 105], Typed [33], Window 24 80])) demo_mgr) =
    [demo_start ''s1'', MsgStdin ''s1'' [104, 105], MsgResize ''s1'' 24 80]"
proof -
  have "list_all (\<lambda>op. frame_ok (exec_op_frame op)) [Typed [104, 105], Typed [33], Window 24 80]"
    by (simp add: EncodeResize_def) (simp add: frame_ok_def MaxPayload_def)
  from exec_input_arrives [OF this, of "''s1''" 0 "[(\<lambda>m. m, True), (\<lambda>m. m, False), (\<lambda>m. m, True)]" demo_mgr]
  show ?thesis using demo_attached by simp
qed

text \<open>The same for port-forward: each open, data and close frame of the client reaches the agent as one
  message with the same connection, port and bytes, in order.\<close>

theorem pf_input_arrives:
  assumes "list_all (\<lambda>op. frame_ok (pf_op_frame op)) ops" and "list_all (\<lambda>(env, ok). leaves_to sid c env) evs"
    and "attached sid c m" and "length evs = length ops"
  shows "sent_to sid c (pf_upstream evs sid (concat (map (\<lambda>op. frame_bytes (pf_op_frame op)) ops)) m) =
    sent_to sid c m @ map (pf_op_msg sid \<circ> fst) (filter (snd \<circ> snd) (zip ops evs))"
  using pf_up.relays [OF assms] by simp

theorem pf_input_arrives_witness:
  "sent_to ''s1'' 0 (pf_upstream [(\<lambda>m. m, True), (\<lambda>m. m, True)] ''s1''
      (concat (map (\<lambda>op. frame_bytes (pf_op_frame op)) [OpenConn 1 80, CloseConn 1])) demo_mgr) =
    [demo_start ''s1'', MsgPfOpen ''s1'' 1 80, MsgPfClose ''s1'' 1]"
proof -
  have "list_all (\<lambda>op. frame_ok (pf_op_frame op)) [OpenConn 1 80, CloseConn 1]"
    by (simp add: EncodeOpen_def EncodeConnID_def)
  from pf_input_arrives [OF this, of "''s1''" 0 "[(\<lambda>m. m, True), (\<lambda>m. m, True)]" demo_mgr]
  show ?thesis using demo_attached by simp
qed

lemma exec_output_frames:
  assumes "bridge_quiet r evs" and "length q < length evs" and "r < length (sess_heap m)"
    and "ended (sess_at m r) = Some (code, msg)" and "Output (sess_at m r) = Some q"
    and "\<forall>chunk \<in> set q. length (chunk_Data chunk) \<le> MaxPayload" and "length msg + 4 \<le> MaxPayload"
  shows "\<exists>w m'. exec_downstream buf_write evs r m [] = (w, Some (code, msg), m') \<and>
    decode_frames w = (map chunk_frame q @ [(Exit, EncodeExit (code, msg))], REof) \<and>
    DecodeExit (EncodeExit (code, msg)) = Inr (code, msg)"
proof -
  let ?fs = "map chunk_frame q @ [(Exit, EncodeExit (code, msg))]"
  have "list_all frame_ok ?fs"
    using assms(6,7) by (auto simp: list_all_iff frame_ok_def chunk_frame_def EncodeExit_def put_uint32_def)
  moreover have "filter frame_ok ?fs = ?fs" using calculation by (simp add: list_all_iff filter_id_conv del: map_append)
  ultimately show ?thesis
    using exec_downstream_drains [OF assms(1-5), of "[]"] frames.loop_concat [of ?fs "[]"] exit_payload.dec_enc
    by (auto simp: decode_frames.simps [of "[]"] read_frame_def read_full_def)
qed

text \<open>The output arrives: once the session of an exec bridge has ended, the bridge writes the chunks its
  channel still holds, each as one frame of its stream and in order, then the exit frame, and returns
  the session's result; the client reads from the connection exactly these frames, and decodes from the
  last the exit code and the message of the agent. The other goroutines may do anything but receive from
  the session; a chunk beyond the frame limit would be left out.\<close>

theorem exec_output_arrives:
  assumes "bridge_quiet r evs" and "length q < length evs" and "r < length (sess_heap m)"
    and "ended (sess_at m r) = Some (code, msg)" and "Output (sess_at m r) = Some q"
    and "\<forall>chunk \<in> set q. length (chunk_Data chunk) \<le> MaxPayload" and "length msg + 4 \<le> MaxPayload"
  shows "\<exists>w m'. exec_downstream buf_write evs r m [] = (w, Some (code, msg), m') \<and>
    decode_frames w = (map chunk_frame q @ [(Exit, EncodeExit (code, msg))], REof) \<and>
    DecodeExit (EncodeExit (code, msg)) = Inr (code, msg)"
  using assms by (rule exec_output_frames)

definition ended_mgr :: SessionManager where
  "ended_mgr = demo_mgr\<lparr>sess_heap := [(demo_session ''s1'')\<lparr>
     Output := Some [\<lparr>chunk_Type = OUTPUT_TYPE_STDERR, chunk_Data = [33]\<rparr>], ended := Some (3, ''failed'')\<rparr>]\<rparr>"

theorem exec_output_arrives_witness:
  "\<exists>w m'. exec_downstream buf_write [(\<lambda>m. m, False, True), (\<lambda>m. m, False, True)] 0 ended_mgr [] = (w, Some (3, ''failed''), m') \<and>
    decode_frames w = ([(Stderr, [33]), (Exit, EncodeExit (3, ''failed''))], REof)"
  using exec_output_arrives [of 0 "[(\<lambda>m. m, False, True), (\<lambda>m. m, False, True)]" "[\<lparr>chunk_Type = OUTPUT_TYPE_STDERR, chunk_Data = [33]\<rparr>]"
      ended_mgr 3 "''failed''"]
  by (auto simp: bridge_quiet_def ended_mgr_def demo_session_def MaxPayload_def chunk_frame_def)

text \<open>C34. Who may attach: a session of interactive exec starts only when the permission check passed for the
  command line that runs, and the agent then receives exactly that command line, with a window whose
  sides are between 1 and 65535 and are the requested ones where they fit.\<close>

theorem attach_starts_permitted:
  assumes "attach_begin s c order uuid now ok sid cluster p g = (Inr r, g')" and "mgr_ok (g_sessions g)"
  shows "permitted s c cluster (attach_request p) \<and>
    (\<exists>k. sent (conn_at (g_sessions g') k) = sent (conn_at (g_sessions g) k) @ [attach_message sid p]) \<and>
    (\<forall>n. 1 \<le> unat (clampDim n) \<and> (1 \<le> n \<and> n \<le> 65535 \<longrightarrow> uint (clampDim n) = n))"
proof -
  obtain agent :: AgentInfo where p: "permitted s c cluster (attach_request p)"
    and st: "start_session ok (AgentInfo.ID agent)
       \<lparr>sess_ID = sid, sess_AgentID = AgentInfo.ID agent, Output = Some [], PfOutput = None, ended = None\<rparr>
       (attach_message sid p) (g_sessions g) = (Inr r, g_sessions g')"
    by (rule attach_begin_Inr [OF assms(1)]) blast
  obtain k where "map_of (sm_agents (g_sessions g)) (AgentInfo.ID agent) = Some k"
    and "k < length (conn_heap (g_sessions g)) \<Longrightarrow>
      sent (conn_at (g_sessions g') k) = sent (conn_at (g_sessions g) k) @ [attach_message sid p]"
    by (rule start_session_Inr [OF st]) blast
  then have "sent (conn_at (g_sessions g') k) = sent (conn_at (g_sessions g) k) @ [attach_message sid p]"
    using mgr_okD [OF assms(2)] by auto
  then show ?thesis using p clampDim_bounds by blast
qed

definition exec_policy :: Policy where
  "exec_policy = \<lparr>Default = ''dev'',
     Roles = [\<lparr>role_Name = ''dev'',
       Rules = [\<lparr>Clusters = [''*''], Namespaces = [''*''], Resources = [''pods''], Verbs = [''exec'']\<rparr>]\<rparr>],
     Bindings = []\<rparr>"

definition exec_server :: HTTPServer where
  "exec_server = \<lparr>h_policy = Some \<lparr>current = exec_policy, engine_path = []\<rparr>, h_audit = True\<rparr>"

definition demo_attach :: AttachParams where
  "demo_attach = \<lparr>at_pod = ''web'', at_container = [], at_command = [''sh''], at_tty = True, at_rows = 70000, at_cols = 80,
     at_namespace = []\<rparr>"

definition attach_state :: GRPCServer where
  "attach_state = demo_state\<lparr>g_sessions := RegisterAgentStream ''agent-a'' (NewSessionManager 1)\<rparr>"

lemma exec_allowed:
  "policy_allows exec_policy ''a@b'' (parseAccessRequest ''c'' (buildExecArgs ''web'' [] [''sh''] True) [])"
proof -
  have "parseAccessRequest ''c'' (buildExecArgs ''web'' [] [''sh''] True) [] =
      \<lparr>Cluster = ''c'', Namespace = ''default'', Resource = ''pods'', Verb = ''exec''\<rparr>"
    using attach_access [of "''web''" "[]" "[''sh'']" "''c''" "[]" True "[]"] by (simp add: ns_token_def has_prefix_def)
  then show ?thesis
    by (simp add: exec_policy_def policy_allows_iff set_rolesFor rule_allows_def anyMatch_def
        anyVerb_def matchPattern_complete equal_fold_def trim_space_def is_space_def)
qed

lemma attach_begin_demo:
  "fst (attach_begin exec_server demo_ctx [''agent-a''] ''u'' 0 True ''s1'' ''c'' demo_attach attach_state) = Inr 0"
proof -
  have "find_agent [''agent-a''] ''c'' attach_state = Inr demo_agent"
    using demo_find by (simp add: attach_state_def find_agent_def)
  moreover have "authorizeExec exec_server demo_ctx ''u'' 0 ''c'' (attach_request demo_attach) (g_db attach_state) = (None, g_db attach_state)"
    using exec_allowed by (simp add: authorizeExec_def exec_server_def demo_ctx_def one_claims_def Allows_def
        attach_request_def demo_attach_def)
  ultimately show ?thesis
    by (simp add: attach_begin_def Let_def) (simp add: demo_attach_def StartInteractive_def startSession_def
        start_session_def start_check_def new_session_def attach_state_def RegisterAgentStream_def NewSessionManager_def
        demo_agent_def Let_def)
qed

theorem attach_starts_permitted_witness:
  "permitted exec_server demo_ctx ''c'' (attach_request demo_attach) \<and> uint (clampDim 80) = 80"
proof -
  have "attach_begin exec_server demo_ctx [''agent-a''] ''u'' 0 True ''s1'' ''c'' demo_attach attach_state =
      (Inr 0, snd (attach_begin exec_server demo_ctx [''agent-a''] ''u'' 0 True ''s1'' ''c'' demo_attach attach_state))"
    using attach_begin_demo prod.collapse by metis
  moreover have "mgr_ok (g_sessions attach_state)"
    by (simp add: attach_state_def mgr_ok_Register mgr_ok_New)
  ultimately show ?thesis using attach_starts_permitted by fastforce
qed

text \<open>C36. The namespace that is authorized is not always the one that is used: an \<open>-n\<close> among the arguments of
  the command inside the container, after the \<open>--\<close>, is taken for an option of kubectl by the permission
  check, which then decides on the namespace the user wrote there, while the agent runs the command in
  the namespace of the request. Without such an argument the check decides on the namespace of the
  request.\<close>

theorem attach_namespace_bypass:
  assumes "\<not> ns_token (at_pod p)" and "\<not> ns_token (at_container p)" and "list_all (\<lambda>a. \<not> ns_token a) cmd"
  shows "let checked = (\<lambda>q. parseAccessRequest cluster (ex_Command (attach_request q)) (ex_Namespace (attach_request q))) in
    Namespace (checked (p\<lparr>at_command := cmd @ [''-n'', ns]\<rparr>)) = ns \<and>
    Namespace (checked (p\<lparr>at_command := cmd\<rparr>)) = (if at_namespace p = [] then ''default'' else at_namespace p) \<and>
    (\<exists>st. attach_message sid (p\<lparr>at_command := cmd @ [''-n'', ns]\<rparr>) = MsgStart st \<and> start_Namespace st = at_namespace p)"
  using attach_access [OF assms, of cluster "[''-n'', ns]"] attach_access [OF assms, of cluster "[]"]
  by (simp add: Let_def attach_request_def attach_message_def)

theorem attach_namespace_bypass_witness:
  "Namespace (parseAccessRequest ''c'' (buildExecArgs ''web'' [] [''sh'', ''-n'', ''dev''] False) ''prod'') = ''dev''"
  using attach_namespace_bypass [of "\<lparr>at_pod = ''web'', at_container = [], at_command = [], at_tty = False, at_rows = 0,
      at_cols = 0, at_namespace = ''prod''\<rparr>" "[''sh'']" "''c''" "''dev''" "''s1''"]
  by (simp add: ns_token_def has_prefix_def attach_request_def)

text \<open>The error of a port-forward session ends the bridge but not the session: the bridge writes the error
  frame and returns, and the session stays in the manager's map, where it counts against the bound on
  sessions; the agent has forgotten it and will not end it.\<close>

theorem pf_session_error_leaks:
  assumes "PfOutput (sess_at m r) = Some (chunk # q)" and "Kind chunk = PfKindSessionError"
    and "lookup_session sid m = Some r"
  shows "\<exists>w m'. pf_downstream buf_write (((\<lambda>m. m), False, ok) # evs) r m [] = (w, Some (Err chunk), m') \<and>
    lookup_session sid m' = Some r \<and> length (sm_sessions m') = length (sm_sessions m) \<and>
    ended (sess_at m' r) = ended (sess_at m r)"
  using assms
  by (cases "r < length (sess_heap m)") (auto simp: recv_pf_output_def Let_def lookup_session_def sess_at_upd)

definition pf_error_mgr :: SessionManager where
  "pf_error_mgr = demo_mgr\<lparr>sess_heap := [\<lparr>sess_ID = ''s1'', sess_AgentID = ''a'', Output = None,
     PfOutput = Some [\<lparr>Kind = PfKindSessionError, ConnID = 0, pf_Data = [], Err = ''no pod''\<rparr>], ended = None\<rparr>]\<rparr>"

theorem pf_session_error_leaks_witness:
  "\<exists>w m'. pf_downstream buf_write [(\<lambda>m. m, False, True)] 0 pf_error_mgr [] = (w, Some ''no pod'', m') \<and>
    lookup_session ''s1'' m' = Some 0 \<and> ended (sess_at m' 0) = None"
  using pf_session_error_leaks [of pf_error_mgr 0 "\<lparr>Kind = PfKindSessionError, ConnID = 0, pf_Data = [], Err = ''no pod''\<rparr>" "[]" "''s1''" True "[]"]
  by (auto simp: pf_error_mgr_def lookup_session_def demo_mgr_eq)

end
