(* ===== verification/Config.thy ===== *)
theory Config
  imports Prelude
begin

text \<open>
  The configurations of the central server (\<open>internal/central/config.go\<close>) and of the agent
  (\<open>internal/agent/config.go\<close>): defaults, files, environment, secrets and validation.

  The environment is a function, \<open>[]\<close> for a variable that is not set, as \<open>os.Getenv\<close> gives it; \<open>read\<close> is
  \<open>os.ReadFile\<close>, \<open>None\<close> an error. The YAML decoder (which fills in what the file names and leaves the
  rest) and \<open>time.ParseDuration\<close> are arguments. Durations are nanoseconds.
\<close>

type_synonym env_vars = "string \<Rightarrow> string"
type_synonym files = "string \<Rightarrow> string option"


section \<open>Secrets, in both programs\<close>

definition readSecretFile :: "files \<Rightarrow> string \<Rightarrow> string + string" where
  "readSecretFile read path = (case read path of
     None \<Rightarrow> Inl (''reading secret file '' @ quoted path)
   | Some data \<Rightarrow>
       let s = trim_space data in if s = [] then Inl (''secret file '' @ quoted path @ '' is empty'') else Inr s)"

definition resolveSecret :: "env_vars \<Rightarrow> files \<Rightarrow> string \<Rightarrow> string \<Rightarrow> string \<Rightarrow> string + string" where
  "resolveSecret env read inlineVal fileVal envName =
     (if env (envName @ ''_FILE'') \<noteq> [] then readSecretFile read (env (envName @ ''_FILE''))
      else if env envName \<noteq> [] then Inr (env envName)
      else if fileVal \<noteq> [] then readSecretFile read fileVal
      else Inr inlineVal)"


section \<open>The central server\<close>

record ServerConfig =
  HTTPPort :: int
  GRPCPort :: int

record DatabaseConfig =
  Driver :: string
  db_Path :: string

record AuthConfig =
  JWTSecret :: string
  JWTSecretFile :: string
  TokenPepper :: string
  TokenPepperFile :: string
  AccessTokenExpiryStr :: string
  AccessTokenExpiry :: int
  RefreshTokenExpiryStr :: string
  RefreshTokenExpiry :: int
  AdminEmail :: string
  AdminPassword :: string
  AdminPasswordFile :: string
  AdminName :: string

record AuditConfig =
  RetentionDays :: int
  CleanupIntervalStr :: string
  CleanupInterval :: int

record BootstrapConfig =
  boot_AgentToken :: string
  boot_AgentCluster :: string

record TLSConfig =
  tls_Enabled :: bool
  CertFile :: string
  KeyFile :: string

record Config =
  Server :: ServerConfig
  Database :: DatabaseConfig
  cfg_Auth :: AuthConfig
  Audit :: AuditConfig
  Bootstrap :: BootstrapConfig
  PolicyFile :: string
  TLS :: TLSConfig
  MaxConcurrent :: int

definition devDefaultJWTSecret :: string where
  "devDefaultJWTSecret = ''dev-secret-change-in-production!!''"

abbreviation hour :: int where "hour \<equiv> 3600 * second"

definition DefaultConfig :: Config where
  "DefaultConfig =
     \<lparr>Server = \<lparr>HTTPPort = 8080, GRPCPort = 9090\<rparr>,
      Database = \<lparr>Driver = ''sqlite'', db_Path = ''kbridge.db''\<rparr>,
      cfg_Auth = \<lparr>JWTSecret = [], JWTSecretFile = [], TokenPepper = [], TokenPepperFile = [],
        AccessTokenExpiryStr = ''1h'', AccessTokenExpiry = hour,
        RefreshTokenExpiryStr = ''168h'', RefreshTokenExpiry = 168 * hour,
        AdminEmail = [], AdminPassword = [], AdminPasswordFile = [], AdminName = []\<rparr>,
      Audit = \<lparr>RetentionDays = 90, CleanupIntervalStr = ''24h'', CleanupInterval = 24 * hour\<rparr>,
      Bootstrap = \<lparr>boot_AgentToken = [], boot_AgentCluster = []\<rparr>,
      PolicyFile = [],
      TLS = \<lparr>tls_Enabled = False, CertFile = [], KeyFile = []\<rparr>,
      MaxConcurrent = 50\<rparr>"

text \<open>An assignment \<open>x, err = resolveSecret(\<dots>)\<close> leaves the empty string in \<open>x\<close> when it fails; the fields after
  it are not resolved. The result is the error, if any, and the configuration it leaves.\<close>

definition assign_secret ::
  "(string \<Rightarrow> AuthConfig \<Rightarrow> AuthConfig) \<Rightarrow> string + string \<Rightarrow> AuthConfig \<Rightarrow> string option \<times> AuthConfig" where
  "assign_secret put res a = (case res of Inl e \<Rightarrow> (Some e, put [] a) | Inr v \<Rightarrow> (None, put v a))"

definition resolve_auth :: "env_vars \<Rightarrow> files \<Rightarrow> AuthConfig \<Rightarrow> string option \<times> AuthConfig" where
  "resolve_auth env read a =
     (case assign_secret (\<lambda>v. JWTSecret_update (\<lambda>_. v))
          (resolveSecret env read (JWTSecret a) (JWTSecretFile a) ''KBRIDGE_JWT_SECRET'') a of
        (Some e, a1) \<Rightarrow> (Some e, a1)
      | (None, a1) \<Rightarrow>
          (case assign_secret (\<lambda>v. TokenPepper_update (\<lambda>_. v))
               (resolveSecret env read (TokenPepper a1) (TokenPepperFile a1) ''KBRIDGE_TOKEN_PEPPER'') a1 of
             (Some e, a2) \<Rightarrow> (Some e, a2)
           | (None, a2) \<Rightarrow>
               assign_secret (\<lambda>v. AdminPassword_update (\<lambda>_. v))
                 (resolveSecret env read (AdminPassword a2) (AdminPasswordFile a2) ''KBRIDGE_ADMIN_PASSWORD'') a2))"

definition resolveSecrets :: "env_vars \<Rightarrow> files \<Rightarrow> Config \<Rightarrow> string option \<times> Config" where
  "resolveSecrets env read c = (case resolve_auth env read (cfg_Auth c) of (e, a) \<Rightarrow> (e, c\<lparr>cfg_Auth := a\<rparr>))"

definition DefaultConfigWithEnv :: "env_vars \<Rightarrow> files \<Rightarrow> Config" where
  "DefaultConfigWithEnv env read = snd (resolveSecrets env read DefaultConfig)"

definition parse_field :: "(string \<Rightarrow> int option) \<Rightarrow> string \<Rightarrow> string \<Rightarrow> int \<Rightarrow> string + int" where
  "parse_field dur name s old =
     (if s = [] then Inr old
      else case dur s of None \<Rightarrow> Inl (''invalid '' @ name @ '' '' @ quoted s) | Some d \<Rightarrow> Inr d)"

definition parseDurations :: "(string \<Rightarrow> int option) \<Rightarrow> Config \<Rightarrow> string + Config" where
  "parseDurations dur c = (let a = cfg_Auth c in
     case parse_field dur ''access_token_expiry'' (AccessTokenExpiryStr a) (AccessTokenExpiry a) of
       Inl e \<Rightarrow> Inl e
     | Inr d1 \<Rightarrow> (case parse_field dur ''refresh_token_expiry'' (RefreshTokenExpiryStr a) (RefreshTokenExpiry a) of
         Inl e \<Rightarrow> Inl e
       | Inr d2 \<Rightarrow> (case parse_field dur ''cleanup_interval'' (CleanupIntervalStr (Audit c)) (CleanupInterval (Audit c)) of
           Inl e \<Rightarrow> Inl e
         | Inr d3 \<Rightarrow> Inr (c\<lparr>cfg_Auth := a\<lparr>AccessTokenExpiry := d1, RefreshTokenExpiry := d2\<rparr>,
             Audit := (Audit c)\<lparr>CleanupInterval := d3\<rparr>\<rparr>))))"

definition LoadConfig ::
  "env_vars \<Rightarrow> files \<Rightarrow> (string \<Rightarrow> Config \<Rightarrow> Config option) \<Rightarrow> (string \<Rightarrow> int option) \<Rightarrow> string \<Rightarrow> string + Config" where
  "LoadConfig env read yaml dur path = (case read path of
     None \<Rightarrow> Inl ''reading config file''
   | Some data \<Rightarrow> (case yaml data DefaultConfig of
       None \<Rightarrow> Inl ''parsing config file''
     | Some c \<Rightarrow> (case parseDurations dur c of
         Inl e \<Rightarrow> Inl (''parsing duration fields: '' @ e)
       | Inr c1 \<Rightarrow> (case resolveSecrets env read c1 of
           (Some e, _) \<Rightarrow> Inl (''resolving secrets: '' @ e)
         | (None, c2) \<Rightarrow> Inr c2))))"

definition validateServer :: "ServerConfig \<Rightarrow> string option" where
  "validateServer s =
     (if HTTPPort s \<le> 0 \<or> HTTPPort s > 65535 then Some (''invalid HTTP port: '' @ itoa (HTTPPort s))
      else if GRPCPort s \<le> 0 \<or> GRPCPort s > 65535 then Some (''invalid gRPC port: '' @ itoa (GRPCPort s))
      else if HTTPPort s = GRPCPort s then Some ''HTTP and gRPC ports must be different''
      else None)"

definition validateDatabase :: "DatabaseConfig \<Rightarrow> string option" where
  "validateDatabase d =
     (if Driver d \<noteq> ''sqlite'' \<and> Driver d \<noteq> ''postgres'' then Some (''invalid database driver '' @ quoted (Driver d) @ '': must be sqlite or postgres'') else None)"

definition validateSecrets :: "AuthConfig \<Rightarrow> string option" where
  "validateSecrets a =
     (if JWTSecret a = [] then Some ''jwt_secret must be set''
      else if length (JWTSecret a) < 32 then Some ''jwt_secret must be at least 32 characters''
      else if JWTSecret a = devDefaultJWTSecret then Some ''jwt_secret is the shipped development default; generate one with: openssl rand -hex 32''
      else None)"

definition validateAuth :: "AuthConfig \<Rightarrow> string option" where
  "validateAuth a = (case validateSecrets a of
     Some e \<Rightarrow> Some e
   | None \<Rightarrow>
       if AccessTokenExpiry a \<le> 0 then Some ''access_token_expiry must be greater than zero''
       else if RefreshTokenExpiry a \<le> 0 then Some ''refresh_token_expiry must be greater than zero''
       else None)"

definition validateTLS :: "TLSConfig \<Rightarrow> string option" where
  "validateTLS t =
     (if \<not> tls_Enabled t then None
      else if CertFile t = [] \<or> KeyFile t = []
        then Some ''tls.cert_file and tls.key_file are required when tls is enabled''
      else None)"

definition Validate :: "Config \<Rightarrow> string option" where
  "Validate c = (case validateServer (Server c) of
     Some e \<Rightarrow> Some e
   | None \<Rightarrow> (case validateDatabase (Database c) of
       Some e \<Rightarrow> Some e
     | None \<Rightarrow> (case validateAuth (cfg_Auth c) of
         Some e \<Rightarrow> Some e
       | None \<Rightarrow> validateTLS (TLS c))))"

definition AgentTokenPepper :: "Config \<Rightarrow> string" where
  "AgentTokenPepper c = (if TokenPepper (cfg_Auth c) \<noteq> [] then TokenPepper (cfg_Auth c) else JWTSecret (cfg_Auth c))"


section \<open>The agent\<close>

record AgentTLSConfig =
  agent_tls_Enabled :: bool
  CAFile :: string
  Insecure :: bool

record AgentConfig =
  central_URL :: string
  central_Token :: string
  central_TokenFile :: string
  central_TLS :: AgentTLSConfig
  cluster_Name :: string
  HealthFile :: string

definition AgentDefaultConfig :: AgentConfig where
  "AgentDefaultConfig = \<lparr>central_URL = ''localhost:9090'', central_Token = [], central_TokenFile = [],
     central_TLS = \<lparr>agent_tls_Enabled = False, CAFile = [], Insecure = False\<rparr>, cluster_Name = ''default'', HealthFile = ''/tmp/kbridge-agent-healthy''\<rparr>"

definition agent_resolveSecrets :: "env_vars \<Rightarrow> files \<Rightarrow> AgentConfig \<Rightarrow> string option \<times> AgentConfig" where
  "agent_resolveSecrets env read c =
     (if env ''KBRIDGE_AGENT_TOKEN_FILE'' \<noteq> [] then
        (case readSecretFile read (env ''KBRIDGE_AGENT_TOKEN_FILE'') of
           Inl e \<Rightarrow> (Some e, c)
         | Inr v \<Rightarrow> (None, c\<lparr>central_Token := v\<rparr>))
      else (case resolveSecret env read (central_Token c) (central_TokenFile c) ''KBRIDGE_AGENT_TOKEN'' of
          Inl e \<Rightarrow> (Some e, c)
        | Inr token \<Rightarrow>
            if token \<noteq> [] then (None, c\<lparr>central_Token := token\<rparr>)
            else if env ''AGENT_TOKEN'' \<noteq> [] then (None, c\<lparr>central_Token := env ''AGENT_TOKEN''\<rparr>)
            else (None, c)))"

definition applyEnvOverrides :: "env_vars \<Rightarrow> AgentConfig \<Rightarrow> AgentConfig" where
  "applyEnvOverrides env c =
     (let c1 = (if env ''KBRIDGE_CENTRAL_URL'' \<noteq> [] then c\<lparr>central_URL := env ''KBRIDGE_CENTRAL_URL''\<rparr> else c)
      in if env ''KBRIDGE_CLUSTER_NAME'' \<noteq> [] then c1\<lparr>cluster_Name := env ''KBRIDGE_CLUSTER_NAME''\<rparr> else c1)"

definition AgentDefaultConfigWithEnv :: "env_vars \<Rightarrow> files \<Rightarrow> AgentConfig" where
  "AgentDefaultConfigWithEnv env read = applyEnvOverrides env (snd (agent_resolveSecrets env read AgentDefaultConfig))"

definition AgentLoadConfig ::
  "env_vars \<Rightarrow> files \<Rightarrow> (string \<Rightarrow> AgentConfig \<Rightarrow> AgentConfig option) \<Rightarrow> string \<Rightarrow> string + AgentConfig" where
  "AgentLoadConfig env read yaml path = (case read path of
     None \<Rightarrow> Inl ''reading config file''
   | Some data \<Rightarrow> (case yaml data AgentDefaultConfig of
       None \<Rightarrow> Inl ''parsing config file''
     | Some c \<Rightarrow> (case agent_resolveSecrets env read c of
         (Some e, _) \<Rightarrow> Inl (''resolving secrets: '' @ e)
       | (None, c1) \<Rightarrow> Inr (applyEnvOverrides env c1))))"

definition agent_Validate :: "AgentConfig \<Rightarrow> string option" where
  "agent_Validate c =
     (if central_URL c = [] then Some ''central.url is required''
      else if central_Token c = [] then Some ''central.token is required (set via config or AGENT_TOKEN env var)''
      else if cluster_Name c = [] then Some ''cluster.name is required''
      else None)"


section \<open>Transport security\<close>

text \<open>What a connection of the agent is protected with: nothing, TLS with any certificate, or TLS with a certificate that
  verifies against the authorities of a file or of the system. \<open>load\<close> is the loading of a file, with its error.\<close>

datatype transport = Plaintext | TlsUnverified | TlsVerified "string option"

definition clientTransportCredentials :: "(string \<Rightarrow> string option) \<Rightarrow> AgentTLSConfig \<Rightarrow> string + transport" where
  "clientTransportCredentials load cfg =
     (if \<not> agent_tls_Enabled cfg then Inr Plaintext
      else if Insecure cfg then Inr TlsUnverified
      else if CAFile cfg \<noteq> [] then
        (case load (CAFile cfg) of Some e \<Rightarrow> Inl (''loading ca cert: '' @ e) | None \<Rightarrow> Inr (TlsVerified (Some (CAFile cfg))))
      else Inr (TlsVerified None))"

text \<open>The server: no option, or the pair of files of its certificate.\<close>

definition grpcServerOptions ::
  "(string \<Rightarrow> string \<Rightarrow> string option) \<Rightarrow> TLSConfig \<Rightarrow> string + (string \<times> string) option" where
  "grpcServerOptions load cfg =
     (if \<not> tls_Enabled cfg then Inr None
      else case load (CertFile cfg) (KeyFile cfg) of
        Some e \<Rightarrow> Inl (''loading tls credentials: '' @ e)
      | None \<Rightarrow> Inr (Some (CertFile cfg, KeyFile cfg)))"


section \<open>Where the configuration comes from\<close>

text \<open>The main programs: the flag, then \<open>KBRIDGE_CONFIG\<close>, then, for the agent, the first default path that exists, then the
  defaults with the environment.\<close>

definition central_loadConfig ::
  "env_vars \<Rightarrow> files \<Rightarrow> (string \<Rightarrow> Config \<Rightarrow> Config option) \<Rightarrow> (string \<Rightarrow> int option) \<Rightarrow> string \<Rightarrow> string + Config" where
  "central_loadConfig env read yaml dur flag =
     (let path = (if flag = [] then env ''KBRIDGE_CONFIG'' else flag) in
      if path = [] then Inr (DefaultConfigWithEnv env read) else LoadConfig env read yaml dur path)"

definition agent_loadConfig ::
  "env_vars \<Rightarrow> files \<Rightarrow> (string \<Rightarrow> bool) \<Rightarrow> (string \<Rightarrow> AgentConfig \<Rightarrow> AgentConfig option) \<Rightarrow> string \<Rightarrow> string + AgentConfig" where
  "agent_loadConfig env read exists yaml flag =
     (let path = (if flag = [] then env ''KBRIDGE_CONFIG'' else flag) in
      if path \<noteq> [] then AgentLoadConfig env read yaml path
      else case find exists [''configs/agent.yaml'', ''/etc/kbridge/agent.yaml''] of
        Some found \<Rightarrow> AgentLoadConfig env read yaml found
      | None \<Rightarrow> Inr (AgentDefaultConfigWithEnv env read))"


section \<open>Properties\<close>

text \<open>What validation accepts: two different ports of TCP, a known database driver, a signing secret of at
  least 32 bytes that is not the published one, positive lifetimes, and files for TLS when it is on;
  and then the agents' tokens are hashed with a key that is not empty.\<close>

theorem Validate_exact:
  "(Validate c = None \<longleftrightarrow>
     {HTTPPort (Server c), GRPCPort (Server c)} \<subseteq> {1..65535} \<and> HTTPPort (Server c) \<noteq> GRPCPort (Server c) \<and>
     Driver (Database c) \<in> {''sqlite'', ''postgres''} \<and>
     32 \<le> length (JWTSecret (cfg_Auth c)) \<and> JWTSecret (cfg_Auth c) \<noteq> devDefaultJWTSecret \<and>
     0 < AccessTokenExpiry (cfg_Auth c) \<and> 0 < RefreshTokenExpiry (cfg_Auth c) \<and>
     (tls_Enabled (TLS c) \<longrightarrow> CertFile (TLS c) \<noteq> [] \<and> KeyFile (TLS c) \<noteq> [])) \<and>
   (Validate c = None \<longrightarrow> AgentTokenPepper c \<noteq> [])"
  by (auto simp: Validate_def validateServer_def validateDatabase_def validateAuth_def validateSecrets_def validateTLS_def
      AgentTokenPepper_def split: if_splits option.splits)

definition good_secret :: string where
  "good_secret = ''0123456789abcdef0123456789abcdef''"

definition good_config :: Config where
  "good_config = DefaultConfig\<lparr>cfg_Auth := (cfg_Auth DefaultConfig)\<lparr>JWTSecret := good_secret\<rparr>\<rparr>"

theorem Validate_exact_witness: "Validate good_config = None \<and> AgentTokenPepper good_config \<noteq> []"
  using Validate_exact [of good_config]
  by (simp add: good_config_def good_secret_def DefaultConfig_def devDefaultJWTSecret_def)

text \<open>The sources of a secret: the file that the environment names goes first, then the environment, then the
  file of the configuration, then the configuration; and a file that is named and cannot be read, or is
  blank, never leaves another source in its place when a configuration file is loaded.\<close>

theorem secrets_fail_closed:
  assumes "LoadConfig env read yaml dur path = Inr c" and "read path = Some data" and "yaml data DefaultConfig = Some c0"
  shows "let inline = JWTSecret (cfg_Auth c0); named = JWTSecretFile (cfg_Auth c0); f = env ''KBRIDGE_JWT_SECRET_FILE'';
      v = env ''KBRIDGE_JWT_SECRET'' in
    if f \<noteq> [] then (\<exists>d. read f = Some d \<and> JWTSecret (cfg_Auth c) = trim_space d \<and> trim_space d \<noteq> [])
    else if v \<noteq> [] then JWTSecret (cfg_Auth c) = v
    else if named \<noteq> [] then (\<exists>d. read named = Some d \<and> JWTSecret (cfg_Auth c) = trim_space d \<and> trim_space d \<noteq> [])
    else JWTSecret (cfg_Auth c) = inline"
proof -
  obtain c1 where c1: "parseDurations dur c0 = Inr c1" "resolveSecrets env read c1 = (None, c)"
    using assms by (auto simp: LoadConfig_def split: sum.splits option.splits prod.splits)
  have same: "JWTSecret (cfg_Auth c1) = JWTSecret (cfg_Auth c0)" "JWTSecretFile (cfg_Auth c1) = JWTSecretFile (cfg_Auth c0)"
    using c1(1) by (auto simp: parseDurations_def Let_def split: sum.splits)
  obtain v where v: "resolveSecret env read (JWTSecret (cfg_Auth c0)) (JWTSecretFile (cfg_Auth c0)) ''KBRIDGE_JWT_SECRET'' = Inr v"
      "JWTSecret (cfg_Auth c) = v"
    using c1(2) same by (auto simp: resolveSecrets_def resolve_auth_def assign_secret_def split: sum.splits option.splits prod.splits)
  then show ?thesis
    by (auto simp: Let_def resolveSecret_def readSecretFile_def split: if_splits option.splits)
qed

theorem secrets_fail_closed_witness:
  "\<exists>c. LoadConfig (\<lambda>k. if k = ''KBRIDGE_JWT_SECRET_FILE'' then ''s'' else []) (\<lambda>p. if p = ''s'' then Some '' key '' else Some [])
     (\<lambda>_. Some) (\<lambda>_. Some 1) ''c'' = Inr c \<and> JWTSecret (cfg_Auth c) = ''key''"
proof -
  let ?env = "\<lambda>k. if k = ''KBRIDGE_JWT_SECRET_FILE'' then ''s'' else []"
  let ?read = "\<lambda>p. if p = ''s'' then Some '' key '' else Some []"
  obtain c where c: "LoadConfig ?env ?read (\<lambda>_. Some) (\<lambda>_. Some 1) ''c'' = Inr c"
    by (simp add: LoadConfig_def parseDurations_def parse_field_def DefaultConfig_def resolveSecrets_def resolve_auth_def
        assign_secret_def resolveSecret_def readSecretFile_def Let_def trim_space_def is_space_def)
  then show ?thesis
    using secrets_fail_closed [OF c, of "[]" DefaultConfig] by (auto simp: Let_def trim_space_def is_space_def)
qed

text \<open>Without a configuration file the central server does not fail closed: the errors of the secrets are
  dropped, so a pepper file that cannot be read leaves the pepper empty, the configuration passes the
  validation, and the agents' tokens are hashed with the signing secret.\<close>

theorem default_env_fails_open:
  assumes "env ''KBRIDGE_JWT_SECRET_FILE'' = []" and "env ''KBRIDGE_JWT_SECRET'' = secret"
    and "32 \<le> length secret" and "secret \<noteq> devDefaultJWTSecret"
    and "env ''KBRIDGE_TOKEN_PEPPER_FILE'' = path" and "path \<noteq> []" and "read path = None"
  shows "Validate (DefaultConfigWithEnv env read) = None \<and> AgentTokenPepper (DefaultConfigWithEnv env read) = secret"
  using assms
  by (auto simp: DefaultConfigWithEnv_def resolveSecrets_def resolve_auth_def assign_secret_def resolveSecret_def
      readSecretFile_def DefaultConfig_def Validate_def validateServer_def validateDatabase_def validateAuth_def
      validateSecrets_def validateTLS_def AgentTokenPepper_def)

theorem default_env_fails_open_witness:
  "AgentTokenPepper (DefaultConfigWithEnv (\<lambda>k. if k = ''KBRIDGE_JWT_SECRET'' then good_secret
     else if k = ''KBRIDGE_TOKEN_PEPPER_FILE'' then ''missing'' else []) (\<lambda>_. None)) = good_secret"
  using default_env_fails_open [of "\<lambda>k. if k = ''KBRIDGE_JWT_SECRET'' then good_secret
     else if k = ''KBRIDGE_TOKEN_PEPPER_FILE'' then ''missing'' else []" good_secret "''missing''" "\<lambda>_. None"]
  by (simp add: good_secret_def devDefaultJWTSecret_def)

text \<open>The agent's token: \<open>AGENT_TOKEN\<close> counts only when no other source has a token, also after the inline one
  and the configured file, though the comment of the function puts it before both.\<close>

theorem agent_token_precedence:
  assumes "env ''KBRIDGE_AGENT_TOKEN_FILE'' = []" and "env ''KBRIDGE_AGENT_TOKEN'' = []"
    and "central_TokenFile c = []" and "env ''AGENT_TOKEN'' \<noteq> []"
  shows "agent_resolveSecrets env read c = (None, c\<lparr>central_Token :=
    (if central_Token c \<noteq> [] then central_Token c else env ''AGENT_TOKEN'')\<rparr>)"
  using assms by (simp add: agent_resolveSecrets_def resolveSecret_def)

theorem agent_token_precedence_witness:
  "central_Token (snd (agent_resolveSecrets (\<lambda>k. if k = ''AGENT_TOKEN'' then ''env'' else []) (\<lambda>_. None)
     (AgentDefaultConfig\<lparr>central_Token := ''inline''\<rparr>))) = ''inline''"
  using agent_token_precedence [of "\<lambda>k. if k = ''AGENT_TOKEN'' then ''env'' else []" "AgentDefaultConfig\<lparr>central_Token := ''inline''\<rparr>" "\<lambda>_. None"]
  by (simp add: AgentDefaultConfig_def)

end
