(* ===== verification/Server.thy ===== *)
theory Server
  imports Config Http
begin

text \<open>
  The start of the central server and its periodic work (\<open>internal/central/server.go\<close>): the database is
  opened and seeded, the components are made from the configuration, and the tickers and signals act on
  the shared state. The listeners and the shutdown are in theory Server_Life.
\<close>


section \<open>Seeding\<close>

text \<open>Errors are logged and end the seeding; the one of the lookup is not looked at.\<close>

definition seedAdminUser :: "Lib \<Rightarrow> AuthConfig \<Rightarrow> int \<Rightarrow> string \<Rightarrow> Db \<Rightarrow> Db" where
  "seedAdminUser lib a now uuid db = (case GetUserByEmail (AdminEmail a) db of
     (Inr (Some existing), db1) \<Rightarrow> db1
   | (_, db1) \<Rightarrow>
       (case HashPassword lib (AdminPassword a) of
          None \<Rightarrow> db1
        | Some hash \<Rightarrow>
            snd (CreateUser uuid now
              \<lparr>u_ID = [], u_Email = AdminEmail a, u_PasswordHash = hash,
               u_Name = (if AdminName a = [] then ''Admin'' else AdminName a), u_IsActive = True, u_IsAdmin = True,
               u_CreatedAt = 0, u_UpdatedAt = 0\<rparr> db1)))"

definition seedAgentToken ::
  "(string \<Rightarrow> string \<Rightarrow> string) \<Rightarrow> string \<Rightarrow> BootstrapConfig \<Rightarrow> (nat \<Rightarrow> int) \<Rightarrow> string \<Rightarrow> string \<Rightarrow> Db \<Rightarrow> Db" where
  "seedAgentToken hmac pepper b clk uuid uuid2 db =
     (let h = hashAgentToken hmac pepper (boot_AgentToken b);
          token = (\<lambda>cluster. \<lparr>t_ID = [], t_ClusterID = c_ID cluster, t_TokenHash = h,
            t_TokenPrefix = take agentTokenPrefixLen (boot_AgentToken b),
            t_Description = ''bootstrap token (seeded from config)'', t_IsRevoked = False, t_LastUsedAt = None,
            t_ExpiresAt = None, t_CreatedAt = 0\<rparr>)
      in case GetAgentTokenByHash h db of
           (Inr (Some existing), db1) \<Rightarrow> db1
         | (_, db1) \<Rightarrow>
             (case GetClusterByName (boot_AgentCluster b) db1 of
                (Inl e, db2) \<Rightarrow> db2
              | (Inr (Some cluster), db2) \<Rightarrow> snd (CreateAgentToken uuid2 (clk 1) (token cluster) db2)
              | (Inr None, db2) \<Rightarrow>
                  (case CreateCluster uuid (clk 0) \<lparr>c_ID = [], c_Name = boot_AgentCluster b, c_Status = ClusterStatusPending,
                       c_AgentID = [], c_LastSeenAt = None, c_CreatedAt = 0, c_UpdatedAt = 0\<rparr> db2 of
                     (Inl e, db3) \<Rightarrow> db3
                   | (Inr cluster, db3) \<Rightarrow> snd (CreateAgentToken uuid2 (clk 1) (token cluster) db3))))"


section \<open>Start\<close>

record CentralServer =
  srv_grpc :: GRPCServer
  srv_http :: HTTPServer
  srv_auth :: AuthHandlers
  srv_admin :: AdminHandlers
  srv_cert :: "(string \<times> string) option"

text \<open>The database the file holds, \<open>None\<close> when it cannot be opened or migrated; \<open>load\<close> loads the files of
  a certificate. Each use of \<open>ids\<close> is a new identifier. The database keeps its seeds when the start
  fails later.\<close>

definition NewServer ::
  "Lib \<Rightarrow> (string \<Rightarrow> string \<Rightarrow> string) \<Rightarrow> (bytes \<Rightarrow> Policy option) \<Rightarrow> (string \<Rightarrow> bytes option) \<Rightarrow>
     (string \<Rightarrow> string \<Rightarrow> string option) \<Rightarrow> (nat \<Rightarrow> int) \<Rightarrow>
     (nat \<Rightarrow> string) \<Rightarrow> Config \<Rightarrow> Db option \<Rightarrow> (string + CentralServer) \<times> Db option" where
  "NewServer lib hmac unmarshal read load clk ids cfg opened = (case opened of
     None \<Rightarrow> (Inl ''opening database'', None)
   | Some db \<Rightarrow>
       let a = cfg_Auth cfg; b = Bootstrap cfg; pepper = AgentTokenPepper cfg;
           db1 = (if AdminEmail a \<noteq> [] \<and> AdminPassword a \<noteq> [] then seedAdminUser lib a (clk 0) (ids 0) db else db);
           db2 = (if boot_AgentToken b \<noteq> [] \<and> boot_AgentCluster b \<noteq> []
                  then seedAgentToken hmac pepper b (\<lambda>i. clk (i + 1)) (ids 1) (ids 2) db1 else db1);
           jm = \<lparr>jwt_secret = JWTSecret a, accessExpiry = AccessTokenExpiry a\<rparr>;
           server = (\<lambda>policy cert.
             \<lparr>srv_grpc = \<lparr>g_agents = NewAgentStore, g_queue = NewCommandQueue,
                g_sessions = NewSessionManager (MaxConcurrent cfg), g_db = db2\<rparr>,
              srv_http = \<lparr>h_policy = policy, h_audit = True\<rparr>,
              srv_auth = \<lparr>ah_lib = lib, ah_jwt = jm, refreshExpiry = RefreshTokenExpiry a\<rparr>,
              srv_admin = \<lparr>adm_lib = lib, adm_hmac = hmac, adm_pepper = pepper\<rparr>, srv_cert = cert\<rparr>)
       in case (if PolicyFile cfg = [] then Inr None
                else case NewPolicyEngineFromFile unmarshal read (PolicyFile cfg) of Inl e \<Rightarrow> Inl () | Inr e \<Rightarrow> Inr (Some e)) of
            Inl _ \<Rightarrow> (Inl ''loading rbac policy'', Some db2)
          | Inr policy \<Rightarrow>
              (case grpcServerOptions load (TLS cfg) of
                 Inl e \<Rightarrow> (Inl (''configuring grpc tls: '' @ e), Some db2)
               | Inr cert \<Rightarrow> (Inr (server policy cert), Some db2)))"


section \<open>Periodic work\<close>

definition cleanupAuditLogs :: "int \<Rightarrow> int \<Rightarrow> Db \<Rightarrow> Db" where
  "cleanupAuditLogs retentionDays now db = snd (CleanupOldAuditLogs (now - retentionDays * 86400 * second) db)"

datatype tick = TickDisconnect | TickAudit | TickRefresh | SigHup

text \<open>A tick of the goroutines that \<open>Run\<close> starts; the audit log is cleaned only when the configuration asks
  for it.\<close>

definition disconnect_tick :: "int \<Rightarrow> CentralServer \<Rightarrow> CentralServer" where
  "disconnect_tick now s = s\<lparr>srv_grpc := (srv_grpc s)\<lparr>g_agents := MarkDisconnected now (g_agents (srv_grpc s))\<rparr>\<rparr>"

definition audit_tick :: "Config \<Rightarrow> int \<Rightarrow> CentralServer \<Rightarrow> CentralServer" where
  "audit_tick cfg now s =
     s\<lparr>srv_grpc := (srv_grpc s)\<lparr>g_db := cleanupAuditLogs (RetentionDays (Audit cfg)) now (g_db (srv_grpc s))\<rparr>\<rparr>"

definition refresh_tick :: "int \<Rightarrow> CentralServer \<Rightarrow> CentralServer" where
  "refresh_tick now s = s\<lparr>srv_grpc := (srv_grpc s)\<lparr>g_db := snd (CleanupExpiredRefreshTokens now (g_db (srv_grpc s)))\<rparr>\<rparr>"

definition sighup :: "(bytes \<Rightarrow> Policy option) \<Rightarrow> (string \<Rightarrow> bytes option) \<Rightarrow> CentralServer \<Rightarrow> CentralServer" where
  "sighup unmarshal read s = (case h_policy (srv_http s) of
     None \<Rightarrow> s
   | Some e \<Rightarrow> s\<lparr>srv_http := (srv_http s)\<lparr>h_policy := Some (snd (Reload unmarshal read e))\<rparr>\<rparr>)"

fun server_tick ::
  "(bytes \<Rightarrow> Policy option) \<Rightarrow> (string \<Rightarrow> bytes option) \<Rightarrow> Config \<Rightarrow> int \<Rightarrow> tick \<Rightarrow> CentralServer \<Rightarrow> CentralServer" where
  "server_tick unmarshal read cfg now TickDisconnect s = disconnect_tick now s"
| "server_tick unmarshal read cfg now TickAudit s =
     (if RetentionDays (Audit cfg) > 0 \<and> CleanupInterval (Audit cfg) > 0 then audit_tick cfg now s else s)"
| "server_tick unmarshal read cfg now TickRefresh s = refresh_tick now s"
| "server_tick unmarshal read cfg now SigHup s = sighup unmarshal read s"


section \<open>Lemmas\<close>

lemma faults_Nil_update: "faults db = [] \<Longrightarrow> db\<lparr>faults := []\<rparr> = db"
  by (cases db) simp

text \<open>Without an existing token the seeding finds or creates the cluster as the administrator's handler
  does.\<close>

lemma seedAgentToken_fresh:
  assumes "faults db = []" and "find (\<lambda>t. t_TokenHash t = hmac pepper (boot_AgentToken b)) (agent_tokens db) = None"
    and "findOrCreateCluster uuid (clk 0) (boot_AgentCluster b) db = (Inr cluster, db1)"
  shows "seedAgentToken hmac pepper b clk uuid uuid2 db = snd (CreateAgentToken uuid2 (clk 1)
    \<lparr>t_ID = [], t_ClusterID = c_ID cluster, t_TokenHash = hmac pepper (boot_AgentToken b),
     t_TokenPrefix = take agentTokenPrefixLen (boot_AgentToken b), t_Description = ''bootstrap token (seeded from config)'',
     t_IsRevoked = False, t_LastUsedAt = None, t_ExpiresAt = None, t_CreatedAt = 0\<rparr> db1)"
  using assms
  by (auto simp: seedAgentToken_def Let_def hashAgentToken_def GetAgentTokenByHash_eq GetClusterByName_eq findOrCreateCluster_def
      faults_Nil_update split: option.splits sum.splits prod.splits)

lemma findOrCreate_total:
  assumes "faults db = []" and "uuid \<notin> c_ID ` set (clusters db)"
  shows "\<exists>cluster db1. findOrCreateCluster uuid now name db = (Inr cluster, db1)"
proof (cases "find (\<lambda>c. c_Name c = name) (clusters db)")
  case None
  then have "\<not> list_ex (\<lambda>r. c_ID r = uuid \<or> c_Name r = name) (clusters db)"
    using assms(2) by (auto simp: find_None_iff list_ex_iff)
  then show ?thesis
    using None assms faults_Nil_update [OF assms(1)]
    by (auto simp: findOrCreateCluster_def GetClusterByName_eq CreateCluster_def Let_def new_id_def)
qed (use assms in \<open>auto simp: findOrCreateCluster_def GetClusterByName_eq\<close>)


section \<open>Properties\<close>

text \<open>The configured administrator: after the seeding there is a user with the address; one that was there is
  left as it is (so the start never takes back a changed password, name or state), and a new one is an
  active administrator with the configured password. A second seeding changes nothing.\<close>

theorem seeded_admin:
  assumes "faults db = []" and "bcrypt_generate lib (AdminPassword a) = Some h" and "uuid \<notin> u_ID ` set (users db)" and "uuid \<noteq> []"
  shows "let db' = seedAdminUser lib a now uuid db in
    (case find (\<lambda>u. u_Email u = AdminEmail a) (users db) of
       Some u \<Rightarrow> db' = db
     | None \<Rightarrow> (\<exists>u. users db' = users db @ [u] \<and> find (\<lambda>u. u_Email u = AdminEmail a) (users db') = Some u \<and>
         u_IsActive u \<and> u_IsAdmin u \<and> u_PasswordHash u = h)) \<and>
    seedAdminUser lib a now2 uuid2 db' = db'"
proof (cases "find (\<lambda>u. u_Email u = AdminEmail a) (users db)")
  case (Some u)
  then show ?thesis
    using assms faults_Nil_update [OF assms(1)] by (simp add: seedAdminUser_def GetUserByEmail_eq Let_def)
next
  case None
  let ?db = "db\<lparr>faults := []\<rparr>"
  let ?u = "\<lparr>u_ID = uuid, u_Email = AdminEmail a, u_PasswordHash = h, u_Name = (if AdminName a = [] then ''Admin'' else AdminName a),
    u_IsActive = True, u_IsAdmin = True, u_CreatedAt = stored_time now, u_UpdatedAt = stored_time now\<rparr>"
  have "\<not> list_ex (\<lambda>r. u_ID r = uuid \<or> u_Email r = AdminEmail a) (users db)"
    using assms(3) None by (auto simp: list_ex_iff find_None_iff)
  then have db': "seedAdminUser lib a now uuid db = db\<lparr>users := users db @ [?u]\<rparr>"
    using assms None faults_Nil_update [OF assms(1)]
    by (auto simp: seedAdminUser_def GetUserByEmail_eq HashPassword_def CreateUser_def Let_def new_id_def)
  have "find (\<lambda>u. u_Email u = AdminEmail a) (users db @ [?u]) = Some ?u"
    using None by (simp add: find_append)
  moreover have "faults (db\<lparr>users := users db @ [?u]\<rparr>) = []" using assms(1) by simp
  ultimately show ?thesis
    using None unfolding db' Let_def by (auto simp: seedAdminUser_def GetUserByEmail_eq faults_Nil_update)
qed

definition admin_config :: AuthConfig where
  "admin_config = (cfg_Auth good_config)\<lparr>AdminEmail := ''root@x'', AdminPassword := ''changeme''\<rparr>"

theorem seeded_admin_witness:
  "\<exists>u. find (\<lambda>u. u_Email u = ''root@x'') (users (seedAdminUser demo_lib admin_config 0 ''u9'' (user_db True))) = Some u \<and> u_IsAdmin u"
  using seeded_admin [of "user_db True" demo_lib admin_config "''changeme''" "''u9''" 0 0 "''u9''"]
  by (auto simp: user_db_def demo_user_def createSchema_def demo_lib_def admin_config_def Let_def)

text \<open>The bootstrap token: after the seeding an agent registers with it for the configured cluster, whether the
  cluster was there or not, provided no statement fails, the identifiers are new and the token was not
  there.\<close>

theorem seeded_token_authenticates:
  assumes "faults db = []" and "db_ok db" and "uuid \<notin> c_ID ` set (clusters db)" and "uuid2 \<notin> t_ID ` set (agent_tokens db)"
    and "uuid2 \<noteq> []" and "find (\<lambda>t. t_TokenHash t = hmac pepper (boot_AgentToken b)) (agent_tokens db) = None"
  shows "\<exists>cluster. fst (Authenticate hmac pepper now now2 (boot_AgentToken b) (boot_AgentCluster b)
      (seedAgentToken hmac pepper b clk uuid uuid2 db)) = Inr cluster \<and> c_Name cluster = boot_AgentCluster b"
proof -
  obtain cluster db1 where fc: "findOrCreateCluster uuid (clk 0) (boot_AgentCluster b) db = (Inr cluster, db1)"
    using findOrCreate_total [OF assms(1,3)] by blast
  note spec = findOrCreateCluster_spec [OF fc assms(1,2)]
  then obtain row where row: "row \<in> set (clusters db1)" "c_ID row = c_ID cluster" "c_Name row = boot_AgentCluster b" by blast
  have find_row: "find (\<lambda>c. c_ID c = c_ID cluster) (clusters db1) = Some row"
    using find_unique_key [of c_ID "clusters db1" row] row spec by (simp add: db_ok_def)
  let ?t = "\<lparr>t_ID = uuid2, t_ClusterID = c_ID cluster, t_TokenHash = hmac pepper (boot_AgentToken b),
     t_TokenPrefix = take agentTokenPrefixLen (boot_AgentToken b), t_Description = ''bootstrap token (seeded from config)'',
     t_IsRevoked = False, t_LastUsedAt = None, t_ExpiresAt = None, t_CreatedAt = stored_time (clk 1)\<rparr>"
  have "list_ex (\<lambda>c. c_ID c = c_ID cluster) (clusters db1)" "\<not> list_ex (\<lambda>t. t_ID t = uuid2) (agent_tokens db1)"
    using row(1,2) spec assms(4) by (auto simp: list_ex_iff)
  then have db': "seedAgentToken hmac pepper b clk uuid uuid2 db = db1\<lparr>agent_tokens := agent_tokens db1 @ [?t]\<rparr>"
    using seedAgentToken_fresh [where hmac = hmac and pepper = pepper and b = b and clk = clk, OF assms(1,6) fc, of uuid2] assms(5) spec
    by (simp add: CreateAgentToken_def Let_def new_id_def)
  have "token_accepted (hmac pepper (boot_AgentToken b)) now (boot_AgentCluster b) row (db1\<lparr>agent_tokens := agent_tokens db1 @ [?t]\<rparr>)"
    using assms(6) spec find_row row(3) by (simp add: token_accepted_def find_append)
  then show ?thesis
    using Authenticate_no_faults [of "db1\<lparr>agent_tokens := agent_tokens db1 @ [?t]\<rparr>" hmac pepper] spec row(3) db' by auto
qed

theorem seeded_token_authenticates_witness:
  "\<exists>cluster. fst (Authenticate (\<lambda>p t. p @ t) ''k'' 9 9 ''dev-token'' ''dev-cluster''
     (seedAgentToken (\<lambda>p t. p @ t) ''k'' \<lparr>boot_AgentToken = ''dev-token'', boot_AgentCluster = ''dev-cluster''\<rparr> (\<lambda>_. 0) ''u1'' ''u2''
       (createSchema []))) = Inr cluster \<and> c_Name cluster = ''dev-cluster''"
  using seeded_token_authenticates [of "createSchema []" "''u1''" "''u2''" "\<lambda>p t. p @ t" "''k''"
      "\<lparr>boot_AgentToken = ''dev-token'', boot_AgentCluster = ''dev-cluster''\<rparr>" 9 9 "\<lambda>_. 0"]
  by (simp add: createSchema_def db_ok_def)

text \<open>A server that starts enforces what it is configured to: with a policy file the start fails unless the file
  holds a valid policy, and the handlers then decide with it; the access tokens are signed with the
  configured secret and the agents' tokens hashed with the configured pepper; no agent, command or
  session is there yet. A database that cannot be opened and a certificate that cannot be loaded end the start.\<close>

theorem start_enforces_config:
  assumes "NewServer lib hmac unmarshal read load clk ids cfg opened = (Inr s, db)"
  shows "opened \<noteq> None \<and> grpcServerOptions load (TLS cfg) = Inr (srv_cert s) \<and>
    (if PolicyFile cfg = [] then h_policy (srv_http s) = None
     else \<exists>data p. read (PolicyFile cfg) = Some data \<and> unmarshal data = Some p \<and> validate_policy p = None \<and>
       h_policy (srv_http s) = Some \<lparr>current = p, engine_path = PolicyFile cfg\<rparr>) \<and>
    ah_jwt (srv_auth s) = \<lparr>jwt_secret = JWTSecret (cfg_Auth cfg), accessExpiry = AccessTokenExpiry (cfg_Auth cfg)\<rparr> \<and> adm_pepper (srv_admin s) = AgentTokenPepper cfg \<and>
    h_audit (srv_http s) \<and> db = Some (g_db (srv_grpc s)) \<and>
    commands (g_queue (srv_grpc s)) = Map.empty \<and> sm_sessions (g_sessions (srv_grpc s)) = []"
proof -
  obtain db0 where db0: "opened = Some db0" using assms by (cases opened) (simp_all add: NewServer_def)
  obtain policy where policy: "(if PolicyFile cfg = [] then Inr None
      else case NewPolicyEngineFromFile unmarshal read (PolicyFile cfg) of Inl e \<Rightarrow> Inl () | Inr e \<Rightarrow> Inr (Some e)) = Inr policy"
    using assms db0 unfolding NewServer_def Let_def by (auto split: sum.splits)
  have parts: "grpcServerOptions load (TLS cfg) = Inr (srv_cert s)" "h_policy (srv_http s) = policy" "h_audit (srv_http s)" "db = Some (g_db (srv_grpc s))"
      "ah_jwt (srv_auth s) = \<lparr>jwt_secret = JWTSecret (cfg_Auth cfg), accessExpiry = AccessTokenExpiry (cfg_Auth cfg)\<rparr>" "adm_pepper (srv_admin s) = AgentTokenPepper cfg"
      "g_queue (srv_grpc s) = NewCommandQueue" "g_sessions (srv_grpc s) = NewSessionManager (MaxConcurrent cfg)"
    using assms db0 policy unfolding NewServer_def Let_def by (auto simp del: if_split split: if_split_asm sum.splits)
  have "if PolicyFile cfg = [] then policy = None
     else \<exists>data p. read (PolicyFile cfg) = Some data \<and> unmarshal data = Some p \<and> validate_policy p = None \<and>
       policy = Some \<lparr>current = p, engine_path = PolicyFile cfg\<rparr>"
    using policy by (auto simp: NewPolicyEngineFromFile_def loadPolicyFile_def ParsePolicy_def
        split: option.splits sum.splits if_splits)
  then show ?thesis using parts db0 by (auto simp: NewCommandQueue_def NewSessionManager_def split: if_splits)
qed

theorem start_enforces_config_witness:
  "\<exists>s db. NewServer demo_lib (\<lambda>p t. p @ t) toy_unmarshal (\<lambda>_. Some [1]) (\<lambda>_ _. None) (\<lambda>_. 0) (\<lambda>_. ''u'') (good_config\<lparr>PolicyFile := ''p''\<rparr>)
     (Some (createSchema [])) = (Inr s, db) \<and> h_policy (srv_http s) = Some \<lparr>current = viewer_policy, engine_path = ''p''\<rparr>"
proof -
  obtain s db where s: "NewServer demo_lib (\<lambda>p t. p @ t) toy_unmarshal (\<lambda>_. Some [1]) (\<lambda>_ _. None) (\<lambda>_. 0) (\<lambda>_. ''u'')
      (good_config\<lparr>PolicyFile := ''p''\<rparr>) (Some (createSchema [])) = (Inr s, db)"
    using toy_engine by (simp add: NewServer_def Let_def good_config_def DefaultConfig_def NewPolicyEngineFromFile_def
        loadPolicyFile_def ParsePolicy_def toy_unmarshal_def validate_policy_def viewer_policy_def grpcServerOptions_def)
  from start_enforces_config [OF this] show ?thesis
    using s by (auto simp: toy_unmarshal_def split: if_splits)
qed

text \<open>The retention of the audit log: a cleaning removes exactly the entries that are older, in whole seconds,
  than the configured number of days, and changes nothing else; with no retention configured nothing is
  ever removed.\<close>

theorem audit_retention:
  assumes "faults (g_db (srv_grpc s)) = []"
  shows "let db = g_db (srv_grpc s); db' = g_db (srv_grpc (server_tick unmarshal read cfg now TickAudit s));
      days = RetentionDays (Audit cfg) in
    users db' = users db \<and> clusters db' = clusters db \<and> agent_tokens db' = agent_tokens db \<and>
    refresh_tokens db' = refresh_tokens db \<and>
    audit_logs db' = (if days > 0 \<and> CleanupInterval (Audit cfg) > 0
      then filter (\<lambda>l. stored_time (now - days * 86400 * second) \<le> log_CreatedAt l) (audit_logs db) else audit_logs db)"
  using assms by (auto simp: audit_tick_def cleanupAuditLogs_def CleanupOldAuditLogs_def Let_def not_less)

definition start_server :: CentralServer where
  "start_server = \<lparr>srv_grpc = demo_grpc\<lparr>g_db := createSchema []\<rparr>, srv_http = \<lparr>h_policy = None, h_audit = True\<rparr>,
     srv_auth = demo_handlers, srv_admin = demo_admin, srv_cert = None\<rparr>"

theorem audit_retention_witness:
  "audit_logs (g_db (srv_grpc (server_tick toy_unmarshal (\<lambda>_. None) good_config 0 TickAudit start_server))) = []"
  using audit_retention [of start_server toy_unmarshal "\<lambda>_. None" good_config 0]
  by (simp add: start_server_def createSchema_def Let_def)

end
