(* ===== verification/Agent_Forward.thy ===== *)
theory Agent_Forward
  imports Messages "HOL-Library.AList"
begin

text \<open>
  Port-forward on the agent (\<open>internal/agent/portforward.go\<close>): the lines of kubectl that announce a
  local port, and a session that fans the connections of the client out to these ports.

  A connection has an inbound channel of 32 chunks, drained by a writer goroutine, and a reader
  goroutine. Connections are cells of a list and the map of the session leads to them, so that a
  goroutine can go on with a cell the map has forgotten. Dialing is the argument \<open>dial\<close>, the error
  text of a failed one.
\<close>


section \<open>The lines of kubectl\<close>

definition forward_prefix :: string where
  "forward_prefix = ''Forwarding from 127.0.0.1:''"

text \<open>The regular expression at a position of the line: the two runs of digits. A search tries the
  positions from the left; \<open>\d+\<close> takes all the digits there are.\<close>

definition match_forward :: "string \<Rightarrow> (string \<times> string) option" where
  "match_forward s =
     (if \<not> has_prefix s forward_prefix then None
      else let r1 = drop (length forward_prefix) s;
               d1 = takeWhile is_digit r1;
               r2 = dropWhile is_digit r1;
               d2 = takeWhile is_digit (drop 4 r2)
           in if d1 = [] \<or> \<not> has_prefix r2 '' -> '' \<or> d2 = [] then None else Some (d1, d2))"

fun search_forward :: "string \<Rightarrow> (string \<times> string) option" where
  "search_forward [] = match_forward []"
| "search_forward (c # cs) = (case match_forward (c # cs) of
     None \<Rightarrow> search_forward cs
   | Some m \<Rightarrow> Some m)"

text \<open>\<open>strconv.Atoi\<close> of digits with its error dropped: a number that is too large is the largest one.\<close>

definition atoi_digits :: "string \<Rightarrow> int" where
  "atoi_digits ds = min (digits_value ds) (2 ^ 63 - 1)"

definition parseForwardLine :: "string \<Rightarrow> (16 word \<times> 16 word) option" where
  "parseForwardLine line = (case search_forward line of
     None \<Rightarrow> None
   | Some (l, r) \<Rightarrow> Some (word_of_int (atoi_digits r), word_of_int (atoi_digits l)))"

text \<open>The scanner: it reads lines until the map has as many entries as there are ports.\<close>

fun scan_forwards :: "nat \<Rightarrow> string list \<Rightarrow> (16 word \<times> 16 word) list \<Rightarrow> (16 word \<times> 16 word) list" where
  "scan_forwards n [] m = m"
| "scan_forwards n (l # ls) m =
     (if length m < n then
        scan_forwards n ls (case parseForwardLine l of None \<Rightarrow> m | Some (remote, local) \<Rightarrow> AList.update remote local m)
      else m)"

definition kubectl_pf_args :: "string \<Rightarrow> string \<Rightarrow> 32 word list \<Rightarrow> string list" where
  "kubectl_pf_args pod namespace ports =
     [''port-forward''] @ (if namespace \<noteq> [] then [''-n'', namespace] else []) @ [pod] @
     map (\<lambda>p. CHR '':'' # decimal (unat p)) ports"

text \<open>What becomes of the start: the process may not start, the 15 seconds may pass, the session may be
  canceled, or the scanner comes to an end of the lines.\<close>

datatype pf_start = PfNoStart string | PfTimedOut | PfCanceled | PfScanned "string list"

definition startKubectlPortForward :: "pf_start \<Rightarrow> 32 word list \<Rightarrow> string + (16 word \<times> 16 word) list" where
  "startKubectlPortForward what ports = (case what of
     PfNoStart err \<Rightarrow> Inl err
   | PfTimedOut \<Rightarrow> Inl ''kubectl port-forward establishment timed out''
   | PfCanceled \<Rightarrow> Inl ''kubectl port-forward canceled during establishment''
   | PfScanned ls \<Rightarrow>
       let m = scan_forwards (length ports) ls [] in
       if length m < length ports then Inl ''kubectl port-forward did not establish all ports'' else Inr m)"


section \<open>A session\<close>

record pfConn =
  pc_in :: "bytes list"
  pc_open :: bool
  pc_written :: bytes
  pc_stuck :: bool

record pfSession =
  pf_sid :: string
  remoteToLocal :: "(16 word \<times> 16 word) list"
  pf_cells :: "pfConn list"
  pf_conns :: "(32 word \<times> nat) list"

definition newPfSession :: "string \<Rightarrow> (16 word \<times> 16 word) list \<Rightarrow> pfSession" where
  "newPfSession sid m = \<lparr>pf_sid = sid, remoteToLocal = m, pf_cells = [], pf_conns = []\<rparr>"

definition upd_cell :: "nat \<Rightarrow> (pfConn \<Rightarrow> pfConn) \<Rightarrow> pfSession \<Rightarrow> pfSession" where
  "upd_cell r f s = s\<lparr>pf_cells := (pf_cells s)[r := f (pf_cells s ! r)]\<rparr>"

definition connError :: "pfSession \<Rightarrow> 32 word \<Rightarrow> string \<Rightarrow> AgentStreamMessage" where
  "connError s connID msg = MsgPfConnError (pf_sid s) connID msg"

definition closeConn :: "32 word \<Rightarrow> pfSession \<Rightarrow> pfSession" where
  "closeConn connID s = (case map_of (pf_conns s) connID of
     None \<Rightarrow> s
   | Some r \<Rightarrow> (upd_cell r (pc_open_update (\<lambda>_. False)) s)\<lparr>pf_conns := AList.delete connID (pf_conns s)\<rparr>)"

definition pf_open ::
  "(16 word \<Rightarrow> string option) \<Rightarrow> 32 word \<Rightarrow> 16 word \<Rightarrow> pfSession \<Rightarrow> AgentStreamMessage list \<times> pfSession" where
  "pf_open dial connID remotePort s = (case map_of (remoteToLocal s) remotePort of
     None \<Rightarrow> ([connError s connID (''no forward for remote port '' @ decimal (unat remotePort))], s)
   | Some local \<Rightarrow> (case dial local of
       Some err \<Rightarrow> ([connError s connID (''dial: '' @ err)], s)
     | None \<Rightarrow>
         ([], s\<lparr>pf_cells := pf_cells s @ [\<lparr>pc_in = [], pc_open = True, pc_written = [], pc_stuck = False\<rparr>],
               pf_conns := AList.update connID (length (pf_cells s)) (pf_conns s)\<rparr>)))"

text \<open>\<open>data\<close> looks the connection up under the lock and sends without it. A send on a closed channel panics
  (\<open>None\<close>), also in a \<open>select\<close> with a default.\<close>

definition inboundBuffer :: nat where
  "inboundBuffer = 32"

definition pf_data_send ::
  "nat \<Rightarrow> 32 word \<Rightarrow> bytes \<Rightarrow> pfSession \<Rightarrow> (AgentStreamMessage list \<times> pfSession) option" where
  "pf_data_send r connID data s =
     (if \<not> pc_open (pf_cells s ! r) then None
      else if length (pc_in (pf_cells s ! r)) < inboundBuffer
        then Some ([], upd_cell r (pc_in_update (\<lambda>q. q @ [data])) s)
      else Some ([connError s connID ''write buffer full: connection dropped''], closeConn connID s))"

definition pf_data :: "32 word \<Rightarrow> bytes \<Rightarrow> pfSession \<Rightarrow> (AgentStreamMessage list \<times> pfSession) option" where
  "pf_data connID data s = (case map_of (pf_conns s) connID of
     None \<Rightarrow> Some ([], s)
   | Some r \<Rightarrow> pf_data_send r connID data s)"

definition pf_shutdown :: "pfSession \<Rightarrow> pfSession" where
  "pf_shutdown s = (fold (\<lambda>r. upd_cell r (pc_open_update (\<lambda>_. False))) (map snd (pf_conns s)) s)\<lparr>pf_conns := []\<rparr>"

text \<open>The writer goroutine takes one chunk from its channel; after a failed write it takes no more.\<close>

definition pf_writer :: "bool \<Rightarrow> nat \<Rightarrow> pfSession \<Rightarrow> pfSession" where
  "pf_writer ok r s = (let c = pf_cells s ! r in
     if pc_stuck c then s
     else case pc_in c of
       [] \<Rightarrow> s
     | d # q \<Rightarrow> upd_cell r (\<lambda>c. if ok then c\<lparr>pc_in := q, pc_written := pc_written c @ d\<rparr>
                               else c\<lparr>pc_in := q, pc_stuck := True\<rparr>) s)"

text \<open>The reader goroutine: a chunk of the pod's answer, and its end.\<close>

definition pf_reader :: "32 word \<Rightarrow> bytes \<Rightarrow> pfSession \<Rightarrow> AgentStreamMessage list" where
  "pf_reader connID data s = (if data = [] then [] else [MsgAgentPfData (pf_sid s) connID data])"

definition pf_reader_end :: "32 word \<Rightarrow> pfSession \<Rightarrow> AgentStreamMessage list \<times> pfSession" where
  "pf_reader_end connID s = ([MsgAgentPfClose (pf_sid s) connID], closeConn connID s)"


section \<open>The session under concurrency\<close>

text \<open>The receive loop is one goroutine; between the lookup and the send of \<open>data\<close> (the first component)
  the readers, the writers and the end of the session run.\<close>

type_synonym pf_state = "((nat \<times> 32 word \<times> bytes) option \<times> pfSession) option"

inductive pf_step :: "pf_state \<Rightarrow> pf_state \<Rightarrow> bool" where
  pf_go_open: "pf_step (Some (None, s)) (Some (None, snd (pf_open dial connID port s)))"
| pf_go_lookup: "map_of (pf_conns s) connID = Some r \<Longrightarrow> pf_step (Some (None, s)) (Some (Some (r, connID, data), s))"
| pf_go_send: "pf_data_send r connID data s = Some (out, s') \<Longrightarrow> pf_step (Some (Some (r, connID, data), s)) (Some (None, s'))"
| pf_go_panic: "pf_data_send r connID data s = None \<Longrightarrow> pf_step (Some (Some (r, connID, data), s)) None"
| pf_go_close: "pf_step (Some (None, s)) (Some (None, closeConn connID s))"
| pf_go_write: "pf_step (Some (p, s)) (Some (p, pf_writer ok r s))"
| pf_go_reader_end: "pf_step (Some (p, s)) (Some (p, snd (pf_reader_end connID s)))"
| pf_go_shutdown: "pf_step (Some (p, s)) (Some (p, pf_shutdown s))"

definition pf_init :: "pf_state \<Rightarrow> bool" where
  "pf_init x \<longleftrightarrow> (\<exists>sid m. x = Some (None, newPfSession sid m))"

definition pfs_ok :: "pfSession \<Rightarrow> bool" where
  "pfs_ok s \<longleftrightarrow> (\<forall>connID r. map_of (pf_conns s) connID = Some r \<longrightarrow> r < length (pf_cells s) \<and> pc_open (pf_cells s ! r)) \<and>
     (\<forall>c d r. map_of (pf_conns s) c = Some r \<longrightarrow> map_of (pf_conns s) d = Some r \<longrightarrow> c = d) \<and>
     distinct (map fst (pf_conns s)) \<and>
     (\<forall>r < length (pf_cells s). length (pc_in (pf_cells s ! r)) \<le> inboundBuffer)"

fun pf_state_ok :: "pf_state \<Rightarrow> bool" where
  "pf_state_ok None = True"
| "pf_state_ok (Some (p, s)) = (pfs_ok s \<and> (case p of None \<Rightarrow> True | Some (r, connID, data) \<Rightarrow> r < length (pf_cells s)))"


section \<open>Lemmas\<close>

lemma upd_cell_fields [simp]:
  "pf_sid (upd_cell r f s) = pf_sid s" "remoteToLocal (upd_cell r f s) = remoteToLocal s"
  "pf_conns (upd_cell r f s) = pf_conns s" "length (pf_cells (upd_cell r f s)) = length (pf_cells s)"
  by (simp_all add: upd_cell_def)

lemma cell_upd: "r < length (pf_cells s) \<Longrightarrow> pf_cells (upd_cell r f s) ! j = (if j = r then f (pf_cells s ! r) else pf_cells s ! j)"
  by (simp add: upd_cell_def)

lemma cell_upd_other: "j \<noteq> r \<Longrightarrow> pf_cells (upd_cell r f s) ! j = pf_cells s ! j"
  by (simp add: upd_cell_def)

lemma upd_cell_out: "\<not> r < length (pf_cells s) \<Longrightarrow> upd_cell r f s = s"
  by (simp add: upd_cell_def list_update_beyond)

lemma pfs_okD:
  assumes "pfs_ok s"
  shows "map_of (pf_conns s) c = Some r \<Longrightarrow> r < length (pf_cells s) \<and> pc_open (pf_cells s ! r)"
    and "map_of (pf_conns s) c = Some r \<Longrightarrow> map_of (pf_conns s) d = Some r \<Longrightarrow> c = d"
    and "r < length (pf_cells s) \<Longrightarrow> length (pc_in (pf_cells s ! r)) \<le> inboundBuffer"
  using assms by (auto simp: pfs_ok_def)

lemma pfs_ok_upd:
  assumes "pfs_ok s" and "\<And>c. pc_open c \<Longrightarrow> pc_open (f c)" and "length (pc_in (f (pf_cells s ! r))) \<le> inboundBuffer"
  shows "pfs_ok (upd_cell r f s)"
proof (cases "r < length (pf_cells s)")
  case True
  then show ?thesis using assms by (auto simp: pfs_ok_def cell_upd)
qed (use assms(1) in \<open>simp add: upd_cell_out\<close>)

lemma pfs_ok_close: "pfs_ok s \<Longrightarrow> pfs_ok (closeConn connID s)"
proof (cases "map_of (pf_conns s) connID")
  case (Some r)
  assume ok: "pfs_ok s"
  then have r: "r < length (pf_cells s)" using Some pfs_okD(1) by blast
  show ?thesis
    using ok Some r pfs_okD(2) [OF ok]
    by (auto simp: closeConn_def pfs_ok_def cell_upd delete_conv' distinct_delete split: if_splits)
qed (simp add: closeConn_def)

lemma pfs_ok_open: "pfs_ok s \<Longrightarrow> pfs_ok (snd (pf_open dial connID port s))"
proof -
  assume ok: "pfs_ok s"
  have "map_of (pf_conns s) c \<noteq> Some (length (pf_cells s))" for c
    using pfs_okD(1) [OF ok] by fastforce
  then show ?thesis
    using ok by (auto simp: pf_open_def pfs_ok_def update_conv' distinct_update nth_append less_Suc_eq inboundBuffer_def
        simp del: map_of_eq_Some_iff Some_eq_map_of_iff split: option.splits if_splits)
qed

lemma pfs_ok_send:
  assumes "pfs_ok s" and "pf_data_send r connID data s = Some (out, s')"
  shows "pfs_ok s'"
proof (cases "length (pc_in (pf_cells s ! r)) < inboundBuffer")
  case True
  then have "s' = upd_cell r (pc_in_update (\<lambda>q. q @ [data])) s"
    using assms(2) by (simp add: pf_data_send_def split: if_splits)
  moreover have "pfs_ok (upd_cell r (pc_in_update (\<lambda>q. q @ [data])) s)"
    by (rule pfs_ok_upd [OF assms(1)]) (use True in simp_all)
  ultimately show ?thesis by simp
next
  case False
  then show ?thesis using assms pfs_ok_close by (auto simp: pf_data_send_def split: if_splits)
qed

lemma pfs_ok_writer: "pfs_ok s \<Longrightarrow> pfs_ok (pf_writer ok r s)"
proof (cases "r < length (pf_cells s)")
  case True
  assume ok: "pfs_ok s"
  show ?thesis
    using ok True pfs_okD(3) [OF ok True]
    by (cases "pc_in (pf_cells s ! r)") (auto simp: pf_writer_def Let_def intro!: pfs_ok_upd)
qed (auto simp: pf_writer_def Let_def upd_cell_out split: list.splits)

lemma fold_close_fields [simp]:
  "length (pf_cells (fold (\<lambda>r. upd_cell r f) rs s)) = length (pf_cells s)"
  "pf_conns (fold (\<lambda>r. upd_cell r f) rs s) = pf_conns s"
  by (induction rs arbitrary: s) auto

lemma pc_in_fold_close: "pc_in (pf_cells (fold (\<lambda>r. upd_cell r (pc_open_update (\<lambda>_. False))) rs s) ! j) = pc_in (pf_cells s ! j)"
proof (induction rs arbitrary: s)
  case (Cons r rs)
  have "pc_in (pf_cells (upd_cell r (pc_open_update (\<lambda>_. False)) s) ! j) = pc_in (pf_cells s ! j)"
    by (cases "r < length (pf_cells s)") (simp_all add: cell_upd upd_cell_out)
  then show ?case using Cons by simp
qed simp

lemma pfs_ok_shutdown: "pfs_ok s \<Longrightarrow> pfs_ok (pf_shutdown s)"
  by (auto simp: pf_shutdown_def pfs_ok_def pc_in_fold_close)

lemma length_pf_cells [simp]:
  "length (pf_cells (closeConn connID s)) = length (pf_cells s)"
  "length (pf_cells (pf_writer ok r s)) = length (pf_cells s)"
  "length (pf_cells (pf_shutdown s)) = length (pf_cells s)"
  by (auto simp: closeConn_def pf_writer_def pf_shutdown_def Let_def split: option.splits list.splits)

interpretation pf_system: invariant_system pf_init pf_step pf_state_ok
proof unfold_locales
  fix x y assume "pf_state_ok x" and "pf_step x y"
  then show "pf_state_ok y"
    by (cases rule: pf_step.cases [OF \<open>pf_step x y\<close>])
      (auto simp: pf_reader_end_def pfs_ok_open pfs_ok_close pfs_ok_writer pfs_ok_shutdown
        dest: pfs_ok_send pfs_okD(1) split: option.splits)
qed (auto simp: pf_init_def pfs_ok_def newPfSession_def)

abbreviation pf_reach :: "pf_state \<Rightarrow> bool" where
  "pf_reach \<equiv> reach pf_init pf_step"


lemma scan_forwards_keys:
  "distinct (map fst m) \<Longrightarrow> distinct (map fst (scan_forwards n ls m)) \<and>
     set (map fst (scan_forwards n ls m)) \<subseteq> set (map fst m) \<union> set (map fst (List.map_filter parseForwardLine ls))"
proof (induction ls arbitrary: m)
  case (Cons l ls)
  show ?case
  proof (cases "parseForwardLine l")
    case None
    then show ?thesis using Cons by (simp add: map_filter_simps)
  next
    case (Some f)
    obtain remote local where f: "f = (remote, local)" by (cases f)
    have "distinct (map fst (AList.update remote local m))" using Cons.prems by (rule distinct_update)
    moreover have "set (map fst (AList.update remote local m)) = insert remote (set (map fst m))"
      using dom_update [of remote local m] by simp
    ultimately show ?thesis
      using Cons.IH [of "AList.update remote local m"] Cons.prems Some f by (auto simp: map_filter_simps)
  qed
qed simp


section \<open>Properties\<close>

text \<open>A port-forward session on the agent, under every interleaving of the receive loop with the reader
  and writer goroutines: no inbound channel holds more than 32 chunks, the map leads to open
  connections only and no two of its entries share one; so data that is handled without a goroutine in
  between never panics.\<close>

theorem pf_session_ok:
  assumes "pf_reach (Some (p, s))"
  shows "list_all (\<lambda>c. length (pc_in c) \<le> inboundBuffer) (pf_cells s) \<and>
    list_all (\<lambda>(connID, r). r < length (pf_cells s) \<and> pc_open (pf_cells s ! r)) (pf_conns s) \<and>
    inj_on (map_of (pf_conns s)) (dom (map_of (pf_conns s))) \<and> pf_data connID data s \<noteq> None"
proof -
  have ok: "pfs_ok s" using pf_system.reach_inv [OF assms] by simp
  then have "distinct (map fst (pf_conns s))" by (simp add: pfs_ok_def)
  then have "map_of (pf_conns s) c = Some r" if "(c, r) \<in> set (pf_conns s)" for c r using that by simp
  then have "\<forall>(c, r) \<in> set (pf_conns s). r < length (pf_cells s) \<and> pc_open (pf_cells s ! r)"
    using pfs_okD(1) [OF ok] by auto
  moreover have "pf_data connID data s \<noteq> None"
    using pfs_okD(1) [OF ok] by (auto simp: pf_data_def pf_data_send_def split: option.splits)
  ultimately show ?thesis
    using pfs_okD(2,3) [OF ok] by (auto simp: list_all_iff in_set_conv_nth inj_on_def)
qed

definition demo_pf :: pfSession where
  "demo_pf = snd (pf_open (\<lambda>_. None) 1 80 (newPfSession ''s'' [(80, 40000)]))"

lemma demo_pf_reach: "pf_reach (Some (None, demo_pf))"
  unfolding demo_pf_def by (rule reach_step, rule reach_init) (auto simp: pf_init_def intro: pf_go_open)

theorem pf_session_ok_witness: "pf_data 1 [7] demo_pf \<noteq> None"
  using pf_session_ok [OF demo_pf_reach] by blast

text \<open>A port-forward with the same remote port twice is never established, although kubectl serves it: the
  scanner counts the remote ports it has seen and waits for as many as were asked for, so whatever lines
  kubectl writes, as long as they name requested ports, the session ends in an error.\<close>

theorem duplicate_ports_fail:
  assumes "\<not> distinct ports"
    and "\<forall>l \<in> set ls. case parseForwardLine l of None \<Rightarrow> True | Some (remote, local) \<Rightarrow> remote \<in> ucast ` set ports"
  shows "startKubectlPortForward (PfScanned ls) ports = Inl ''kubectl port-forward did not establish all ports''"
proof -
  let ?m = "scan_forwards (length ports) ls []"
  have "distinct (map fst ?m)" "set (map fst ?m) \<subseteq> set (map fst (List.map_filter parseForwardLine ls))"
    using scan_forwards_keys [of "[]" "length ports" ls] by simp_all
  moreover have "set (map fst (List.map_filter parseForwardLine ls)) \<subseteq> ucast ` set ports"
    using assms(2) by (induction ls) (auto simp: map_filter_simps split: option.splits prod.splits)
  ultimately have "length ?m = card (set (map fst ?m))" "set (map fst ?m) \<subseteq> ucast ` set ports"
    using distinct_card [of "map fst ?m"] by auto
  then have "length ?m \<le> card (ucast ` set ports :: 16 word set)" by (simp add: card_mono)
  also have "\<dots> \<le> card (set ports)" by (rule card_image_le) simp
  also have "\<dots> < length ports" using assms(1) card_length [of ports] card_distinct [of ports] by linarith
  finally show ?thesis by (simp add: startKubectlPortForward_def Let_def)
qed

theorem duplicate_ports_fail_witness:
  "startKubectlPortForward (PfScanned [''Forwarding from 127.0.0.1:4000 -> 80'', ''Forwarding from 127.0.0.1:4001 -> 80'']) [80, 80] =
     Inl ''kubectl port-forward did not establish all ports''"
  by (rule duplicate_ports_fail) (simp_all add: parseForwardLine_def match_forward_def forward_prefix_def has_prefix_def
      is_digit_def atoi_digits_def digits_value_def Let_def)

text \<open>With the reader in between it can: the receive loop looks the connection up, the reader goroutine of
  the connection ends and closes the channel, and the send on the closed channel panics, which ends the
  agent with all its sessions.\<close>

theorem pf_data_race_panics:
  assumes "pf_reach (Some (None, s))" and "map_of (pf_conns s) connID = Some r"
  shows "pf_reach None"
proof -
  have r: "r < length (pf_cells s)" using pfs_okD(1) pf_system.reach_inv [OF assms(1)] assms(2) by fastforce
  let ?s = "snd (pf_reader_end connID s)"
  have "pf_data_send r connID [] ?s = None"
    using r assms(2) by (simp add: pf_reader_end_def closeConn_def pf_data_send_def cell_upd)
  then have "pf_step (Some (Some (r, connID, []), ?s)) None" by (rule pf_go_panic)
  moreover have "pf_reach (Some (Some (r, connID, []), ?s))"
    by (rule reach_step [OF reach_step [OF assms(1) pf_go_lookup [OF assms(2)]] pf_go_reader_end])
  ultimately show ?thesis by (rule reach_step [rotated])
qed

theorem pf_data_race_panics_witness: "pf_reach None"
  using pf_data_race_panics [OF demo_pf_reach, of 1 0] by (simp add: demo_pf_def pf_open_def newPfSession_def)

text \<open>The bytes of a connection: chunks that arrive and writes of the writer goroutine.\<close>

fun pf_feed :: "32 word \<Rightarrow> nat \<Rightarrow> bytes option list \<Rightarrow> pfSession \<Rightarrow> (AgentStreamMessage list \<times> pfSession) option" where
  "pf_feed connID r [] s = Some ([], s)"
| "pf_feed connID r (None # evs) s = pf_feed connID r evs (pf_writer True r s)"
| "pf_feed connID r (Some d # evs) s = (case pf_data connID d s of
     None \<Rightarrow> None
   | Some (out, s1) \<Rightarrow> map_option (\<lambda>(out', s2). (out @ out', s2)) (pf_feed connID r evs s1))"

definition pf_stream :: "nat \<Rightarrow> pfSession \<Rightarrow> bytes" where
  "pf_stream r s = pc_written (pf_cells s ! r) @ concat (pc_in (pf_cells s ! r))"

lemma pf_feed_gone:
  "map_of (pf_conns s) connID = None \<Longrightarrow> \<exists>s'. pf_feed connID r evs s = Some ([], s') \<and> map_of (pf_conns s') connID = None"
proof (induction evs arbitrary: s)
  case (Cons e evs)
  have "pf_conns (pf_writer True r s) = pf_conns s" by (auto simp: pf_writer_def Let_def split: list.splits)
  then show ?case using Cons by (cases e) (auto simp: pf_data_def)
qed simp

lemma pf_writer_stream:
  "r < length (pf_cells s) \<Longrightarrow> pf_stream r (pf_writer True r s) = pf_stream r s \<and>
     pf_conns (pf_writer True r s) = pf_conns s"
  by (cases "pc_in (pf_cells s ! r)") (auto simp: pf_writer_def Let_def pf_stream_def cell_upd)



end
