(* ===== verification/Agent_Sessions.thy ===== *)
theory Agent_Sessions
  imports Agent_Forward
begin

text \<open>
  The agent's end of the command stream (\<open>internal/agent/stream.go\<close>): the table of sessions in flight
  (\<open>sessionCancels\<close>), the receive loop that serves the messages of the central server, and what a
  session sends back.

  A session is a cell of a list: its context (canceled or not), its channels (\<open>None\<close> the nil channel)
  and its port-forward; the map leads from identifiers to cells. A session's goroutine holds its cell,
  whatever the map says.
\<close>

record streamSession =
  ss_canceled :: bool
  ss_stdin :: "bytes list option"
  ss_resize :: "(16 word \<times> 16 word) list option"
  ss_pf :: "pfSession option"

record sessionCancels =
  ss_cells :: "streamSession list"
  ss_map :: "(string \<times> nat) list"

definition newSessionCancels :: sessionCancels where
  "newSessionCancels = \<lparr>ss_cells = [], ss_map = []\<rparr>"

definition stdinBuffer :: nat where "stdinBuffer = 16"
definition resizeBuffer :: nat where "resizeBuffer = 4"

definition outputTypeFor :: "bool \<Rightarrow> OutputType" where
  "outputTypeFor stdout = (if stdout then OUTPUT_TYPE_STDOUT else OUTPUT_TYPE_STDERR)"

abbreviation ss_at :: "sessionCancels \<Rightarrow> nat \<Rightarrow> streamSession" where
  "ss_at a r \<equiv> ss_cells a ! r"

definition upd_ss :: "nat \<Rightarrow> (streamSession \<Rightarrow> streamSession) \<Rightarrow> sessionCancels \<Rightarrow> sessionCancels" where
  "upd_ss r f a = a\<lparr>ss_cells := (ss_cells a)[r := f (ss_at a r)]\<rparr>"


section \<open>The table of sessions\<close>

definition sess_add ::
  "string \<Rightarrow> bytes list option \<Rightarrow> (16 word \<times> 16 word) list option \<Rightarrow> sessionCancels \<Rightarrow> sessionCancels" where
  "sess_add sid stdin resize a =
     a\<lparr>ss_cells := ss_cells a @ [\<lparr>ss_canceled = False, ss_stdin = stdin, ss_resize = resize, ss_pf = None\<rparr>],
       ss_map := AList.update sid (length (ss_cells a)) (ss_map a)\<rparr>"

definition sess_cancel :: "string \<Rightarrow> sessionCancels \<Rightarrow> sessionCancels" where
  "sess_cancel sid a = (case map_of (ss_map a) sid of
     None \<Rightarrow> a
   | Some r \<Rightarrow> (upd_ss r (ss_canceled_update (\<lambda>_. True)) a)\<lparr>ss_map := AList.delete sid (ss_map a)\<rparr>)"

definition cancelAll :: "sessionCancels \<Rightarrow> sessionCancels" where
  "cancelAll a = (fold (\<lambda>r. upd_ss r (ss_canceled_update (\<lambda>_. True))) (map snd (ss_map a)) a)\<lparr>ss_map := []\<rparr>"

definition push_stdin :: "nat \<Rightarrow> bytes \<Rightarrow> sessionCancels \<Rightarrow> sessionCancels option" where
  "push_stdin r data a = (case ss_stdin (ss_at a r) of
     None \<Rightarrow> None
   | Some q \<Rightarrow> if length q < stdinBuffer then Some (upd_ss r (ss_stdin_update (\<lambda>_. Some (q @ [data]))) a) else None)"

text \<open>With a full channel the send waits for a second, in which the other goroutines do \<open>env\<close>; then the
  chunk is dropped.\<close>

definition stdinTo :: "(sessionCancels \<Rightarrow> sessionCancels) \<Rightarrow> string \<Rightarrow> bytes \<Rightarrow> sessionCancels \<Rightarrow> sessionCancels" where
  "stdinTo env sid data a = (case map_of (ss_map a) sid of
     None \<Rightarrow> a
   | Some r \<Rightarrow>
       if ss_stdin (ss_at a r) = None then a
       else (case push_stdin r data a of
           Some a' \<Rightarrow> a'
         | None \<Rightarrow> (case push_stdin r data (env a) of Some a' \<Rightarrow> a' | None \<Rightarrow> env a)))"

definition resizeTo :: "string \<Rightarrow> 16 word \<Rightarrow> 16 word \<Rightarrow> sessionCancels \<Rightarrow> sessionCancels" where
  "resizeTo sid rows cols a = (case map_of (ss_map a) sid of
     None \<Rightarrow> a
   | Some r \<Rightarrow> (case ss_resize (ss_at a r) of
       None \<Rightarrow> a
     | Some q \<Rightarrow>
         if length q < resizeBuffer then upd_ss r (ss_resize_update (\<lambda>_. Some (q @ [(rows, cols)]))) a else a))"

definition setPf :: "string \<Rightarrow> pfSession \<Rightarrow> sessionCancels \<Rightarrow> sessionCancels" where
  "setPf sid pf a = (case map_of (ss_map a) sid of
     None \<Rightarrow> a
   | Some r \<Rightarrow> upd_ss r (ss_pf_update (\<lambda>_. Some pf)) a)"

definition pfFor :: "string \<Rightarrow> sessionCancels \<Rightarrow> (nat \<times> pfSession) option" where
  "pfFor sid a = (case map_of (ss_map a) sid of
     None \<Rightarrow> None
   | Some r \<Rightarrow> map_option (\<lambda>pf. (r, pf)) (ss_pf (ss_at a r)))"

definition on_pf ::
  "string \<Rightarrow> (pfSession \<Rightarrow> (AgentStreamMessage list \<times> pfSession) option) \<Rightarrow> sessionCancels \<Rightarrow>
     (AgentStreamMessage list \<times> sessionCancels) option" where
  "on_pf sid f a = (case pfFor sid a of
     None \<Rightarrow> Some ([], a)
   | Some (r, pf) \<Rightarrow>
       map_option (\<lambda>(out, pf'). (out, upd_ss r (ss_pf_update (\<lambda>_. Some pf')) a)) (f pf))"


section \<open>The receive loop\<close>

text \<open>The messages the handling sends itself, and \<open>None\<close> for a panic. The goroutine of a new session is not
  part of the step.\<close>

fun serve_msg ::
  "(sessionCancels \<Rightarrow> sessionCancels) \<Rightarrow> (16 word \<Rightarrow> string option) \<Rightarrow> CentralStreamMessage \<Rightarrow> sessionCancels \<Rightarrow>
     (AgentStreamMessage list \<times> sessionCancels) option" where
  "serve_msg env dial (MsgStart st) a =
     Some ([], sess_add (start_SessionId st) (Some []) (if start_Tty st then Some [] else None) a)"
| "serve_msg env dial (MsgStdin sid data) a = Some ([], stdinTo env sid data a)"
| "serve_msg env dial (MsgResize sid rows cols) a = Some ([], resizeTo sid (ucast rows) (ucast cols) a)"
| "serve_msg env dial (MsgCancel sid) a = Some ([], sess_cancel sid a)"
| "serve_msg env dial (MsgPfStart sid pod namespace ports) a = Some ([], sess_add sid None None a)"
| "serve_msg env dial (MsgPfOpen sid connID port) a = on_pf sid (\<lambda>pf. Some (pf_open dial connID (ucast port) pf)) a"
| "serve_msg env dial (MsgPfData sid connID data) a = on_pf sid (pf_data connID data) a"
| "serve_msg env dial (MsgPfClose sid connID) a = on_pf sid (\<lambda>pf. Some ([], closeConn connID pf)) a"

text \<open>\<open>openAndServeStream\<close>: the messages received until the stream ends, each with what the session
  goroutines did before it; then every session is canceled.\<close>

fun serve_stream ::
  "(16 word \<Rightarrow> string option) \<Rightarrow> ((sessionCancels \<Rightarrow> sessionCancels) \<times> CentralStreamMessage) list \<Rightarrow> sessionCancels \<Rightarrow>
     (AgentStreamMessage list \<times> sessionCancels) option" where
  "serve_stream dial [] a = Some ([], cancelAll a)"
| "serve_stream dial ((env, msg) # msgs) a = (case serve_msg env dial msg (env a) of
     None \<Rightarrow> None
   | Some (out, a1) \<Rightarrow> map_option (\<lambda>(out', a2). (out @ out', a2)) (serve_stream dial msgs a1))"

definition openAndServeStream where
  "openAndServeStream agentID dial msgs =
     map_option (\<lambda>(out, a). (MsgRegister agentID # out, a)) (serve_stream dial msgs newSessionCancels)"


section \<open>The goroutines of the sessions\<close>

text \<open>What a session sends: its output in the order the executor reports it, then the exit. The executor's
  result is the exit code or the text of its error.\<close>

definition exit_message :: "string \<Rightarrow> string + int \<Rightarrow> AgentStreamMessage" where
  "exit_message sid res = (case res of
     Inl err \<Rightarrow> MsgExit sid (- 1) err
   | Inr code \<Rightarrow> MsgExit sid (word_of_int code) [])"

definition runStreamSession :: "string \<Rightarrow> (bool \<times> bytes) list \<Rightarrow> string + int \<Rightarrow> AgentStreamMessage list" where
  "runStreamSession sid output res =
     map (\<lambda>(stdout, data). MsgOutput sid (outputTypeFor stdout) data) output @ [exit_message sid res]"

definition runInteractiveSession :: "string \<Rightarrow> bytes list \<Rightarrow> string + int \<Rightarrow> AgentStreamMessage list" where
  "runInteractiveSession sid output res =
     map (\<lambda>data. MsgOutput sid OUTPUT_TYPE_STDOUT data) output @ [exit_message sid res]"

text \<open>The start of a port-forward and its end; \<open>r\<close> is the cell of the session.\<close>

definition pf_session_start ::
  "string \<Rightarrow> pf_start \<Rightarrow> 32 word list \<Rightarrow> sessionCancels \<Rightarrow> AgentStreamMessage list \<times> sessionCancels" where
  "pf_session_start sid what ports a = (case startKubectlPortForward what ports of
     Inl err \<Rightarrow> ([MsgPfSessionError sid err], sess_cancel sid a)
   | Inr m \<Rightarrow> ([MsgPfReady sid], setPf sid (newPfSession sid m) a))"

definition pf_session_end :: "string \<Rightarrow> nat \<Rightarrow> sessionCancels \<Rightarrow> AgentStreamMessage list \<times> sessionCancels" where
  "pf_session_end sid r a = ([], sess_cancel sid (upd_ss r (ss_pf_update (map_option pf_shutdown)) a))"

text \<open>A session's goroutine takes from its channels.\<close>

definition take_stdin :: "nat \<Rightarrow> sessionCancels \<Rightarrow> sessionCancels" where
  "take_stdin r a = upd_ss r (ss_stdin_update (map_option tl)) a"

definition take_resize :: "nat \<Rightarrow> sessionCancels \<Rightarrow> sessionCancels" where
  "take_resize r a = upd_ss r (ss_resize_update (map_option tl)) a"


section \<open>The agent's sessions under concurrency\<close>

text \<open>A session's identifier is new: the central server makes one per session. The session's goroutine ends
  with \<open>sess_cancel\<close>, as \<open>cancel\<close> does.\<close>

definition starts_known :: "CentralStreamMessage \<Rightarrow> sessionCancels \<Rightarrow> bool" where
  "starts_known msg a = (case msg of
     MsgStart st \<Rightarrow> map_of (ss_map a) (start_SessionId st) \<noteq> None
   | MsgPfStart sid _ _ _ \<Rightarrow> map_of (ss_map a) sid \<noteq> None
   | _ \<Rightarrow> False)"

inductive agent_step :: "sessionCancels \<Rightarrow> sessionCancels \<Rightarrow> bool" where
  agent_serve: "\<not> starts_known msg a \<Longrightarrow> serve_msg (\<lambda>a. a) dial msg a = Some (out, a') \<Longrightarrow> agent_step a a'"
| agent_stdin: "agent_step a (take_stdin r a)"
| agent_resize: "agent_step a (take_resize r a)"
| agent_done: "agent_step a (sess_cancel sid a)"
| agent_pf_start: "agent_step a (snd (pf_session_start sid what ports a))"
| agent_pf_end: "agent_step a (snd (pf_session_end sid r a))"
| agent_pf_writer: "ss_pf (ss_at a r) = Some pf \<Longrightarrow>
    agent_step a (upd_ss r (ss_pf_update (\<lambda>_. Some (pf_writer ok i pf))) a)"
| agent_pf_reader: "ss_pf (ss_at a r) = Some pf \<Longrightarrow>
    agent_step a (upd_ss r (ss_pf_update (\<lambda>_. Some (snd (pf_reader_end connID pf)))) a)"

definition ss_ok :: "streamSession \<Rightarrow> bool" where
  "ss_ok s \<longleftrightarrow> (case ss_stdin s of None \<Rightarrow> True | Some q \<Rightarrow> length q \<le> stdinBuffer) \<and>
     (case ss_resize s of None \<Rightarrow> True | Some q \<Rightarrow> length q \<le> resizeBuffer) \<and>
     (case ss_pf s of None \<Rightarrow> True | Some pf \<Rightarrow> pfs_ok pf)"

text \<open>Every session that is not canceled is in the map.\<close>

definition agent_ok :: "sessionCancels \<Rightarrow> bool" where
  "agent_ok a \<longleftrightarrow> (\<forall>sid r. map_of (ss_map a) sid = Some r \<longrightarrow> r < length (ss_cells a)) \<and>
     (\<forall>sid t r. map_of (ss_map a) sid = Some r \<longrightarrow> map_of (ss_map a) t = Some r \<longrightarrow> sid = t) \<and>
     (\<forall>r < length (ss_cells a). ss_ok (ss_at a r)) \<and>
     (\<forall>r < length (ss_cells a). \<not> ss_canceled (ss_at a r) \<longrightarrow> (\<exists>sid. map_of (ss_map a) sid = Some r))"


section \<open>Lemmas\<close>

lemma upd_ss_fields [simp]: "ss_map (upd_ss r f a) = ss_map a" "length (ss_cells (upd_ss r f a)) = length (ss_cells a)"
  by (simp_all add: upd_ss_def)

lemma ss_at_upd: "r < length (ss_cells a) \<Longrightarrow> ss_at (upd_ss r f a) j = (if j = r then f (ss_at a r) else ss_at a j)"
  by (simp add: upd_ss_def)

lemma upd_ss_out: "\<not> r < length (ss_cells a) \<Longrightarrow> upd_ss r f a = a"
  by (simp add: upd_ss_def list_update_beyond)

lemma agent_okD:
  assumes "agent_ok a"
  shows "map_of (ss_map a) sid = Some r \<Longrightarrow> r < length (ss_cells a)"
    and "r < length (ss_cells a) \<Longrightarrow> ss_ok (ss_at a r)"
    and "r < length (ss_cells a) \<Longrightarrow> \<not> ss_canceled (ss_at a r) \<Longrightarrow> \<exists>sid. map_of (ss_map a) sid = Some r"
    and "map_of (ss_map a) sid = Some r \<Longrightarrow> map_of (ss_map a) t = Some r \<Longrightarrow> sid = t"
  using assms by (auto simp: agent_ok_def)

lemma agent_ok_upd:
  assumes "agent_ok a" and "\<And>s. ss_canceled s \<Longrightarrow> ss_canceled (f s)"
    and "r < length (ss_cells a) \<Longrightarrow> ss_ok (ss_at a r) \<Longrightarrow> ss_ok (f (ss_at a r))"
  shows "agent_ok (upd_ss r f a)"
proof (cases "r < length (ss_cells a)")
  case True
  then show ?thesis using assms unfolding agent_ok_def upd_ss_fields by (auto simp: ss_at_upd)
qed (use assms(1) in \<open>simp add: upd_ss_out\<close>)

lemma agent_ok_add:
  assumes "agent_ok a" and "map_of (ss_map a) sid = None" and "stdin \<in> {None, Some []}" and "resize \<in> {None, Some []}"
  shows "agent_ok (sess_add sid stdin resize a)"
proof -
  let ?a = "sess_add sid stdin resize a"
  have "\<exists>t. map_of (ss_map ?a) t = Some r" if r: "r < length (ss_cells ?a)" "\<not> ss_canceled (ss_at ?a r)" for r
  proof (cases "r = length (ss_cells a)")
    case False
    then have "r < length (ss_cells a)" "\<not> ss_canceled (ss_at a r)"
      using r by (auto simp: sess_add_def nth_append split: if_splits)
    then obtain t where "map_of (ss_map a) t = Some r" using agent_okD(3) [OF assms(1)] by blast
    then show ?thesis using assms(2) by (auto simp: sess_add_def update_conv' intro!: exI [of _ t])
  qed (auto simp: sess_add_def update_conv')
  moreover have "r < length (ss_cells ?a)" if "map_of (ss_map ?a) t = Some r" for t r
    using that agent_okD(1) [OF assms(1), of t r] by (auto simp: sess_add_def update_conv' split: if_splits)
  moreover have "ss_ok (ss_at ?a r)" if "r < length (ss_cells ?a)" for r
    using that agent_okD(2) [OF assms(1), of r] assms(3,4) by (auto simp: sess_add_def nth_append ss_ok_def split: if_splits)
  moreover have "t = u" if "map_of (ss_map ?a) t = Some r" "map_of (ss_map ?a) u = Some r" for t u r
    using that agent_okD(1,4) [OF assms(1)] by (fastforce simp: sess_add_def update_conv' split: if_splits)
  ultimately show ?thesis unfolding agent_ok_def by blast
qed

lemma agent_ok_cancel:
  assumes "agent_ok a"
  shows "agent_ok (sess_cancel sid a)"
proof (cases "map_of (ss_map a) sid")
  case (Some r)
  let ?a = "sess_cancel sid a"
  have r: "r < length (ss_cells a)" using agent_okD(1) [OF assms Some] .
  have a: "ss_cells ?a = ss_cells (upd_ss r (ss_canceled_update (\<lambda>_. True)) a)" "ss_map ?a = AList.delete sid (ss_map a)"
    using Some by (simp_all add: sess_cancel_def)
  have "\<exists>t. map_of (ss_map ?a) t = Some j" if j: "j < length (ss_cells ?a)" "\<not> ss_canceled (ss_at ?a j)" for j
  proof -
    have "j \<noteq> r" "j < length (ss_cells a)" "\<not> ss_canceled (ss_at a j)"
      using j r by (auto simp: a ss_at_upd split: if_splits)
    then obtain t where "map_of (ss_map a) t = Some j" using agent_okD(3) [OF assms] by blast
    then show ?thesis using Some \<open>j \<noteq> r\<close> by (auto simp: a delete_conv' intro!: exI [of _ t])
  qed
  moreover have "ss_ok (ss_at ?a j)" if "j < length (ss_cells ?a)" for j
    using that agent_okD(2) [OF assms] r by (auto simp: a ss_at_upd ss_ok_def)
  moreover have "j < length (ss_cells ?a)" if "map_of (ss_map ?a) t = Some j" for t j
    using that agent_okD(1) [OF assms, of t j] by (auto simp: a delete_conv' split: if_splits)
  moreover have "t = u" if "map_of (ss_map ?a) t = Some j" "map_of (ss_map ?a) u = Some j" for t u j
    using that agent_okD(4) [OF assms] by (auto simp: a delete_conv' split: if_splits)
  ultimately show ?thesis unfolding agent_ok_def by blast
qed (use assms in \<open>simp add: sess_cancel_def\<close>)

lemma push_stdin_ok: "agent_ok a \<Longrightarrow> push_stdin r data a = Some a' \<Longrightarrow> agent_ok a'"
  by (auto simp: push_stdin_def ss_ok_def intro!: agent_ok_upd split: option.splits if_splits)

lemma stdinTo_ok: "agent_ok a \<Longrightarrow> agent_ok (env a) \<Longrightarrow> agent_ok (stdinTo env sid data a)"
  by (auto simp: stdinTo_def dest: push_stdin_ok split: option.splits)

lemma resizeTo_ok: "agent_ok a \<Longrightarrow> agent_ok (resizeTo sid rows cols a)"
  by (auto simp: resizeTo_def ss_ok_def intro!: agent_ok_upd split: option.splits)

lemma setPf_ok: "agent_ok a \<Longrightarrow> pfs_ok pf \<Longrightarrow> agent_ok (setPf sid pf a)"
  by (auto simp: setPf_def ss_ok_def intro!: agent_ok_upd split: option.splits)

lemma on_pf_ok:
  assumes "agent_ok a" and "on_pf sid f a = Some (out, a')"
    and "\<And>pf out pf'. pfs_ok pf \<Longrightarrow> f pf = Some (out, pf') \<Longrightarrow> pfs_ok pf'"
  shows "agent_ok a'"
proof (cases "pfFor sid a")
  case (Some rp)
  then obtain r pf where rp: "rp = (r, pf)" "r < length (ss_cells a)" "ss_pf (ss_at a r) = Some pf"
    using agent_okD(1) [OF assms(1)] by (auto simp: pfFor_def split: option.splits)
  then obtain out' pf' where pf': "f pf = Some (out', pf')" "a' = upd_ss r (ss_pf_update (\<lambda>_. Some pf')) a"
    using assms(2) Some by (auto simp: on_pf_def)
  then have "pfs_ok pf'" using assms(3) agent_okD(2) [OF assms(1) rp(2)] rp(3) by (auto simp: ss_ok_def)
  then show ?thesis unfolding pf'(2) by (intro agent_ok_upd assms(1)) (auto simp: ss_ok_def)
qed (use assms in \<open>simp add: on_pf_def\<close>)

lemma pf_data_ok: "pfs_ok pf \<Longrightarrow> pf_data connID data pf = Some (out, pf') \<Longrightarrow> pfs_ok pf'"
  by (auto simp: pf_data_def dest: pfs_ok_send split: option.splits)

lemma serve_msg_ok:
  assumes "agent_ok a" and "\<not> starts_known msg a" and "agent_ok (env a)" and "serve_msg env dial msg a = Some (out, a')"
  shows "agent_ok a'"
proof (cases msg)
  case (MsgPfOpen sid connID port)
  have "pfs_ok pf \<Longrightarrow> pf_open dial connID (ucast port) pf = (out, pf') \<Longrightarrow> pfs_ok pf'" for pf out pf'
    using pfs_ok_open [of pf dial connID "ucast port"] by simp
  then show ?thesis using assms(4) MsgPfOpen by (auto intro: on_pf_ok [OF assms(1)])
next
  case (MsgPfData sid connID data)
  then show ?thesis using assms(4) on_pf_ok [OF assms(1)] pf_data_ok by auto
next
  case (MsgPfClose sid connID)
  then show ?thesis using assms(4) by (auto intro!: on_pf_ok [OF assms(1)] pfs_ok_close)
qed (use assms in \<open>auto simp: starts_known_def intro: agent_ok_add agent_ok_cancel stdinTo_ok resizeTo_ok\<close>)

lemma agent_ok_new: "agent_ok newSessionCancels"
  by (simp add: agent_ok_def newSessionCancels_def)

interpretation agent_system: invariant_system "\<lambda>a. a = newSessionCancels" agent_step agent_ok
proof unfold_locales
  fix a b assume "agent_ok a" and "agent_step a b"
  from this(2,1) show "agent_ok b"
  proof cases
    case (agent_serve msg dial out)
    then show ?thesis using serve_msg_ok [of a msg "\<lambda>a. a"] by (simp add: \<open>agent_ok a\<close>)
  next
    case (agent_pf_start sid what ports)
    have "pfs_ok (newPfSession sid m)" for m by (simp add: pfs_ok_def newPfSession_def)
    then show ?thesis using agent_pf_start \<open>agent_ok a\<close>
      by (auto simp: pf_session_start_def agent_ok_cancel setPf_ok split: sum.splits)
  next
    case (agent_pf_end sid r)
    have "agent_ok (upd_ss r (ss_pf_update (map_option pf_shutdown)) a)"
      by (rule agent_ok_upd [OF \<open>agent_ok a\<close>]) (auto simp: ss_ok_def pfs_ok_shutdown split: option.splits)
    then show ?thesis using agent_pf_end by (simp add: pf_session_end_def agent_ok_cancel)
  next
    case (agent_pf_writer r pf ok i)
    then show ?thesis by (auto intro!: agent_ok_upd [OF \<open>agent_ok a\<close>] simp: ss_ok_def pfs_ok_writer)
  next
    case (agent_pf_reader r pf connID)
    then show ?thesis by (auto intro!: agent_ok_upd [OF \<open>agent_ok a\<close>] simp: ss_ok_def pf_reader_end_def pfs_ok_close)
  qed (auto intro!: agent_ok_upd agent_ok_cancel simp: take_stdin_def take_resize_def ss_ok_def split: option.splits)
qed (simp add: agent_ok_new)

abbreviation agent_reach :: "sessionCancels \<Rightarrow> bool" where
  "agent_reach \<equiv> reach (\<lambda>a. a = newSessionCancels) agent_step"

lemma ss_canceled_fold:
  "j < length (ss_cells a) \<Longrightarrow>
     ss_canceled (ss_at (fold (\<lambda>r. upd_ss r (ss_canceled_update (\<lambda>_. True))) rs a) j) \<longleftrightarrow> ss_canceled (ss_at a j) \<or> j \<in> set rs"
proof (induction rs arbitrary: a)
  case (Cons r rs)
  then show ?case
    by (cases "r < length (ss_cells a)") (auto simp: ss_at_upd upd_ss_out)
qed simp

lemma length_fold_upd_ss [simp]: "length (ss_cells (fold (\<lambda>r. upd_ss r f) rs a)) = length (ss_cells a)"
  by (induction rs arbitrary: a) auto


section \<open>Properties\<close>

text \<open>C31. No kubectl process is left behind: whatever the agent's receive loop and session goroutines have done,
  every session whose context is not canceled is in the table, so when the stream to the central server
  ends and \<open>cancelAll\<close> runs, every session there ever was is canceled and the table is empty. The channels
  stay within their bounds of 16 and 4.\<close>

theorem teardown_cancels_all:
  assumes "agent_reach a"
  shows "list_all ss_canceled (ss_cells (cancelAll a)) \<and> ss_map (cancelAll a) = [] \<and> list_all ss_ok (ss_cells a)"
proof -
  have ok: "agent_ok a" by (rule agent_system.reach_inv [OF assms])
  have "ss_canceled (ss_at (cancelAll a) r)" if r: "r < length (ss_cells a)" for r
  proof (cases "ss_canceled (ss_at a r)")
    case False
    then obtain sid where "map_of (ss_map a) sid = Some r" using agent_okD(3) [OF ok r] by blast
    then have "r \<in> set (map snd (ss_map a))" by (force dest: map_of_SomeD)
    then show ?thesis using r by (simp add: cancelAll_def ss_canceled_fold)
  qed (use r in \<open>simp add: cancelAll_def ss_canceled_fold\<close>)
  then show ?thesis
    using agent_okD(2) [OF ok] by (auto simp: list_all_iff in_set_conv_nth cancelAll_def)
qed

definition demo_start_msg :: "string \<Rightarrow> bool \<Rightarrow> CentralStreamMessage" where
  "demo_start_msg sid tty = MsgStart \<lparr>start_SessionId = sid, start_Command = [''exec'', ''-i'', ''web'', ''--'', ''sh''],
     start_Namespace = [], start_Tty = tty, start_Rows = 24, start_Cols = 80\<rparr>"

definition demo_agent_state :: sessionCancels where
  "demo_agent_state = sess_add ''s1'' (Some []) (Some []) newSessionCancels"

lemma demo_agent_reach: "agent_reach demo_agent_state"
proof -
  have "agent_step newSessionCancels demo_agent_state"
    by (rule agent_serve [of "demo_start_msg ''s1'' True" _ "\<lambda>_. None" "[]"])
      (simp_all add: demo_start_msg_def demo_agent_state_def starts_known_def newSessionCancels_def)
  then show ?thesis using reach_step [OF reach_init [of "\<lambda>a. a = newSessionCancels"]] by blast
qed

theorem teardown_cancels_all_witness: "list_all ss_canceled (ss_cells (cancelAll demo_agent_state))"
  using teardown_cancels_all [OF demo_agent_reach] by blast

text \<open>What a message of the central server touches: a message for one session leaves every other session of the
  table as it was, its context, its channels and its connections.\<close>

theorem messages_stay_in_session:
  assumes "agent_reach a" and "serve_msg (\<lambda>a. a) dial msg a = Some (out, a')"
    and "map_of (ss_map a) sid = Some r" and "msg_session msg \<noteq> sid"
  shows "map_of (ss_map a') sid = Some r \<and> ss_at a' r = ss_at a r"
proof -
  note ok = agent_system.reach_inv [OF assms(1)]
  have r: "r < length (ss_cells a)" using agent_okD(1) [OF ok assms(3)] .
  have other: "map_of (ss_map a) t = Some j \<Longrightarrow> t \<noteq> sid \<Longrightarrow> j \<noteq> r" for t j
    using assms(3) agent_okD(4) [OF ok] by blast
  have upd: "ss_at (upd_ss j f a) r = ss_at a r" if "j \<noteq> r" for j f
    using that by (simp add: upd_ss_def)
  show ?thesis
    using assms(2-4) r
    by (cases msg) (auto simp: sess_add_def update_conv' nth_append sess_cancel_def delete_conv' stdinTo_def push_stdin_def
        resizeTo_def on_pf_def pfFor_def upd other split: option.splits if_splits prod.splits)
qed

theorem messages_stay_in_session_witness:
  "ss_at (sess_cancel ''s2'' demo_agent_state) 0 = ss_at demo_agent_state 0"
  using messages_stay_in_session [OF demo_agent_reach, of "\<lambda>_. None" "MsgCancel ''s2''" "[]" _ "''s1''" 0]
  by (simp add: demo_agent_state_def sess_add_def newSessionCancels_def)

end
