(* ===== verification/Agent_Core.thy ===== *)
theory Agent_Core
  imports Messages
begin

text \<open>
  The agent itself (\<open>internal/agent/agent.go\<close>) and its executor (\<open>internal/agent/executor.go\<close>): how a
  command becomes a kubectl process and its result a submission, the polling, the heartbeats and the
  reconnection.

  kubectl is the argument \<open>run\<close>: what a process started with a command line, a limit of time and an
  input gives. The replies of the central server are arguments too.
\<close>


section \<open>The executor\<close>

text \<open>How \<open>cmd.Run\<close> ends: \<open>None\<close> for status 0, an exit status otherwise (-1 when a signal killed the
  process, as at the end of its time), or an error that is not an exit.\<close>

datatype run_error = ExitErr int | OtherErr string

record proc =
  p_stdout :: bytes
  p_stderr :: bytes
  p_err :: "run_error option"

type_synonym kubectl = "string list \<Rightarrow> int option \<Rightarrow> bytes \<Rightarrow> proc"

record AgentCommandResult =
  ar_Stdout :: bytes
  ar_Stderr :: bytes
  ar_ExitCode :: int
  ar_Error :: "string option"

definition kubectl_args :: "string list \<Rightarrow> string \<Rightarrow> string list" where
  "kubectl_args args namespace = (if namespace \<noteq> [] then [''-n'', namespace] else []) @ args"

text \<open>A limit of time that is not positive is none.\<close>

definition ExecuteWithStdin :: "kubectl \<Rightarrow> string list \<Rightarrow> string \<Rightarrow> int \<Rightarrow> bytes \<Rightarrow> AgentCommandResult" where
  "ExecuteWithStdin run args namespace timeout stdin =
     (let p = run (kubectl_args args namespace) (if timeout > 0 then Some timeout else None) stdin in
      case p_err p of
        None \<Rightarrow> \<lparr>ar_Stdout = p_stdout p, ar_Stderr = p_stderr p, ar_ExitCode = 0, ar_Error = None\<rparr>
      | Some (ExitErr code) \<Rightarrow> \<lparr>ar_Stdout = p_stdout p, ar_Stderr = p_stderr p, ar_ExitCode = code, ar_Error = None\<rparr>
      | Some (OtherErr e) \<Rightarrow>
          \<lparr>ar_Stdout = p_stdout p, ar_Stderr = p_stderr p, ar_ExitCode = - 1,
           ar_Error = Some (''failed to execute kubectl: '' @ e)\<rparr>)"

definition Execute :: "kubectl \<Rightarrow> string list \<Rightarrow> string \<Rightarrow> int \<Rightarrow> AgentCommandResult" where
  "Execute run args namespace timeout = ExecuteWithStdin run args namespace timeout []"

text \<open>\<open>pumpStream\<close>: the pieces a pipe delivers, each at most the size of the buffer; a read may return
  fewer bytes than are there, \<open>sizes\<close> says how many the reads ask for at most.\<close>

definition streamChunkSize :: nat where
  "streamChunkSize = 32 * 1024"

fun pumpStream :: "nat list \<Rightarrow> bool \<Rightarrow> bytes \<Rightarrow> (bool \<times> bytes) list" where
  "pumpStream [] stdout r = []"
| "pumpStream (n # ns) stdout r =
     (let k = min (max n 1) streamChunkSize in
      if r = [] then [] else (stdout, take k r) # pumpStream ns stdout (drop k r))"

text \<open>How a streamed process ends: the exit code, or the text of the error.\<close>

datatype wait_end = WaitOk | WaitExit int | WaitOther string

definition stream_result :: "string option \<Rightarrow> wait_end \<Rightarrow> string + int" where
  "stream_result ctx_err w = (case w of
     WaitOk \<Rightarrow> Inr 0
   | WaitExit code \<Rightarrow> Inr code
   | WaitOther e \<Rightarrow> (case ctx_err of Some c \<Rightarrow> Inl c | None \<Rightarrow> Inl (''kubectl wait: '' @ e)))"


section \<open>Commands\<close>

definition executeAndSubmit :: "kubectl \<Rightarrow> CommandRequest \<Rightarrow> SubmitCommandResultRequest" where
  "executeAndSubmit run cmd =
     (let t = sint (cr_TimeoutSeconds cmd) * second;
          result = ExecuteWithStdin run (cr_Command cmd) (cr_Namespace cmd) (if t = 0 then 30 * second else t) (cr_Stdin cmd)
      in \<lparr>sr_RequestId = cr_RequestId cmd, sr_Stdout = ar_Stdout result, sr_Stderr = ar_Stderr result,
          sr_ExitCode = word_of_int (ar_ExitCode result),
          sr_ErrorMessage = (case ar_Error result of None \<Rightarrow> [] | Some e \<Rightarrow> e)\<rparr>)"

text \<open>One poll: the submissions, in order. \<open>resp\<close> is the reply of \<open>GetPendingCommands\<close>, \<open>None\<close> an error.\<close>

definition pollAndExecuteCommands ::
  "kubectl \<Rightarrow> string \<Rightarrow> bool \<Rightarrow> (string \<Rightarrow> CommandRequest list option) \<Rightarrow> SubmitCommandResultRequest list" where
  "pollAndExecuteCommands run agentID connected poll =
     (if agentID = [] \<or> \<not> connected then []
      else case poll agentID of
        None \<Rightarrow> []
      | Some cmds \<Rightarrow> map (executeAndSubmit run) cmds)"


section \<open>Registration, heartbeats and reconnection\<close>

record Agent =
  ag_token :: string
  ag_cluster :: string
  ag_ID :: string
  ag_connected :: bool

definition ag_register :: "(RegisterRequest \<Rightarrow> RegisterResponse option) \<Rightarrow> Agent \<Rightarrow> string option \<times> Agent" where
  "ag_register central a =
     (case central \<lparr>rr_AgentToken = ag_token a, rr_ClusterName = ag_cluster a\<rparr> of
        None \<Rightarrow> (Some ''register RPC failed'', a)
      | Some resp \<Rightarrow>
          if \<not> rr_Success resp then (Some (''registration rejected: '' @ rr_ErrorMessage resp), a)
          else (None, a\<lparr>ag_ID := rr_AgentId resp\<rparr>))"

text \<open>An attempt to reconnect: the agent was stopped, its context is done, or the connection fails, or is made
  and the registration gets the reply. The sleeps are nanoseconds.\<close>

datatype attempt = Stopped | CtxDone | NoConnection | Connected "RegisterRequest \<Rightarrow> RegisterResponse option"

definition maxBackoff :: int where "maxBackoff = 30 * second"
definition maxRetries :: nat where "maxRetries = 5"

fun reconnect_loop :: "nat \<Rightarrow> int \<Rightarrow> (nat \<Rightarrow> attempt) \<Rightarrow> Agent \<Rightarrow> int list \<times> string option \<times> Agent" where
  "reconnect_loop 0 backoff what a = ([], Some ''failed to reconnect after 5 attempts'', a)"
| "reconnect_loop (Suc n) backoff what a = (case what n of
     Stopped \<Rightarrow> ([], Some ''agent stopped during reconnection'', a)
   | CtxDone \<Rightarrow> ([], Some ''context canceled'', a)
   | NoConnection \<Rightarrow>
       (case reconnect_loop n (if backoff * 2 > maxBackoff then maxBackoff else backoff * 2) what a of
          (sleeps, r) \<Rightarrow> (backoff # sleeps, r))
   | Connected central \<Rightarrow>
       (case ag_register central (a\<lparr>ag_connected := True\<rparr>) of
          (None, a1) \<Rightarrow> ([], None, a1)
        | (Some e, a1) \<Rightarrow>
            (case reconnect_loop n backoff what (a1\<lparr>ag_connected := False\<rparr>) of
               (sleeps, r) \<Rightarrow> (backoff # sleeps, r))))"

text \<open>\<open>what\<close> is indexed by the attempts that are left.\<close>

definition ag_reconnect :: "(nat \<Rightarrow> attempt) \<Rightarrow> Agent \<Rightarrow> int list \<times> string option \<times> Agent" where
  "ag_reconnect what a = reconnect_loop maxRetries second what (a\<lparr>ag_connected := False\<rparr>)"

text \<open>A heartbeat: the reply, \<open>None\<close> an error; the interval of the next one in nanoseconds.\<close>

definition sendHeartbeat :: "(string \<Rightarrow> (bool \<times> 32 word) option) \<Rightarrow> Agent \<Rightarrow> int option" where
  "sendHeartbeat central a = (case central (ag_ID a) of
     None \<Rightarrow> None
   | Some (acknowledged, next) \<Rightarrow> if \<not> acknowledged then None else Some (sint next * second))"

text \<open>A tick of the heartbeat loop: the interval, whether the health file is touched, and the agent.\<close>

definition heartbeat_tick ::
  "(string \<Rightarrow> (bool \<times> 32 word) option) \<Rightarrow> (nat \<Rightarrow> attempt) \<Rightarrow> int \<times> Agent \<Rightarrow> bool \<times> int \<times> Agent" where
  "heartbeat_tick central what ia = (case sendHeartbeat central (snd ia) of
     None \<Rightarrow> (False, fst ia, snd (snd (ag_reconnect what (snd ia))))
   | Some next \<Rightarrow> (True, if next > 0 \<and> next \<noteq> fst ia then next else fst ia, snd ia))"


section \<open>Properties\<close>

lemma pump_concat: "length r \<le> length ns \<Longrightarrow> concat (map snd (pumpStream ns b r)) = r"
proof (induction ns arbitrary: r)
  case (Cons n ns)
  let ?k = "min (max n 1) streamChunkSize"
  have k: "0 < ?k" by (simp add: streamChunkSize_def)
  show ?case
  proof (cases "r = []")
    case False
    then have "length (drop ?k r) < length r" using k by simp
    then have "length (drop ?k r) \<le> length ns" using Cons.prems by simp
    from Cons.IH [OF this] show ?thesis using False by (simp add: Let_def)
  qed simp
qed simp

lemma pump_sizes: "\<forall>(s, d) \<in> set (pumpStream ns b r). s = b \<and> d \<noteq> [] \<and> length d \<le> streamChunkSize"
  by (induction ns arbitrary: r) (auto simp: Let_def streamChunkSize_def)

text \<open>The output of a streamed command is sent whole and in order: however the reads of a pipe are cut, the
  pieces are not empty, at most 32 KiB (so each fits a frame) and concatenated they are the output.\<close>

theorem pump_complete:
  assumes "length r \<le> length ns"
  shows "concat (map snd (pumpStream ns stdout r)) = r \<and>
    list_all (\<lambda>(s, d). s = stdout \<and> d \<noteq> [] \<and> length d \<le> streamChunkSize) (pumpStream ns stdout r)"
  using pump_concat [OF assms, of stdout] pump_sizes [of ns stdout r] by (auto simp: list_all_iff)

theorem pump_complete_witness: "concat (map snd (pumpStream [2, 5, 1] True [1, 2, 3])) = [1, 2, 3]"
  using pump_complete [of "[1, 2, 3 :: byte]" "[2, 5, 1]" True] by simp

lemma reconnect_Suc:
  assumes "0 \<le> b"
  shows "fst (reconnect_loop (Suc n) b what a) = [] \<or>
    (\<exists>c a'. 0 \<le> c \<and> c \<le> 2 * b \<and> fst (reconnect_loop (Suc n) b what a) = b # fst (reconnect_loop n c what a'))"
proof (cases "what n")
  case NoConnection
  let ?c = "if b * 2 > maxBackoff then maxBackoff else b * 2"
  have "fst (reconnect_loop (Suc n) b what a) = b # fst (reconnect_loop n ?c what a)"
    using NoConnection by (simp split: prod.splits)
  moreover have "0 \<le> ?c" "?c \<le> 2 * b" using assms by (simp_all add: maxBackoff_def)
  ultimately show ?thesis by blast
next
  case (Connected central)
  obtain e a1 where e: "ag_register central (a\<lparr>ag_connected := True\<rparr>) = (e, a1)"
    by (cases "ag_register central (a\<lparr>ag_connected := True\<rparr>)")
  show ?thesis
  proof (cases e)
    case (Some err)
    then have "fst (reconnect_loop (Suc n) b what a) = b # fst (reconnect_loop n b what (a1\<lparr>ag_connected := False\<rparr>))"
      using Connected e by (simp split: prod.splits)
    then show ?thesis using assms by (intro disjI2 exI [of _ b]) auto
  qed (use Connected e in simp)
qed simp_all

lemma reconnect_sleeps:
  "0 \<le> b \<Longrightarrow> b * 2 ^ n \<le> 32 * second \<Longrightarrow>
     sum_list (fst (reconnect_loop n b what a)) \<le> b * (2 ^ n - 1) \<and> length (fst (reconnect_loop n b what a)) \<le> n"
proof (induction n arbitrary: b a)
  case (Suc n)
  have step: "sum_list (b # fst (reconnect_loop n c what a')) \<le> b * (2 ^ Suc n - 1) \<and>
      length (b # fst (reconnect_loop n c what a')) \<le> Suc n" if "0 \<le> c" "c \<le> 2 * b" for c a'
  proof -
    have "c * 2 ^ n \<le> 2 * b * 2 ^ n" using that by (intro mult_right_mono) simp_all
    moreover have "2 * b * 2 ^ n = b * 2 ^ Suc n" by simp
    ultimately have "c * 2 ^ n \<le> 32 * second" using Suc.prems(2) by linarith
    from Suc.IH [OF that(1) this, of a']
    have "sum_list (fst (reconnect_loop n c what a')) \<le> c * (2 ^ n - 1)" "length (fst (reconnect_loop n c what a')) \<le> n" by auto
    moreover have "c * (2 ^ n - 1) \<le> 2 * b * (2 ^ n - 1)" using that by (intro mult_right_mono) simp_all
    ultimately show ?thesis by (simp add: algebra_simps)
  qed
  show ?case
    using reconnect_Suc [OF Suc.prems(1), of n what a]
  proof
    assume "fst (reconnect_loop (Suc n) b what a) = []"
    then show ?thesis using Suc.prems(1) by (simp del: reconnect_loop.simps)
  qed (use step in metis)
qed simp

text \<open>C35. Reconnecting ends: after at most five attempts and at most 31 seconds of sleep in all the agent is
  registered again or has an error, whatever the connections and the central server do; on success the
  agent has the identifier of the reply, and the connection is up.\<close>

theorem reconnect_bounded:
  "(case ag_reconnect what a of (sleeps, err, a') \<Rightarrow>
     length sleeps \<le> 5 \<and> sum_list sleeps \<le> 31 * second \<and>
     (err = None \<longrightarrow> ag_connected a' \<and> (\<exists>n central resp. what n = Connected central \<and>
        central \<lparr>rr_AgentToken = ag_token a, rr_ClusterName = ag_cluster a\<rparr> = Some resp \<and> rr_Success resp \<and>
        ag_ID a' = rr_AgentId resp)))"
proof -
  have "err = None \<Longrightarrow> reconnect_loop k b what a0 = (sleeps, err, a') \<Longrightarrow> ag_token a0 = ag_token a \<Longrightarrow>
      ag_cluster a0 = ag_cluster a \<Longrightarrow> ag_connected a' \<and> (\<exists>n central resp. what n = Connected central \<and>
        central \<lparr>rr_AgentToken = ag_token a, rr_ClusterName = ag_cluster a\<rparr> = Some resp \<and> rr_Success resp \<and>
        ag_ID a' = rr_AgentId resp)" for k b a0 sleeps err a'
  proof (induction k arbitrary: b a0 sleeps)
    case (Suc k)
    show ?case
    proof (cases "what k")
      case (Connected central)
      then show ?thesis
        using Suc by (auto simp: ag_register_def split: option.splits if_splits prod.splits) blast
    qed (use Suc in \<open>auto split: prod.splits\<close>)
  qed simp
  moreover have "sum_list (fst (ag_reconnect what a)) \<le> 31 * second \<and> length (fst (ag_reconnect what a)) \<le> 5"
    using reconnect_sleeps [of second maxRetries what] by (simp add: ag_reconnect_def maxRetries_def)
  ultimately show ?thesis by (auto simp: ag_reconnect_def split: prod.splits)
qed

theorem reconnect_bounded_witness:
  "ag_connected (snd (snd (ag_reconnect (\<lambda>n. if n = 4 then NoConnection else
     Connected (\<lambda>_. Some \<lparr>rr_Success = True, rr_AgentId = ''a'', rr_ErrorMessage = []\<rparr>))
     \<lparr>ag_token = ''t'', ag_cluster = ''c'', ag_ID = [], ag_connected = True\<rparr>)))"
  using reconnect_bounded [of "\<lambda>n. if n = 4 then NoConnection else
     Connected (\<lambda>_. Some \<lparr>rr_Success = True, rr_AgentId = ''a'', rr_ErrorMessage = []\<rparr>)"
     "\<lparr>ag_token = ''t'', ag_cluster = ''c'', ag_ID = [], ag_connected = True\<rparr>"]
  by (simp add: ag_reconnect_def maxRetries_def numeral_eq_Suc ag_register_def)

end
