(* ===== verification/Cli_Args.thy ===== *)
theory Cli_Args
  imports Prelude
begin

text \<open>
  How the command \<open>kb\<close> reads its command line (\<open>internal/cli\<close>): \<open>dispatch.go\<close>, which makes kubectl the default
  command; the kinds of kubectl commands that \<open>kubectl.go\<close> tells apart; and the parsers of interactive exec
  (\<open>exec.go\<close>), port-forward (\<open>portforward.go\<close>) and edit (\<open>edit.go\<close>).

  The parsers are loops over the arguments in which some options take the next argument for their value; each is
  a function that consumes the list.
\<close>


section \<open>Dispatch\<close>

definition managementCommands :: "string \<Rightarrow> bool" where
  "managementCommands c = (c \<in> {''admin'', ''clusters'', ''cluster'', ''login'', ''logout'', ''status'', ''kubectl'', ''k'',
     ''help'', ''completion''})"

definition prependKubectl :: "string list \<Rightarrow> string list" where
  "prependKubectl args = ''kubectl'' # args"

definition rewriteArgs :: "string list \<Rightarrow> string list" where
  "rewriteArgs args = (case args of
     [] \<Rightarrow> args
   | first # _ \<Rightarrow>
       if has_prefix first ''__'' then args
       else if has_prefix first ''-'' then
         (if first \<in> {''-h'', ''--help'', ''-v'', ''--version''} then args else prependKubectl args)
       else if managementCommands first then args
       else prependKubectl args)"


section \<open>Interactive exec\<close>

record execTarget =
  tgt_namespace :: string
  tgt_pod :: string
  tgt_container :: string
  tgt_command :: "string list"
  tgt_tty :: bool
  tgt_stdin :: bool

definition no_target :: execTarget where
  "no_target = \<lparr>tgt_namespace = [], tgt_pod = [], tgt_container = [], tgt_command = [], tgt_tty = False, tgt_stdin = False\<rparr>"

text \<open>What the \<open>switch\<close> makes of an argument, and the loop, with the positional arguments so far: an option without
  a value, one that takes the next argument if there is one, the end of the options, or a positional argument.\<close>

datatype 't arg_kind = ArgFlag "'t \<Rightarrow> 't" | ArgValue "string \<Rightarrow> 't \<Rightarrow> 't" | ArgRest "string list \<Rightarrow> 't \<Rightarrow> 't" | ArgPositional

fun scan_args :: "(string \<Rightarrow> 't arg_kind) \<Rightarrow> string list \<Rightarrow> string list \<Rightarrow> 't \<Rightarrow> 't \<times> string list" where
  "scan_args kind [] pos tgt = (tgt, pos)"
| "scan_args kind (a # as) pos tgt = (case kind a of
     ArgFlag f \<Rightarrow> scan_args kind as pos (f tgt)
   | ArgValue f \<Rightarrow> (case as of [] \<Rightarrow> (tgt, pos) | v # bs \<Rightarrow> scan_args kind bs pos (f v tgt))
   | ArgRest f \<Rightarrow> (f as tgt, pos)
   | ArgPositional \<Rightarrow> scan_args kind as (pos @ [a]) tgt)"

definition exec_arg :: "string \<Rightarrow> execTarget arg_kind" where
  "exec_arg a =
     (if a = ''--'' then ArgRest (\<lambda>as. tgt_command_update (\<lambda>_. as))
      else if a = ''-i'' \<or> a = ''--stdin'' then ArgFlag (tgt_stdin_update (\<lambda>_. True))
      else if a = ''-t'' \<or> a = ''--tty'' then ArgFlag (tgt_tty_update (\<lambda>_. True))
      else if a = ''-it'' \<or> a = ''-ti'' then ArgFlag (\<lambda>tgt. tgt\<lparr>tgt_stdin := True, tgt_tty := True\<rparr>)
      else if a = ''-n'' \<or> a = ''--namespace'' then ArgValue (\<lambda>v. tgt_namespace_update (\<lambda>_. v))
      else if has_prefix a ''--namespace='' then ArgFlag (tgt_namespace_update (\<lambda>_. trim_prefix a ''--namespace=''))
      else if a = ''-c'' \<or> a = ''--container'' then ArgValue (\<lambda>v. tgt_container_update (\<lambda>_. v))
      else if has_prefix a ''-c='' then ArgFlag (tgt_container_update (\<lambda>_. trim_prefix a ''-c=''))
      else ArgPositional)"

text \<open>\<open>None\<close> is the Go result \<open>ok = false\<close>.\<close>

definition parseExecArgs :: "string list \<Rightarrow> execTarget option" where
  "parseExecArgs args = (case args of
     [] \<Rightarrow> None
   | verb # rest \<Rightarrow>
       if verb \<noteq> ''exec'' then None
       else case scan_args exec_arg rest [] no_target of (tgt, pos) \<Rightarrow>
         let tgt' = (case pos of [] \<Rightarrow> tgt | p # _ \<Rightarrow> tgt\<lparr>tgt_pod := p\<rparr>)
         in if \<not> tgt_stdin tgt' \<and> \<not> tgt_tty tgt' then None else Some tgt')"


section \<open>Port-forward\<close>

record portMapping =
  pm_local :: "16 word"
  pm_remote :: "16 word"

record pfTarget =
  pft_namespace :: string
  pft_pod :: string
  pft_mappings :: "portMapping list"

definition port_number :: "string \<Rightarrow> 16 word option" where
  "port_number s = (case atoi s of
     None \<Rightarrow> None
   | Some p \<Rightarrow> if p \<le> 0 \<or> p > 65535 then None else Some (word_of_int p))"

definition parsePortSpec :: "string \<Rightarrow> portMapping option" where
  "parsePortSpec spec =
     (if has_prefix spec '':'' then
        map_option (\<lambda>r. \<lparr>pm_local = 0, pm_remote = r\<rparr>) (port_number (drop 1 spec))
      else case cut spec CHR '':'' of
        (l, r, True) \<Rightarrow>
          (case (port_number l, port_number r) of
             (Some li, Some ri) \<Rightarrow> Some \<lparr>pm_local = li, pm_remote = ri\<rparr>
           | _ \<Rightarrow> None)
      | (_, _, False) \<Rightarrow> map_option (\<lambda>p. \<lparr>pm_local = p, pm_remote = p\<rparr>) (port_number spec))"

text \<open>The target while it is parsed is its namespace.\<close>

definition pf_arg :: "string \<Rightarrow> string arg_kind" where
  "pf_arg a =
     (if a = ''-n'' \<or> a = ''--namespace'' then ArgValue (\<lambda>v _. v)
      else if has_prefix a ''--namespace='' then ArgFlag (\<lambda>_. trim_prefix a ''--namespace='')
      else ArgPositional)"

fun parse_specs :: "string list \<Rightarrow> portMapping list option" where
  "parse_specs [] = Some []"
| "parse_specs (s # ss) = (case parsePortSpec s of
     None \<Rightarrow> None
   | Some m \<Rightarrow> map_option ((#) m) (parse_specs ss))"

definition parsePortForwardArgs :: "string list \<Rightarrow> pfTarget option" where
  "parsePortForwardArgs args = (case args of
     [] \<Rightarrow> None
   | verb # rest \<Rightarrow>
       if verb \<noteq> ''port-forward'' then None
       else case scan_args pf_arg rest [] [] of
         (ns, pod # s # ss) \<Rightarrow>
           map_option (\<lambda>ms. \<lparr>pft_namespace = ns, pft_pod = pod, pft_mappings = ms\<rparr>) (parse_specs (s # ss))
       | _ \<Rightarrow> None)"


section \<open>Edit\<close>

fun isEditCommand :: "string list \<Rightarrow> bool" where
  "isEditCommand [] = False"
| "isEditCommand (a # as) =
     (if a = ''edit'' then True
      else if a \<in> {''-n'', ''--namespace'', ''-o'', ''--output''} then isEditCommand (tl as)
      else if has_prefix a ''-'' then isEditCommand as
      else False)"

record EditHandler =
  resourceType :: string
  resourceName :: string
  eh_namespace :: string
  outputFormat :: string
  additionalArgs :: "string list"

definition new_edit :: EditHandler where
  "new_edit = \<lparr>resourceType = [], resourceName = [], eh_namespace = [], outputFormat = [], additionalArgs = []\<rparr>"

text \<open>A positional argument is \<open>type/name\<close>, or the type and then the name; any other is left out.\<close>

definition edit_positional :: "string \<Rightarrow> EditHandler \<Rightarrow> EditHandler" where
  "edit_positional a h = (case cut a CHR ''/'' of
     (t, n, True) \<Rightarrow> h\<lparr>resourceType := t, resourceName := n\<rparr>
   | _ \<Rightarrow>
       if resourceType h = [] then h\<lparr>resourceType := a\<rparr>
       else if resourceName h = [] then h\<lparr>resourceName := a\<rparr>
       else h)"

text \<open>Any other option takes the next argument with it unless that is an option too.\<close>

datatype edit_kind = EditValue "string \<Rightarrow> EditHandler \<Rightarrow> EditHandler" | EditFlag "EditHandler \<Rightarrow> EditHandler" | EditOther

definition edit_arg :: "string \<Rightarrow> edit_kind" where
  "edit_arg a =
     (if a = ''-n'' \<or> a = ''--namespace'' then EditValue (\<lambda>v. eh_namespace_update (\<lambda>_. v))
      else if has_prefix a ''-n='' then EditFlag (eh_namespace_update (\<lambda>_. trim_prefix a ''-n=''))
      else if has_prefix a ''--namespace='' then EditFlag (eh_namespace_update (\<lambda>_. trim_prefix a ''--namespace=''))
      else if a = ''-o'' \<or> a = ''--output'' then EditValue (\<lambda>v. outputFormat_update (\<lambda>_. v))
      else if has_prefix a ''-o='' then EditFlag (outputFormat_update (\<lambda>_. trim_prefix a ''-o=''))
      else if has_prefix a ''--output='' then EditFlag (outputFormat_update (\<lambda>_. trim_prefix a ''--output=''))
      else if has_prefix a ''-'' then EditOther
      else EditFlag (edit_positional a))"

definition add_args :: "string list \<Rightarrow> EditHandler \<Rightarrow> EditHandler" where
  "add_args as h = h\<lparr>additionalArgs := additionalArgs h @ as\<rparr>"

fun scan_edit :: "string list \<Rightarrow> EditHandler \<Rightarrow> string + EditHandler" where
  "scan_edit [] h = Inr h"
| "scan_edit (a # as) h = (case edit_arg a of
     EditFlag f \<Rightarrow> scan_edit as (f h)
   | EditValue f \<Rightarrow>
       (case as of [] \<Rightarrow> Inl (''flag '' @ a @ '' requires a value'') | v # bs \<Rightarrow> scan_edit bs (f v h))
   | EditOther \<Rightarrow>
       (case as of
          [] \<Rightarrow> Inr (add_args [a] h)
        | v # bs \<Rightarrow> if has_prefix v ''-'' then scan_edit as (add_args [a] h) else scan_edit bs (add_args [a, v] h)))"

definition edit_parseArgs :: "string list \<Rightarrow> string + EditHandler" where
  "edit_parseArgs args = (case args of
     [] \<Rightarrow> Inl ''edit requires a resource type and name''
   | a # as \<Rightarrow>
       (case scan_edit (if a = ''edit'' then as else args) new_edit of
          Inl e \<Rightarrow> Inl e
        | Inr h \<Rightarrow>
            if resourceType h = [] then Inl ''edit requires a resource type''
            else if resourceName h = [] then Inl ''edit requires a resource name''
            else Inr h))"


section \<open>What a kubectl command becomes\<close>

definition isStreamingCommand :: "string list \<Rightarrow> bool" where
  "isStreamingCommand args = list_ex (\<lambda>a. a \<in> {''-f'', ''--follow'', ''-w'', ''--watch''}) args"

fun first_namespace :: "string list \<Rightarrow> string" where
  "first_namespace [] = []"
| "first_namespace [a] = []"
| "first_namespace (a # b # as) =
     (if a = ''-n'' \<or> a = ''--namespace'' then b else first_namespace (b # as))"

text \<open>The settings of the configuration file that the commands read.\<close>

record CliConfig =
  central_url :: string
  current_cluster :: string
  conf_token :: string
  conf_refresh_token :: string
  conf_insecure :: bool

text \<open>\<open>NewEditHandler\<close>, but for the client that the handler gets.\<close>

definition not_configured :: string where
  "not_configured = ''central URL not configured. Run 'kb login' first''"

definition no_cluster :: string where
  "no_cluster = ''no cluster selected. Run 'kb clusters use <name>' first''"

definition NewEditHandler :: "CliConfig \<Rightarrow> string list \<Rightarrow> string + EditHandler" where
  "NewEditHandler cfg args =
     (if central_url cfg = [] then Inl not_configured
      else if current_cluster cfg = [] then Inl no_cluster
      else edit_parseArgs args)"

text \<open>What \<open>runKubectl\<close> makes of the arguments; the last two cases come with the namespace.\<close>

datatype kubectl_plan =
    ShowHelp
  | RunEdit
  | RunExec execTarget
  | RunPortForward pfTarget
  | RunStream string
  | RunOnce string

definition plan_kubectl :: "string list \<Rightarrow> kubectl_plan" where
  "plan_kubectl args =
     (if list_ex (\<lambda>a. a = ''-h'' \<or> a = ''--help'') args then ShowHelp
      else if isEditCommand args then RunEdit
      else case parseExecArgs args of
        Some tgt \<Rightarrow> RunExec tgt
      | None \<Rightarrow>
          (case parsePortForwardArgs args of
             Some tgt \<Rightarrow> RunPortForward tgt
           | None \<Rightarrow>
               if isStreamingCommand args then RunStream (first_namespace args)
               else RunOnce (first_namespace args)))"


section \<open>Ports\<close>

lemma port_number_SomeD: "port_number s = Some p \<Longrightarrow> \<exists>n. atoi s = Some n \<and> 0 < n \<and> n \<le> 65535 \<and> uint p = n"
  by (auto simp: port_number_def take_bit_int_eq_self uint_word_of_int split: option.splits if_splits)

lemma port_number_decimal: "0 < n \<Longrightarrow> n \<le> 65535 \<Longrightarrow> port_number (decimal n) = Some (of_nat n)"
  by (simp add: port_number_def atoi_decimal)

lemma decimal_no_colon: "CHR '':'' \<notin> set (decimal n)"
  using decimal_digits [of n] by (auto simp: list_all_iff is_digit_def)

lemma cut_at: "c \<notin> set l \<Longrightarrow> cut (l @ c # r) c = (l, r, True)"
  by (induction l) (auto simp: cut_def split: option.splits)

lemma cut_absent: "c \<notin> set s \<Longrightarrow> cut s c = (s, [], False)"
  by (simp add: cut_def)

lemma decimal_no_colon_prefix: "\<not> has_prefix (decimal n @ s) '':''"
  using decimal_no_colon [of n] by (cases "decimal n") (auto simp: has_prefix_def)


lemma parsePortSpec_rendered:
  assumes "0 < l" and "l \<le> 65535" and "0 < r" and "r \<le> 65535"
  shows "parsePortSpec (decimal l @ '':'' @ decimal r) = Some \<lparr>pm_local = of_nat l, pm_remote = of_nat r\<rparr>"
  using assms by (simp add: parsePortSpec_def decimal_no_colon_prefix cut_at decimal_no_colon port_number_decimal)

lemma decimal_8080: "decimal 8080 = ''8080''" "decimal 80 = ''80''"
  by (simp_all add: decimal.simps char_of_def bit_0)

lemma port_spec_8080: "parsePortSpec ''8080:80'' = Some \<lparr>pm_local = 8080, pm_remote = 80\<rparr>"
  using parsePortSpec_rendered [of 8080 80] by (simp add: decimal_8080)


section \<open>The options of exec\<close>

text \<open>The options of interactive exec in the forms that the parser knows.\<close>

datatype exec_opt = ExStdin bool | ExTty bool | ExBoth bool | ExNamespace bool string | ExNamespaceEq string |
  ExContainer bool string | ExContainerEq string

fun render_exec :: "exec_opt \<Rightarrow> string list" where
  "render_exec (ExStdin long) = [if long then ''--stdin'' else ''-i'']"
| "render_exec (ExTty long) = [if long then ''--tty'' else ''-t'']"
| "render_exec (ExBoth swap) = [if swap then ''-ti'' else ''-it'']"
| "render_exec (ExNamespace long ns) = [if long then ''--namespace'' else ''-n'', ns]"
| "render_exec (ExNamespaceEq ns) = [''--namespace='' @ ns]"
| "render_exec (ExContainer long c) = [if long then ''--container'' else ''-c'', c]"
| "render_exec (ExContainerEq c) = [''-c='' @ c]"

fun exec_meaning :: "exec_opt \<Rightarrow> execTarget \<Rightarrow> execTarget" where
  "exec_meaning (ExStdin _) tgt = tgt\<lparr>tgt_stdin := True\<rparr>"
| "exec_meaning (ExTty _) tgt = tgt\<lparr>tgt_tty := True\<rparr>"
| "exec_meaning (ExBoth _) tgt = tgt\<lparr>tgt_stdin := True, tgt_tty := True\<rparr>"
| "exec_meaning (ExNamespace _ ns) tgt = tgt\<lparr>tgt_namespace := ns\<rparr>"
| "exec_meaning (ExNamespaceEq ns) tgt = tgt\<lparr>tgt_namespace := ns\<rparr>"
| "exec_meaning (ExContainer _ c) tgt = tgt\<lparr>tgt_container := c\<rparr>"
| "exec_meaning (ExContainerEq c) tgt = tgt\<lparr>tgt_container := c\<rparr>"

lemma scan_args_render:
  "scan_args exec_arg (render_exec opt @ as) pos tgt = scan_args exec_arg as pos (exec_meaning opt tgt)"
  by (cases opt) (simp_all add: exec_arg_def has_prefix_def trim_prefix_def)

lemma scan_args_renders:
  "scan_args exec_arg (concat (map render_exec opts) @ as) pos tgt =
     scan_args exec_arg as pos (fold exec_meaning opts tgt)"
  by (induction opts arbitrary: tgt) (simp_all add: scan_args_render)

lemma exec_arg_positional: "\<not> has_prefix pod ''-'' \<Longrightarrow> exec_arg pod = ArgPositional"
  by (cases pod) (auto simp: exec_arg_def has_prefix_def)

lemma fold_exec_meaning_pod:
  "fold exec_meaning opts (tgt\<lparr>tgt_pod := p\<rparr>) = (fold exec_meaning opts tgt)\<lparr>tgt_pod := p\<rparr>"
proof (induction opts arbitrary: tgt)
  case (Cons opt opts)
  have "exec_meaning opt (tgt\<lparr>tgt_pod := p\<rparr>) = (exec_meaning opt tgt)\<lparr>tgt_pod := p\<rparr>"
    by (cases opt) simp_all
  then show ?case by (simp add: Cons.IH)
qed simp


lemma parseExecArgs_rendered:
  assumes "\<not> has_prefix pod ''-''"
  shows "parseExecArgs (''exec'' # concat (map render_exec opts1) @ pod # concat (map render_exec opts2) @ ''--'' # cmd) =
    (let tgt = fold exec_meaning (opts1 @ opts2) no_target in
     if tgt_stdin tgt \<or> tgt_tty tgt then Some (tgt\<lparr>tgt_pod := pod, tgt_command := cmd\<rparr>) else None)"
proof -
  have "scan_args exec_arg (concat (map render_exec opts1) @ pod # concat (map render_exec opts2) @ ''--'' # cmd) [] no_target =
      ((fold exec_meaning (opts1 @ opts2) no_target)\<lparr>tgt_command := cmd\<rparr>, [pod])"
    using exec_arg_positional [OF assms] by (simp add: scan_args_renders) (simp add: exec_arg_def)
  then show ?thesis by (simp add: parseExecArgs_def Let_def)
qed


section \<open>Properties\<close>

text \<open>The port specifications: a number that is accepted is a port, so the conversion to 16 bits loses nothing,
  and only the form \<open>:REMOTE\<close> leaves the local port open; each of the three documented forms is read as it is
  meant, for all ports.\<close>

theorem parsePortSpec_exact:
  assumes "0 < l" and "l \<le> 65535" and "0 < r" and "r \<le> 65535"
  shows "(parsePortSpec spec = Some m \<longrightarrow> pm_remote m \<noteq> 0 \<and> (pm_local m = 0 \<longleftrightarrow> has_prefix spec '':'')) \<and>
    parsePortSpec (decimal l @ '':'' @ decimal r) = Some \<lparr>pm_local = of_nat l, pm_remote = of_nat r\<rparr> \<and>
    parsePortSpec ('':'' @ decimal r) = Some \<lparr>pm_local = 0, pm_remote = of_nat r\<rparr> \<and>
    parsePortSpec (decimal r) = Some \<lparr>pm_local = of_nat r, pm_remote = of_nat r\<rparr>"
proof (intro conjI impI)
  show "pm_remote m \<noteq> 0" and "pm_local m = 0 \<longleftrightarrow> has_prefix spec '':''" if "parsePortSpec spec = Some m"
    using that by (auto simp: parsePortSpec_def dest!: port_number_SomeD split: if_splits prod.splits bool.splits option.splits)
  show "parsePortSpec (decimal l @ '':'' @ decimal r) = Some \<lparr>pm_local = of_nat l, pm_remote = of_nat r\<rparr>"
    using assms by (rule parsePortSpec_rendered)
  show "parsePortSpec ('':'' @ decimal r) = Some \<lparr>pm_local = 0, pm_remote = of_nat r\<rparr>"
    using assms by (simp add: parsePortSpec_def has_prefix_def port_number_decimal)
  show "parsePortSpec (decimal r) = Some \<lparr>pm_local = of_nat r, pm_remote = of_nat r\<rparr>"
    using assms decimal_no_colon_prefix [of r "[]"]
    by (simp add: parsePortSpec_def cut_absent decimal_no_colon port_number_decimal)
qed

theorem parsePortSpec_exact_witness:
  "parsePortSpec ''8080:80'' = Some \<lparr>pm_local = 8080, pm_remote = 80\<rparr>"
  using parsePortSpec_exact [of 8080 80] by (simp add: decimal_8080)

text \<open>An interactive exec is read as it is meant: options in the documented forms, in any order, before and after
  the pod, then the command, whose own arguments are left alone; it is interactive exactly when it asks for
  the standard input or a terminal.\<close>

theorem parseExecArgs_meant:
  assumes "\<not> has_prefix pod ''-''"
  shows "parseExecArgs (''exec'' # concat (map render_exec opts1) @ pod # concat (map render_exec opts2) @ ''--'' # cmd) =
    (let tgt = fold exec_meaning (opts1 @ opts2) no_target in
     if tgt_stdin tgt \<or> tgt_tty tgt then Some (tgt\<lparr>tgt_pod := pod, tgt_command := cmd\<rparr>) else None)"
  using assms by (rule parseExecArgs_rendered)

theorem parseExecArgs_meant_witness:
  "parseExecArgs [''exec'', ''-it'', ''-n'', ''prod'', ''web'', ''--'', ''sh'', ''-n'', ''x''] =
     Some \<lparr>tgt_namespace = ''prod'', tgt_pod = ''web'', tgt_container = [], tgt_command = [''sh'', ''-n'', ''x''],
       tgt_tty = True, tgt_stdin = True\<rparr>"
  using parseExecArgs_meant [of "''web''" "[ExBoth False, ExNamespace False ''prod'']" "[]" "[''sh'', ''-n'', ''x'']"]
  by (simp add: has_prefix_def no_target_def Let_def)

text \<open>Dispatch: the words that are not management commands are a kubectl command, arguments unchanged; and what has
  been dispatched once is not changed again.\<close>

theorem rewriteArgs_dispatch:
  "rewriteArgs args \<in> {args, ''kubectl'' # args} \<and> rewriteArgs (rewriteArgs args) = rewriteArgs args \<and>
   (rewriteArgs args \<noteq> args \<longleftrightarrow>
     (\<exists>a as. args = a # as \<and> \<not> managementCommands a \<and> \<not> has_prefix a ''__'' \<and>
        a \<notin> {''-h'', ''--help'', ''-v'', ''--version''}))"
  by (auto simp: rewriteArgs_def prependKubectl_def managementCommands_def has_prefix_def split: list.splits if_splits)

text \<open>An edit with an option in front of the verb is taken for an edit, but then misread: the verb counts as the
  type of the resource and the type as its name.\<close>

theorem edit_option_first_misread:
  assumes "CHR ''/'' \<notin> set kind" and "\<not> has_prefix kind ''-''" and "kind \<noteq> []"
    and "CHR ''/'' \<notin> set name" and "\<not> has_prefix name ''-''"
  shows "isEditCommand [''-n'', ns, ''edit'', kind, name] \<and>
    edit_parseArgs [''-n'', ns, ''edit'', kind, name] =
      Inr (new_edit\<lparr>eh_namespace := ns, resourceType := ''edit'', resourceName := kind\<rparr>) \<and>
    edit_parseArgs [''edit'', kind, name, ''-n'', ns] =
      (if name = [] then Inl ''edit requires a resource name''
       else Inr (new_edit\<lparr>eh_namespace := ns, resourceType := kind, resourceName := name\<rparr>))"
proof -
  have "edit_arg kind = EditFlag (edit_positional kind)" and "edit_arg name = EditFlag (edit_positional name)"
    using assms(2,5) by (cases kind; cases name; auto simp: edit_arg_def has_prefix_def)+
  then show ?thesis using assms
    by (simp add: edit_parseArgs_def edit_positional_def cut_absent new_edit_def)
      (simp add: edit_arg_def has_prefix_def edit_positional_def cut_absent)
qed

theorem edit_option_first_misread_witness:
  "edit_parseArgs [''-n'', ''prod'', ''edit'', ''deploy'', ''web''] =
     Inr \<lparr>resourceType = ''edit'', resourceName = ''deploy'', eh_namespace = ''prod'', outputFormat = [], additionalArgs = []\<rparr>"
  using edit_option_first_misread [of "''deploy''" "''web''" "''prod''"] by (simp add: has_prefix_def new_edit_def)

end
