(* ===== verification/Cli_Access.thy ===== *)
theory Cli_Access
  imports Cli_Args Bridges_Props Agent_Core Agent_Forward
begin

text \<open>
  From the command line of the client to the command line of kubectl at the agent: the queries the client sends
  (\<open>execURL\<close> in \<open>internal/cli/exec.go\<close>, \<open>runPortForward\<close> in \<open>portforward.go\<close>) joined with the server's reading of
  them (theory Bridges), its permission check (theory Rbac) and the agent's command (theories Agent_Core and
  Agent_Forward). A query is the list of its keys and values; the percent encoding of the URL and the order of its
  keys are the library's.
\<close>


section \<open>The queries\<close>

definition exec_query :: "execTarget \<Rightarrow> 16 word \<Rightarrow> 16 word \<Rightarrow> url_query" where
  "exec_query tgt rows cols =
     [(''pod'', tgt_pod tgt)] @
     (if tgt_container tgt \<noteq> [] then [(''container'', tgt_container tgt)] else []) @
     (if tgt_namespace tgt \<noteq> [] then [(''namespace'', tgt_namespace tgt)] else []) @
     map (\<lambda>a. (''command'', a)) (tgt_command tgt) @
     (if tgt_tty tgt then [(''tty'', ''true'')] else []) @
     [(''rows'', decimal (unat rows)), (''cols'', decimal (unat cols))]"

definition pf_query :: "pfTarget \<Rightarrow> url_query" where
  "pf_query tgt =
     [(''pod'', pft_pod tgt)] @
     (if pft_namespace tgt \<noteq> [] then [(''namespace'', pft_namespace tgt)] else []) @
     map (\<lambda>m. (''port'', decimal (unat (pm_remote m)))) (pft_mappings tgt)"


section \<open>Lemmas\<close>

lemma query_get_simps [simp]:
  "query_get [] k = []"
  "query_get (e # q) k = (if fst e = k then snd e else query_get q k)"
  by (cases e) (simp_all add: query_get_def)

lemma query_get_pairs [simp]:
  "query_get (map (Pair j) vs @ q) k = (if k = j \<and> vs \<noteq> [] then hd vs else query_get q k)"
  by (induction vs) auto

lemma query_array_simps [simp]:
  "query_array [] k = []"
  "query_array (e # q) k = (if fst e = k then [snd e] else []) @ query_array q k"
  "query_array (p @ q) k = query_array p k @ query_array q k"
  by (simp_all add: query_array_def)

lemma query_array_map [simp]: "query_array (map (Pair j) vs) k = (if j = k then vs else [])"
  by (induction vs) auto

lemma atoiDefault_decimal: "n < 2 ^ 63 \<Longrightarrow> atoiDefault (decimal n) def = (if n = 0 then def else int n)"
  by (simp add: atoiDefault_def atoi_decimal)

lemma unat_16_small: "unat (w :: 16 word) < 2 ^ 63"
  using unsigned_less [of w, where ?'a = nat] by simp

lemma dimension_decimal: "atoiDefault (decimal (unat (w :: 16 word))) def = (if w = 0 then def else uint w)"
  using atoiDefault_decimal [OF unat_16_small, of w def] by (simp add: unat_eq_0)

lemma clampDim_uint: "w \<noteq> 0 \<Longrightarrow> clampDim (uint w) = w"
proof -
  assume "w \<noteq> 0"
  then have "uint w \<noteq> 0" by (simp add: uint_0_iff)
  then have "1 \<le> uint w" using uint_ge_0 [of w] by linarith
  moreover have "uint w \<le> 65535" using uint_lt2p [of w] by simp
  ultimately show ?thesis by (simp add: clampDim_def)
qed

lemma attach_params_exec_query:
  "attach_params (exec_query tgt rows cols) =
     \<lparr>at_pod = tgt_pod tgt, at_container = tgt_container tgt, at_command = tgt_command tgt, at_tty = tgt_tty tgt,
      at_rows = (if rows = 0 then 24 else uint rows), at_cols = (if cols = 0 then 80 else uint cols),
      at_namespace = tgt_namespace tgt\<rparr>"
  unfolding attach_params_def exec_query_def
  by (cases "tgt_container tgt = []"; cases "tgt_namespace tgt = []"; cases "tgt_tty tgt")
    (simp_all add: dimension_decimal)

lemma parseExecArgs_Some:
  assumes "parseExecArgs args = Some tgt" shows "tgt_stdin tgt \<or> tgt_tty tgt"
  using assms by (auto simp: parseExecArgs_def Let_def split: list.splits prod.splits if_splits)

lemma parsePortSpec_remote: "parsePortSpec spec = Some m \<Longrightarrow> pm_remote m \<noteq> 0"
  by (auto simp: parsePortSpec_def dest!: port_number_SomeD split: if_splits prod.splits bool.splits option.splits)

lemma parse_specs_Some:
  "parse_specs ss = Some ms \<Longrightarrow> length ms = length ss \<and> list_all (\<lambda>m. pm_remote m \<noteq> 0) ms"
  by (induction ss arbitrary: ms) (auto dest: parsePortSpec_remote split: option.splits)

lemma parsePortForwardArgs_Some:
  "parsePortForwardArgs args = Some tgt \<Longrightarrow>
     pft_mappings tgt \<noteq> [] \<and> list_all (\<lambda>m. pm_remote m \<noteq> 0) (pft_mappings tgt)"
  by (auto simp: parsePortForwardArgs_def simp del: parse_specs.simps dest!: parse_specs_Some
      split: list.splits prod.splits if_splits)

lemma parse_ports_remote:
  "list_all (\<lambda>m. pm_remote m \<noteq> 0) ms \<Longrightarrow>
     parse_ports (map (\<lambda>m. atoi (decimal (unat (pm_remote m)))) ms) = Inr (map (\<lambda>m. ucast (pm_remote m)) ms)"
proof (induction ms)
  case (Cons m ms)
  have "unat (pm_remote m) < 65536" using unsigned_less [of "pm_remote m", where ?'a = nat] by simp
  moreover have "0 < unat (pm_remote m)" using Cons.prems by (simp add: unat_gt_0)
  moreover have "uint (pm_remote m) \<noteq> 0" using Cons.prems by (simp add: uint_0_iff)
  moreover have "uint (pm_remote m) < 65536" using uint_lt2p [of "pm_remote m"] by simp
  moreover have "word_of_int (int (unat (pm_remote m))) = (ucast (pm_remote m) :: 32 word)"
    by simp
  ultimately show ?case using Cons by (simp add: atoi_decimal unat_16_small)
qed simp

lemma query_ports:
  "query_get (map (\<lambda>m. (''port'', f m)) ms) ''namespace'' = []"
  "query_array (map (\<lambda>m. (''port'', f m)) ms) ''port'' = map f ms"
  by (induction ms) auto

lemma pf_params_pf_query:
  "pf_params (pf_query tgt) =
     (pft_pod tgt, pft_namespace tgt, map (\<lambda>m. atoi (decimal (unat (pm_remote m)))) (pft_mappings tgt))"
  by (simp add: pf_params_def pf_query_def query_ports comp_def)


section \<open>Namespaces\<close>

lemma first_namespace_skip: "a \<noteq> ''-n'' \<Longrightarrow> a \<noteq> ''--namespace'' \<Longrightarrow> first_namespace (a # as) = first_namespace as"
  by (cases as) simp_all

lemma first_namespace_opts:
  "list_all opt_ok opts \<Longrightarrow> first_namespace (concat (map render_opt opts)) \<noteq> [] \<Longrightarrow>
     list_ex (\<lambda>opt. opt_namespace opt \<noteq> None) opts"
proof (induction opts)
  case (Cons opt opts)
  show ?case
  proof (cases "opt_namespace opt")
    case None
    then obtain a where a: "render_opt opt = [a]" "a \<noteq> ''-n''" "a \<noteq> ''--namespace''"
      using Cons.prems(1) by (cases opt) (auto simp: ns_token_def)
    then show ?thesis using Cons by (simp add: first_namespace_skip)
  qed simp
qed simp

lemma foldl_namespace_any:
  "list_ex (\<lambda>opt. opt_namespace opt \<noteq> None) opts \<Longrightarrow>
     foldl (\<lambda>acc opt. case opt_namespace opt of None \<Rightarrow> acc | Some n \<Rightarrow> n) a opts =
     foldl (\<lambda>acc opt. case opt_namespace opt of None \<Rightarrow> acc | Some n \<Rightarrow> n) b opts"
  by (induction opts arbitrary: a b) (auto split: option.splits)

lemma wanted_namespace_fallback:
  "list_ex (\<lambda>opt. opt_namespace opt \<noteq> None) opts \<Longrightarrow> wanted_namespace a opts = wanted_namespace b opts"
  using foldl_namespace_any [of opts a b] by (simp add: wanted_namespace_def)

text \<open>The options that the agent puts in front.\<close>

definition agent_opts :: "string \<Rightarrow> kubectl_opt list" where
  "agent_opts ns = (if ns \<noteq> [] then [OptN ns] else [])"

lemma kubectl_args_opts: "kubectl_args args ns = concat (map render_opt (agent_opts ns)) @ args"
  by (simp add: kubectl_args_def agent_opts_def)

lemma wanted_namespace_agent:
  "wanted_namespace ''default'' (agent_opts ns @ opts) = wanted_namespace (if ns = [] then ''default'' else ns) opts"
  by (simp add: agent_opts_def wanted_namespace_def all_namespaces_def)

lemma parse_namespace:
  assumes "list_all opt_ok (opts1 @ opts2)" and "\<not> list_ex all_namespaces opts1"
    and "list_all (\<lambda>opt. opt_namespace opt = None) opts2" and "\<not> has_prefix kind ''-''"
  shows "Namespace (parseAccessRequest cluster (verb # kind # concat (map render_opt (opts1 @ opts2))) ns) =
    wanted_namespace ''default'' (agent_opts ns @ opts1 @ opts2)"
proof -
  have "\<not> ns_token kind" using assms(4) by (cases kind) (auto simp: ns_token_def has_prefix_def)
  then show ?thesis
    using scan_namespace_rendered [OF assms(1-3)] wanted_namespace_agent [of ns "opts1 @ opts2"]
    by (simp add: parseAccessRequest_def Let_def del: scan_namespace.simps map_append concat_append)
qed


section \<open>Properties\<close>



text \<open>An interactive exec as the user types it arrives at kubectl: the client takes it for one, the query it sends is
  read back by the server without a loss, and the message that starts the session gives the agent the command
  line with exactly the pod, container, namespace and command that were typed, a terminal when one was asked
  for, and the size of the window.\<close>

theorem exec_reaches_kubectl:
  assumes "\<not> has_prefix pod ''-''"
    and "tgt = (fold exec_meaning (opts1 @ opts2) no_target)\<lparr>tgt_pod := pod, tgt_command := cmd\<rparr>"
    and "tgt_stdin tgt \<or> tgt_tty tgt" and "rows \<noteq> 0" and "cols \<noteq> 0"
  shows "parseExecArgs (''exec'' # concat (map render_exec opts1) @ pod # concat (map render_exec opts2) @ ''--'' # cmd) =
      Some tgt \<and>
    (\<exists>st. attach_message sid (attach_params (exec_query tgt rows cols)) = MsgStart st \<and> start_Tty st = tgt_tty tgt \<and>
      (tgt_tty tgt \<longrightarrow> start_Rows st = ucast rows \<and> start_Cols st = ucast cols) \<and>
      kubectl_args (start_Command st) (start_Namespace st) =
        (if tgt_namespace tgt \<noteq> [] then [''-n'', tgt_namespace tgt] else []) @ [''exec'', ''-i''] @
        (if tgt_tty tgt then [''-t''] else []) @ [pod] @
        (if tgt_container tgt \<noteq> [] then [''-c'', tgt_container tgt] else []) @ [''--''] @ cmd)"
proof (intro conjI exI)
  show "parseExecArgs (''exec'' # concat (map render_exec opts1) @ pod # concat (map render_exec opts2) @ ''--'' # cmd) = Some tgt"
    using parseExecArgs_rendered [OF assms(1)] assms(2,3) by (simp add: Let_def)
  show "attach_message sid (attach_params (exec_query tgt rows cols)) = MsgStart \<lparr>start_SessionId = sid,
      start_Command = buildExecArgs (tgt_pod tgt) (tgt_container tgt) (tgt_command tgt) (tgt_tty tgt),
      start_Namespace = tgt_namespace tgt, start_Tty = tgt_tty tgt, start_Rows = (if tgt_tty tgt then ucast rows else 0),
      start_Cols = (if tgt_tty tgt then ucast cols else 0)\<rparr>"
    using assms(4,5) by (simp add: attach_message_def attach_params_exec_query clampDim_uint)
qed (simp_all add: assms(2) kubectl_args_def buildExecArgs_def)

theorem exec_reaches_kubectl_witness:
  "\<exists>tgt st. parseExecArgs [''exec'', ''-it'', ''web'', ''-n'', ''prod'', ''--'', ''sh''] = Some tgt \<and>
     attach_message ''s1'' (attach_params (exec_query tgt 24 80)) = MsgStart st \<and>
     kubectl_args (start_Command st) (start_Namespace st) =
       [''-n'', ''prod'', ''exec'', ''-i'', ''-t'', ''web'', ''--'', ''sh'']"
proof -
  define tgt where "tgt = (fold exec_meaning ([ExBoth False] @ [ExNamespace False ''prod'']) no_target)\<lparr>tgt_pod := ''web'', tgt_command := [''sh'']\<rparr>"
  then have "tgt_stdin tgt \<or> tgt_tty tgt" by simp
  from exec_reaches_kubectl [OF _ tgt_def this, of 24 80 "''s1''"]
  obtain st where "parseExecArgs [''exec'', ''-it'', ''web'', ''-n'', ''prod'', ''--'', ''sh''] = Some tgt"
    and "attach_message ''s1'' (attach_params (exec_query tgt 24 80)) = MsgStart st"
    and "kubectl_args (start_Command st) (start_Namespace st) = [''-n'', ''prod'', ''exec'', ''-i'', ''-t'', ''web'', ''--'', ''sh'']"
    by (auto simp: has_prefix_def tgt_def no_target_def)
  then show ?thesis by blast
qed

text \<open>A port-forward that the client accepts is one that the server accepts: the query is read back as the pod, the
  namespace and the remote ports of the mappings, none of them refused, and the agent asks kubectl for exactly
  these ports.\<close>

theorem port_forward_reaches_kubectl:
  assumes "parsePortForwardArgs args = Some tgt"
  shows "\<exists>port_args ports. pf_params (pf_query tgt) = (pft_pod tgt, pft_namespace tgt, port_args) \<and>
    parse_ports port_args = Inr ports \<and> ports \<noteq> [] \<and>
    kubectl_pf_args (pft_pod tgt) (pft_namespace tgt) ports =
      [''port-forward''] @ (if pft_namespace tgt \<noteq> [] then [''-n'', pft_namespace tgt] else []) @ [pft_pod tgt] @
      map (\<lambda>m. '':'' @ decimal (unat (pm_remote m))) (pft_mappings tgt)"
proof -
  have ms: "pft_mappings tgt \<noteq> []" "list_all (\<lambda>m. pm_remote m \<noteq> 0) (pft_mappings tgt)"
    using parsePortForwardArgs_Some [OF assms] by simp_all
  have "unat (ucast w :: 32 word) = unat w" for w :: "16 word"
    using unsigned_less [of w, where ?'a = nat] by (simp add: unsigned_ucast_eq take_bit_nat_eq_self)
  then show ?thesis
    using ms parse_ports_remote [OF ms(2)] by (auto simp: pf_params_pf_query kubectl_pf_args_def)
qed

theorem port_forward_reaches_kubectl_witness:
  "\<exists>tgt ports. parsePortForwardArgs [''port-forward'', ''web'', ''8080:80''] = Some tgt \<and>
     kubectl_pf_args ''web'' [] ports = [''port-forward'', ''web'', '':80'']"
proof -
  have "parsePortSpec ''8080:80'' = Some \<lparr>pm_local = 8080, pm_remote = 80\<rparr>" by (rule port_spec_8080)
  then have p: "parsePortForwardArgs [''port-forward'', ''web'', ''8080:80''] =
      Some \<lparr>pft_namespace = [], pft_pod = ''web'', pft_mappings = [\<lparr>pm_local = 8080, pm_remote = 80\<rparr>]\<rparr>"
    by (simp add: parsePortForwardArgs_def pf_arg_def has_prefix_def)
  from port_forward_reaches_kubectl [OF p] show ?thesis
    using p decimal_8080(2) by auto
qed

end
