(* ===== verification/Cli_Client.thy ===== *)
theory Cli_Client
  imports Cli_Args
begin

text \<open>
  The HTTP client of \<open>kb\<close> (\<open>internal/cli/client.go\<close>): every call of the central server's API, with the renewal of
  an expired access token.

  A request goes to a server given as a function \<open>serve\<close> on a state, which also holds whatever else changes
  outside the client; it returns no response when the connection fails. Bodies are JSON values: the text form is
  the library's (\<open>encoding/json\<close>), whose rules for structs (names up to case, absent and null fields keep their
  value, other types are errors) are \<open>json_field\<close>. A body that is not JSON has no value and is only text.
\<close>


section \<open>Package encoding/json\<close>

datatype json = JNull | JBool bool | JNum int | JStr string | JArr "json list" | JObj "(string \<times> json) list"

text \<open>A field of a struct: the entries are read in order.\<close>

fun json_entries :: "(json \<Rightarrow> 'a option) \<Rightarrow> string \<Rightarrow> (string \<times> json) list \<Rightarrow> 'a \<Rightarrow> 'a option" where
  "json_entries dec k [] a = Some a"
| "json_entries dec k ((j, v) # es) a =
     (if equal_fold j k \<and> v \<noteq> JNull then (case dec v of None \<Rightarrow> None | Some b \<Rightarrow> json_entries dec k es b)
      else json_entries dec k es a)"

fun json_field :: "(json \<Rightarrow> 'a option) \<Rightarrow> 'a \<Rightarrow> string \<Rightarrow> json \<Rightarrow> 'a option" where
  "json_field dec a k (JObj es) = json_entries dec k es a"
| "json_field dec a k JNull = Some a"
| "json_field dec a k _ = None"

fun json_string :: "json \<Rightarrow> string option" where
  "json_string (JStr s) = Some s"
| "json_string _ = None"

fun json_bool :: "json \<Rightarrow> bool option" where
  "json_bool (JBool b) = Some b"
| "json_bool _ = None"

fun json_int :: "json \<Rightarrow> int option" where
  "json_int (JNum n) = (if - (2 ^ 63) \<le> n \<and> n < 2 ^ 63 then Some n else None)"
| "json_int _ = None"

fun json_int32 :: "json \<Rightarrow> 32 word option" where
  "json_int32 (JNum n) = (if - (2 ^ 31) \<le> n \<and> n < 2 ^ 31 then Some (word_of_int n) else None)"
| "json_int32 _ = None"

text \<open>A slice: a null element keeps the zero value.\<close>

fun json_elems :: "(json \<Rightarrow> 'a option) \<Rightarrow> 'a \<Rightarrow> json list \<Rightarrow> 'a list option" where
  "json_elems dec zero [] = Some []"
| "json_elems dec zero (v # vs) = (case (if v = JNull then Some zero else dec v) of
     None \<Rightarrow> None
   | Some a \<Rightarrow> map_option ((#) a) (json_elems dec zero vs))"

fun json_array :: "(json \<Rightarrow> 'a option) \<Rightarrow> 'a \<Rightarrow> json \<Rightarrow> 'a list option" where
  "json_array dec zero (JArr vs) = json_elems dec zero vs"
| "json_array dec zero _ = None"

text \<open>An entry that is left out when it is empty.\<close>

definition omit_empty :: "string \<Rightarrow> string \<Rightarrow> (string \<times> json) list" where
  "omit_empty k s = (if s = [] then [] else [(k, JStr s)])"


section \<open>Requests and responses\<close>

datatype http_method = GET | POST | PUT | DELETE

record HttpRequest =
  hr_Method :: http_method
  hr_Path :: string
  hr_Query :: "(string \<times> string) list"
  hr_Auth :: "string option"
  hr_Body :: "json option"

record HttpResponse =
  hp_Status :: nat
  hp_Body :: string
  hp_Json :: "json option"

type_synonym 'w server = "HttpRequest \<Rightarrow> 'w \<Rightarrow> HttpResponse option \<times> 'w"

definition new_request :: "http_method \<Rightarrow> string \<Rightarrow> json option \<Rightarrow> HttpRequest" where
  "new_request method path body =
     \<lparr>hr_Method = method, hr_Path = path, hr_Query = [], hr_Auth = None, hr_Body = body\<rparr>"

record LoginResponse =
  lr_AccessToken :: string
  lr_RefreshToken :: string
  lr_ExpiresIn :: int

definition decode_login :: "HttpResponse \<Rightarrow> LoginResponse option" where
  "decode_login r = (case hp_Json r of
     None \<Rightarrow> None
   | Some j \<Rightarrow>
       (case (json_field json_string [] ''access_token'' j, json_field json_string [] ''refresh_token'' j,
              json_field json_int 0 ''expires_in'' j) of
          (Some a, Some t, Some e) \<Rightarrow> Some \<lparr>lr_AccessToken = a, lr_RefreshToken = t, lr_ExpiresIn = e\<rparr>
        | _ \<Rightarrow> None))"


section \<open>The client and the renewal of its token\<close>

text \<open>\<open>cl_persist\<close>: new tokens are put into the configuration and saved. The configuration is viper's, in memory;
  \<open>save_ok\<close> is whether it can be written to the file.\<close>

record CentralClient =
  cl_token :: string
  cl_refreshToken :: string
  cl_persist :: bool
  cl_config :: CliConfig

definition NewCentralClient :: "CliConfig \<Rightarrow> CentralClient" where
  "NewCentralClient cfg = \<lparr>cl_token = [], cl_refreshToken = [], cl_persist = False, cl_config = cfg\<rparr>"

definition newAuthenticatedClient :: "CliConfig \<Rightarrow> CentralClient" where
  "newAuthenticatedClient cfg =
     \<lparr>cl_token = conf_token cfg, cl_refreshToken = conf_refresh_token cfg, cl_persist = True, cl_config = cfg\<rparr>"

definition set_tokens :: "string \<Rightarrow> string \<Rightarrow> CliConfig \<Rightarrow> CliConfig" where
  "set_tokens access refresh cfg = cfg\<lparr>conf_token := access, conf_refresh_token := refresh\<rparr>"

definition refresh_json :: "string \<Rightarrow> json" where
  "refresh_json t = JObj [(''refresh_token'', JStr t)]"

definition cl_Refresh ::
  "'w server \<Rightarrow> bool \<Rightarrow> CentralClient \<Rightarrow> 'w \<Rightarrow> string option \<times> CentralClient \<times> 'w" where
  "cl_Refresh serve save_ok c w =
     (case serve (new_request POST ''/auth/refresh'' (Some (refresh_json (cl_refreshToken c)))) w of
        (None, w1) \<Rightarrow> (Some ''refresh request failed'', c, w1)
      | (Some r, w1) \<Rightarrow>
          if hp_Status r \<noteq> 200 then (Some (''refresh failed with status '' @ decimal (hp_Status r)), c, w1)
          else (case decode_login r of
              None \<Rightarrow> (Some ''decoding refresh response'', c, w1)
            | Some lr \<Rightarrow>
                let c1 = c\<lparr>cl_token := lr_AccessToken lr, cl_refreshToken := lr_RefreshToken lr\<rparr> in
                if cl_persist c then
                  (if save_ok then None else Some ''saving config'',
                   c1\<lparr>cl_config := set_tokens (lr_AccessToken lr) (lr_RefreshToken lr) (cl_config c)\<rparr>, w1)
                else (None, c1, w1)))"

text \<open>\<open>send\<close> puts the header into the request itself, which the retry clones.\<close>

definition with_token :: "CentralClient \<Rightarrow> HttpRequest \<Rightarrow> HttpRequest" where
  "with_token c req = (if cl_token c \<noteq> [] then req\<lparr>hr_Auth := Some (''Bearer '' @ cl_token c)\<rparr> else req)"

definition cl_send :: "'w server \<Rightarrow> CentralClient \<Rightarrow> HttpRequest \<Rightarrow> 'w \<Rightarrow> HttpResponse option \<times> 'w" where
  "cl_send serve c req w = serve (with_token c req) w"

definition auth_required :: string where
  "auth_required = ''authentication required: run 'kb login' first''"

definition doRequest ::
  "'w server \<Rightarrow> bool \<Rightarrow> HttpRequest \<Rightarrow> CentralClient \<Rightarrow> 'w \<Rightarrow> (string + HttpResponse) \<times> CentralClient \<times> 'w" where
  "doRequest serve save_ok req c w =
     (case cl_send serve c req w of
        (None, w1) \<Rightarrow> (Inl ''request failed'', c, w1)
      | (Some r, w1) \<Rightarrow>
          if hp_Status r = 401 \<and> cl_refreshToken c \<noteq> [] then
            (case cl_Refresh serve save_ok c w1 of
               (Some e, c2, w2) \<Rightarrow> (Inl auth_required, c2, w2)
             | (None, c2, w2) \<Rightarrow>
                 (case cl_send serve c2 (with_token c req) w2 of
                    (None, w3) \<Rightarrow> (Inl ''request failed'', c2, w3)
                  | (Some r3, w3) \<Rightarrow>
                      (if hp_Status r3 = 401 then Inl auth_required else Inr r3, c2, w3)))
          else (if hp_Status r = 401 then Inl auth_required else Inr r, c, w1))"


section \<open>The calls\<close>

definition cl_Login :: "'w server \<Rightarrow> string \<Rightarrow> string \<Rightarrow> 'w \<Rightarrow> (string + LoginResponse) \<times> 'w" where
  "cl_Login serve email password w =
     (case serve (new_request POST ''/auth/login''
          (Some (JObj [(''email'', JStr email), (''password'', JStr password)]))) w of
        (None, w1) \<Rightarrow> (Inl ''request failed'', w1)
      | (Some r, w1) \<Rightarrow>
          (if hp_Status r = 401 then Inl ''invalid email or password''
           else if hp_Status r = 403 then Inl ''account is disabled''
           else if hp_Status r \<noteq> 200 then Inl (''login failed: '' @ hp_Body r)
           else case decode_login r of None \<Rightarrow> Inl ''decoding response'' | Some lr \<Rightarrow> Inr lr, w1))"

text \<open>The status of the response to a logout is not looked at.\<close>

definition cl_Logout :: "'w server \<Rightarrow> bool \<Rightarrow> string \<Rightarrow> CentralClient \<Rightarrow> 'w \<Rightarrow> string option \<times> CentralClient \<times> 'w" where
  "cl_Logout serve save_ok token c w =
     (case doRequest serve save_ok
          (new_request POST ''/api/v1/auth/logout'' (Some (refresh_json token))) c w of
        (Inl e, c1, w1) \<Rightarrow> (Some e, c1, w1)
      | (Inr _, c1, w1) \<Rightarrow> (None, c1, w1))"

text \<open>What the other calls make of the response: the statuses with a message of their own, the one that is good,
  and the decoding of the body.\<close>

definition expect ::
  "(nat \<times> string) list \<Rightarrow> nat \<Rightarrow> (json \<Rightarrow> 'a option) \<Rightarrow> (string + HttpResponse) \<times> CentralClient \<times> 'w \<Rightarrow>
     (string + 'a) \<times> CentralClient \<times> 'w" where
  "expect special good dec rcw = (case rcw of
     (Inl e, c, w) \<Rightarrow> (Inl e, c, w)
   | (Inr r, c, w) \<Rightarrow>
       ((case map_of special (hp_Status r) of
           Some e \<Rightarrow> Inl e
         | None \<Rightarrow>
             if hp_Status r \<noteq> good then Inl (''server returned '' @ decimal (hp_Status r) @ '': '' @ hp_Body r)
             else case hp_Json r of
               None \<Rightarrow> Inl ''decoding response''
             | Some j \<Rightarrow> (case dec j of None \<Rightarrow> Inl ''decoding response'' | Some a \<Rightarrow> Inr a)), c, w))"

definition admin_required :: "nat \<times> string" where
  "admin_required = (403, ''admin role required'')"

record ClusterInfo =
  ci_Name :: string
  ci_Status :: string

definition decode_cluster :: "json \<Rightarrow> ClusterInfo option" where
  "decode_cluster j = (case (json_field json_string [] ''name'' j, json_field json_string [] ''status'' j) of
     (Some n, Some s) \<Rightarrow> Some \<lparr>ci_Name = n, ci_Status = s\<rparr>
   | _ \<Rightarrow> None)"

definition cl_ListClusters ::
  "'w server \<Rightarrow> bool \<Rightarrow> CentralClient \<Rightarrow> 'w \<Rightarrow> (string + ClusterInfo list) \<times> CentralClient \<times> 'w" where
  "cl_ListClusters serve save_ok c w =
     expect [] 200 (json_field (json_array decode_cluster \<lparr>ci_Name = [], ci_Status = []\<rparr>) [] ''clusters'')
       (doRequest serve save_ok (new_request GET ''/api/v1/clusters'' None) c w)"

definition cl_GetCluster ::
  "'w server \<Rightarrow> bool \<Rightarrow> string \<Rightarrow> CentralClient \<Rightarrow> 'w \<Rightarrow> (string + ClusterInfo) \<times> CentralClient \<times> 'w" where
  "cl_GetCluster serve save_ok name c w =
     (case cl_ListClusters serve save_ok c w of
        (Inl e, cw) \<Rightarrow> (Inl e, cw)
      | (Inr cs, cw) \<Rightarrow>
          (case find (\<lambda>ci. ci_Name ci = name) cs of
             None \<Rightarrow> (Inl (''cluster '' @ quoted name @ '' not found''), cw)
           | Some ci \<Rightarrow> (Inr ci, cw)))"

record UserInfo =
  ui_ID :: string
  ui_Email :: string
  ui_Name :: string
  ui_IsActive :: bool
  ui_IsAdmin :: bool
  ui_CreatedAt :: string

definition decode_user :: "json \<Rightarrow> UserInfo option" where
  "decode_user j =
     (case (json_field json_string [] ''id'' j, json_field json_string [] ''email'' j, json_field json_string [] ''name'' j,
            json_field json_bool False ''is_active'' j, json_field json_bool False ''is_admin'' j,
            json_field json_string [] ''created_at'' j) of
        (Some i, Some e, Some n, Some act, Some adm, Some cr) \<Rightarrow>
          Some \<lparr>ui_ID = i, ui_Email = e, ui_Name = n, ui_IsActive = act, ui_IsAdmin = adm, ui_CreatedAt = cr\<rparr>
      | _ \<Rightarrow> None)"

definition no_user :: UserInfo where
  "no_user = \<lparr>ui_ID = [], ui_Email = [], ui_Name = [], ui_IsActive = False, ui_IsAdmin = False, ui_CreatedAt = []\<rparr>"

definition cl_ListUsers ::
  "'w server \<Rightarrow> bool \<Rightarrow> CentralClient \<Rightarrow> 'w \<Rightarrow> (string + UserInfo list) \<times> CentralClient \<times> 'w" where
  "cl_ListUsers serve save_ok c w =
     expect [admin_required] 200 (json_field (json_array decode_user no_user) [] ''users'')
       (doRequest serve save_ok (new_request GET ''/api/v1/admin/users'' None) c w)"

definition cl_CreateUser ::
  "'w server \<Rightarrow> bool \<Rightarrow> string \<Rightarrow> string \<Rightarrow> string \<Rightarrow> CentralClient \<Rightarrow> 'w \<Rightarrow> (string + UserInfo) \<times> CentralClient \<times> 'w" where
  "cl_CreateUser serve save_ok email name password c w =
     expect [(409, ''a user with email '' @ quoted email @ '' already exists''), admin_required] 201 decode_user
       (doRequest serve save_ok (new_request POST ''/api/v1/admin/users''
          (Some (JObj [(''email'', JStr email), (''name'', JStr name), (''password'', JStr password)]))) c w)"

record AuditLogInfo =
  al_UserEmail :: string
  al_ClusterName :: string
  al_Command :: string
  al_Namespace :: string
  al_Status :: string
  al_ExitCode :: "32 word option"
  al_CreatedAt :: string

definition decode_audit :: "json \<Rightarrow> AuditLogInfo option" where
  "decode_audit j =
     (case (json_field json_string [] ''user_email'' j, json_field json_string [] ''cluster_name'' j,
            json_field json_string [] ''command'' j, json_field json_string [] ''namespace'' j,
            json_field json_string [] ''status'' j,
            json_field (\<lambda>v. map_option Some (json_int32 v)) None ''exit_code'' j,
            json_field json_string [] ''created_at'' j) of
        (Some u, Some cl, Some cmd, Some ns, Some st, Some ec, Some cr) \<Rightarrow>
          Some \<lparr>al_UserEmail = u, al_ClusterName = cl, al_Command = cmd, al_Namespace = ns, al_Status = st,
            al_ExitCode = ec, al_CreatedAt = cr\<rparr>
      | _ \<Rightarrow> None)"

definition no_audit :: AuditLogInfo where
  "no_audit = \<lparr>al_UserEmail = [], al_ClusterName = [], al_Command = [], al_Namespace = [], al_Status = [],
     al_ExitCode = None, al_CreatedAt = []\<rparr>"

text \<open>The filters that are not empty are the query.\<close>

definition ListAuditLogs ::
  "'w server \<Rightarrow> bool \<Rightarrow> (string \<times> string) list \<Rightarrow> CentralClient \<Rightarrow> 'w \<Rightarrow>
     (string + AuditLogInfo list \<times> int) \<times> CentralClient \<times> 'w" where
  "ListAuditLogs serve save_ok filters c w =
     expect [admin_required] 200
       (\<lambda>j. case (json_field (json_array decode_audit no_audit) [] ''logs'' j, json_field json_int 0 ''total'' j) of
          (Some logs, Some n) \<Rightarrow> Some (logs, n)
        | _ \<Rightarrow> None)
       (doRequest serve save_ok
          ((new_request GET ''/api/v1/admin/audit'' None)\<lparr>hr_Query := filter (\<lambda>e. snd e \<noteq> []) filters\<rparr>) c w)"

record AgentTokenInfo =
  ti_ID :: string
  ti_ClusterName :: string
  ti_TokenPrefix :: string
  ti_Description :: string
  ti_IsRevoked :: bool
  ti_Token :: string
  ti_CreatedAt :: string

definition decode_token :: "json \<Rightarrow> AgentTokenInfo option" where
  "decode_token j =
     (case (json_field json_string [] ''id'' j, json_field json_string [] ''cluster_name'' j,
            json_field json_string [] ''token_prefix'' j, json_field json_string [] ''description'' j,
            json_field json_bool False ''is_revoked'' j, json_field json_string [] ''token'' j,
            json_field json_string [] ''created_at'' j) of
        (Some i, Some cl, Some p, Some d, Some rvk, Some t, Some cr) \<Rightarrow>
          Some \<lparr>ti_ID = i, ti_ClusterName = cl, ti_TokenPrefix = p, ti_Description = d, ti_IsRevoked = rvk,
            ti_Token = t, ti_CreatedAt = cr\<rparr>
      | _ \<Rightarrow> None)"

definition no_token :: AgentTokenInfo where
  "no_token = \<lparr>ti_ID = [], ti_ClusterName = [], ti_TokenPrefix = [], ti_Description = [], ti_IsRevoked = False,
     ti_Token = [], ti_CreatedAt = []\<rparr>"

definition cl_CreateAgentToken ::
  "'w server \<Rightarrow> bool \<Rightarrow> string \<Rightarrow> string \<Rightarrow> int \<Rightarrow> CentralClient \<Rightarrow> 'w \<Rightarrow>
     (string + AgentTokenInfo) \<times> CentralClient \<times> 'w" where
  "cl_CreateAgentToken serve save_ok cluster description days c w =
     expect [admin_required] 201 decode_token
       (doRequest serve save_ok (new_request POST ''/api/v1/admin/agent-tokens''
          (Some (JObj ([(''cluster_name'', JStr cluster)] @ omit_empty ''description'' description @
             (if days > 0 then [(''expires_in_days'', JNum days)] else []))))) c w)"

definition cl_ListAgentTokens ::
  "'w server \<Rightarrow> bool \<Rightarrow> string \<Rightarrow> CentralClient \<Rightarrow> 'w \<Rightarrow> (string + AgentTokenInfo list) \<times> CentralClient \<times> 'w" where
  "cl_ListAgentTokens serve save_ok cluster c w =
     expect [admin_required] 200 (json_field (json_array decode_token no_token) [] ''tokens'')
       (doRequest serve save_ok
          ((new_request GET ''/api/v1/admin/agent-tokens'' None)
             \<lparr>hr_Query := (if cluster \<noteq> [] then [(''cluster'', cluster)] else [])\<rparr>) c w)"

definition cl_RevokeAgentToken ::
  "'w server \<Rightarrow> bool \<Rightarrow> string \<Rightarrow> CentralClient \<Rightarrow> 'w \<Rightarrow> string option \<times> CentralClient \<times> 'w" where
  "cl_RevokeAgentToken serve save_ok i c w =
     (case doRequest serve save_ok (new_request DELETE (''/api/v1/admin/agent-tokens/'' @ i) None) c w of
        (Inl e, cw) \<Rightarrow> (Some e, cw)
      | (Inr r, cw) \<Rightarrow>
          (if hp_Status r = 403 then Some ''admin role required''
           else if hp_Status r \<noteq> 200 then Some (''server returned '' @ decimal (hp_Status r) @ '': '' @ hp_Body r)
           else None, cw))"

definition CheckHealth :: "'w server \<Rightarrow> 'w \<Rightarrow> string option \<times> 'w" where
  "CheckHealth serve w = (case serve (new_request GET ''/health'' None) w of
     (None, w1) \<Rightarrow> (Some ''health check failed'', w1)
   | (Some r, w1) \<Rightarrow> (if hp_Status r \<noteq> 200 then Some (''health check returned status '' @ decimal (hp_Status r)) else None, w1))"


section \<open>Commands\<close>

record ClientExecResponse =
  cx_Output :: string
  cx_ExitCode :: "32 word"
  cx_Error :: string

text \<open>A nil slice is the JSON null; the commands here come from an argument list, which is not nil.\<close>

definition exec_body :: "string list \<Rightarrow> string \<Rightarrow> int \<Rightarrow> string \<Rightarrow> json" where
  "exec_body command namespace timeout stdin =
     JObj ([(''command'', JArr (map JStr command))] @ omit_empty ''namespace'' namespace @
       (if timeout \<noteq> 0 then [(''timeout'', JNum timeout)] else []) @ omit_empty ''stdin'' stdin)"

definition decode_exec :: "json \<Rightarrow> ClientExecResponse option" where
  "decode_exec j =
     (case (json_field json_string [] ''output'' j, json_field json_int32 0 ''exit_code'' j,
            json_field json_string [] ''error'' j) of
        (Some out, Some code, Some err) \<Rightarrow> Some \<lparr>cx_Output = out, cx_ExitCode = code, cx_Error = err\<rparr>
      | _ \<Rightarrow> None)"

definition parseExecResponse :: "string \<Rightarrow> HttpResponse \<Rightarrow> string + ClientExecResponse" where
  "parseExecResponse cluster r =
     (if hp_Status r = 404 then Inl (''cluster '' @ quoted cluster @ '' not found'')
      else if hp_Status r = 503 then Inl (''cluster '' @ quoted cluster @ '' agent is disconnected'')
      else if hp_Status r = 504 then Inl ''command execution timed out''
      else case (case hp_Json r of None \<Rightarrow> None | Some j \<Rightarrow> decode_exec j) of
          None \<Rightarrow>
            if hp_Status r \<noteq> 200 then Inl (''server returned '' @ decimal (hp_Status r) @ '': '' @ hp_Body r)
            else Inl ''failed to decode response''
        | Some x \<Rightarrow> Inr x)"

definition ExecCommandWithStdin ::
  "'w server \<Rightarrow> bool \<Rightarrow> string \<Rightarrow> string list \<Rightarrow> string \<Rightarrow> int \<Rightarrow> string \<Rightarrow> CentralClient \<Rightarrow> 'w \<Rightarrow>
     (string + ClientExecResponse) \<times> CentralClient \<times> 'w" where
  "ExecCommandWithStdin serve save_ok cluster command namespace timeout stdin c w =
     (case doRequest serve save_ok (new_request POST (''/api/v1/clusters/'' @ cluster @ ''/exec'')
          (Some (exec_body command namespace timeout stdin))) c w of
        (Inl e, cw) \<Rightarrow> (Inl e, cw)
      | (Inr r, cw) \<Rightarrow> (parseExecResponse cluster r, cw))"

definition ExecCommand ::
  "'w server \<Rightarrow> bool \<Rightarrow> string \<Rightarrow> string list \<Rightarrow> string \<Rightarrow> int \<Rightarrow> CentralClient \<Rightarrow> 'w \<Rightarrow>
     (string + ClientExecResponse) \<times> CentralClient \<times> 'w" where
  "ExecCommand serve save_ok cluster command namespace timeout c w =
     (case doRequest serve save_ok (new_request POST (''/api/v1/clusters/'' @ cluster @ ''/exec'')
          (Some (exec_body command namespace timeout []))) c w of
        (Inl e, cw) \<Rightarrow> (Inl e, cw)
      | (Inr r, cw) \<Rightarrow> (parseExecResponse cluster r, cw))"

text \<open>Streaming: \<open>ctx_err\<close> is whether the user has interrupted when a request fails or the copying ends; the bytes
  that are written out are the result, with the error if any.\<close>

definition stream_request :: "string \<Rightarrow> string list \<Rightarrow> string \<Rightarrow> string \<Rightarrow> HttpRequest" where
  "stream_request cluster command namespace token =
     (new_request POST (''/api/v1/clusters/'' @ cluster @ ''/stream'') (Some (exec_body command namespace 0 [])))
       \<lparr>hr_Auth := (if token \<noteq> [] then Some (''Bearer '' @ token) else None)\<rparr>"

definition stream_outcome :: "string \<Rightarrow> bool \<Rightarrow> string option \<Rightarrow> HttpResponse \<Rightarrow> string option \<times> string" where
  "stream_outcome cluster ctx_err copy_err r =
     (if hp_Status r = 200 then (if ctx_err then None else copy_err, hp_Body r)
      else if hp_Status r = 401 then (Some auth_required, [])
      else if hp_Status r = 403 then (Some ''permission denied'', [])
      else if hp_Status r = 404 then (Some (''cluster '' @ quoted cluster @ '' not found''), [])
      else if hp_Status r = 503 then (Some (''cluster '' @ quoted cluster @ '' cannot stream right now''), [])
      else if hp_Status r = 429 then (Some ''too many concurrent streams; try again later'', [])
      else (Some (''server returned '' @ decimal (hp_Status r) @ '': '' @ hp_Body r), []))"

definition StreamCommand ::
  "'w server \<Rightarrow> bool \<Rightarrow> bool \<Rightarrow> string option \<Rightarrow> string \<Rightarrow> string list \<Rightarrow> string \<Rightarrow> CentralClient \<Rightarrow> 'w \<Rightarrow>
     (string option \<times> string) \<times> CentralClient \<times> 'w" where
  "StreamCommand serve save_ok ctx_err copy_err cluster command namespace c w =
     (let failed = (if ctx_err then None else Some ''request failed'', []) in
      case serve (stream_request cluster command namespace (cl_token c)) w of
        (None, w1) \<Rightarrow> (failed, c, w1)
      | (Some r, w1) \<Rightarrow>
          if hp_Status r = 401 \<and> cl_refreshToken c \<noteq> [] then
            (case cl_Refresh serve save_ok c w1 of
               (Some e, c2, w2) \<Rightarrow> ((Some auth_required, []), c2, w2)
             | (None, c2, w2) \<Rightarrow>
                 (case serve (stream_request cluster command namespace (cl_token c2)) w2 of
                    (None, w3) \<Rightarrow> (failed, c2, w3)
                  | (Some r3, w3) \<Rightarrow> (stream_outcome cluster ctx_err copy_err r3, c2, w3)))
          else (stream_outcome cluster ctx_err copy_err r, c, w1))"



section \<open>The contract of a server whose tokens can be renewed\<close>

text \<open>
  What the client relies on: a guarded request with an access token that is not accepted is refused with 401 and
  leaves the refresh token good for the next request; the refresh returns a pair of tokens of which the access
  token is accepted by then; and an accepted request is not answered with 401.
\<close>

definition refresh_request :: "string \<Rightarrow> HttpRequest" where
  "refresh_request t = new_request POST ''/auth/refresh'' (Some (refresh_json t))"

definition bearer :: "string \<Rightarrow> HttpRequest \<Rightarrow> HttpRequest" where
  "bearer tok rq = rq\<lparr>hr_Auth := Some (''Bearer '' @ tok)\<rparr>"

locale token_service =
  fixes serve :: "'w server"
    and guarded :: "HttpRequest \<Rightarrow> bool"
    and accepts :: "'w \<Rightarrow> string \<Rightarrow> bool"
    and renews :: "'w \<Rightarrow> string \<Rightarrow> bool"
    and renewable :: "'w \<Rightarrow> string \<Rightarrow> bool"
    and view :: "'w \<Rightarrow> 'v"
  assumes refused: "guarded rq \<Longrightarrow> \<not> accepts w tok \<Longrightarrow> renewable w t \<Longrightarrow>
      \<exists>r w1. serve (bearer tok rq) w = (Some r, w1) \<and> hp_Status r = 401 \<and> renews w1 t \<and>
        view w1 = view w"
    and accepted: "guarded rq \<Longrightarrow> accepts w tok \<Longrightarrow> serve (bearer tok rq) w = (Some r, w1) \<Longrightarrow> hp_Status r \<noteq> 401"
    and renewed: "renews w t \<Longrightarrow> t \<noteq> [] \<Longrightarrow>
      \<exists>r lr w1. serve (refresh_request t) w = (Some r, w1) \<and> hp_Status r = 200 \<and> decode_login r = Some lr \<and>
        lr_AccessToken lr \<noteq> [] \<and> accepts w1 (lr_AccessToken lr) \<and> view w1 = view w"
begin

lemma cl_Refresh_renews:
  assumes "renews w (cl_refreshToken c)" and "cl_refreshToken c \<noteq> []"
  obtains c1 w1 where "cl_Refresh serve True c w = (None, c1, w1)" and "cl_token c1 \<noteq> []" and "accepts w1 (cl_token c1)"
    and "view w1 = view w"
    and "cl_persist c \<Longrightarrow> cl_config c1 = set_tokens (cl_token c1) (cl_refreshToken c1) (cl_config c)"
proof -
  obtain r lr w1 where "serve (refresh_request (cl_refreshToken c)) w = (Some r, w1)" "hp_Status r = 200"
      "decode_login r = Some lr" "lr_AccessToken lr \<noteq> []" "accepts w1 (lr_AccessToken lr)"
      "view w1 = view w"
    using renewed [OF assms] by blast
  then show thesis
    by (intro that [of "let c1 = c\<lparr>cl_token := lr_AccessToken lr, cl_refreshToken := lr_RefreshToken lr\<rparr> in
        if cl_persist c then c1\<lparr>cl_config := set_tokens (lr_AccessToken lr) (lr_RefreshToken lr) (cl_config c)\<rparr> else c1" w1])
      (simp_all add: cl_Refresh_def refresh_request_def Let_def)
qed

text \<open>The renewal is transparent: a guarded request is answered as the server answers it with an accepted token, and
  the client never asks the user to log in.\<close>

lemma doRequest_renewed:
  assumes "guarded rq" and "cl_token c \<noteq> []" and "cl_refreshToken c \<noteq> []" and "renewable w (cl_refreshToken c)"
  obtains c2 w2 where "accepts w2 (cl_token c2)" and "view w2 = view w"
    and "doRequest serve True rq c w = (case serve (bearer (cl_token c2) rq) w2 of
        (None, w3) \<Rightarrow> (Inl ''request failed'', c2, w3) | (Some r, w3) \<Rightarrow> (Inr r, c2, w3))"
    and "accepts w (cl_token c) \<Longrightarrow> c2 = c \<and> w2 = w"
    and "cl_persist c \<Longrightarrow> conf_token (cl_config c) = cl_token c \<Longrightarrow> conf_token (cl_config c2) = cl_token c2"
proof (cases "accepts w (cl_token c)")
  case True
  have "doRequest serve True rq c w = (case serve (bearer (cl_token c) rq) w of
        (None, w3) \<Rightarrow> (Inl ''request failed'', c, w3) | (Some r, w3) \<Rightarrow> (Inr r, c, w3))"
    using accepted [OF assms(1) True] assms(2)
    by (auto simp: doRequest_def cl_send_def with_token_def bearer_def split: prod.splits option.splits)
  then show thesis using True by (intro that [of w c]) simp_all
next
  case False
  obtain r w1 where r: "serve (bearer (cl_token c) rq) w = (Some r, w1)" "hp_Status r = 401" "renews w1 (cl_refreshToken c)"
      "view w1 = view w"
    using refused [OF assms(1) False assms(4)] by blast
  obtain c2 w2 where c2: "cl_Refresh serve True c w1 = (None, c2, w2)" "cl_token c2 \<noteq> []" "accepts w2 (cl_token c2)" "view w2 = view w1"
      "cl_persist c \<Longrightarrow> cl_config c2 = set_tokens (cl_token c2) (cl_refreshToken c2) (cl_config c)"
    using cl_Refresh_renews [OF r(3) assms(3)] by metis
  have "doRequest serve True rq c w = (case serve (bearer (cl_token c2) rq) w2 of
        (None, w3) \<Rightarrow> (Inl ''request failed'', c2, w3) | (Some r, w3) \<Rightarrow> (Inr r, c2, w3))"
    using accepted [OF assms(1) c2(3)] r(1,2) assms(2,3) c2(1,2)
    by (auto simp: doRequest_def cl_send_def with_token_def bearer_def split: prod.splits option.splits)
  then show thesis using c2(3-5) r(4) False by (intro that [of w2 c2]) (simp_all add: set_tokens_def)
qed

end

end
