(* ===== verification/Cli_Commands.thy ===== *)
theory Cli_Commands
  imports Cli_Client
begin

text \<open>
  The commands of \<open>kb\<close> on top of the client (theory Cli_Client): the one-shot and the streaming kubectl command of
  \<open>internal/cli/kubectl.go\<close>, the edit workflow of \<open>edit.go\<close>, and the commands of \<open>login.go\<close>, \<open>logout.go\<close>,
  \<open>clusters.go\<close>, \<open>status.go\<close> and \<open>admin.go\<close>.

  A command ends with what it printed and its exit code; an error that a command returns is printed by the main
  program, which exits with 1. What is printed is a list of pieces, without their line ends. Tables are printed through
  the library's tab writer; here their rows are lines of cells.
\<close>

record outcome =
  oc_out :: "string list"
  oc_err :: string
  oc_exit :: int

definition succeeds :: "string list \<Rightarrow> outcome" where
  "succeeds out = \<lparr>oc_out = out, oc_err = [], oc_exit = 0\<rparr>"

definition fails :: "string \<Rightarrow> outcome" where
  "fails err = \<lparr>oc_out = [], oc_err = err, oc_exit = 1\<rparr>"

definition prints :: "string list \<Rightarrow> outcome \<Rightarrow> outcome" where
  "prints out oc = oc\<lparr>oc_out := out @ oc_out oc\<rparr>"

definition no_central_url :: string where
  "no_central_url = ''central URL not configured. Run 'kb login' first or set central_url''"

definition defaultKubectlTimeout :: int where
  "defaultKubectlTimeout = 300"


section \<open>Kubectl commands\<close>

definition exec_outcome :: "string + ClientExecResponse \<Rightarrow> outcome" where
  "exec_outcome res = (case res of
     Inl e \<Rightarrow> fails e
   | Inr x \<Rightarrow> \<lparr>oc_out = (if cx_Output x \<noteq> [] then [cx_Output x] else []),
       oc_err = (if cx_Error x \<noteq> [] then ''Error: '' @ cx_Error x else []), oc_exit = sint (cx_ExitCode x)\<rparr>)"

definition run_once ::
  "'w server \<Rightarrow> bool \<Rightarrow> CliConfig \<Rightarrow> string list \<Rightarrow> string \<Rightarrow> 'w \<Rightarrow> outcome \<times> CentralClient \<times> 'w" where
  "run_once serve save_ok cfg args ns w =
     (case ExecCommand serve save_ok (current_cluster cfg) args ns defaultKubectlTimeout (newAuthenticatedClient cfg) w of
        (res, cw) \<Rightarrow> (exec_outcome res, cw))"

definition run_stream where
  "run_stream serve save_ok ctx_err copy_err cfg args ns w =
     (case StreamCommand serve save_ok ctx_err copy_err (current_cluster cfg) args ns (newAuthenticatedClient cfg) w of
        ((err, out), cw) \<Rightarrow>
          ((case err of
              None \<Rightarrow> succeeds [out]
            | Some e \<Rightarrow> \<lparr>oc_out = [out], oc_err = e, oc_exit = 1\<rparr>), cw))"


section \<open>Edit\<close>

definition resource_arg :: "EditHandler \<Rightarrow> string" where
  "resource_arg h = resourceType h @ ''/'' @ resourceName h"

definition fetchResource ::
  "'w server \<Rightarrow> bool \<Rightarrow> string \<Rightarrow> EditHandler \<Rightarrow> CentralClient \<Rightarrow> 'w \<Rightarrow> (string + string) \<times> CentralClient \<times> 'w" where
  "fetchResource serve save_ok cluster h c w =
     (case ExecCommand serve save_ok cluster ([''get'', resource_arg h, ''-o'', ''yaml''] @ additionalArgs h)
          (eh_namespace h) defaultKubectlTimeout c w of
        (Inl e, cw) \<Rightarrow> (Inl e, cw)
      | (Inr x, cw) \<Rightarrow>
          (if cx_ExitCode x \<noteq> 0 then
             Inl (if cx_Error x \<noteq> [] then cx_Error x
               else if cx_Output x \<noteq> [] then trim_space (cx_Output x)
               else ''command failed with exit code '' @ itoa (sint (cx_ExitCode x)))
           else Inr (cx_Output x), cw))"

text \<open>How far the work with a temporary file goes: what fails, if anything does.\<close>

datatype file_failure = CreateFails | WriteFails | ReadFails

definition applyChanges ::
  "'w server \<Rightarrow> bool \<Rightarrow> file_failure option \<Rightarrow> string \<Rightarrow> EditHandler \<Rightarrow> string \<Rightarrow> CentralClient \<Rightarrow> 'w \<Rightarrow>
     string list \<times> string option \<times> CentralClient \<times> 'w" where
  "applyChanges serve save_ok file cluster h content c w = (case file of
     Some CreateFails \<Rightarrow> ([], Some ''failed to create temp file'', c, w)
   | Some WriteFails \<Rightarrow> ([], Some ''failed to write temp file'', c, w)
   | Some ReadFails \<Rightarrow> ([], Some ''failed to read temp file'', c, w)
   | None \<Rightarrow>
       (case ExecCommandWithStdin serve save_ok cluster [''apply'', ''-f'', ''-''] (eh_namespace h)
            defaultKubectlTimeout content c w of
          (Inl e, cw) \<Rightarrow> ([], Some e, cw)
        | (Inr x, cw) \<Rightarrow>
            (if cx_Output x \<noteq> [] then [cx_Output x] else [],
             if cx_ExitCode x \<noteq> 0 then
               Some (if cx_Error x \<noteq> [] then cx_Error x
                 else ''apply failed with exit code '' @ itoa (sint (cx_ExitCode x)))
             else None, cw)))"

text \<open>The pattern of a temporary file must not have a path separator.\<close>

definition createTempFile :: "file_failure option \<Rightarrow> EditHandler \<Rightarrow> bool" where
  "createTempFile file h =
     (CHR ''/'' \<notin> set (''kbridge-edit-'' @ resourceType h @ ''-'' @ resourceName h @ ''-*.yaml'') \<and>
      file \<noteq> Some CreateFails \<and> file \<noteq> Some WriteFails)"

definition getEditor :: "(string \<Rightarrow> string) \<Rightarrow> string" where
  "getEditor env =
     (if env ''KUBE_EDITOR'' \<noteq> [] then env ''KUBE_EDITOR''
      else if env ''EDITOR'' \<noteq> [] then env ''EDITOR''
      else if env ''VISUAL'' \<noteq> [] then env ''VISUAL''
      else ''vi'')"

text \<open>\<open>run\<close> is the user with the named editor: the content of the file afterwards, or an error.\<close>

definition openEditor :: "(string \<Rightarrow> string) \<Rightarrow> (string \<Rightarrow> string \<Rightarrow> string + string) \<Rightarrow> string \<Rightarrow> string + string" where
  "openEditor env run content = run (getEditor env) content"

text \<open>\<open>file\<close> and \<open>file2\<close>: the temporary files of the editor and of the changes.\<close>

definition edit_Execute ::
  "'w server \<Rightarrow> bool \<Rightarrow> file_failure option \<Rightarrow> file_failure option \<Rightarrow> (string \<Rightarrow> string + string) \<Rightarrow> string \<Rightarrow> EditHandler \<Rightarrow>
     CentralClient \<Rightarrow> 'w \<Rightarrow> outcome \<times> CentralClient \<times> 'w" where
  "edit_Execute serve save_ok file file2 editor cluster h c w =
     (case fetchResource serve save_ok cluster h c w of
        (Inl e, cw) \<Rightarrow> (fails (''failed to fetch resource: '' @ e), cw)
      | (Inr yaml, c1, w1) \<Rightarrow>
          if \<not> createTempFile file h then (fails ''failed to create temp file'', c1, w1)
          else (case editor yaml of
              Inl e \<Rightarrow> (fails (''failed to open editor: '' @ e), c1, w1)
            | Inr modified \<Rightarrow>
                if file = Some ReadFails then (fails ''failed to read modified file'', c1, w1)
                else if modified = yaml then (succeeds [''Edit cancelled, no changes made.''], c1, w1)
                else (case applyChanges serve save_ok file2 cluster h modified c1 w1 of
                    (out, None, cw) \<Rightarrow> (succeeds out, cw)
                  | (out, Some e, cw) \<Rightarrow>
                      (\<lparr>oc_out = out, oc_err = ''failed to apply changes: '' @ e, oc_exit = 1\<rparr>, cw))))"

text \<open>What else names the resource.\<close>

definition resourceIdentifier :: "EditHandler \<Rightarrow> string" where
  "resourceIdentifier h =
     (let i = resource_arg h
      in if eh_namespace h \<noteq> [] then i @ '' (namespace: '' @ eh_namespace h @ '')'' else i)"

definition no_slashes :: "string \<Rightarrow> string" where
  "no_slashes s = map (\<lambda>ch. if ch = CHR ''/'' then CHR ''-'' else ch) s"

definition temp_name :: "EditHandler \<Rightarrow> string" where
  "temp_name h = ''kbridge-edit-'' @ no_slashes (resourceType h) @ ''-'' @ no_slashes (resourceName h) @ ''.yaml''"


section \<open>Sessions of the user\<close>

text \<open>\<open>line\<close> is what was typed for the e-mail address, \<open>None\<close> an error of the terminal. The configuration after the
  command is the one in memory.\<close>

definition runLogin ::
  "'w server \<Rightarrow> bool \<Rightarrow> string option \<Rightarrow> string option \<Rightarrow> CliConfig \<Rightarrow> 'w \<Rightarrow> outcome \<times> CliConfig \<times> 'w" where
  "runLogin serve save_ok line password cfg w =
     (if central_url cfg = [] then (fails (''central_url not configured: run 'kb config set central_url <url>'' @ [CHR 0x27]), cfg, w)
      else case line of
        None \<Rightarrow> (prints [''Email: ''] (fails ''reading email''), cfg, w)
      | Some email \<Rightarrow>
          (case password of
             None \<Rightarrow> (prints [''Email: '', ''Password: ''] (fails ''reading password''), cfg, w)
           | Some pw \<Rightarrow>
               (case cl_Login serve (trim_space email) pw w of
                  (Inl e, w1) \<Rightarrow> (prints [''Email: '', ''Password: ''] (fails e), cfg, w1)
                | (Inr lr, w1) \<Rightarrow>
                    (prints [''Email: '', ''Password: ''] (if save_ok then succeeds [''Login successful.''] else fails ''saving config''),
                     set_tokens (lr_AccessToken lr) (lr_RefreshToken lr) cfg, w1))))"

text \<open>The client of a logout has no refresh token of its own, so it does not renew the access token.\<close>

definition runLogout :: "'w server \<Rightarrow> bool \<Rightarrow> CliConfig \<Rightarrow> 'w \<Rightarrow> outcome \<times> CliConfig \<times> 'w" where
  "runLogout serve save_ok cfg w =
     (let w1 = (if central_url cfg \<noteq> [] \<and> conf_token cfg \<noteq> [] \<and> conf_refresh_token cfg \<noteq> []
          then snd (snd (cl_Logout serve save_ok (conf_refresh_token cfg)
                 ((NewCentralClient cfg)\<lparr>cl_token := conf_token cfg\<rparr>) w))
          else w)
      in (if save_ok then succeeds [''Logged out.''] else fails ''saving config'', set_tokens [] [] cfg, w1))"

definition runClustersUse ::
  "'w server \<Rightarrow> bool \<Rightarrow> string \<Rightarrow> CliConfig \<Rightarrow> 'w \<Rightarrow> outcome \<times> CliConfig \<times> 'w" where
  "runClustersUse serve save_ok name cfg w =
     (if central_url cfg = [] then (fails no_central_url, cfg, w)
      else case cl_GetCluster serve save_ok name (newAuthenticatedClient cfg) w of
        (Inl e, c, w1) \<Rightarrow> (fails (''failed to verify cluster: '' @ e), cl_config c, w1)
      | (Inr ci, c, w1) \<Rightarrow>
          (let warning = (if ci_Status ci \<noteq> ''connected''
              then [''Warning: cluster '' @ quoted name @ '' is currently '' @ ci_Status ci] else []);
             cfg1 = (cl_config c)\<lparr>current_cluster := name\<rparr>
           in (if save_ok then succeeds (warning @ [''Switched to cluster '' @ quoted name @ ''.''])
               else \<lparr>oc_out = warning, oc_err = ''failed to save config'', oc_exit = 1\<rparr>, cfg1, w1)))"

definition runClustersList ::
  "'w server \<Rightarrow> bool \<Rightarrow> CliConfig \<Rightarrow> 'w \<Rightarrow> outcome \<times> CliConfig \<times> 'w" where
  "runClustersList serve save_ok cfg w =
     (if central_url cfg = [] then (fails no_central_url, cfg, w)
      else case cl_ListClusters serve save_ok (newAuthenticatedClient cfg) w of
        (Inl e, c, w1) \<Rightarrow> (fails (''failed to list clusters: '' @ e), cl_config c, w1)
      | (Inr cs, c, w1) \<Rightarrow>
          (succeeds (if cs = [] then [''No clusters available.'']
             else join [CHR 0x09] [''CURRENT'', ''NAME'', ''STATUS''] #
               map (\<lambda>ci. join [CHR 0x09] [if ci_Name ci = current_cluster (cl_config c) then ''*'' else [], ci_Name ci, ci_Status ci]) cs),
           cl_config c, w1))"

definition runStatus :: "'w server \<Rightarrow> bool \<Rightarrow> CliConfig \<Rightarrow> 'w \<Rightarrow> string list \<times> CliConfig \<times> 'w" where
  "runStatus serve save_ok cfg w =
     (let (central, w1) =
        (if central_url cfg = [] then ([''kbridge Status'', ''-----------'', ''Central:  (not configured)''], w)
         else case CheckHealth serve w of
           (None, w') \<Rightarrow> ([''kbridge Status'', ''-----------'', ''Central:  '' @ central_url cfg, ''Status:   Connected''], w')
         | (Some e, w') \<Rightarrow> ([''kbridge Status'', ''-----------'', ''Central:  '' @ central_url cfg, ''Status:   Disconnected''], w'))
      in if current_cluster cfg = [] then (central @ [''Cluster:  (none selected)''], cfg, w1)
         else if central_url cfg = [] then (central @ [''Cluster:  '' @ current_cluster cfg], cfg, w1)
         else (case cl_GetCluster serve save_ok (current_cluster cfg) (newAuthenticatedClient cfg) w1 of
             (res, c, w2) \<Rightarrow>
               (central @ [''Cluster:  '' @ current_cluster cfg,
                  case res of Inl e \<Rightarrow> ''          (cluster not found: '' @ e @ '')''
                  | Inr ci \<Rightarrow> ''          Status: '' @ ci_Status ci],
                cl_config c, w2)))"



section \<open>Administration\<close>

definition show_bool :: "bool \<Rightarrow> string" where
  "show_bool b = (if b then ''true'' else ''false'')"

definition table_line :: "string list \<Rightarrow> string" where
  "table_line cells = join [CHR 0x09] cells"

text \<open>Every command starts with the client that \<open>adminClient\<close> makes; \<open>show\<close> prints the result of the call.\<close>

definition admin_call ::
  "string \<Rightarrow> ('a \<Rightarrow> string list) \<Rightarrow> (CentralClient \<Rightarrow> 'w \<Rightarrow> (string + 'a) \<times> CentralClient \<times> 'w) \<Rightarrow> CliConfig \<Rightarrow> 'w \<Rightarrow>
     outcome \<times> CliConfig \<times> 'w" where
  "admin_call failed show_result call cfg w =
     (if central_url cfg = [] then (fails no_central_url, cfg, w)
      else case call (newAuthenticatedClient cfg) w of
        (Inl e, c, w1) \<Rightarrow> (fails (failed @ e), cl_config c, w1)
      | (Inr a, c, w1) \<Rightarrow> (succeeds (show_result a), cl_config c, w1))"

definition runAdminUsersList :: "'w server \<Rightarrow> bool \<Rightarrow> CliConfig \<Rightarrow> 'w \<Rightarrow> outcome \<times> CliConfig \<times> 'w" where
  "runAdminUsersList serve save_ok = admin_call ''failed to list users: ''
     (\<lambda>us. if us = [] then [''No users found.'']
        else table_line [''EMAIL'', ''NAME'', ''ACTIVE'', ''ADMIN'', ''ID''] #
          map (\<lambda>u. table_line [ui_Email u, ui_Name u, show_bool (ui_IsActive u), show_bool (ui_IsAdmin u), ui_ID u]) us)
     (cl_ListUsers serve save_ok)"

text \<open>\<open>promptPassword\<close>: what the terminal delivers without its echo, or a line of the piped input, whose end of line
  is cut.\<close>

definition promptPassword :: "bool \<Rightarrow> string option \<Rightarrow> string option" where
  "promptPassword terminal input =
     (if terminal then input
      else Some (rev (dropWhile (\<lambda>ch. ch = CHR 0x0D \<or> ch = CHR 0x0A) (rev (case input of None \<Rightarrow> [] | Some l \<Rightarrow> l)))))"

definition runAdminUsersCreate ::
  "'w server \<Rightarrow> bool \<Rightarrow> bool \<Rightarrow> string option \<Rightarrow> string \<Rightarrow> string \<Rightarrow> string \<Rightarrow> CliConfig \<Rightarrow> 'w \<Rightarrow>
     outcome \<times> CliConfig \<times> 'w" where
  "runAdminUsersCreate serve save_ok terminal input email name flag cfg w =
     (if central_url cfg = [] then (fails no_central_url, cfg, w)
      else let prompt = (if flag \<noteq> [] then [] else [''Password: '']) in
        case (if flag \<noteq> [] then Some flag else promptPassword terminal input) of
          None \<Rightarrow> (prints prompt (fails ''reading password''), cfg, w)
        | Some password \<Rightarrow>
            if trim_space password = [] then (prints prompt (fails ''password must not be empty''), cfg, w)
            else (case admin_call ''failed to create user: '' (\<lambda>u. [''Created user '' @ quoted (ui_Email u) @ '' ('' @ ui_ID u @ '').''])
                (cl_CreateUser serve save_ok email name password) cfg w of
              (oc, cw) \<Rightarrow> (prints prompt oc, cw)))"

definition runAdminAudit ::
  "'w server \<Rightarrow> bool \<Rightarrow> string \<Rightarrow> string \<Rightarrow> string \<Rightarrow> int \<Rightarrow> CliConfig \<Rightarrow> 'w \<Rightarrow> outcome \<times> CliConfig \<times> 'w" where
  "runAdminAudit serve save_ok user cluster status limit = admin_call ''failed to fetch audit logs: ''
     (\<lambda>(logs, n). if logs = [] then [''No audit logs found.'']
        else [table_line [''TIME'', ''USER'', ''CLUSTER'', ''STATUS'', ''EXIT'', ''COMMAND'']] @
          map (\<lambda>l. table_line [al_CreatedAt l, al_UserEmail l, al_ClusterName l, al_Status l,
            case al_ExitCode l of None \<Rightarrow> ''-'' | Some code \<Rightarrow> itoa (sint code), al_Command l]) logs @
          [[], ''Showing '' @ decimal (length logs) @ '' of '' @ itoa n @ '' entries.''])
     (ListAuditLogs serve save_ok
        [(''user'', user), (''cluster'', cluster), (''status'', status), (''per_page'', itoa limit)])"

definition runAdminTokensCreate ::
  "'w server \<Rightarrow> bool \<Rightarrow> string \<Rightarrow> string \<Rightarrow> int \<Rightarrow> CliConfig \<Rightarrow> 'w \<Rightarrow> outcome \<times> CliConfig \<times> 'w" where
  "runAdminTokensCreate serve save_ok cluster description days = admin_call ''failed to create agent token: ''
     (\<lambda>t. [''Agent token for cluster '' @ quoted (ti_ClusterName t) @ '' created.'', [], ''  '' @ ti_Token t, [],
        ''Store it now '' @ [CHR 0xE2, CHR 0x80, CHR 0x94] @
          '' it cannot be retrieved again. Set it as the agent's central.token.''])
     (cl_CreateAgentToken serve save_ok cluster description days)"

definition runAdminTokensList :: "'w server \<Rightarrow> bool \<Rightarrow> string \<Rightarrow> CliConfig \<Rightarrow> 'w \<Rightarrow> outcome \<times> CliConfig \<times> 'w" where
  "runAdminTokensList serve save_ok cluster = admin_call ''failed to list agent tokens: ''
     (\<lambda>ts. if ts = [] then [''No agent tokens found.'']
        else table_line [''ID'', ''CLUSTER'', ''PREFIX'', ''REVOKED'', ''DESCRIPTION''] #
          map (\<lambda>t. table_line [ti_ID t, ti_ClusterName t, ti_TokenPrefix t, show_bool (ti_IsRevoked t), ti_Description t]) ts)
     (cl_ListAgentTokens serve save_ok cluster)"

definition runAdminTokensRevoke :: "'w server \<Rightarrow> bool \<Rightarrow> string \<Rightarrow> CliConfig \<Rightarrow> 'w \<Rightarrow> outcome \<times> CliConfig \<times> 'w" where
  "runAdminTokensRevoke serve save_ok i = admin_call ''failed to revoke agent token: ''
     (\<lambda>_. [''Agent token '' @ quoted i @ '' revoked.''])
     (\<lambda>c w. case cl_RevokeAgentToken serve save_ok i c w of
        (None, cw) \<Rightarrow> (Inr (), cw) | (Some e, cw) \<Rightarrow> (Inl e, cw))"

end
