(* ===== verification/Command_Path.thy ===== *)
theory Command_Path
  imports Http_Props Agent_Core Frames
begin

text \<open>
  The way of a command from the handler of the central server through the queue to kubectl at the agent and back:
  the theories Http, Grpc and Command_Queue (central server) joined with Agent_Core (agent).
\<close>


section \<open>The agent's round\<close>

text \<open>One round of the agent's poll loop against the server: the poll, every command it returned executed with
  kubectl, and each result submitted, in order.\<close>

definition submit_all :: "SubmitCommandResultRequest list \<Rightarrow> GRPCServer \<Rightarrow> GRPCServer" where
  "submit_all srs g = fold (\<lambda>sr g. snd (SubmitCommandResult sr g)) srs g"

definition agent_round :: "kubectl \<Rightarrow> string list \<Rightarrow> string \<Rightarrow> GRPCServer \<Rightarrow> GRPCServer" where
  "agent_round run order agentID g = (case GetPendingCommands order agentID g of
     (Inl e, g1) \<Rightarrow> g1
   | (Inr cmds, g1) \<Rightarrow> submit_all (pollAndExecuteCommands run agentID True (\<lambda>_. Some cmds)) g1)"

text \<open>What a user is owed for a command: the output of kubectl, its exit code, the error of the start.\<close>

definition kubectl_response :: "proc \<Rightarrow> ExecResponse" where
  "kubectl_response p = (case p_err p of
     Some (OtherErr e) \<Rightarrow> \<lparr>er_Output = [], er_ExitCode = - 1, er_Error = ''failed to execute kubectl: '' @ e\<rparr>
   | err \<Rightarrow>
       \<lparr>er_Output = p_stdout p @ (if p_stderr p \<noteq> [] then (if p_stdout p \<noteq> [] then [10] else []) @ p_stderr p else []),
        er_ExitCode = (case err of Some (ExitErr code) \<Rightarrow> word_of_int code | _ \<Rightarrow> 0), er_Error = []\<rparr>)"


section \<open>Lemmas\<close>

definition finished_cmd :: "CommandStatus \<Rightarrow> CommandResult \<Rightarrow> PendingCommand \<Rightarrow> PendingCommand" where
  "finished_cmd st res c =
     c\<lparr>Status := st, resultCh := Some (case resultCh c of None \<Rightarrow> res | Some old \<Rightarrow> old)\<rparr>"

lemma lookup_finish_send:
  assumes "queue_ok q"
  shows "cmd_lookup (snd (case finish_locked st rid q of None \<Rightarrow> (False, q)
      | Some (r, q') \<Rightarrow> (True, send_result r res q'))) j =
    (if j = rid then map_option (finished_cmd st res) (cmd_lookup q j) else cmd_lookup q j)"
proof (cases "commands q rid")
  case None
  then show ?thesis by (simp add: finish_locked_def Get_def cmd_lookup_def)
next
  case (Some r)
  let ?q = "upd_cmd r (Status_update (\<lambda>_. st)) q"
  have r: "r < length (cmd_heap q)" using queue_okD [OF assms Some] by simp
  have ok: "queue_ok ?q" using queue_ok_status [OF assms r] .
  have l: "cmd_lookup q rid = Some (cmd_at q r)" using Some by (simp add: cmd_lookup_def Get_def)
  show ?thesis
  proof (cases "resultCh (cmd_at q r)")
    case None
    then show ?thesis
      using Some r l cmd_lookup_upd [OF assms Some, of _ j] cmd_lookup_upd [OF ok, of rid r _ j]
      by (simp add: finish_locked_def Get_def send_result_def finished_cmd_def)
  next
    case (Some old)
    have "cmd_at q r\<lparr>Status := st, resultCh := Some old\<rparr> = cmd_at q r\<lparr>Status := st\<rparr>"
      using Some by (cases "cmd_at q r") simp
    then show ?thesis
      using Some \<open>commands q rid = Some r\<close> r l cmd_lookup_upd [OF assms \<open>commands q rid = Some r\<close>, of _ j]
      by (simp add: finish_locked_def Get_def send_result_def finished_cmd_def)
  qed
qed

lemma queue_ok_SubmitCommandResult:
  "queue_ok (g_queue g) \<Longrightarrow> queue_ok (g_queue (snd (SubmitCommandResult sr g)))"
  by (simp add: SubmitCommandResult_def Let_def queue_ok_submit)

lemma lookup_SubmitCommandResult:
  assumes "queue_ok (g_queue g)" and "sr_RequestId sr \<noteq> []"
  shows "cmd_lookup (g_queue (snd (SubmitCommandResult sr g))) j =
    (if j = sr_RequestId sr
     then map_option (finished_cmd (if sr_ErrorMessage sr \<noteq> [] then Failed else Completed) (submitted sr)) (cmd_lookup (g_queue g) j)
     else cmd_lookup (g_queue g) j)"
  using assms lookup_finish_send [OF assms(1)]
  by (simp add: SubmitCommandResult_def Let_def Complete_def Fail_def submitted_def)

lemma submit_all_simps [simp]:
  "submit_all [] g = g"
  "submit_all (sr # srs) g = submit_all srs (snd (SubmitCommandResult sr g))"
  by (simp_all add: submit_all_def)

lemma submit_all_append: "submit_all (as @ bs) g = submit_all bs (submit_all as g)"
  by (simp add: submit_all_def)

lemma queue_ok_submit_all: "queue_ok (g_queue g) \<Longrightarrow> queue_ok (g_queue (submit_all srs g))"
  by (induction srs arbitrary: g) (simp_all add: queue_ok_SubmitCommandResult)

lemma lookup_submit_all_other:
  "queue_ok (g_queue g) \<Longrightarrow> list_all (\<lambda>sr. sr_RequestId sr \<noteq> rid \<and> sr_RequestId sr \<noteq> []) srs \<Longrightarrow>
     cmd_lookup (g_queue (submit_all srs g)) rid = cmd_lookup (g_queue g) rid"
  by (induction srs arbitrary: g) (auto simp: queue_ok_SubmitCommandResult lookup_SubmitCommandResult)

text \<open>A submission under an identifier that no other one has is the result that its command gets.\<close>

lemma lookup_submit_all:
  assumes "queue_ok (g_queue g)" and "distinct (map sr_RequestId srs)" and "[] \<notin> sr_RequestId ` set srs"
    and "sr \<in> set srs" and "cmd_lookup (g_queue g) (sr_RequestId sr) = Some c" and "resultCh c = None"
  shows "\<exists>c'. cmd_lookup (g_queue (submit_all srs g)) (sr_RequestId sr) = Some c' \<and> resultCh c' = Some (submitted sr)"
proof -
  obtain as bs where srs: "srs = as @ sr # bs" using assms(4) by (meson split_list)
  have as: "list_all (\<lambda>s. sr_RequestId s \<noteq> sr_RequestId sr \<and> sr_RequestId s \<noteq> []) as"
    and bs: "list_all (\<lambda>s. sr_RequestId s \<noteq> sr_RequestId sr \<and> sr_RequestId s \<noteq> []) bs"
    and nonempty: "sr_RequestId sr \<noteq> []"
    using assms(2,3) unfolding srs list_all_iff by (force simp: image_iff)+
  let ?g = "submit_all as g"
  have ok: "queue_ok (g_queue ?g)" by (rule queue_ok_submit_all [OF assms(1)])
  have "cmd_lookup (g_queue ?g) (sr_RequestId sr) = Some c"
    using lookup_submit_all_other [OF assms(1) as] assms(5) by simp
  then have "cmd_lookup (g_queue (submit_all srs g)) (sr_RequestId sr) =
      Some (finished_cmd (if sr_ErrorMessage sr \<noteq> [] then Failed else Completed) (submitted sr) c)"
    using lookup_submit_all_other [OF queue_ok_SubmitCommandResult [OF ok] bs]
      lookup_SubmitCommandResult [OF ok nonempty, of "sr_RequestId sr"]
    by (simp add: srs submit_all_append)
  then show ?thesis using assms(6) by (simp add: finished_cmd_def)
qed

lemma wait_lookup:
  "cmd_lookup q rid = Some c \<Longrightarrow> resultCh c = Some res \<Longrightarrow> fst (WaitForResult ctx_done True rid q) = WaitResult res"
  by (auto simp: cmd_lookup_def WaitForResult_def wait_select_def)

lemma exec_timeout_seconds:
  assumes "t \<le> 9223372036"
  shows "0 < exec_timeout t div second" and "exec_timeout t div second \<le> 300"
  using assms by (auto simp: exec_timeout_def MaxExecTimeout_def DefaultExecTimeout_def int64_wrap_def Let_def)

lemma sint_seconds: "0 < n \<Longrightarrow> n \<le> 300 \<Longrightarrow> sint (word_of_int n :: 32 word) = n"
  by (simp add: signed_of_int signed_take_bit_int_eq_self)

text \<open>What the agent submits for a command, as the handler answers it.\<close>

lemma executeAndSubmit_response:
  assumes "0 < n" and "n \<le> 300"
  shows "exec_response (submitted (executeAndSubmit run
      \<lparr>cr_RequestId = rid, cr_AgentId = a, cr_Command = cmd, cr_Namespace = ns,
       cr_TimeoutSeconds = word_of_int n, cr_Stdin = stdin\<rparr>)) =
    kubectl_response (run (kubectl_args cmd ns) (Some (n * second)) stdin)"
proof -
  have "sint (word_of_int n :: 32 word) = n" by (rule sint_seconds [OF assms])
  then have sr: "executeAndSubmit run \<lparr>cr_RequestId = rid, cr_AgentId = a, cr_Command = cmd, cr_Namespace = ns,
      cr_TimeoutSeconds = word_of_int n, cr_Stdin = stdin\<rparr> =
    (let result = ExecuteWithStdin run cmd ns (n * second) stdin in
     \<lparr>sr_RequestId = rid, sr_Stdout = ar_Stdout result, sr_Stderr = ar_Stderr result,
      sr_ExitCode = word_of_int (ar_ExitCode result),
      sr_ErrorMessage = (case ar_Error result of None \<Rightarrow> [] | Some e \<Rightarrow> e)\<rparr>)"
    using assms(1) by (simp add: executeAndSubmit_def Let_def)
  show ?thesis
  proof (cases "p_err (run (kubectl_args cmd ns) (Some (n * second)) stdin)")
    case None
    then show ?thesis
      using assms(1) by (simp add: sr ExecuteWithStdin_def Let_def submitted_def exec_response_def kubectl_response_def)
  next
    case (Some err)
    then show ?thesis
      using assms(1)
      by (cases err) (simp_all add: sr ExecuteWithStdin_def Let_def submitted_def exec_response_def
          kubectl_response_def fail_result_def)
  qed
qed


text \<open>A round of the agent answers every command that is pending for it and has no result yet.\<close>

lemma distinct_requests: "map cr_RequestId (map to_request cs) = map RequestID cs"
  by (simp add: to_request_def comp_def)

lemma sr_RequestId_executeAndSubmit [simp]: "sr_RequestId (executeAndSubmit run cmd) = cr_RequestId cmd"
  by (simp add: executeAndSubmit_def Let_def)

lemma agent_round_answers:
  assumes "queue_ok (g_queue g)" and "distinct order" and "rid \<in> set order"
    and "store_Get (g_agents g) agentID = Some info" and "agentID \<noteq> []"
    and "cmd_lookup (g_queue g) rid = Some c" and "PendingCommand.AgentID c = agentID" and "Status c = Pending"
    and "resultCh c = None" and "[] \<notin> dom (commands (g_queue g))"
  shows "\<exists>c'. cmd_lookup (g_queue (agent_round run order agentID g)) rid = Some c' \<and>
    resultCh c' = Some (submitted (executeAndSubmit run (to_request c)))"
proof -
  let ?pending = "GetPendingForAgent order agentID (g_queue g)"
  let ?g1 = "g\<lparr>g_queue := mark_all ?pending (g_queue g)\<rparr>"
  let ?srs = "map (executeAndSubmit run) (map to_request ?pending)"
  have rid: "RequestID c = rid" by (rule cmd_lookup_RequestID [OF assms(1,6)])
  have mem: "c \<in> set ?pending" using assms(3,6-8) by (auto simp: set_GetPendingForAgent)
  have round: "agent_round run order agentID g = submit_all ?srs ?g1"
    using assms(4,5) by (simp add: agent_round_def GetPendingCommands_def Let_def pollAndExecuteCommands_def)
  have ids: "map sr_RequestId ?srs = map RequestID ?pending" by (simp add: comp_def to_request_def)
  have ok1: "queue_ok (g_queue ?g1)" using queue_ok_mark_all [OF assms(1)] by simp
  have "[] \<notin> RequestID ` set ?pending"
    using assms(10) cmd_lookup_RequestID [OF assms(1)] dom_cmd_lookup [of "g_queue g"]
    by (auto simp: set_GetPendingForAgent)
  then have nonempty: "[] \<notin> sr_RequestId ` set ?srs" using ids by (metis list.set_map)
  have look: "cmd_lookup (g_queue ?g1) rid = Some (c\<lparr>Status := Running\<rparr>)"
    using mem rid assms(6) cmd_lookup_mark_all [OF assms(1), of ?pending rid] by auto
  have d: "distinct (map sr_RequestId ?srs)"
    using distinct_GetPendingForAgent [OF assms(1,2)] by (simp only: ids)
  have id: "sr_RequestId (executeAndSubmit run (to_request c)) = rid" using rid by (simp add: to_request_def)
  have "executeAndSubmit run (to_request c) \<in> set ?srs" using mem by simp
  from lookup_submit_all [OF ok1 d nonempty this, of "c\<lparr>Status := Running\<rparr>"]
  show ?thesis using look assms(9) unfolding id round by simp
qed


section \<open>Properties\<close>

lemma command_executed_aux:
  assumes "exec_begin s c order uuid clk rand cluster body g = (Inr (rid, req), g1)"
    and "queue_ok (g_queue g)" and "[] \<notin> dom (commands (g_queue g))"
    and "find_agent order cluster g = Inr agent" and "store_Get (g_agents g) (AgentInfo.ID agent) = Some agent"
    and "AgentInfo.ID agent \<noteq> []" and "distinct rids" and "rid \<in> set rids" and "ex_Timeout req \<le> 9223372036"
  shows "\<exists>g4. exec_finish s c uuid2 clk2 ctx_done True cluster rid req (agent_round run rids (AgentInfo.ID agent) g1) =
      Some (RespOk 200 (kubectl_response (run (kubectl_args (ex_Command req) (ex_Namespace req))
        (Some (exec_timeout (ex_Timeout req) div second * second)) (ex_Stdin req))), g4) \<and>
    rid \<notin> dom (commands (g_queue g4)) \<and> body = Some req \<and> permitted s c cluster req"
proof -
  obtain agent' bs where a': "find_agent order cluster g = Inr agent'" and bs: "rid = ''req-'' @ hex_encode bs"
    and b: "body = Some req" "permitted s c cluster req"
    and g1': "g1 = g\<lparr>g_queue := put_cmd rid
        \<lparr>RequestID = rid, PendingCommand.AgentID = AgentInfo.ID agent', ClusterName = cluster, Command = ex_Command req,
         cmd_Namespace = ex_Namespace req, TimeoutSeconds = word_of_int (exec_timeout (ex_Timeout req) div second),
         PendingCommand.Stdin = ex_Stdin req, CreatedAt = clk 1, Status = Pending, resultCh = None\<rparr> (g_queue g)\<rparr>"
    by (rule exec_begin_Inr [OF assms(1)])
  let ?cmd = "\<lparr>RequestID = rid, PendingCommand.AgentID = AgentInfo.ID agent, ClusterName = cluster, Command = ex_Command req,
         cmd_Namespace = ex_Namespace req, TimeoutSeconds = word_of_int (exec_timeout (ex_Timeout req) div second),
         PendingCommand.Stdin = ex_Stdin req, CreatedAt = clk 1, Status = Pending, resultCh = None\<rparr>"
  have g1: "g1 = g\<lparr>g_queue := put_cmd rid ?cmd (g_queue g)\<rparr>" using g1' a' assms(4) by simp
  have ok1: "queue_ok (g_queue g1)"
    using queue_ok_Enqueue [OF assms(2), of "Some bs"] Enqueue_put [of bs] g1 bs by simp
  have look1: "cmd_lookup (g_queue g1) rid = Some ?cmd"
    using queue.lookup_put_same [OF queue_ok_refs [OF assms(2)]] g1 by simp
  have "[] \<notin> dom (commands (g_queue g1))" using assms(3) g1 bs by (auto simp: put_cmd_def)
  then obtain c' where "cmd_lookup (g_queue (agent_round run rids (AgentInfo.ID agent) g1)) rid = Some c'"
      "resultCh c' = Some (submitted (executeAndSubmit run (to_request ?cmd)))"
    using agent_round_answers [OF ok1 assms(7,8) _ assms(6) look1, of agent run] assms(5) g1 by auto
  from wait_lookup [OF this]
  have "fst (WaitForResult ctx_done True rid (g_queue (agent_round run rids (AgentInfo.ID agent) g1))) =
      WaitResult (submitted (executeAndSubmit run (to_request ?cmd)))" .
  moreover have "exec_response (submitted (executeAndSubmit run (to_request ?cmd))) =
      kubectl_response (run (kubectl_args (ex_Command req) (ex_Namespace req))
        (Some (exec_timeout (ex_Timeout req) div second * second)) (ex_Stdin req))"
    using executeAndSubmit_response [OF exec_timeout_seconds [OF assms(9)]] by (simp add: to_request_def)
  ultimately show ?thesis
    using b by (auto simp: exec_finish_def Remove_def split: prod.splits)
qed

text \<open>C5. A command that the server has accepted is executed and answered: one round of the cluster's agent, whatever
  other commands are pending for it and wherever this one is among them, runs kubectl with the command line,
  namespace, input and timeout of the request, and the handler answers 200 with the output and the exit
  code of exactly that run; the user was permitted the command, and it has left the queue.\<close>

theorem command_executed:
  assumes "exec_begin s c order uuid clk rand cluster body g = (Inr (rid, req), g1)"
    and "queue_ok (g_queue g)" and "[] \<notin> dom (commands (g_queue g))"
    and "find_agent order cluster g = Inr agent" and "store_Get (g_agents g) (AgentInfo.ID agent) = Some agent"
    and "AgentInfo.ID agent \<noteq> []" and "distinct rids" and "rid \<in> set rids" and "ex_Timeout req \<le> 9223372036"
  shows "\<exists>g4. exec_finish s c uuid2 clk2 ctx_done True cluster rid req (agent_round run rids (AgentInfo.ID agent) g1) =
      Some (RespOk 200 (kubectl_response (run (kubectl_args (ex_Command req) (ex_Namespace req))
        (Some (exec_timeout (ex_Timeout req) div second * second)) (ex_Stdin req))), g4) \<and>
    rid \<notin> dom (commands (g_queue g4)) \<and> body = Some req \<and> permitted s c cluster req"
  using assms by (rule command_executed_aux)

text \<open>A kubectl that prints its arguments.\<close>

definition echo_kubectl :: kubectl where
  "echo_kubectl args timeout stdin = \<lparr>p_stdout = concat (map bytes_of args) @ stdin, p_stderr = [], p_err = Some (ExitErr 3)\<rparr>"

theorem command_executed_witness:
  "\<exists>g4. exec_finish demo_server demo_ctx [] (\<lambda>_. 0) False True ''c'' ''req-01'' demo_req
      (agent_round echo_kubectl [''req-01''] ''agent-a''
        (snd (exec_begin demo_server demo_ctx [''agent-a''] [] (\<lambda>_. 0) (Some [1]) ''c'' (Some demo_req) demo_state))) =
    Some (RespOk 200 \<lparr>er_Output = bytes_of ''getpods'', er_ExitCode = 3, er_Error = []\<rparr>, g4)"
proof -
  let ?g1 = "snd (exec_begin demo_server demo_ctx [''agent-a''] [] (\<lambda>_. 0) (Some [1]) ''c'' (Some demo_req) demo_state)"
  have b: "exec_begin demo_server demo_ctx [''agent-a''] [] (\<lambda>_. 0) (Some [1]) ''c'' (Some demo_req) demo_state =
      (Inr (''req-01'', demo_req), ?g1)" by (simp only: demo_begin snd_conv)
  have id: "AgentInfo.ID demo_agent = ''agent-a''" by (simp add: demo_agent_def)
  have get: "store_Get (g_agents demo_state) (AgentInfo.ID demo_agent) = Some demo_agent"
    by (simp add: store_Get_def demo_state_def demo_agent_def put_agent_def)
  have q: "queue_ok (g_queue demo_state)" "[] \<notin> dom (commands (g_queue demo_state))"
    using queue_ok_New by (simp_all add: demo_state_def demo_grpc_def NewCommandQueue_def)
  from command_executed [OF b q demo_find get, of "[''req-01'']" "[]" "\<lambda>_. 0" False echo_kubectl] id
  show ?thesis by (auto simp: demo_req_def echo_kubectl_def kubectl_response_def kubectl_args_def bytes_of_def)
qed

end
