(* ===== verification/Admin_Api.thy ===== *)
theory Admin_Api
  imports Cli_Client Admin
begin

text \<open>
  The JSON of the administrators' requests and responses and of a change of the password: the binding of bodies and
  the struct tags of \<open>internal/central/admin_handlers.go\<close>, \<open>auth_handlers.go\<close> and \<open>entities.go\<close>, and that the client
  (theory Cli_Client) decodes what the server sends.

  The texts of times (\<open>time.Time\<close> as JSON) and the validator's rule for e-mail addresses are parameters.
\<close>


section \<open>Bodies of requests\<close>

definition json_opt :: "(json \<Rightarrow> 'a option) \<Rightarrow> string \<Rightarrow> json \<Rightarrow> 'a option option" where
  "json_opt dec = json_field (\<lambda>v. map_option Some (dec v)) None"

definition bind_create_token :: "json \<Rightarrow> createAgentTokenRequest option" where
  "bind_create_token j =
     (case (json_field json_string [] ''cluster_name'' j, json_field json_string [] ''description'' j,
            json_field json_int 0 ''expires_in_days'' j) of
        (Some c, Some d, Some n) \<Rightarrow>
          if c = [] then None else Some \<lparr>req_ClusterName = c, req_Description = d, req_ExpiresInDays = n\<rparr>
      | _ \<Rightarrow> None)"

definition bind_create_user :: "(string \<Rightarrow> bool) \<Rightarrow> json \<Rightarrow> createUserRequest option" where
  "bind_create_user is_email j =
     (case (json_field json_string [] ''email'' j, json_field json_string [] ''name'' j,
            json_field json_string [] ''password'' j, json_opt json_bool ''is_active'' j) of
        (Some e, Some n, Some p, Some act) \<Rightarrow>
          if e = [] \<or> \<not> is_email e \<or> n = [] \<or> p = [] then None
          else Some \<lparr>cu_Email = e, cu_Name = n, cu_Password = p, cu_IsActive = act\<rparr>
      | _ \<Rightarrow> None)"

definition bind_update_user :: "json \<Rightarrow> updateUserRequest option" where
  "bind_update_user j =
     (case (json_opt json_string ''name'' j, json_opt json_bool ''is_active'' j, json_opt json_string ''password'' j) of
        (Some n, Some act, Some p) \<Rightarrow> Some \<lparr>uu_Name = n, uu_IsActive = act, uu_Password = p\<rparr>
      | _ \<Rightarrow> None)"


section \<open>Bodies of responses\<close>

definition message_json :: "string \<Rightarrow> json" where
  "message_json msg = JObj [(''message'', JStr msg)]"

definition omit_None :: "('a \<Rightarrow> json) \<Rightarrow> string \<Rightarrow> 'a option \<Rightarrow> (string \<times> json) list" where
  "omit_None enc k v = (case v of None \<Rightarrow> [] | Some a \<Rightarrow> [(k, enc a)])"

text \<open>A slice that no row was appended to is nil.\<close>

definition nil_slice :: "('a \<Rightarrow> json) \<Rightarrow> 'a list \<Rightarrow> json" where
  "nil_slice enc xs = (if xs = [] then JNull else JArr (map enc xs))"

definition user_json :: "(int \<Rightarrow> string) \<Rightarrow> User \<Rightarrow> json" where
  "user_json time u = JObj [(''id'', JStr (u_ID u)), (''email'', JStr (u_Email u)), (''name'', JStr (u_Name u)),
     (''is_active'', JBool (u_IsActive u)), (''is_admin'', JBool (u_IsAdmin u)),
     (''created_at'', JStr (time (u_CreatedAt u))), (''updated_at'', JStr (time (u_UpdatedAt u)))]"

definition users_json :: "(int \<Rightarrow> string) \<Rightarrow> User list \<Rightarrow> json" where
  "users_json time us = JObj [(''users'', nil_slice (user_json time) us)]"

definition token_entries :: "(int \<Rightarrow> string) \<Rightarrow> agentTokenResponse \<Rightarrow> (string \<times> json) list" where
  "token_entries time t =
     [(''id'', JStr (tok_ID t)), (''cluster_name'', JStr (tok_ClusterName t)), (''token_prefix'', JStr (tok_TokenPrefix t))] @
     omit_empty ''description'' (tok_Description t) @ [(''is_revoked'', JBool (tok_IsRevoked t))] @
     omit_None (JStr \<circ> time) ''last_used_at'' (tok_LastUsedAt t) @ omit_None (JStr \<circ> time) ''expires_at'' (tok_ExpiresAt t) @
     [(''created_at'', JStr (time (tok_CreatedAt t)))]"

text \<open>The fields of the embedded struct come first.\<close>

definition created_token_json :: "(int \<Rightarrow> string) \<Rightarrow> agentTokenResponse \<times> string \<Rightarrow> json" where
  "created_token_json time = (\<lambda>(t, plaintext). JObj (token_entries time t @ [(''token'', JStr plaintext)]))"

definition tokens_list_json :: "(int \<Rightarrow> string) \<Rightarrow> agentTokenResponse list \<Rightarrow> json" where
  "tokens_list_json time ts = JObj [(''tokens'', JArr (map (\<lambda>t. JObj (token_entries time t)) ts))]"

definition log_json :: "(int \<Rightarrow> string) \<Rightarrow> AuditLog \<Rightarrow> json" where
  "log_json time l = JObj ([(''id'', JStr (log_ID l))] @ omit_empty ''user_id'' (log_UserID l) @
     [(''user_email'', JStr (log_UserEmail l)), (''cluster_name'', JStr (log_ClusterName l))] @
     omit_empty ''cluster_id'' (log_ClusterID l) @ [(''command'', JStr (log_Command l))] @
     omit_empty ''namespace'' (log_Namespace l) @ [(''status'', JStr (log_Status l))] @
     omit_None (JNum \<circ> sint) ''exit_code'' (log_ExitCode l) @ omit_None JNum ''duration_ms'' (log_DurationMs l) @
     omit_empty ''error_message'' (log_ErrorMessage l) @ omit_empty ''client_ip'' (log_ClientIP l) @
     [(''created_at'', JStr (time (log_CreatedAt l)))])"

definition logs_json :: "(int \<Rightarrow> string) \<Rightarrow> AuditLog list \<times> nat \<times> int \<times> int \<Rightarrow> json" where
  "logs_json time = (\<lambda>(logs, n, page, per_page). JObj [(''logs'', nil_slice (log_json time) logs), (''page'', JNum page),
     (''per_page'', JNum per_page), (''total'', JNum (int n))])"


section \<open>The client decodes what the server sends\<close>

text \<open>The names of two fields differ, up to case, in a letter or in their length.\<close>

lemma equal_fold_Cons: "equal_fold (a # s) (b # t) \<longleftrightarrow> to_lower a = to_lower b \<and> equal_fold s t"
  by (simp add: equal_fold_def)

lemma equal_fold_Nil: "equal_fold [] (b # t) \<longleftrightarrow> False" "equal_fold (b # t) [] \<longleftrightarrow> False"
  by (simp_all add: equal_fold_def)

lemma to_lower_letters: "list_all (\<lambda>c. to_lower c = c) ''abcdefghijklmnopqrstuvwxyz_''"
  by (simp add: to_lower_def)

lemmas field_names = equal_fold_Cons equal_fold_Nil to_lower_letters [simplified]

lemma json_entries_append:
  "json_entries dec k (xs @ ys) a = Option.bind (json_entries dec k xs a) (json_entries dec k ys)"
  by (induction xs arbitrary: a) (auto split: option.splits)

lemma json_entries_omit [simp]:
  "json_entries json_string k (omit_empty j s) [] = Some (if equal_fold j k then s else [])"
  "\<not> equal_fold j k \<Longrightarrow> json_entries dec k (omit_empty j s) a = Some a"
  by (simp_all add: omit_empty_def)

lemma json_entries_omit_None: "\<not> equal_fold j k \<Longrightarrow> json_entries dec k (omit_None enc j v) a = Some a"
  by (cases v) (simp_all add: omit_None_def)

definition user_info :: "(int \<Rightarrow> string) \<Rightarrow> User \<Rightarrow> UserInfo" where
  "user_info time u = \<lparr>ui_ID = u_ID u, ui_Email = u_Email u, ui_Name = u_Name u, ui_IsActive = u_IsActive u,
     ui_IsAdmin = u_IsAdmin u, ui_CreatedAt = time (u_CreatedAt u)\<rparr>"

lemma decode_user_json: "decode_user (user_json time u) = Some (user_info time u)"
  by (simp add: decode_user_def user_json_def user_info_def field_names)

definition token_info :: "(int \<Rightarrow> string) \<Rightarrow> agentTokenResponse \<Rightarrow> string \<Rightarrow> AgentTokenInfo" where
  "token_info time t plaintext = \<lparr>ti_ID = tok_ID t, ti_ClusterName = tok_ClusterName t, ti_TokenPrefix = tok_TokenPrefix t,
     ti_Description = tok_Description t, ti_IsRevoked = tok_IsRevoked t, ti_Token = plaintext,
     ti_CreatedAt = time (tok_CreatedAt t)\<rparr>"

lemma decode_token_json: "decode_token (created_token_json time (t, plaintext)) = Some (token_info time t plaintext)"
  by (simp add: decode_token_def created_token_json_def token_entries_def token_info_def json_entries_append
      json_entries_omit_None field_names)

lemma decode_token_entries: "decode_token (JObj (token_entries time t)) = Some (token_info time t [])"
  by (simp add: decode_token_def token_entries_def token_info_def json_entries_append
      json_entries_omit_None field_names)

definition log_info :: "(int \<Rightarrow> string) \<Rightarrow> AuditLog \<Rightarrow> AuditLogInfo" where
  "log_info time l = \<lparr>al_UserEmail = log_UserEmail l, al_ClusterName = log_ClusterName l, al_Command = log_Command l,
     al_Namespace = log_Namespace l, al_Status = log_Status l, al_ExitCode = log_ExitCode l,
     al_CreatedAt = time (log_CreatedAt l)\<rparr>"

lemma entries_exit_code:
  "json_entries (\<lambda>v. map_option Some (json_int32 v)) ''exit_code'' (omit_None (JNum \<circ> sint) ''exit_code'' code) None = Some code"
proof (cases code)
  case (Some c)
  then show ?thesis using sint_ge [of c] sint_lt [of c] by (simp add: omit_None_def)
qed (simp add: omit_None_def)

lemma decode_log_json: "decode_audit (log_json time l) = Some (log_info time l)"
  by (simp add: decode_audit_def log_json_def log_info_def json_entries_append json_entries_omit_None entries_exit_code
      field_names)

lemma elems_map: "(\<And>a. enc a \<noteq> JNull) \<Longrightarrow> (\<And>a. dec (enc a) = Some (f a)) \<Longrightarrow>
    json_elems dec zero (map enc as) = Some (map f as)"
  by (induction as) simp_all

lemma field_nil_slice:
  assumes "\<And>a. enc a \<noteq> JNull" and "\<And>a. dec (enc a) = Some (f a)"
  shows "json_field (json_array dec zero) [] k (JObj [(k, nil_slice enc as)]) = Some (map f as)"
  using elems_map [of enc dec f zero as] assms by (simp add: nil_slice_def)

end
