(* ===== verification/Cli_Api.thy ===== *)
theory Cli_Api
  imports Cli_Commands Command_Path Server Admin_Api
begin

text \<open>
  The client of \<open>kb\<close> (theories Cli_Client and Cli_Commands) against the central server (theories Http, Auth, Grpc):
  the JSON form of requests and responses on the server's side, the routes (\<open>setupRoutes\<close> in
  \<open>internal/central/http.go\<close>) as one function from requests to responses, and what holds of the two together.

  Reading and writing the text of JSON, and of strings in it, is the library's; strings are valid UTF-8.
\<close>


section \<open>Bodies on the server\<close>

text \<open>The binding of a request's body: the required fields must be there and not empty, a required list there.\<close>

definition bind_pair :: "string \<Rightarrow> string \<Rightarrow> json \<Rightarrow> (string \<times> string) option" where
  "bind_pair k1 k2 j = (case (json_field json_string [] k1 j, json_field json_string [] k2 j) of
     (Some a, Some b) \<Rightarrow> if a = [] \<or> b = [] then None else Some (a, b)
   | _ \<Rightarrow> None)"

definition bind_login :: "json \<Rightarrow> (string \<times> string) option" where
  "bind_login = bind_pair ''email'' ''password''"

definition bind_change_password :: "json \<Rightarrow> (string \<times> string) option" where
  "bind_change_password = bind_pair ''current_password'' ''new_password''"

definition bind_refresh :: "json \<Rightarrow> string option" where
  "bind_refresh j = (case json_field json_string [] ''refresh_token'' j of
     Some t \<Rightarrow> if t = [] then None else Some t
   | None \<Rightarrow> None)"

definition bind_exec :: "json \<Rightarrow> ExecRequest option" where
  "bind_exec j =
     (case (json_field (\<lambda>v. map_option Some (json_array json_string [] v)) None ''command'' j,
            json_field json_string [] ''namespace'' j, json_field json_int 0 ''timeout'' j,
            json_field json_string [] ''stdin'' j) of
        (Some (Some cmd), Some ns, Some t, Some i) \<Rightarrow>
          Some \<lparr>ex_Command = cmd, ex_Namespace = ns, ex_Timeout = t, ex_Stdin = bytes_of i\<rparr>
      | _ \<Rightarrow> None)"

definition error_json :: "string \<Rightarrow> json" where
  "error_json msg = JObj [(''error'', JStr msg)]"

definition tokens_json :: "tokenResponse \<Rightarrow> json" where
  "tokens_json t = JObj [(''access_token'', JStr (AccessToken t)), (''refresh_token'', JStr (tr_RefreshToken t)),
     (''expires_in'', JNum (ExpiresIn t))]"

definition clusters_json :: "(string \<times> string) list \<Rightarrow> json" where
  "clusters_json cs = JObj [(''clusters'', JArr (map (\<lambda>(name, status). JObj [(''name'', JStr name), (''status'', JStr status)]) cs))]"

definition exec_json :: "ExecResponse \<Rightarrow> json" where
  "exec_json x = JObj ([(''output'', JStr (string_of (er_Output x))), (''exit_code'', JNum (sint (er_ExitCode x)))] @
     omit_empty ''error'' (er_Error x))"


section \<open>The server as a function on requests\<close>

text \<open>What the requests meet from outside, by the number of the request: the clock (by reading), random bytes and
  new identifiers, the order in which maps are visited, the verdict of the rate limiter, what agents and other
  handlers do while a handler waits, and whether its wait is over; the writers of JSON and of times, the validator of
  addresses, the parser of times and the order of audit entries of equal time. The routes that stream are
  \<open>dp_other\<close>.\<close>

record Central =
  ct_srv :: CentralServer
  ct_served :: nat

record Deploy =
  dp_clk :: "nat \<Rightarrow> nat \<Rightarrow> int"
  dp_rand :: "nat \<Rightarrow> bytes option"
  dp_uuid :: "nat \<Rightarrow> nat \<Rightarrow> string"
  dp_order :: "nat \<Rightarrow> string list"
  dp_limited :: "nat \<Rightarrow> bool"
  dp_ip :: string
  dp_env :: "nat \<Rightarrow> GRPCServer \<Rightarrow> GRPCServer"
  dp_ctx_done :: "nat \<Rightarrow> bool"
  dp_print :: "json \<Rightarrow> string"
  dp_time :: "int \<Rightarrow> string"
  dp_is_email :: "string \<Rightarrow> bool"
  dp_rfc3339 :: "string \<Rightarrow> int option"
  dp_newest_first :: "AuditLog list \<Rightarrow> AuditLog list"
  dp_other :: "HttpRequest \<Rightarrow> CentralServer \<Rightarrow> HttpResponse option \<times> CentralServer"

definition respond :: "Deploy \<Rightarrow> nat \<Rightarrow> json \<Rightarrow> HttpResponse" where
  "respond d code j = \<lparr>hp_Status = code, hp_Body = dp_print d j, hp_Json = Some j\<rparr>"

definition respond_to :: "Deploy \<Rightarrow> ('a \<Rightarrow> json) \<Rightarrow> 'a resp \<Rightarrow> HttpResponse" where
  "respond_to d enc r = (case r of
     RespError code msg \<Rightarrow> respond d code (error_json msg)
   | RespOk code a \<Rightarrow> respond d code (enc a))"

definition exec_path :: "string \<Rightarrow> string option" where
  "exec_path path = (case split_on CHR ''/'' path of
     [a, b, c, e, name, f] \<Rightarrow>
       if [a, b, c, e, f] = [[], ''api'', ''v1'', ''clusters'', ''exec''] \<and> name \<noteq> [] then Some name else None
   | _ \<Rightarrow> None)"

text \<open>A parameter of a path is one segment that is not empty.\<close>

definition id_path :: "string \<Rightarrow> string \<Rightarrow> string option" where
  "id_path prefix path =
     (let i = trim_prefix path prefix
      in if has_prefix path prefix \<and> i \<noteq> [] \<and> CHR ''/'' \<notin> set i then Some i else None)"

definition admin_route :: "HttpRequest \<Rightarrow> (endpoint \<times> string) option" where
  "admin_route rq =
     (if hr_Path rq = ''/api/v1/admin/users'' then
        (case hr_Method rq of GET \<Rightarrow> Some (ListUsersRoute, []) | POST \<Rightarrow> Some (CreateUserRoute, []) | _ \<Rightarrow> None)
      else if hr_Path rq = ''/api/v1/admin/agent-tokens'' then
        (case hr_Method rq of GET \<Rightarrow> Some (ListTokens, []) | POST \<Rightarrow> Some (CreateToken, []) | _ \<Rightarrow> None)
      else if hr_Path rq = ''/api/v1/admin/audit'' then
        (if hr_Method rq = GET then Some (ListAudit, []) else None)
      else case (id_path ''/api/v1/admin/users/'' (hr_Path rq), id_path ''/api/v1/admin/agent-tokens/'' (hr_Path rq)) of
        (Some i, _) \<Rightarrow>
          (case hr_Method rq of PUT \<Rightarrow> Some (UpdateUserRoute, i) | DELETE \<Rightarrow> Some (DeleteUserRoute, i) | _ \<Rightarrow> None)
      | (None, Some i) \<Rightarrow> if hr_Method rq = DELETE then Some (RevokeToken, i) else None
      | (None, None) \<Rightarrow> None)"

definition endpoint_of :: "HttpRequest \<Rightarrow> (endpoint \<times> string) option" where
  "endpoint_of rq =
     (if hr_Method rq = GET \<and> hr_Path rq = ''/health'' then Some (Health, [])
      else if hr_Method rq = POST \<and> hr_Path rq = ''/auth/login'' then Some (Login, [])
      else if hr_Method rq = POST \<and> hr_Path rq = ''/auth/refresh'' then Some (Refresh, [])
      else if hr_Method rq = POST \<and> hr_Path rq = ''/api/v1/auth/logout'' then Some (Logout, [])
      else if hr_Method rq = GET \<and> hr_Path rq = ''/api/v1/clusters'' then Some (ListClustersRoute, [])
      else if has_prefix (hr_Path rq) ''/api/v1/admin/'' then admin_route rq
      else if hr_Method rq = POST \<and> hr_Path rq = ''/api/v1/auth/change-password'' then Some (ChangePassword, [])
      else if hr_Method rq = POST then map_option (Pair Exec) (exec_path (hr_Path rq))
      else None)"

definition with_db :: "CentralServer \<Rightarrow> 'a \<times> Db \<Rightarrow> 'a \<times> CentralServer" where
  "with_db s r = (fst r, s\<lparr>srv_grpc := (srv_grpc s)\<lparr>g_db := snd r\<rparr>\<rparr>)"

text \<open>Behind the body limit a value whose text is longer than a megabyte cannot be read to its end; behind the rate
  limiter, which cuts the body (\<open>peekEmail\<close>), one that is longer than four kilobytes.\<close>

definition body_limit :: nat where
  "body_limit = 1048576"

definition peek_limit :: nat where
  "peek_limit = 4096"

definition body_of :: "HttpRequest \<Rightarrow> (json \<Rightarrow> 'a option) \<Rightarrow> 'a option" where
  "body_of rq bind = (case hr_Body rq of None \<Rightarrow> None | Some j \<Rightarrow> bind j)"

definition limited_body :: "nat \<Rightarrow> Deploy \<Rightarrow> HttpRequest \<Rightarrow> (json \<Rightarrow> 'a option) \<Rightarrow> 'a option" where
  "limited_body limit d rq bind = body_of rq (\<lambda>j. if length (dp_print d j) > limit then None else bind j)"

definition query_value :: "HttpRequest \<Rightarrow> string \<Rightarrow> string" where
  "query_value rq k = (case map_of (hr_Query rq) k of None \<Rightarrow> [] | Some v \<Rightarrow> v)"

text \<open>A handler of a resource in the database, and the JSON of what it returns.\<close>

definition serve_db ::
  "Deploy \<Rightarrow> ('a \<Rightarrow> json) \<Rightarrow> (Db \<Rightarrow> 'a resp \<times> Db) \<Rightarrow> CentralServer \<Rightarrow> HttpResponse option \<times> CentralServer" where
  "serve_db d enc handler s = (case with_db s (handler (g_db (srv_grpc s))) of (r, s1) \<Rightarrow> (Some (respond_to d enc r), s1))"

fun handle_admin ::
  "Deploy \<Rightarrow> nat \<Rightarrow> HttpRequest \<Rightarrow> endpoint \<Rightarrow> string \<Rightarrow> CentralServer \<Rightarrow> HttpResponse option \<times> CentralServer" where
  "handle_admin d n rq CreateToken i s =
     serve_db d (created_token_json (dp_time d)) (HandleCreateAgentToken (srv_admin s) (\<lambda>k. dp_clk d n (k + 1)) (dp_rand d n)
       (dp_uuid d n 0) (dp_uuid d n 1) (limited_body body_limit d rq bind_create_token)) s"
| "handle_admin d n rq ListTokens i s =
     serve_db d (tokens_list_json (dp_time d)) (HandleListAgentTokens (query_value rq ''cluster'')) s"
| "handle_admin d n rq RevokeToken i s = serve_db d message_json (HandleRevokeAgentToken i) s"
| "handle_admin d n rq ListUsersRoute i s = serve_db d (users_json (dp_time d)) HandleListUsers s"
| "handle_admin d n rq CreateUserRoute i s =
     serve_db d (user_json (dp_time d)) (HandleCreateUser (srv_admin s) (dp_clk d n 1) (dp_uuid d n 0)
       (limited_body body_limit d rq (bind_create_user (dp_is_email d)))) s"
| "handle_admin d n rq UpdateUserRoute i s =
     serve_db d (user_json (dp_time d)) (HandleUpdateUser (srv_admin s) (dp_clk d n 1) i
       (limited_body body_limit d rq bind_update_user)) s"
| "handle_admin d n rq DeleteUserRoute i s = serve_db d message_json (HandleDeleteUser i) s"
| "handle_admin d n rq ListAudit i s =
     serve_db d (logs_json (dp_time d)) (HandleListAuditLogs (dp_rfc3339 d) (dp_newest_first d) (query_value rq)) s"
| "handle_admin d n rq e i s = dp_other d rq s"

definition handleHealth :: "Deploy \<Rightarrow> HttpResponse" where
  "handleHealth d = respond d 200 (JObj [(''status'', JStr ''healthy'')])"

fun handle_endpoint ::
  "Deploy \<Rightarrow> nat \<Rightarrow> HttpRequest \<Rightarrow> UserClaims option \<Rightarrow> endpoint \<Rightarrow> string \<Rightarrow> CentralServer \<Rightarrow>
     HttpResponse option \<times> CentralServer" where
  "handle_endpoint d n rq user Health name s = (Some (handleHealth d), s)"
| "handle_endpoint d n rq user Login name s =
     (case with_db s (HandleLogin (srv_auth s) (\<lambda>i. dp_clk d n (i + 1)) (dp_rand d n) (dp_uuid d n 0)
          (limited_body peek_limit d rq bind_login) (g_db (srv_grpc s))) of
        (r, s1) \<Rightarrow> (Some (respond_to d tokens_json r), s1))"
| "handle_endpoint d n rq user Refresh name s =
     (case with_db s (HandleRefresh (srv_auth s) (dp_clk d n 1) (\<lambda>i. dp_clk d n (i + 2)) (dp_rand d n) (dp_uuid d n 0)
          (limited_body peek_limit d rq bind_refresh) (g_db (srv_grpc s))) of
        (r, s1) \<Rightarrow> (Some (respond_to d tokens_json r), s1))"
| "handle_endpoint d n rq user Logout name s =
     (case with_db s (HandleLogout (srv_auth s) (body_of rq bind_refresh) (g_db (srv_grpc s))) of
        (r, s1) \<Rightarrow> (Some (respond_to d message_json r), s1))"
| "handle_endpoint d n rq user ListClustersRoute name s =
     (Some (respond d 200 (clusters_json (handleListClusters (dp_order d n) (srv_grpc s)))), s)"
| "handle_endpoint d n rq user Exec name s =
     (case handleExecCommand (srv_http s) \<lparr>rq_user = user, rq_ip = dp_ip d\<rparr> (dp_order d n) (dp_uuid d n 0) (dp_uuid d n 1)
          (\<lambda>i. dp_clk d n (i + 1)) (dp_rand d n) (dp_ctx_done d n) True name (limited_body body_limit d rq bind_exec) (dp_env d n) (srv_grpc s) of
        None \<Rightarrow> (None, s)
      | Some (r, g) \<Rightarrow> (Some (respond_to d exec_json r), s\<lparr>srv_grpc := g\<rparr>))"
| "handle_endpoint d n rq user ChangePassword name s =
     serve_db d message_json (HandleChangePassword (srv_auth s) (dp_clk d n 1) user
       (body_of rq bind_change_password)) s"
| "handle_endpoint d n rq user e name s = (if admin_endpoint e then handle_admin d n rq e name s else dp_other d rq s)"

definition header_of :: "HttpRequest \<Rightarrow> string" where
  "header_of rq = (case hr_Auth rq of None \<Rightarrow> [] | Some h \<Rightarrow> h)"

definition chain_for :: "Deploy \<Rightarrow> nat \<Rightarrow> string \<Rightarrow> endpoint \<Rightarrow> CentralServer \<Rightarrow> (nat \<times> string) + UserClaims option" where
  "chain_for d n header e s =
     run_chain (ah_lib (srv_auth s)) (ah_jwt (srv_auth s)) (dp_clk d n 0) header (dp_limited d n) (middlewares e) None"

definition central_http :: "Deploy \<Rightarrow> Central server" where
  "central_http d rq w =
     (let n = ct_served w; s = ct_srv w in
      case (case endpoint_of rq of
          None \<Rightarrow> dp_other d rq s
        | Some (e, name) \<Rightarrow>
            (case chain_for d n (header_of rq) e s of
               Inl (code, msg) \<Rightarrow> (Some (respond d code (error_json msg)), s)
             | Inr user \<Rightarrow> handle_endpoint d n rq user e name s)) of
        (r, s1) \<Rightarrow> (r, \<lparr>ct_srv = s1, ct_served = Suc n\<rparr>))"



section \<open>Lemmas: bodies\<close>

lemma equal_fold_length: "length s \<noteq> length t \<Longrightarrow> \<not> equal_fold s t"
  by (auto simp: equal_fold_def dest: map_eq_imp_length_eq)

lemma json_elems_map [simp]: "(\<And>a. enc a \<noteq> JNull) \<Longrightarrow> (\<And>a. dec (enc a) = Some a) \<Longrightarrow>
    json_elems dec zero (map enc as) = Some as"
  by (induction as) simp_all

lemma json_elems_strings [simp]: "json_elems json_string zero (map JStr ss) = Some ss"
  by (rule json_elems_map) simp_all

lemma bind_exec_body:
  assumes "- (2 ^ 63) \<le> t" and "t < 2 ^ 63"
  shows "bind_exec (exec_body cmd ns t i) =
    Some \<lparr>ex_Command = cmd, ex_Namespace = ns, ex_Timeout = t, ex_Stdin = bytes_of i\<rparr>"
proof -
  have "\<not> equal_fold ''namespace'' ''command''" "\<not> equal_fold ''command'' ''namespace''"
    "\<not> equal_fold ''timeout'' ''namespace''" "\<not> equal_fold ''stdin'' ''namespace''" "\<not> equal_fold ''stdin'' ''timeout''"
    "\<not> equal_fold ''stdin'' ''command''" "\<not> equal_fold ''namespace'' ''timeout''" "\<not> equal_fold ''namespace'' ''stdin''"
    "\<not> equal_fold ''timeout'' ''stdin''" "\<not> equal_fold ''command'' ''stdin''"
    by (simp_all add: equal_fold_length)
  moreover have "\<not> equal_fold ''timeout'' ''command''" "\<not> equal_fold ''command'' ''timeout''"
    by (simp_all add: equal_fold_def to_lower_def)
  ultimately show ?thesis
    using assms by (simp add: bind_exec_def exec_body_def json_entries_append)
qed

lemma decode_exec_json:
  "decode_exec (exec_json x) =
     Some \<lparr>cx_Output = string_of (er_Output x), cx_ExitCode = er_ExitCode x, cx_Error = er_Error x\<rparr>"
proof -
  have "\<not> equal_fold ''exit_code'' ''output''" "\<not> equal_fold ''error'' ''output''" "\<not> equal_fold ''output'' ''exit_code''"
    "\<not> equal_fold ''error'' ''exit_code''" "\<not> equal_fold ''output'' ''error''" "\<not> equal_fold ''exit_code'' ''error''"
    by (simp_all add: equal_fold_length)
  moreover have "- (2 ^ 31) \<le> sint (er_ExitCode x)" "sint (er_ExitCode x) < 2 ^ 31"
    using sint_ge [of "er_ExitCode x"] sint_lt [of "er_ExitCode x"] by simp_all
  ultimately show ?thesis by (simp add: decode_exec_def exec_json_def json_entries_append)
qed

lemma decode_tokens_json:
  assumes "- (2 ^ 63) \<le> ExpiresIn t" and "ExpiresIn t < 2 ^ 63"
  shows "decode_login (respond d code (tokens_json t)) =
    Some \<lparr>lr_AccessToken = AccessToken t, lr_RefreshToken = tr_RefreshToken t, lr_ExpiresIn = ExpiresIn t\<rparr>"
proof -
  have "\<not> equal_fold ''refresh_token'' ''access_token''" "\<not> equal_fold ''expires_in'' ''access_token''"
    "\<not> equal_fold ''access_token'' ''refresh_token''" "\<not> equal_fold ''expires_in'' ''refresh_token''"
    "\<not> equal_fold ''access_token'' ''expires_in''" "\<not> equal_fold ''refresh_token'' ''expires_in''"
    by (simp_all add: equal_fold_length)
  then show ?thesis using assms by (simp add: decode_login_def respond_def tokens_json_def)
qed

lemma decode_clusters_json:
  "json_field (json_array decode_cluster zero) [] ''clusters'' (clusters_json cs) =
     Some (map (\<lambda>(name, status). \<lparr>ci_Name = name, ci_Status = status\<rparr>) cs)"
proof -
  have "\<not> equal_fold ''status'' ''name''" "\<not> equal_fold ''name'' ''status''"
    by (simp_all add: equal_fold_length)
  then have "decode_cluster (JObj [(''name'', JStr n), (''status'', JStr st)]) = Some \<lparr>ci_Name = n, ci_Status = st\<rparr>" for n st
    by (simp add: decode_cluster_def)
  then have "json_elems decode_cluster zero (map (\<lambda>(n, st). JObj [(''name'', JStr n), (''status'', JStr st)]) cs) =
      Some (map (\<lambda>(name, status). \<lparr>ci_Name = name, ci_Status = status\<rparr>) cs)"
    by (induction cs) auto
  then show ?thesis by (simp add: clusters_json_def)
qed

lemma bind_refresh_body: "t \<noteq> [] \<Longrightarrow> bind_refresh (JObj [(''refresh_token'', JStr t)]) = Some t"
  by (simp add: bind_refresh_def)

lemma split_on_append: "c \<notin> set xs \<Longrightarrow> split_on c (xs @ c # ys) = xs # split_on c ys"
  by (induction xs) auto

lemma exec_path_of:
  assumes "CHR ''/'' \<notin> set cluster" and "cluster \<noteq> []"
  shows "exec_path (''/api/v1/clusters/'' @ cluster @ ''/exec'') = Some cluster"
proof -
  have "split_on CHR ''/'' (cluster @ ''/exec'') = [cluster, ''exec'']"
    using split_on_append [OF assms(1), of "''exec''"] by simp
  then show ?thesis using assms(2) by (simp add: exec_path_def)
qed

lemma endpoint_exec:
  assumes "CHR ''/'' \<notin> set cluster" and "cluster \<noteq> []" and "hr_Method rq = POST"
    and "hr_Path rq = ''/api/v1/clusters/'' @ cluster @ ''/exec''"
  shows "endpoint_of rq = Some (Exec, cluster)"
  using assms(3,4) exec_path_of [OF assms(1,2)] by (simp add: endpoint_of_def has_prefix_def)



section \<open>The central server as a token service\<close>

definition guarded :: "HttpRequest \<Rightarrow> bool" where
  "guarded rq \<longleftrightarrow> (\<exists>e name. endpoint_of rq = Some (e, name) \<and> e \<in> {ListClustersRoute, Exec})"

definition accepts :: "Deploy \<Rightarrow> Central \<Rightarrow> string \<Rightarrow> bool" where
  "accepts d w tok \<longleftrightarrow> (\<exists>claims. AuthMiddleware (ah_lib (srv_auth (ct_srv w))) (ah_jwt (srv_auth (ct_srv w)))
     (dp_clk d (ct_served w) 0) (''Bearer '' @ tok) = Inr claims)"

text \<open>A refresh token that the next request can exchange: it is stored, not expired by then, and its user exists; the
  rate limiter lets the request pass, which is not too long, no statement fails, the libraries give an access token and a new
  identifier, and the access token is still valid at the request after that.\<close>

definition renews :: "Deploy \<Rightarrow> Central \<Rightarrow> string \<Rightarrow> bool" where
  "renews d w t \<longleftrightarrow>
     (let h = srv_auth (ct_srv w); db = g_db (srv_grpc (ct_srv w)); n = ct_served w in
      length (dp_print d (refresh_json t)) \<le> peek_limit \<and> \<not> dp_limited d n \<and> faults db = [] \<and> jwt_lawful (ah_lib h) \<and>
      - (2 ^ 63) \<le> refreshExpiry h div second \<and> refreshExpiry h div second < 2 ^ 63 \<and>
      dp_clk d (Suc n) 0 < stored_time (dp_clk d n 2 + accessExpiry (ah_jwt h)) \<and>
      dp_uuid d n 0 \<noteq> [] \<and> dp_uuid d n 0 \<notin> rt_ID ` set (refresh_tokens db) \<and>
      (\<exists>rt user b access.
         find (\<lambda>r. rt_TokenHash r = hashToken (ah_lib h) t) (refresh_tokens db) = Some rt \<and> dp_clk d n 1 \<le> rt_ExpiresAt rt \<and>
         find (\<lambda>u. u_ID u = rt_UserID rt) (users db) = Some user \<and> dp_rand d n = Some b \<and>
         GenerateAccessToken (ah_lib h) (ah_jwt h) (dp_clk d n 2) (user_claims user) = Some access \<and> access \<noteq> []))"

definition renewable :: "Deploy \<Rightarrow> Central \<Rightarrow> string \<Rightarrow> bool" where
  "renewable d w t = renews d (w\<lparr>ct_served := Suc (ct_served w)\<rparr>) t"

text \<open>What a renewal does not touch.\<close>

definition api_view :: "Central \<Rightarrow> HTTPServer \<times> AgentStore \<times> CommandQueue" where
  "api_view w = (srv_http (ct_srv w), g_agents (srv_grpc (ct_srv w)), g_queue (srv_grpc (ct_srv w)))"

lemma bearer_fields [simp]:
  "hr_Method (bearer tok rq) = hr_Method rq" "hr_Path (bearer tok rq) = hr_Path rq"
  "hr_Query (bearer tok rq) = hr_Query rq" "hr_Body (bearer tok rq) = hr_Body rq"
  by (simp_all add: bearer_def)

lemma endpoint_of_bearer [simp]: "endpoint_of (bearer tok rq) = endpoint_of rq"
  unfolding endpoint_of_def admin_route_def by (simp only: bearer_fields)

lemma header_of_bearer [simp]: "header_of (bearer tok rq) = ''Bearer '' @ tok"
  by (simp add: header_of_def bearer_def)

lemma chain_accepted:
  assumes "e \<in> {ListClustersRoute, Exec}" and "accepts d w tok"
  shows "\<exists>claims. chain_for d (ct_served w) (''Bearer '' @ tok) e (ct_srv w) = Inr (Some claims)"
  using assms by (auto simp: chain_for_def accepts_def)

lemma chain_refused:
  assumes "e \<in> {ListClustersRoute, Exec}" and "\<not> accepts d w tok"
  shows "\<exists>msg. chain_for d (ct_served w) (''Bearer '' @ tok) e (ct_srv w) = Inl (401, msg)"
  using assms
  by (cases "AuthMiddleware (ah_lib (srv_auth (ct_srv w))) (ah_jwt (srv_auth (ct_srv w))) (dp_clk d (ct_served w) 0) (''Bearer '' @ tok)")
    (auto simp: chain_for_def accepts_def AuthMiddleware_def Let_def split: if_splits option.splits)

lemma find_agent_code: "find_agent order cluster g = Inl (code, msg) \<Longrightarrow> code = 404 \<or> code = 503"
  by (auto simp: find_agent_def split: option.splits if_splits)

lemma handleExecCommand_code:
  assumes "handleExecCommand s \<lparr>rq_user = Some claims, rq_ip = ip\<rparr> order uuid uuid2 clk rand ctx_done pick cluster body env g =
      Some (r, g1)"
  shows "r = RespError code msg \<Longrightarrow> code \<noteq> 401" and "r = RespOk code x \<Longrightarrow> code = 200"
  using assms
  by (auto simp: handleExecCommand_def exec_begin_def exec_finish_def check_exec_def authorizeExec_def
      dest: find_agent_code split: sum.splits prod.splits option.splits if_splits wait_outcome.splits)

lemma central_refused:
  assumes "guarded rq" and "\<not> accepts d w tok"
  shows "\<exists>r. central_http d (bearer tok rq) w = (Some r, w\<lparr>ct_served := Suc (ct_served w)\<rparr>) \<and> hp_Status r = 401"
proof -
  obtain e name where e: "endpoint_of rq = Some (e, name)" "e \<in> {ListClustersRoute, Exec}"
    using assms(1) by (auto simp: guarded_def)
  obtain msg where "chain_for d (ct_served w) (''Bearer '' @ tok) e (ct_srv w) = Inl (401, msg)"
    using chain_refused [OF e(2) assms(2)] by blast
  then show ?thesis using e(1) by (simp add: central_http_def Let_def respond_def)
qed

lemma central_accepted:
  assumes "guarded rq" and "accepts d w tok" and "central_http d (bearer tok rq) w = (Some r, w1)"
  shows "hp_Status r \<noteq> 401"
proof -
  obtain e name where e: "endpoint_of rq = Some (e, name)" "e = ListClustersRoute \<or> e = Exec"
    using assms(1) by (auto simp: guarded_def)
  obtain claims where "chain_for d (ct_served w) (''Bearer '' @ tok) e (ct_srv w) = Inr (Some claims)"
    using chain_accepted [of e d w tok] e(2) assms(2) by blast
  then show ?thesis
    using e assms(3)
    by (auto simp: central_http_def Let_def respond_def respond_to_def split: option.splits prod.splits resp.splits
        dest!: handleExecCommand_code(1) [OF _ refl] handleExecCommand_code(2) [OF _ refl])
qed

lemma central_renewed:
  assumes "renews d w t" and "t \<noteq> []"
  shows "\<exists>r lr w1. central_http d (refresh_request t) w = (Some r, w1) \<and> hp_Status r = 200 \<and> decode_login r = Some lr \<and>
    lr_AccessToken lr \<noteq> [] \<and> accepts d w1 (lr_AccessToken lr) \<and> api_view w1 = api_view w"
proof -
  define h where "h = srv_auth (ct_srv w)"
  define db where "db = g_db (srv_grpc (ct_srv w))"
  define n where "n = ct_served w"
  have small: "length (dp_print d (refresh_json t)) \<le> peek_limit" using assms(1) by (simp add: renews_def Let_def)
  obtain rt user b access where r: "\<not> dp_limited d n" "faults db = []" "jwt_lawful (ah_lib h)"
      "- (2 ^ 63) \<le> refreshExpiry h div second" "refreshExpiry h div second < 2 ^ 63"
      "dp_clk d (Suc n) 0 < stored_time (dp_clk d n 2 + accessExpiry (ah_jwt h))"
      "dp_uuid d n 0 \<noteq> []" "dp_uuid d n 0 \<notin> rt_ID ` set (refresh_tokens db)"
      "find (\<lambda>r. rt_TokenHash r = hashToken (ah_lib h) t) (refresh_tokens db) = Some rt" "dp_clk d n 1 \<le> rt_ExpiresAt rt"
      "find (\<lambda>u. u_ID u = rt_UserID rt) (users db) = Some user" "dp_rand d n = Some b"
      "GenerateAccessToken (ah_lib h) (ah_jwt h) (dp_clk d n 2) (user_claims user) = Some access" "access \<noteq> []"
    using assms(1) unfolding renews_def Let_def h_def db_def n_def by auto
  let ?t = "\<lparr>AccessToken = access, tr_RefreshToken = hex_encode b, ExpiresIn = refreshExpiry h div second\<rparr>"
  let ?res = "HandleRefresh h (dp_clk d n 1) (\<lambda>i. dp_clk d n (i + 2)) (dp_rand d n) (dp_uuid d n 0) (Some t) db"
  have ok: "fst ?res = RespOk 200 ?t"
    using HandleRefresh_succeeds [OF r(2,9,10,11) _ r(7,8), where clk = "\<lambda>i. dp_clk d n (i + 2)" and access = access and b = b]
      r(12,13) by (simp add: numeral_2_eq_2)
  have body: "limited_body peek_limit d (refresh_request t) bind_refresh = Some t"
    using bind_refresh_body [OF assms(2)] small
    by (simp add: limited_body_def body_of_def refresh_request_def new_request_def refresh_json_def)
  have ep: "endpoint_of (refresh_request t) = Some (Refresh, [])"
    by (simp add: endpoint_of_def refresh_request_def new_request_def)
  let ?w1 = "\<lparr>ct_srv = (ct_srv w)\<lparr>srv_grpc := (srv_grpc (ct_srv w))\<lparr>g_db := snd ?res\<rparr>\<rparr>, ct_served = Suc n\<rparr>"
  have c: "central_http d (refresh_request t) w = (Some (respond d 200 (tokens_json ?t)), ?w1)"
    using ep ok body r(1)
    by (simp add: central_http_def Let_def chain_for_def with_db_def respond_to_def h_def [symmetric] db_def [symmetric]
        n_def [symmetric])
  have "AuthMiddleware (ah_lib h) (ah_jwt h) (dp_clk d (Suc n) 0) (''Bearer '' @ access) =
      Inr ((user_claims user)\<lparr>ExpiresAt := stored_time (dp_clk d n 2 + accessExpiry (ah_jwt h)),
        IssuedAt := stored_time (dp_clk d n 2), Issuer := ''kbridge''\<rparr>)"
    using access_token_valid [OF r(3,13), of "ah_jwt h" "dp_clk d (Suc n) 0"] r(6) by simp
  then have "accepts d ?w1 access" by (auto simp: accepts_def h_def)
  moreover have "decode_login (respond d 200 (tokens_json ?t)) = Some
      \<lparr>lr_AccessToken = access, lr_RefreshToken = hex_encode b, lr_ExpiresIn = refreshExpiry h div second\<rparr>"
    using decode_tokens_json [of ?t] r(4,5) by simp
  moreover have "api_view ?w1 = api_view w" by (simp add: api_view_def)
  ultimately show ?thesis using c r(14) by (intro exI [of _ "respond d 200 (tokens_json ?t)"]) (simp add: respond_def)
qed

interpretation kbridge_api: token_service "central_http d" guarded "accepts d" "renews d" "renewable d" api_view for d
proof
  fix rq w tok t
  assume "guarded rq" "\<not> accepts d w tok" "renewable d w t"
  then show "\<exists>r w1. central_http d (bearer tok rq) w = (Some r, w1) \<and> hp_Status r = 401 \<and> renews d w1 t \<and>
      api_view w1 = api_view w"
    using central_refused by (fastforce simp: renewable_def api_view_def)
next
  fix rq w tok r w1
  assume "guarded rq" "accepts d w tok" "central_http d (bearer tok rq) w = (Some r, w1)"
  then show "hp_Status r \<noteq> 401" by (rule central_accepted)
next
  fix w t
  assume "renews d w t" "t \<noteq> []"
  then show "\<exists>r lr w1. central_http d (refresh_request t) w = (Some r, w1) \<and> hp_Status r = 200 \<and>
      decode_login r = Some lr \<and> lr_AccessToken lr \<noteq> [] \<and> accepts d w1 (lr_AccessToken lr) \<and> api_view w1 = api_view w"
    by (rule central_renewed)
qed

end
