(* ===== verification/Cli_Session.thy ===== *)
theory Cli_Session
  imports Cli_Access Cli_Commands
begin

text \<open>
  The interactive sessions of \<open>kb\<close>: \<open>exec -it\<close> (\<open>internal/cli/exec.go\<close>) and \<open>port-forward\<close>
  (\<open>internal/cli/portforward.go\<close>), on the client's side of the stream.

  The stream is a request whose body is written while the response is read; here the response's body is the bytes
  that arrive. Signals, the raw mode of the terminal and the HTTP/2 transport are left out.
\<close>


section \<open>Opening a stream\<close>

text \<open>\<open>reason\<close> is the library's text of a status.\<close>

definition httpStatusError :: "(nat \<Rightarrow> string) \<Rightarrow> HttpResponse \<Rightarrow> string" where
  "httpStatusError reason r =
     (if hp_Status r = 401 then ''authentication required, run kb login''
      else if hp_Status r = 403 then ''permission denied''
      else if hp_Status r = 404 then ''cluster not found''
      else if hp_Status r = 503 then ''cluster agent is disconnected''
      else if hp_Status r = 429 then ''too many concurrent sessions''
      else ''exec failed: '' @ decimal (hp_Status r) @ '' '' @ reason (hp_Status r) @ '': '' @ trim_space (hp_Body r))"

definition refreshTokenViaHTTP :: "'w server \<Rightarrow> string \<Rightarrow> 'w \<Rightarrow> (string + string \<times> string) \<times> 'w" where
  "refreshTokenViaHTTP serve refreshToken w =
     (case serve (new_request POST ''/auth/refresh'' (Some (refresh_json refreshToken))) w of
        (None, w1) \<Rightarrow> (Inl ''refresh request failed'', w1)
      | (Some r, w1) \<Rightarrow>
          (if hp_Status r \<noteq> 200 then Inl (''refresh failed with status '' @ decimal (hp_Status r))
           else case decode_login r of
             None \<Rightarrow> Inl ''decoding refresh response''
           | Some lr \<Rightarrow> Inr (lr_AccessToken lr, lr_RefreshToken lr), w1))"

definition stream_checked :: "(nat \<Rightarrow> string) \<Rightarrow> HttpResponse \<Rightarrow> string + bytes" where
  "stream_checked reason r =
     (if hp_Status r \<noteq> 200 then Inl (httpStatusError reason r) else Inr (bytes_of (hp_Body r)))"

text \<open>Both kinds of sessions connect alike: an error, or the bytes that arrive. A failed renewal is not reported, and
  whether the configuration can be saved is not looked at.\<close>

definition open_stream ::
  "(nat \<Rightarrow> string) \<Rightarrow> 'w server \<Rightarrow> string \<Rightarrow> url_query \<Rightarrow> CliConfig \<Rightarrow> 'w \<Rightarrow> (string + bytes) \<times> CliConfig \<times> 'w" where
  "open_stream reason serve path query cfg w =
     (let req = (new_request POST path None)\<lparr>hr_Query := query\<rparr> in
      case serve (req\<lparr>hr_Auth := Some (''Bearer '' @ conf_token cfg)\<rparr>) w of
        (None, w1) \<Rightarrow> (Inl ''connecting'', cfg, w1)
      | (Some r, w1) \<Rightarrow>
          if hp_Status r = 401 \<and> conf_refresh_token cfg \<noteq> [] then
            (case refreshTokenViaHTTP serve (conf_refresh_token cfg) w1 of
               (Inl e, w2) \<Rightarrow> (stream_checked reason r, cfg, w2)
             | (Inr (access, refresh), w2) \<Rightarrow>
                 (let cfg1 = set_tokens access refresh cfg in
                  case serve (req\<lparr>hr_Auth := Some (''Bearer '' @ access)\<rparr>) w2 of
                    (None, w3) \<Rightarrow> (Inl ''connecting'', cfg1, w3)
                  | (Some r3, w3) \<Rightarrow> (stream_checked reason r3, cfg1, w3)))
          else (stream_checked reason r, cfg, w1))"


section \<open>Interactive exec\<close>

text \<open>The size of the window, when standard input is a terminal and tells it (as width and height).\<close>

definition exec_size :: "bool \<Rightarrow> (int \<times> int) option \<Rightarrow> 16 word \<times> 16 word" where
  "exec_size is_tty win = (case win of
     Some (w, h) \<Rightarrow> if is_tty then (word_of_int h, word_of_int w) else (24, 80)
   | None \<Rightarrow> (24, 80))"

text \<open>The request's body is a pipe that can be closed.\<close>

definition pipe_write :: "bytes \<times> bool \<Rightarrow> bytes \<Rightarrow> (bytes \<times> bool) \<times> unit option" where
  "pipe_write p d = (if snd p then ((fst p @ d, True), None) else (p, Some ()))"

text \<open>What the goroutines of the input see: a read of standard input with its bytes and whether it failed, and a change
  of the window's size. \<open>reading\<close> is whether the goroutine of standard input still runs.\<close>

datatype exec_input = StdinRead bytes bool | WindowChanged int int

fun exec_pump :: "exec_input list \<Rightarrow> bool \<Rightarrow> bytes \<times> bool \<Rightarrow> bytes \<times> bool" where
  "exec_pump [] reading p = p"
| "exec_pump (StdinRead d failed # evs) reading p =
     (if \<not> reading then exec_pump evs False p
      else (case (if d \<noteq> [] then Encode pipe_write p Stdin d else (p, None)) of
          (p1, Some e) \<Rightarrow> exec_pump evs False p1
        | (p1, None) \<Rightarrow> if failed then exec_pump evs False (fst p1, False) else exec_pump evs True p1))"
| "exec_pump (WindowChanged w h # evs) reading p =
     exec_pump evs reading (fst (Encode pipe_write p Resize (EncodeResize (word_of_int h, word_of_int w))))"

text \<open>The terminal: what was written to standard output and to standard error. The exit code is \<open>None\<close> when the stream
  ends without an exit frame.\<close>

record terminal =
  tm_out :: bytes
  tm_err :: bytes

fun show_frames :: "(byte \<times> bytes) list \<Rightarrow> terminal \<Rightarrow> terminal \<times> int option" where
  "show_frames [] t = (t, None)"
| "show_frames ((ty, payload) # fs) t =
     (if ty = Stdout then show_frames fs (t\<lparr>tm_out := tm_out t @ payload\<rparr>)
      else if ty = Stderr then show_frames fs (t\<lparr>tm_err := tm_err t @ payload\<rparr>)
      else if ty = Exit then
        (case (case DecodeExit payload of Inl e \<Rightarrow> (0, []) | Inr cm \<Rightarrow> cm) of
           (code, msg) \<Rightarrow> (if msg \<noteq> [] then t\<lparr>tm_err := tm_err t @ bytes_of msg @ [10]\<rparr> else t, Some (sint code)))
      else show_frames fs t)"

text \<open>The loop reads frames until the first error; without an exit frame the command ends without an error.\<close>

definition exec_display :: "bytes \<Rightarrow> terminal \<times> int" where
  "exec_display body = (case show_frames (fst (decode_frames body)) \<lparr>tm_out = [], tm_err = []\<rparr> of
     (t, None) \<Rightarrow> (t, 0)
   | (t, Some code) \<Rightarrow> (t, code))"

definition attach_path :: "string \<Rightarrow> string" where
  "attach_path cluster = ''/api/v1/clusters/'' @ cluster @ ''/exec/attach''"

definition runExecInteractive ::
  "(nat \<Rightarrow> string) \<Rightarrow> 'w server \<Rightarrow> bool \<Rightarrow> (int \<times> int) option \<Rightarrow> CliConfig \<Rightarrow> execTarget \<Rightarrow> 'w \<Rightarrow>
     (string + terminal \<times> int) \<times> CliConfig \<times> 'w" where
  "runExecInteractive reason serve isterm win cfg tgt w =
     (if tgt_pod tgt = [] then (Inl ''exec requires a pod name'', cfg, w)
      else (case exec_size (tgt_tty tgt \<and> isterm) win of
          (rows, cols) \<Rightarrow>
            (case open_stream reason serve (attach_path (current_cluster cfg)) (exec_query tgt rows cols) cfg w of
               (Inl e, cw) \<Rightarrow> (Inl e, cw)
             | (Inr body, cw) \<Rightarrow> (Inr (exec_display body), cw))))"

definition execInteractiveFromConfig ::
  "(nat \<Rightarrow> string) \<Rightarrow> 'w server \<Rightarrow> bool \<Rightarrow> (int \<times> int) option \<Rightarrow> CliConfig \<Rightarrow> execTarget \<Rightarrow> 'w \<Rightarrow>
     (string + terminal \<times> int) \<times> CliConfig \<times> 'w" where
  "execInteractiveFromConfig reason serve isterm win cfg tgt w =
     (if central_url cfg = [] then (Inl not_configured, cfg, w)
      else if current_cluster cfg = [] then (Inl no_cluster, cfg, w)
      else runExecInteractive reason serve isterm win cfg tgt w)"



section \<open>Lemmas: what is typed and what is shown\<close>

text \<open>What the user does, up to the end of standard input.\<close>

fun exec_ops :: "exec_input list \<Rightarrow> exec_op list" where
  "exec_ops [] = []"
| "exec_ops (StdinRead d failed # evs) = (if d \<noteq> [] then [Typed d] else []) @ (if failed then [] else exec_ops evs)"
| "exec_ops (WindowChanged w h # evs) = Window (word_of_int h) (word_of_int w) # exec_ops evs"

text \<open>The reads are into a buffer of 32 kilobytes.\<close>

fun read_bounded :: "exec_input \<Rightarrow> bool" where
  "read_bounded (StdinRead d failed) = (length d \<le> 32 * 1024)"
| "read_bounded (WindowChanged w h) = True"

lemma Encode_pipe:
  "Encode pipe_write (w, True) t d = (if frame_ok (t, d) then ((w @ frame_bytes (t, d), True), None)
     else ((w, True), Some (WTooLarge (length d))))"
  by (simp add: Encode_def write_frame_def pipe_write_def frame_bytes_def frame_ok_def Let_def)

lemma Encode_closed_pipe: "fst (Encode pipe_write (w, False) t d) = (w, False)"
  by (simp add: Encode_def write_frame_def pipe_write_def Let_def)

lemma exec_pump_closed: "exec_pump evs False (w, False) = (w, False)"
proof (induction evs)
  case (Cons ev evs)
  then show ?case by (cases ev) (simp_all add: Encode_closed_pipe)
qed simp

lemma frame_ok_resize: "frame_ok (Resize, EncodeResize rc)"
  by (simp add: EncodeResize_def)

lemma frame_ok_read: "length d \<le> 32 * 1024 \<Longrightarrow> frame_ok (Stdin, d)"
  by (simp add: frame_ok_def MaxPayload_def)

lemma exec_pump_ops:
  "list_all read_bounded evs \<Longrightarrow>
     fst (exec_pump evs True (w, True)) = w @ concat (map (\<lambda>op. frame_bytes (exec_op_frame op)) (exec_ops evs))"
proof (induction evs arbitrary: w)
  case (Cons ev evs)
  then show ?case
    by (cases ev) (auto simp: Encode_pipe frame_ok_resize frame_ok_read exec_pump_closed)
qed simp

lemma exec_ops_ok: "list_all read_bounded evs \<Longrightarrow> list_all (\<lambda>op. frame_ok (exec_op_frame op)) (exec_ops evs)"
proof (induction evs)
  case (Cons ev evs)
  then show ?case by (cases ev) (auto simp: frame_ok_resize frame_ok_read)
qed simp

text \<open>What the terminal shows of a list of chunks.\<close>

definition chunks_of :: "bool \<Rightarrow> StreamChunk list \<Rightarrow> bytes" where
  "chunks_of err q = concat (map chunk_Data (filter (\<lambda>chunk. (chunk_Type chunk = OUTPUT_TYPE_STDERR) = err) q))"

lemma chunks_of_simps [simp]:
  "chunks_of err [] = []"
  "chunks_of err (x # q) = (if (chunk_Type x = OUTPUT_TYPE_STDERR) = err then chunk_Data x @ chunks_of err q else chunks_of err q)"
  by (simp_all add: chunks_of_def)

lemma session_frame_types [simp]: "Stderr \<noteq> Stdout" "Stdout \<noteq> Stderr" "Exit \<noteq> Stdout" "Exit \<noteq> Stderr"
  by (simp_all add: Stdout_def Stderr_def Exit_def)

lemma show_chunks:
  "show_frames (map chunk_frame q @ fs) t =
     show_frames fs (t\<lparr>tm_out := tm_out t @ chunks_of False q, tm_err := tm_err t @ chunks_of True q\<rparr>)"
  by (induction q arbitrary: t) (auto simp: chunk_frame_def)

lemma show_no_exit: "Exit \<notin> fst ` set fs \<Longrightarrow> snd (show_frames fs t) = None"
  by (induction fs arbitrary: t) auto



lemma shown_session:
  assumes "bridge_quiet r evs" and "length q < length evs" and "r < length (sess_heap m)"
    and "ended (sess_at m r) = Some (code, msg)" and "Output (sess_at m r) = Some q"
    and "\<forall>chunk \<in> set q. length (chunk_Data chunk) \<le> MaxPayload" and "length msg + 4 \<le> MaxPayload"
  shows "exec_display (fst (exec_downstream buf_write evs r m [])) =
    (\<lparr>tm_out = chunks_of False q, tm_err = chunks_of True q @ (if msg \<noteq> [] then bytes_of msg @ [10] else [])\<rparr>, sint code)"
proof -
  obtain w m' where w: "exec_downstream buf_write evs r m [] = (w, Some (code, msg), m')"
      "decode_frames w = (map chunk_frame q @ [(Exit, EncodeExit (code, msg))], REof)"
      "DecodeExit (EncodeExit (code, msg)) = Inr (code, msg)"
    using exec_output_frames [OF assms] by blast
  show ?thesis by (simp add: exec_display_def w show_chunks)
qed


section \<open>Properties\<close>

text \<open>C9. An interactive session in the direction of the cluster: what the user types and every change of the window, up to
  the end of standard input, goes through the client's frames and the server's bridge and is sent to the agent as
  one message each, in order, with the same bytes and sizes, whatever other sessions do in between; a message
  is lost only where its own send fails.\<close>

theorem typed_input_reaches_agent:
  assumes "list_all read_bounded evs" and "list_all (\<lambda>(env, ok). leaves_to sid c env) sends"
    and "attached sid c m" and "length sends = length (exec_ops evs)"
  shows "sent_to sid c (exec_upstream sends sid (fst (exec_pump evs True ([], True))) m) =
    sent_to sid c m @ map (exec_op_msg sid \<circ> fst) (filter (snd \<circ> snd) (zip (exec_ops evs) sends))"
  using exec_up.relays [OF exec_ops_ok [OF assms(1)] assms(2-4)] exec_pump_ops [OF assms(1), of "[]"] by simp

theorem typed_input_reaches_agent_witness:
  "sent_to ''s1'' 0 (exec_upstream [(\<lambda>m. m, True), (\<lambda>m. m, True)] ''s1''
      (fst (exec_pump [StdinRead [108, 115] False, WindowChanged 80 24, StdinRead [] True, StdinRead [120] False] True ([], True))) demo_mgr) =
    [demo_start ''s1'', MsgStdin ''s1'' [108, 115], MsgResize ''s1'' 24 80]"
  using typed_input_reaches_agent [of "[StdinRead [108, 115] False, WindowChanged 80 24, StdinRead [] True, StdinRead [120] False]"
      "''s1''" 0 "[(\<lambda>m. m, True), (\<lambda>m. m, True)]" demo_mgr] demo_attached
  by simp

text \<open>An interactive session in the direction of the user: when the session has ended, the bytes the server's bridge
  writes make \<open>kb\<close> show the remaining chunks of standard output and of standard error, each in order, then the
  agent's message if there is one, and exit with the exit code of the remote command.\<close>

theorem terminal_shows_session:
  assumes "bridge_quiet r evs" and "length q < length evs" and "r < length (sess_heap m)"
    and "ended (sess_at m r) = Some (code, msg)" and "Output (sess_at m r) = Some q"
    and "\<forall>chunk \<in> set q. length (chunk_Data chunk) \<le> MaxPayload" and "length msg + 4 \<le> MaxPayload"
  shows "exec_display (fst (exec_downstream buf_write evs r m [])) =
    (\<lparr>tm_out = chunks_of False q, tm_err = chunks_of True q @ (if msg \<noteq> [] then bytes_of msg @ [10] else [])\<rparr>, sint code)"
  using assms by (rule shown_session)

theorem terminal_shows_session_witness:
  "exec_display (fst (exec_downstream buf_write [(\<lambda>m. m, False, True), (\<lambda>m. m, False, True)] 0 ended_mgr [])) =
    (\<lparr>tm_out = [], tm_err = 33 # bytes_of ''failed'' @ [10]\<rparr>, 3)"
  using terminal_shows_session [of 0 "[(\<lambda>m. m, False, True), (\<lambda>m. m, False, True)]"
      "[\<lparr>chunk_Type = OUTPUT_TYPE_STDERR, chunk_Data = [33]\<rparr>]" ended_mgr 3 "''failed''"]
  by (auto simp: bridge_quiet_def ended_mgr_def demo_session_def MaxPayload_def bytes_of_def)

text \<open>A session whose stream breaks off before its exit frame, because the agent, the server or the network is gone, ends
  as a success: \<open>kb\<close> exits with 0, whatever the remote command did.\<close>

theorem lost_session_exits_zero:
  assumes "Exit \<notin> fst ` set (fst (decode_frames body))"
  shows "snd (exec_display body) = 0"
  using show_no_exit [OF assms, of "\<lparr>tm_out = [], tm_err = []\<rparr>"]
  by (auto simp: exec_display_def split: prod.splits option.splits)

theorem lost_session_exits_zero_witness:
  "snd (exec_display (frame_bytes (Stdout, [104, 105]) @ [0x12, 0])) = 0"
proof (rule lost_session_exits_zero)
  have ok: "list_all frame_ok [(Stdout, [104, 105])]" by (simp add: frame_ok_def MaxPayload_def)
  have "decode_frames [0x12, 0] = ([], RUnexpectedEof)"
    by (simp add: decode_frames.simps read_frame_def read_full_def)
  then show "Exit \<notin> fst ` set (fst (decode_frames (frame_bytes (Stdout, [104, 105]) @ [0x12, 0])))"
    using frames.loop_concat [OF ok, of "[0x12, 0]"] by simp
qed

end
