(* ===== verification/Cli_Forward.thy ===== *)
theory Cli_Forward
  imports Cli_Session
begin

text \<open>
  Port-forwarding at the client (\<open>internal/cli/portforward.go\<close>): the registry of the local connections with its
  request pipe, the loop that reads the frames of the response, and the command around them.

  The goroutines (one per listener, one per connection, the read loop) interleave; the steps are the parts of them that
  no other goroutine can interrupt: what happens under the lock \<open>mu\<close>, and a frame written under the lock \<open>wmu\<close>.
\<close>


section \<open>The registry\<close>

text \<open>How far the goroutine of a connection is: before its open frame, reading, after its close frame, returned.\<close>

datatype conn_phase = Accepted | Reading | Closing | Returned

record local_conn =
  lc_ID :: "32 word"
  lc_remote :: "16 word"
  lc_phase :: conn_phase
  lc_read :: bytes
  lc_written :: bytes
  lc_closed :: bool

record pfConnRegistry =
  reg_conns :: "32 word \<Rightarrow> nat option"
  reg_heap :: "local_conn list"
  nextID :: "32 word"
  reg_pw :: "bytes \<times> bool"
  reg_ready :: bool
  reg_done :: bool
  sessErr :: string

definition new_registry :: pfConnRegistry where
  "new_registry = \<lparr>reg_conns = (\<lambda>_. None), reg_heap = [], nextID = 0, reg_pw = ([], True), reg_ready = False,
     reg_done = False, sessErr = []\<rparr>"

definition upd_conn :: "nat \<Rightarrow> (local_conn \<Rightarrow> local_conn) \<Rightarrow> pfConnRegistry \<Rightarrow> pfConnRegistry" where
  "upd_conn i f reg = reg\<lparr>reg_heap := (reg_heap reg)[i := f (reg_heap reg ! i)]\<rparr>"

definition writeFrame :: "byte \<Rightarrow> bytes \<Rightarrow> pfConnRegistry \<Rightarrow> pfConnRegistry" where
  "writeFrame t payload reg = reg\<lparr>reg_pw := fst (PfEncode pipe_write (reg_pw reg) t payload)\<rparr>"

text \<open>\<open>handleConn\<close>: the connection is registered, then announced.\<close>

definition conn_accept :: "16 word \<Rightarrow> pfConnRegistry \<Rightarrow> pfConnRegistry" where
  "conn_accept remote reg =
     (let cid = nextID reg + 1 in
      reg\<lparr>nextID := cid, reg_conns := (reg_conns reg)(cid \<mapsto> length (reg_heap reg)),
        reg_heap := reg_heap reg @ [\<lparr>lc_ID = cid, lc_remote = remote, lc_phase = Accepted, lc_read = [],
          lc_written = [], lc_closed = False\<rparr>]\<rparr>)"

definition conn_open :: "nat \<Rightarrow> pfConnRegistry \<Rightarrow> pfConnRegistry" where
  "conn_open i reg = upd_conn i (\<lambda>c. c\<lparr>lc_phase := Reading\<rparr>)
     (writeFrame Open (EncodeOpen (lc_ID (reg_heap reg ! i), lc_remote (reg_heap reg ! i))) reg)"

text \<open>Its goroutine: a read of the connection, the end of the loop, the return.\<close>

definition conn_data :: "nat \<Rightarrow> bytes \<Rightarrow> pfConnRegistry \<Rightarrow> pfConnRegistry" where
  "conn_data i d reg = upd_conn i (\<lambda>c. c\<lparr>lc_read := lc_read c @ d\<rparr>)
     (writeFrame Data (EncodeData (lc_ID (reg_heap reg ! i), d)) reg)"

definition conn_end :: "nat \<Rightarrow> pfConnRegistry \<Rightarrow> pfConnRegistry" where
  "conn_end i reg = upd_conn i (\<lambda>c. c\<lparr>lc_phase := Closing\<rparr>)
     (writeFrame Close (EncodeConnID (lc_ID (reg_heap reg ! i))) reg)"

definition reg_closeConn :: "32 word \<Rightarrow> pfConnRegistry \<Rightarrow> pfConnRegistry" where
  "reg_closeConn cid reg = (case reg_conns reg cid of
     None \<Rightarrow> reg
   | Some i \<Rightarrow> upd_conn i (\<lambda>c. c\<lparr>lc_closed := True\<rparr>) (reg\<lparr>reg_conns := (reg_conns reg)(cid := None)\<rparr>))"

definition conn_return :: "nat \<Rightarrow> pfConnRegistry \<Rightarrow> pfConnRegistry" where
  "conn_return i reg = upd_conn i (\<lambda>c. c\<lparr>lc_phase := Returned\<rparr>) (reg_closeConn (lc_ID (reg_heap reg ! i)) reg)"

text \<open>\<open>readLoop\<close>: one frame, and whether the loop goes on; a write to a connection that is closed is lost.\<close>

definition reg_frame :: "byte \<times> bytes \<Rightarrow> pfConnRegistry \<Rightarrow> pfConnRegistry \<times> bool" where
  "reg_frame f reg =
     (if fst f = Ready then (reg\<lparr>reg_ready := True\<rparr>, True)
      else if fst f = Data then
        ((case DecodeData (snd f) of
            Inl e \<Rightarrow> reg
          | Inr (cid, d) \<Rightarrow>
              (case reg_conns reg cid of
                 None \<Rightarrow> reg
               | Some i \<Rightarrow> upd_conn i (\<lambda>c. if lc_closed c then c else c\<lparr>lc_written := lc_written c @ d\<rparr>) reg)), True)
      else if fst f = Close then
        ((case DecodeConnID (snd f) of Inl e \<Rightarrow> reg | Inr cid \<Rightarrow> reg_closeConn cid reg), True)
      else if fst f = ConnError then
        ((case DecodeConnError (snd f) of Inl e \<Rightarrow> reg | Inr (cid, msg) \<Rightarrow> reg_closeConn cid reg), True)
      else if fst f = SessionError then (reg\<lparr>sessErr := string_of (snd f)\<rparr>, False)
      else (reg, True))"

definition finish :: "pfConnRegistry \<Rightarrow> pfConnRegistry" where
  "finish reg = reg\<lparr>reg_done := True\<rparr>"

text \<open>The loop with nothing in between: \<open>PfDecode\<close> until its first error.\<close>

fun read_frames :: "(byte \<times> bytes) list \<Rightarrow> pfConnRegistry \<Rightarrow> pfConnRegistry" where
  "read_frames [] reg = finish reg"
| "read_frames (f # fs) reg = (case reg_frame f reg of
     (reg1, True) \<Rightarrow> read_frames fs reg1
   | (reg1, False) \<Rightarrow> finish reg1)"

definition readLoop :: "bytes \<Rightarrow> pfConnRegistry \<Rightarrow> pfConnRegistry" where
  "readLoop body reg = read_frames (fst (decode_frames body)) reg"

text \<open>\<open>shutdown\<close> closes every connection of the map, which it replaces, and the request.\<close>

definition reg_shutdown :: "pfConnRegistry \<Rightarrow> pfConnRegistry" where
  "reg_shutdown reg = reg\<lparr>reg_conns := (\<lambda>_. None), reg_pw := (fst (reg_pw reg), False),
     reg_heap := map (\<lambda>i. let c = reg_heap reg ! i in
       if reg_conns reg (lc_ID c) = Some i then c\<lparr>lc_closed := True\<rparr> else c) [0..<length (reg_heap reg)]\<rparr>"


section \<open>The command\<close>

text \<open>\<open>bind\<close> listens at a port of the loopback address and gives the port it got; the connections that the listener
  accepts are the steps of the registry. The listeners before a failure stay until the command ends.\<close>

definition listen :: "(nat \<Rightarrow> nat option) \<Rightarrow> portMapping \<Rightarrow> string + 16 word" where
  "listen bind m = (case bind (unat (pm_local m)) of
     None \<Rightarrow> Inl (''listen on '' @ decimal (unat (pm_local m)))
   | Some bound \<Rightarrow> Inr (of_nat bound))"

fun listen_all :: "(nat \<Rightarrow> nat option) \<Rightarrow> portMapping list \<Rightarrow> string list \<times> string option" where
  "listen_all bind [] = ([], None)"
| "listen_all bind (m # ms) = (case listen bind m of
     Inl e \<Rightarrow> ([], Some e)
   | Inr bound \<Rightarrow>
       (case listen_all bind ms of (out, e) \<Rightarrow>
          ((''Forwarding from 127.0.0.1:'' @ decimal (unat bound) @ '' -> '' @ decimal (unat (pm_remote m))) # out, e)))"

definition pf_result :: "pfConnRegistry \<Rightarrow> string option" where
  "pf_result reg = (if sessErr reg \<noteq> [] then Some (''port-forward failed: '' @ sessErr reg) else None)"

definition pf_path :: "string \<Rightarrow> string" where
  "pf_path cluster = ''/api/v1/clusters/'' @ cluster @ ''/port-forward''"

text \<open>What was printed and the error, or \<open>None\<close> while the command waits. \<open>at_select\<close> and \<open>at_end\<close> are the registry when the
  two waits look at it, for the bytes of the response; \<open>pick\<close> is the choice when the session is both ready and done.\<close>

definition runPortForward where
  "runPortForward reason serve bind pick at_select at_end cfg tgt w =
     (case open_stream reason serve (pf_path (current_cluster cfg)) (pf_query tgt) cfg w of
        (Inl e, cw) \<Rightarrow> (Some ([], Some e), cw)
      | (Inr body, cw) \<Rightarrow>
          (let reg = at_select body in
           if reg_ready reg \<and> (pick \<or> \<not> reg_done reg) then
             (case listen_all bind (pft_mappings tgt) of
                (out, Some e) \<Rightarrow> Some (out, Some e)
              | (out, None) \<Rightarrow> if reg_done (at_end body) then Some (out, pf_result (at_end body)) else None)
           else if reg_done reg then Some ([], pf_result reg) else None, cw))"

definition portForwardFromConfig where
  "portForwardFromConfig reason serve bind pick at_select at_end cfg tgt w =
     (if central_url cfg = [] then (Some ([], Some ''central URL not configured, run 'kb login' first''), cfg, w)
      else if current_cluster cfg = [] then (Some ([], Some ''no cluster selected, run 'kb clusters use <name>' first''), cfg, w)
      else runPortForward reason serve bind pick at_select at_end cfg tgt w)"


section \<open>The steps\<close>

text \<open>The frames of the response are whatever the server sends. The transport may close the pipe at any time.\<close>

inductive reg_step :: "pfConnRegistry \<Rightarrow> pfConnRegistry \<Rightarrow> bool" where
  accept: "reg_step reg (conn_accept remote reg)"
| opened: "i < length (reg_heap reg) \<Longrightarrow> lc_phase (reg_heap reg ! i) = Accepted \<Longrightarrow> reg_step reg (conn_open i reg)"
| read_data: "i < length (reg_heap reg) \<Longrightarrow> lc_phase (reg_heap reg ! i) = Reading \<Longrightarrow> \<not> lc_closed (reg_heap reg ! i) \<Longrightarrow>
    d \<noteq> [] \<Longrightarrow> length d \<le> 32 * 1024 \<Longrightarrow> reg_step reg (conn_data i d reg)"
| read_end: "i < length (reg_heap reg) \<Longrightarrow> lc_phase (reg_heap reg ! i) = Reading \<Longrightarrow> reg_step reg (conn_end i reg)"
| returned: "i < length (reg_heap reg) \<Longrightarrow> lc_phase (reg_heap reg ! i) = Closing \<Longrightarrow> reg_step reg (conn_return i reg)"
| frame: "\<not> reg_done reg \<Longrightarrow> reg_frame f reg = (reg1, True) \<Longrightarrow> reg_step reg reg1"
| last_frame: "\<not> reg_done reg \<Longrightarrow> reg_frame f reg = (reg1, False) \<Longrightarrow> reg_step reg (finish reg1)"
| stream_end: "\<not> reg_done reg \<Longrightarrow> reg_step reg (finish reg)"
| shutdown: "reg_step reg (reg_shutdown reg)"
| pipe_gone: "reg_step reg (reg\<lparr>reg_pw := (fst (reg_pw reg), False)\<rparr>)"

inductive reg_reach :: "pfConnRegistry \<Rightarrow> bool" where
  init: "reg_reach new_registry"
| step: "reg_reach reg \<Longrightarrow> reg_step reg reg' \<Longrightarrow> reg_reach reg'"



section \<open>What the client sends\<close>

fun op_conn :: "pf_op \<Rightarrow> 32 word" where
  "op_conn (OpenConn cid port) = cid"
| "op_conn (ConnData cid d) = cid"
| "op_conn (CloseConn cid) = cid"

text \<open>The frames of a connection, when its data went out in the pieces \<open>ds\<close>.\<close>

definition conn_frames :: "local_conn \<Rightarrow> bytes list \<Rightarrow> pf_op list" where
  "conn_frames c ds =
     (if lc_phase c = Accepted then []
      else OpenConn (lc_ID c) (lc_remote c) # map (ConnData (lc_ID c)) ds @
        (if lc_phase c = Reading then [] else [CloseConn (lc_ID c)]))"

definition sent_ops :: "pfConnRegistry \<Rightarrow> pf_op list \<Rightarrow> bool" where
  "sent_ops reg ops \<longleftrightarrow>
     fst (reg_pw reg) = concat (map (\<lambda>op. frame_bytes (pf_op_frame op)) ops) \<and>
     list_all (\<lambda>op. frame_ok (pf_op_frame op)) ops \<and>
     list_all (\<lambda>op. op_conn op \<in> lc_ID ` set (reg_heap reg)) ops \<and>
     (\<forall>i < length (reg_heap reg). \<exists>ds. concat ds = lc_read (reg_heap reg ! i) \<and>
        filter (\<lambda>op. op_conn op = lc_ID (reg_heap reg ! i)) ops = conn_frames (reg_heap reg ! i) ds)"

definition reg_ok :: "pfConnRegistry \<Rightarrow> bool" where
  "reg_ok reg \<longleftrightarrow>
     nextID reg = word_of_nat (length (reg_heap reg)) \<and>
     (\<forall>i < length (reg_heap reg). lc_ID (reg_heap reg ! i) = word_of_nat (Suc i) \<and>
        (lc_phase (reg_heap reg ! i) = Accepted \<longrightarrow> lc_read (reg_heap reg ! i) = [])) \<and>
     (\<forall>cid i. reg_conns reg cid = Some i \<longrightarrow>
        i < length (reg_heap reg) \<and> cid = word_of_nat (Suc i) \<and> \<not> lc_closed (reg_heap reg ! i))"

text \<open>What the frames depend on; most steps keep it.\<close>

definition conn_core :: "local_conn \<Rightarrow> (32 word \<times> 16 word \<times> bytes) \<times> bool \<times> bool" where
  "conn_core c = ((lc_ID c, lc_remote c, lc_read c), lc_phase c = Accepted, lc_phase c = Reading)"

definition same_core :: "pfConnRegistry \<Rightarrow> pfConnRegistry \<Rightarrow> bool" where
  "same_core reg reg' \<longleftrightarrow> map conn_core (reg_heap reg') = map conn_core (reg_heap reg) \<and> nextID reg' = nextID reg \<and>
     (snd (reg_pw reg') \<longrightarrow> reg_pw reg' = reg_pw reg)"

lemma conn_frames_core: "conn_core c = conn_core c' \<Longrightarrow> conn_frames c = conn_frames c'"
  by (simp add: conn_core_def conn_frames_def fun_eq_iff)

lemma same_core_nth:
  assumes "same_core reg reg'"
  shows "length (reg_heap reg') = length (reg_heap reg)"
    and "i < length (reg_heap reg) \<Longrightarrow> conn_core (reg_heap reg' ! i) = conn_core (reg_heap reg ! i)"
    and "lc_ID ` set (reg_heap reg') = lc_ID ` set (reg_heap reg)"
proof -
  show l: "length (reg_heap reg') = length (reg_heap reg)"
    using assms map_eq_imp_length_eq unfolding same_core_def by blast
  show "i < length (reg_heap reg) \<Longrightarrow> conn_core (reg_heap reg' ! i) = conn_core (reg_heap reg ! i)"
    using assms l unfolding same_core_def by (metis nth_map)
  have "map lc_ID cs = map (fst \<circ> fst) (map conn_core cs)" for cs by (simp add: comp_def conn_core_def)
  then show "lc_ID ` set (reg_heap reg') = lc_ID ` set (reg_heap reg)"
    using assms unfolding same_core_def by (metis set_map)
qed

lemma sent_ops_core:
  assumes "same_core reg reg'" and "snd (reg_pw reg')" and "sent_ops reg ops"
  shows "sent_ops reg' ops"
proof -
  have "conn_frames (reg_heap reg' ! i) = conn_frames (reg_heap reg ! i) \<and>
      lc_ID (reg_heap reg' ! i) = lc_ID (reg_heap reg ! i) \<and> lc_read (reg_heap reg' ! i) = lc_read (reg_heap reg ! i)"
    if "i < length (reg_heap reg)" for i
  proof -
    have c: "conn_core (reg_heap reg' ! i) = conn_core (reg_heap reg ! i)" by (rule same_core_nth(2) [OF assms(1) that])
    from c show ?thesis using conn_frames_core [OF c] by (simp add: conn_core_def)
  qed
  moreover have "reg_pw reg' = reg_pw reg" using assms(1,2) by (simp add: same_core_def)
  ultimately show ?thesis
    using assms(3) unfolding sent_ops_def same_core_nth(1,3) [OF assms(1)] by simp
qed

text \<open>A step that keeps the core keeps the registry's invariant when it keeps the map.\<close>

lemma reg_ok_core:
  assumes "same_core reg reg'" and "reg_ok reg"
    and "\<And>cid i. reg_conns reg' cid = Some i \<Longrightarrow> reg_conns reg cid = Some i \<and> lc_closed (reg_heap reg' ! i) = lc_closed (reg_heap reg ! i)"
  shows "reg_ok reg'"
  unfolding reg_ok_def
proof (intro conjI allI impI)
  show "nextID reg' = word_of_nat (length (reg_heap reg'))"
    using assms(1,2) same_core_nth(1) [OF assms(1)] by (simp add: same_core_def reg_ok_def)
  fix i assume "i < length (reg_heap reg')"
  then have "i < length (reg_heap reg)" using same_core_nth(1) [OF assms(1)] by simp
  then show "lc_ID (reg_heap reg' ! i) = word_of_nat (Suc i)"
      "lc_phase (reg_heap reg' ! i) = Accepted \<Longrightarrow> lc_read (reg_heap reg' ! i) = []"
    using same_core_nth(2) [OF assms(1)] assms(2) by (auto simp: conn_core_def reg_ok_def)
next
  fix cid i assume a: "reg_conns reg' cid = Some i"
  then have "i < length (reg_heap reg)" "cid = word_of_nat (Suc i)" "\<not> lc_closed (reg_heap reg ! i)"
    using assms(2) assms(3) [OF a] unfolding reg_ok_def by blast+
  then show "i < length (reg_heap reg')" "cid = word_of_nat (Suc i)" "\<not> lc_closed (reg_heap reg' ! i)"
    using assms(3) [OF a] same_core_nth(1) [OF assms(1)] same_core_nth(2) [OF assms(1), of i] by (simp_all add: conn_core_def)
qed


lemma conn_ID_inj:
  assumes "reg_ok reg" and "length (reg_heap reg) < 2 ^ 32" and "i < length (reg_heap reg)" and "j < length (reg_heap reg)"
    and "lc_ID (reg_heap reg ! i) = lc_ID (reg_heap reg ! j)"
  shows "i = j"
proof -
  have "word_of_nat (Suc i) = (word_of_nat (Suc j) :: 32 word)"
    using assms by (simp add: reg_ok_def)
  then have "unat (word_of_nat (Suc i) :: 32 word) = unat (word_of_nat (Suc j) :: 32 word)" by simp
  then show ?thesis using assms(2-4) by (simp add: unat_of_nat take_bit_nat_eq_self del: of_nat_Suc)
qed

lemma writeFrame_open:
  "snd (reg_pw reg) \<Longrightarrow> frame_ok (t, d) \<Longrightarrow> reg_pw (writeFrame t d reg) = (fst (reg_pw reg) @ frame_bytes (t, d), True)"
  using Encode_pipe [of "fst (reg_pw reg)" t d]
  by (cases "reg_pw reg") (simp add: writeFrame_def PfEncode_def Encode_def)

lemma writeFrame_closed: "\<not> snd (reg_pw reg) \<Longrightarrow> reg_pw (writeFrame t d reg) = reg_pw reg"
  using Encode_closed_pipe [of "fst (reg_pw reg)" t d]
  by (cases "reg_pw reg") (simp add: writeFrame_def PfEncode_def Encode_def)

lemma writeFrame_simps [simp]:
  "reg_conns (writeFrame t d reg) = reg_conns reg" "reg_heap (writeFrame t d reg) = reg_heap reg"
  "nextID (writeFrame t d reg) = nextID reg"
  by (simp_all add: writeFrame_def)

lemma upd_conn_simps [simp]:
  "reg_conns (upd_conn i f reg) = reg_conns reg" "nextID (upd_conn i f reg) = nextID reg"
  "reg_pw (upd_conn i f reg) = reg_pw reg" "reg_heap (upd_conn i f reg) = (reg_heap reg)[i := f (reg_heap reg ! i)]"
  "reg_done (upd_conn i f reg) = reg_done reg"
  by (simp_all add: upd_conn_def)

text \<open>A goroutine that writes the next frame of its connection.\<close>

lemma sent_ops_write:
  assumes "reg_ok reg" and "length (reg_heap reg) < 2 ^ 32" and "i < length (reg_heap reg)" and "sent_ops reg ops"
    and "snd (reg_pw reg)" and "frame_ok (pf_op_frame op)" and "op_conn op = lc_ID (reg_heap reg ! i)"
    and "lc_ID (f (reg_heap reg ! i)) = lc_ID (reg_heap reg ! i)"
    and "\<And>ds. concat ds = lc_read (reg_heap reg ! i) \<Longrightarrow> \<exists>ds'. concat ds' = lc_read (f (reg_heap reg ! i)) \<and>
      conn_frames (f (reg_heap reg ! i)) ds' = conn_frames (reg_heap reg ! i) ds @ [op]"
  shows "sent_ops (upd_conn i f (writeFrame (fst (pf_op_frame op)) (snd (pf_op_frame op)) reg)) (ops @ [op])"
proof -
  let ?c = "reg_heap reg ! i" and ?heap = "(reg_heap reg)[i := f (reg_heap reg ! i)]"
  have ids: "map lc_ID ?heap = map lc_ID (reg_heap reg)"
    using assms(3,8) by (simp add: map_update list_update_same_conv)
  then have idset: "lc_ID ` set ?heap = lc_ID ` set (reg_heap reg)" by (metis list.set_map)
  have "\<exists>ds. concat ds = lc_read (?heap ! j) \<and>
      filter (\<lambda>op. op_conn op = lc_ID (?heap ! j)) (ops @ [op]) = conn_frames (?heap ! j) ds" if j: "j < length (reg_heap reg)" for j
  proof -
    obtain ds where ds: "concat ds = lc_read (reg_heap reg ! j)"
        "filter (\<lambda>op. op_conn op = lc_ID (reg_heap reg ! j)) ops = conn_frames (reg_heap reg ! j) ds"
      using assms(4) j unfolding sent_ops_def by blast
    show ?thesis
    proof (cases "j = i")
      case True
      then show ?thesis using assms(9) [of ds] ds assms(7,8) j by auto
    next
      case False
      then have "lc_ID (reg_heap reg ! j) \<noteq> op_conn op" using conn_ID_inj [OF assms(1,2) j assms(3)] assms(7) by auto
      then show ?thesis using False ds by auto
    qed
  qed
  moreover have "op_conn op \<in> lc_ID ` set (reg_heap reg)" using assms(3,7) by simp
  ultimately show ?thesis
    using assms(4) writeFrame_open [OF assms(5), of "fst (pf_op_frame op)" "snd (pf_op_frame op)"] assms(6) idset
    unfolding sent_ops_def by simp
qed


lemma map_upd_same: "g (f (xs ! i)) = g (xs ! i) \<Longrightarrow> map g (xs[i := f (xs ! i)]) = map g xs"
  by (cases "i < length xs") (simp_all add: map_update list_update_same_conv list_update_beyond)

lemma nth_upd_same: "g (f (xs ! i)) = g (xs ! i) \<Longrightarrow> g (xs[i := f (xs ! i)] ! j) = g (xs ! j)"
  by (cases "i < length xs"; cases "i = j") (simp_all add: list_update_beyond)

lemma same_core_upd: "conn_core (f (reg_heap reg ! i)) = conn_core (reg_heap reg ! i) \<Longrightarrow> same_core reg (upd_conn i f reg)"
  by (simp add: same_core_def map_upd_same)

lemma closeConn_ok:
  assumes "reg_ok reg"
  shows "same_core reg (reg_closeConn cid reg)" and "reg_ok (reg_closeConn cid reg)"
proof -
  show core: "same_core reg (reg_closeConn cid reg)"
    by (auto simp: reg_closeConn_def same_core_def conn_core_def split: option.splits intro!: map_upd_same [of _ "\<lambda>c. c\<lparr>lc_closed := True\<rparr>"])
  show "reg_ok (reg_closeConn cid reg)"
  proof (rule reg_ok_core [OF core assms])
    fix cid' j assume j: "reg_conns (reg_closeConn cid reg) cid' = Some j"
    show "reg_conns reg cid' = Some j \<and> lc_closed (reg_heap (reg_closeConn cid reg) ! j) = lc_closed (reg_heap reg ! j)"
    proof (cases "reg_conns reg cid")
      case None
      then show ?thesis using j by (simp add: reg_closeConn_def)
    next
      case (Some i)
      then have j': "cid' \<noteq> cid" "reg_conns reg cid' = Some j" using j by (auto simp: reg_closeConn_def split: if_splits)
      then have "i \<noteq> j" using assms Some unfolding reg_ok_def by blast
      then show ?thesis using Some j' by (simp add: reg_closeConn_def)
    qed
  qed
qed

lemma write_data_ok:
  assumes "reg_ok reg"
  shows "same_core reg (upd_conn i (\<lambda>c. if lc_closed c then c else c\<lparr>lc_written := lc_written c @ d\<rparr>) reg)"
    and "reg_ok (upd_conn i (\<lambda>c. if lc_closed c then c else c\<lparr>lc_written := lc_written c @ d\<rparr>) reg)"
proof -
  show core: "same_core reg (upd_conn i (\<lambda>c. if lc_closed c then c else c\<lparr>lc_written := lc_written c @ d\<rparr>) reg)"
    by (rule same_core_upd) (simp add: conn_core_def)
  show "reg_ok (upd_conn i (\<lambda>c. if lc_closed c then c else c\<lparr>lc_written := lc_written c @ d\<rparr>) reg)"
    using nth_upd_same [of lc_closed "\<lambda>c. if lc_closed c then c else c\<lparr>lc_written := lc_written c @ d\<rparr>" "reg_heap reg" i]
    by (intro reg_ok_core [OF core assms]) simp
qed

lemma flags_ok:
  assumes "reg_ok reg" and "reg_heap reg' = reg_heap reg" and "nextID reg' = nextID reg" and "reg_conns reg' = reg_conns reg"
    and "snd (reg_pw reg') \<longrightarrow> reg_pw reg' = reg_pw reg"
  shows "same_core reg reg' \<and> reg_ok reg'"
  using assms(1,5) unfolding same_core_def reg_ok_def assms(2-4) by blast

lemma same_core_refl: "same_core reg reg"
  by (simp add: same_core_def)

lemma reg_frame_ok:
  assumes "reg_ok reg" and "reg_frame f reg = (reg1, go)"
  shows "same_core reg reg1 \<and> reg_ok reg1"
  using assms closeConn_ok [OF assms(1)] write_data_ok [OF assms(1)] same_core_refl
    flags_ok [OF assms(1), of "reg\<lparr>reg_ready := True\<rparr>"] flags_ok [OF assms(1), of "reg\<lparr>sessErr := string_of (snd f)\<rparr>"]
  by (auto simp: reg_frame_def split: if_splits sum.splits option.splits prod.splits)

lemma finish_ok: "reg_ok reg \<Longrightarrow> same_core reg (finish reg) \<and> reg_ok (finish reg)"
  by (rule flags_ok) (simp_all add: finish_def)

lemma same_core_trans: "same_core a b \<Longrightarrow> same_core b c \<Longrightarrow> same_core a c"
  by (auto simp: same_core_def)

lemma shutdown_ok:
  assumes "reg_ok reg"
  shows "same_core reg (reg_shutdown reg) \<and> reg_ok (reg_shutdown reg)"
proof
  have "map conn_core (reg_heap (reg_shutdown reg)) = map (\<lambda>i. conn_core (reg_heap reg ! i)) [0..<length (reg_heap reg)]"
    by (simp add: reg_shutdown_def Let_def conn_core_def)
  also have "\<dots> = map conn_core (reg_heap reg)"
    by (simp add: map_nth [of "reg_heap reg", symmetric, THEN arg_cong, of "map conn_core"] comp_def del: map_nth)
  finally show core: "same_core reg (reg_shutdown reg)" by (simp add: same_core_def reg_shutdown_def)
  show "reg_ok (reg_shutdown reg)" by (rule reg_ok_core [OF core assms]) (simp_all add: reg_shutdown_def)
qed


lemma accept_ok:
  assumes "reg_ok reg"
  shows "reg_ok (conn_accept remote reg)"
  using assms unfolding reg_ok_def conn_accept_def Let_def
  by (auto simp: nth_append less_Suc_eq add.commute)

lemma accept_sent:
  assumes "reg_ok reg" and "Suc (length (reg_heap reg)) < 2 ^ 32" and "sent_ops reg ops"
  shows "sent_ops (conn_accept remote reg) ops"
proof -
  let ?reg = "conn_accept remote reg" and ?n = "length (reg_heap reg)"
  have heap: "reg_heap ?reg = reg_heap reg @ [\<lparr>lc_ID = nextID reg + 1, lc_remote = remote, lc_phase = Accepted, lc_read = [],
      lc_written = [], lc_closed = False\<rparr>]"
    by (simp add: conn_accept_def Let_def)
  have "nextID reg + 1 \<notin> lc_ID ` set (reg_heap reg)"
  proof
    assume "nextID reg + 1 \<in> lc_ID ` set (reg_heap reg)"
    then obtain j where j: "j < ?n" "lc_ID (reg_heap reg ! j) = nextID reg + 1" by (auto simp: in_set_conv_nth)
    then have "lc_ID (reg_heap ?reg ! j) = lc_ID (reg_heap ?reg ! ?n)" by (simp add: heap nth_append)
    then show False
      using conn_ID_inj [OF accept_ok [OF assms(1)], of remote j ?n] assms(2) j(1) by (simp add: heap)
  qed
  then have new: "filter (\<lambda>op. op_conn op = nextID reg + 1) ops = []"
    using assms(3) by (force simp: sent_ops_def list_all_iff filter_empty_conv)
  have "\<exists>ds. concat ds = lc_read (reg_heap ?reg ! i) \<and>
      filter (\<lambda>op. op_conn op = lc_ID (reg_heap ?reg ! i)) ops = conn_frames (reg_heap ?reg ! i) ds" if "i < Suc ?n" for i
  proof (cases "i = ?n")
    case True
    then show ?thesis using new by (intro exI [of _ "[]"]) (simp add: heap conn_frames_def)
  next
    case False
    then have "i < ?n" using that by simp
    then show ?thesis using assms(3) by (auto simp: heap nth_append sent_ops_def)
  qed
  moreover have "reg_pw ?reg = reg_pw reg" by (simp add: conn_accept_def Let_def)
  ultimately show ?thesis
    using assms(3) by (auto simp: sent_ops_def heap list_all_iff)
qed

text \<open>The three writes of a connection's goroutine.\<close>

lemma write_ok:
  assumes "reg_ok reg" and "i < length (reg_heap reg)" and "lc_ID (f (reg_heap reg ! i)) = lc_ID (reg_heap reg ! i)"
    and "lc_closed (f (reg_heap reg ! i)) = lc_closed (reg_heap reg ! i)" and "lc_phase (f (reg_heap reg ! i)) \<noteq> Accepted"
  shows "reg_ok (upd_conn i f (writeFrame t d reg))"
  using assms nth_upd_same [of lc_ID f "reg_heap reg" i] nth_upd_same [of lc_closed f "reg_heap reg" i]
  unfolding reg_ok_def by (simp add: nth_list_update)

lemma open_sent:
  assumes "reg_ok reg" and "length (reg_heap reg) < 2 ^ 32" and "i < length (reg_heap reg)" and "sent_ops reg ops"
    and "snd (reg_pw reg)" and "lc_phase (reg_heap reg ! i) = Accepted"
  shows "\<exists>ops. sent_ops (conn_open i reg) ops"
proof -
  have "lc_read (reg_heap reg ! i) = []" using assms(1,3,6) by (auto simp: reg_ok_def)
  then have "sent_ops (conn_open i reg) (ops @ [OpenConn (lc_ID (reg_heap reg ! i)) (lc_remote (reg_heap reg ! i))])"
    using sent_ops_write [OF assms(1-5), of "OpenConn (lc_ID (reg_heap reg ! i)) (lc_remote (reg_heap reg ! i))"
        "\<lambda>c. c\<lparr>lc_phase := Reading\<rparr>"] assms(6)
    by (auto simp: conn_open_def conn_frames_def EncodeOpen_def)
  then show ?thesis by blast
qed

lemma data_sent:
  assumes "reg_ok reg" and "length (reg_heap reg) < 2 ^ 32" and "i < length (reg_heap reg)" and "sent_ops reg ops"
    and "snd (reg_pw reg)" and "lc_phase (reg_heap reg ! i) = Reading" and "length d \<le> 32 * 1024"
  shows "\<exists>ops. sent_ops (conn_data i d reg) ops"
proof -
  have "frame_ok (Data, EncodeData (lc_ID (reg_heap reg ! i), d))"
    using assms(7) by (simp add: frame_ok_def EncodeData_def put_uint32_def MaxPayload_def)
  then have "sent_ops (upd_conn i (\<lambda>c. c\<lparr>lc_read := lc_read c @ d\<rparr>) (writeFrame (fst (pf_op_frame (ConnData (lc_ID (reg_heap reg ! i)) d)))
      (snd (pf_op_frame (ConnData (lc_ID (reg_heap reg ! i)) d))) reg)) (ops @ [ConnData (lc_ID (reg_heap reg ! i)) d])"
  proof (intro sent_ops_write [OF assms(1-5)])
    fix ds assume "concat ds = lc_read (reg_heap reg ! i)"
    then show "\<exists>ds'. concat ds' = lc_read ((reg_heap reg ! i)\<lparr>lc_read := lc_read (reg_heap reg ! i) @ d\<rparr>) \<and>
        conn_frames ((reg_heap reg ! i)\<lparr>lc_read := lc_read (reg_heap reg ! i) @ d\<rparr>) ds' =
        conn_frames (reg_heap reg ! i) ds @ [ConnData (lc_ID (reg_heap reg ! i)) d]"
      using assms(6) by (intro exI [of _ "ds @ [d]"]) (simp add: conn_frames_def)
  qed simp_all
  then have "sent_ops (conn_data i d reg) (ops @ [ConnData (lc_ID (reg_heap reg ! i)) d])" by (simp add: conn_data_def)
  then show ?thesis by blast
qed

lemma end_sent:
  assumes "reg_ok reg" and "length (reg_heap reg) < 2 ^ 32" and "i < length (reg_heap reg)" and "sent_ops reg ops"
    and "snd (reg_pw reg)" and "lc_phase (reg_heap reg ! i) = Reading"
  shows "\<exists>ops. sent_ops (conn_end i reg) ops"
proof -
  have "sent_ops (conn_end i reg) (ops @ [CloseConn (lc_ID (reg_heap reg ! i))])"
    using sent_ops_write [OF assms(1-5), of "CloseConn (lc_ID (reg_heap reg ! i))" "\<lambda>c. c\<lparr>lc_phase := Closing\<rparr>"] assms(6)
    by (auto simp: conn_end_def conn_frames_def EncodeConnID_def)
  then show ?thesis by blast
qed


text \<open>The invariant: the map leads to open connections, and while the pipe is open its bytes are the frames of the
  connections, as long as the identifiers have not gone round.\<close>

definition reg_inv :: "pfConnRegistry \<Rightarrow> bool" where
  "reg_inv reg \<longleftrightarrow> reg_ok reg \<and> (length (reg_heap reg) < 2 ^ 32 \<longrightarrow> snd (reg_pw reg) \<longrightarrow> (\<exists>ops. sent_ops reg ops))"

lemma reg_inv_core:
  assumes "reg_inv reg" and "same_core reg reg'" and "reg_ok reg'"
  shows "reg_inv reg'"
proof -
  have "snd (reg_pw reg)" if "snd (reg_pw reg')" using assms(2) that by (simp add: same_core_def)
  then show ?thesis
    using assms sent_ops_core [OF assms(2)] same_core_nth(1) [OF assms(2)] unfolding reg_inv_def by metis
qed

lemma reg_inv_write:
  assumes "reg_inv reg" and "reg_ok (upd_conn i f (writeFrame t d reg))"
    and "\<And>ops. length (reg_heap reg) < 2 ^ 32 \<Longrightarrow> sent_ops reg ops \<Longrightarrow> snd (reg_pw reg) \<Longrightarrow>
      \<exists>ops. sent_ops (upd_conn i f (writeFrame t d reg)) ops"
  shows "reg_inv (upd_conn i f (writeFrame t d reg))"
proof -
  have "snd (reg_pw reg)" if "snd (reg_pw (writeFrame t d reg))"
    using that writeFrame_closed [of reg t d] by metis
  then show ?thesis using assms unfolding reg_inv_def by auto
qed

lemma reg_inv_accept:
  assumes "reg_inv reg"
  shows "reg_inv (conn_accept remote reg)"
proof -
  have "length (reg_heap (conn_accept remote reg)) = Suc (length (reg_heap reg))" "reg_pw (conn_accept remote reg) = reg_pw reg"
    by (simp_all add: conn_accept_def Let_def)
  then show ?thesis
    using assms accept_ok accept_sent unfolding reg_inv_def by (metis Suc_lessD)
qed

lemma reg_inv_return:
  assumes "reg_inv reg" and "lc_phase (reg_heap reg ! i) = Closing"
  shows "reg_inv (conn_return i reg)"
proof -
  let ?r = "reg_closeConn (lc_ID (reg_heap reg ! i)) reg"
  have r: "same_core reg ?r" "reg_ok ?r" using closeConn_ok assms(1) by (auto simp: reg_inv_def)
  have ph: "lc_phase (reg_heap ?r ! i) = Closing"
    using assms(2) nth_upd_same [of lc_phase "\<lambda>c. c\<lparr>lc_closed := True\<rparr>" "reg_heap reg"]
    by (auto simp: reg_closeConn_def split: option.splits)
  have core: "same_core ?r (conn_return i reg)"
    unfolding conn_return_def using ph by (intro same_core_upd) (simp add: conn_core_def)
  have "reg_ok (conn_return i reg)"
    using nth_upd_same [of lc_closed "\<lambda>c. c\<lparr>lc_phase := Returned\<rparr>" "reg_heap ?r" i]
    by (intro reg_ok_core [OF core r(2)]) (simp add: conn_return_def)
  then show ?thesis by (rule reg_inv_core [OF assms(1) same_core_trans [OF r(1) core]])
qed

lemma reg_step_inv: "reg_step reg reg' \<Longrightarrow> reg_inv reg \<Longrightarrow> reg_inv reg'"
proof (induction rule: reg_step.induct)
  case (accept reg remote)
  then show ?case by (rule reg_inv_accept)
next
  case (opened i reg)
  then have ok: "reg_ok reg" by (simp add: reg_inv_def)
  show ?case
    unfolding conn_open_def
    by (rule reg_inv_write [OF opened(3)])
      (use opened write_ok [OF ok] open_sent [OF ok] in \<open>simp_all add: conn_open_def\<close>)
next
  case (read_data i reg d)
  then have ok: "reg_ok reg" by (simp add: reg_inv_def)
  show ?case
    unfolding conn_data_def
    by (rule reg_inv_write [OF read_data(6)])
      (use read_data write_ok [OF ok] data_sent [OF ok] in \<open>simp_all add: conn_data_def\<close>)
next
  case (read_end i reg)
  then have ok: "reg_ok reg" by (simp add: reg_inv_def)
  show ?case
    unfolding conn_end_def
    by (rule reg_inv_write [OF read_end(3)])
      (use read_end write_ok [OF ok] end_sent [OF ok] in \<open>simp_all add: conn_end_def\<close>)
next
  case (returned i reg)
  then show ?case using reg_inv_return by simp
next
  case (frame reg f reg1)
  then show ?case using reg_frame_ok [of reg f reg1 True] reg_inv_core [of reg reg1] by (simp add: reg_inv_def)
next
  case (last_frame reg f reg1)
  then have r: "same_core reg reg1" "reg_ok reg1" using reg_frame_ok [of reg f reg1 False] by (simp_all add: reg_inv_def)
  show ?case
    using reg_inv_core [OF last_frame(3)] same_core_trans [OF r(1)] finish_ok [OF r(2)] by blast
next
  case (stream_end reg)
  then show ?case using finish_ok reg_inv_core [OF stream_end(2)] by (simp add: reg_inv_def)
next
  case (shutdown reg)
  then show ?case using shutdown_ok reg_inv_core [OF shutdown] by (simp add: reg_inv_def)
next
  case (pipe_gone reg)
  have "same_core reg (reg\<lparr>reg_pw := (fst (reg_pw reg), False)\<rparr>) \<and> reg_ok (reg\<lparr>reg_pw := (fst (reg_pw reg), False)\<rparr>)"
    by (rule flags_ok) (use pipe_gone in \<open>simp_all add: reg_inv_def\<close>)
  then show ?case using reg_inv_core [OF pipe_gone] by simp
qed

lemma reg_reach_inv: "reg_reach reg \<Longrightarrow> reg_inv reg"
proof (induction rule: reg_reach.induct)
  case init
  have "sent_ops new_registry []" by (simp add: sent_ops_def new_registry_def)
  then show ?case by (auto simp: reg_inv_def reg_ok_def new_registry_def)
next
  case (step reg reg')
  then show ?case using reg_step_inv by simp
qed



section \<open>What the connections receive\<close>

lemma pf_frame_types [simp]:
  "Data \<noteq> Ready" "Close \<noteq> Ready" "ConnError \<noteq> Ready" "SessionError \<noteq> Ready" "ConnError \<noteq> Data" "SessionError \<noteq> Data"
  "ConnError \<noteq> Close" "SessionError \<noteq> Close" "SessionError \<noteq> ConnError"
  by (simp_all add: Ready_def Data_def Close_def ConnError_def SessionError_def)

definition data_for :: "32 word \<Rightarrow> PfChunk list \<Rightarrow> bytes" where
  "data_for cid q = concat (map pf_Data (filter (\<lambda>ch. Kind ch = PfKindData \<and> ConnID ch = cid) q))"

definition ends_conn :: "32 word \<Rightarrow> PfChunk \<Rightarrow> bool" where
  "ends_conn cid ch \<longleftrightarrow> Kind ch = PfKindSessionError \<or> (Kind ch = PfKindClose \<or> Kind ch = PfKindConnError) \<and> ConnID ch = cid"

lemma closeConn_other:
  assumes "reg_ok reg" and "reg_conns reg cid = Some i" and "cid' \<noteq> cid"
  shows "reg_conns (reg_closeConn cid' reg) cid = Some i" and "reg_heap (reg_closeConn cid' reg) ! i = reg_heap reg ! i"
proof -
  have "j \<noteq> i" if "reg_conns reg cid' = Some j" for j
    using assms that unfolding reg_ok_def by blast
  then show "reg_conns (reg_closeConn cid' reg) cid = Some i" "reg_heap (reg_closeConn cid' reg) ! i = reg_heap reg ! i"
    using assms(2,3) by (auto simp: reg_closeConn_def split: option.splits)
qed

lemma reg_frame_chunk:
  assumes "reg_ok reg" and "reg_conns reg cid = Some i" and "\<not> ends_conn cid ch"
  shows "\<exists>reg1. reg_frame (pf_frame ch) reg = (reg1, True) \<and> reg_ok reg1 \<and> reg_conns reg1 cid = Some i \<and>
    lc_written (reg_heap reg1 ! i) = lc_written (reg_heap reg ! i) @ data_for cid [ch]"
proof -
  have i: "i < length (reg_heap reg)" "\<not> lc_closed (reg_heap reg ! i)" using assms(1,2) unfolding reg_ok_def by blast+
  have other: "j \<noteq> i" if "reg_conns reg cid' = Some j" "cid' \<noteq> cid" for j cid'
    using assms(1,2) that unfolding reg_ok_def by blast
  obtain reg1 go where r: "reg_frame (pf_frame ch) reg = (reg1, go)" by (cases "reg_frame (pf_frame ch) reg")
  have ok: "reg_ok reg1" using reg_frame_ok [OF assms(1) r] by simp
  have "go \<and> reg_conns reg1 cid = Some i \<and> lc_written (reg_heap reg1 ! i) = lc_written (reg_heap reg ! i) @ data_for cid [ch]"
  proof (cases "Kind ch")
    case PfKindReady
    then show ?thesis using r assms(2) by (auto simp: reg_frame_def pf_frame_def data_for_def)
  next
    case PfKindData
    then show ?thesis
      using r assms(2) i other [of "ConnID ch"]
      by (cases "ConnID ch = cid")
        (auto simp: reg_frame_def pf_frame_def data_for_def data_payload.dec_enc split: option.splits)
  next
    case PfKindClose
    then have "ConnID ch \<noteq> cid" using assms(3) by (auto simp: ends_conn_def)
    then show ?thesis
      using PfKindClose r closeConn_other [OF assms(1,2), of "ConnID ch"]
      by (auto simp: reg_frame_def pf_frame_def data_for_def conn_id_payload.dec_enc)
  next
    case PfKindConnError
    then have "ConnID ch \<noteq> cid" using assms(3) by (auto simp: ends_conn_def)
    then show ?thesis
      using PfKindConnError r closeConn_other [OF assms(1,2), of "ConnID ch"]
      by (auto simp: reg_frame_def pf_frame_def data_for_def conn_error_payload.dec_enc)
  next
    case PfKindSessionError
    then show ?thesis using assms(3) by (simp add: ends_conn_def)
  qed
  then show ?thesis using r ok by simp
qed

lemma data_for_Cons: "data_for cid (ch # q) = data_for cid [ch] @ data_for cid q"
  by (simp add: data_for_def)

lemma read_frames_chunks:
  assumes "reg_ok reg" and "reg_conns reg cid = Some i" and "list_all (\<lambda>ch. \<not> ends_conn cid ch) q"
  shows "\<exists>reg1. read_frames (map pf_frame q @ fs) reg = read_frames fs reg1 \<and> reg_ok reg1 \<and> reg_conns reg1 cid = Some i \<and>
    lc_written (reg_heap reg1 ! i) = lc_written (reg_heap reg ! i) @ data_for cid q"
  using assms
proof (induction q arbitrary: reg)
  case Nil
  then show ?case by (intro exI [of _ reg]) (simp add: data_for_def)
next
  case (Cons ch q)
  obtain reg1 where r: "reg_frame (pf_frame ch) reg = (reg1, True)" "reg_ok reg1" "reg_conns reg1 cid = Some i"
      "lc_written (reg_heap reg1 ! i) = lc_written (reg_heap reg ! i) @ data_for cid [ch]"
    using reg_frame_chunk [OF Cons.prems(1,2), of ch] Cons.prems(3) by auto
  obtain reg2 where "read_frames (map pf_frame q @ fs) reg1 = read_frames fs reg2" "reg_ok reg2" "reg_conns reg2 cid = Some i"
      "lc_written (reg_heap reg2 ! i) = lc_written (reg_heap reg1 ! i) @ data_for cid q"
    using Cons.IH [OF r(2,3)] Cons.prems(3) by auto
  then show ?case using r by (intro exI [of _ reg2]) (simp add: data_for_Cons [of cid ch q])
qed



section \<open>Properties\<close>

text \<open>C7. Port-forward in the direction of the cluster: however the goroutines of the listeners, of the connections and of the
  reading loop interleave, the bytes of the request pipe make the server's bridge send the agent, for each local
  connection under its own identifier, the opening with the right port, then exactly the bytes that were read from the
  connection, in order, then the closing once the connection has ended.\<close>

theorem forwarded_bytes_reach_agent:
  assumes "reg_reach reg" and "length (reg_heap reg) < 2 ^ 32" and "snd (reg_pw reg)" and "attached sid c m"
    and "length sends = length (fst (decode_frames (fst (reg_pw reg))))"
    and "list_all (\<lambda>(env, ok). leaves_to sid c env \<and> ok) sends"
  shows "\<exists>ops. sent_to sid c (pf_upstream sends sid (fst (reg_pw reg)) m) = sent_to sid c m @ map (pf_op_msg sid) ops \<and>
    (\<forall>i < length (reg_heap reg). \<exists>ds. concat ds = lc_read (reg_heap reg ! i) \<and>
      filter (\<lambda>op. op_conn op = lc_ID (reg_heap reg ! i)) ops = conn_frames (reg_heap reg ! i) ds)"
proof -
  obtain ops where ops: "fst (reg_pw reg) = concat (map (\<lambda>op. frame_bytes (pf_op_frame op)) ops)"
      "list_all (\<lambda>op. frame_ok (pf_op_frame op)) ops"
      "\<forall>i < length (reg_heap reg). \<exists>ds. concat ds = lc_read (reg_heap reg ! i) \<and>
        filter (\<lambda>op. op_conn op = lc_ID (reg_heap reg ! i)) ops = conn_frames (reg_heap reg ! i) ds"
    using reg_reach_inv [OF assms(1)] assms(2,3) unfolding reg_inv_def sent_ops_def by blast
  have "list_all frame_ok (map pf_op_frame ops)" using ops(2) by (simp add: list_all_iff)
  then have "decode_frames (fst (reg_pw reg)) = (map pf_op_frame ops, REof)"
    using frames.loop_concat [of "map pf_op_frame ops" "[]"] ops(1)
    by (simp add: comp_def decode_frames.simps [of "[]"] read_frame_def read_full_def)
  then have len: "length sends = length ops" using assms(5) by simp
  have env: "list_all (\<lambda>(env, ok). leaves_to sid c env) sends" using assms(6) by (auto simp: list_all_iff)
  have "filter (snd \<circ> snd) (zip ops sends) = zip ops sends"
    using assms(6) by (intro filter_True) (auto simp: list_all_iff dest!: set_zip_rightD)
  then have "sent_to sid c (pf_upstream sends sid (fst (reg_pw reg)) m) = sent_to sid c m @ map (pf_op_msg sid) ops"
    using pf_up.relays [OF ops(2) env assms(4) len] len ops(1) by (simp flip: map_map)
  then show ?thesis using ops(3) by blast
qed

definition demo_registry :: pfConnRegistry where
  "demo_registry = conn_data 0 [104, 105] (conn_open 0 (conn_accept 80 new_registry))"

lemma demo_registry_eq:
  "reg_heap demo_registry = [\<lparr>lc_ID = 1, lc_remote = 80, lc_phase = Reading, lc_read = [104, 105], lc_written = [], lc_closed = False\<rparr>]"
  "reg_conns demo_registry = [1 \<mapsto> 0]"
  by (simp_all add: demo_registry_def conn_data_def conn_open_def conn_accept_def new_registry_def Let_def)

lemma demo_registry_reach: "reg_reach demo_registry"
proof -
  have a: "reg_reach (conn_accept 80 new_registry)" by (rule reg_reach.step [OF reg_reach.init reg_step.accept])
  have b: "reg_reach (conn_open 0 (conn_accept 80 new_registry))"
    by (rule reg_reach.step [OF a reg_step.opened]) (simp_all add: conn_accept_def new_registry_def Let_def)
  show ?thesis
    unfolding demo_registry_def
    by (rule reg_reach.step [OF b reg_step.read_data]) (simp_all add: conn_open_def conn_accept_def new_registry_def Let_def)
qed

lemma demo_registry_pw:
  "reg_pw demo_registry = (frame_bytes (Open, EncodeOpen (1, 80)) @ frame_bytes (Data, EncodeData (1, [104, 105])), True)"
proof -
  have "frame_ok (Data, EncodeData (1, [104, 105]))" by (simp add: frame_ok_def EncodeData_def put_uint32_def MaxPayload_def)
  then show ?thesis
    by (simp add: demo_registry_def conn_data_def conn_open_def conn_accept_def new_registry_def Let_def writeFrame_open
        EncodeOpen_def)
qed

theorem forwarded_bytes_reach_agent_witness:
  "\<exists>ops ds. sent_to ''s1'' 0 (pf_upstream [(\<lambda>m. m, True), (\<lambda>m. m, True)] ''s1'' (fst (reg_pw demo_registry)) demo_mgr) =
     demo_start ''s1'' # map (pf_op_msg ''s1'') ops \<and>
    concat ds = [104, 105] \<and> filter (\<lambda>op. op_conn op = 1) ops = OpenConn 1 80 # map (ConnData 1) ds"
proof -
  have "list_all frame_ok [(Open, EncodeOpen (1, 80)), (Data, EncodeData (1, [104, 105]))]"
    by (simp add: EncodeOpen_def) (simp add: frame_ok_def EncodeData_def put_uint32_def MaxPayload_def)
  then have "length (fst (decode_frames (fst (reg_pw demo_registry)))) = 2"
    using frames.loop_concat [of "[(Open, EncodeOpen (1, 80)), (Data, EncodeData (1, [104, 105]))]" "[]"]
    by (simp add: demo_registry_pw decode_frames.simps [of "[]"] read_frame_def read_full_def)
  then obtain ops where ops: "sent_to ''s1'' 0 (pf_upstream [(\<lambda>m. m, True), (\<lambda>m. m, True)] ''s1'' (fst (reg_pw demo_registry)) demo_mgr) =
      sent_to ''s1'' 0 demo_mgr @ map (pf_op_msg ''s1'') ops"
      "\<forall>i < length (reg_heap demo_registry). \<exists>ds. concat ds = lc_read (reg_heap demo_registry ! i) \<and>
        filter (\<lambda>op. op_conn op = lc_ID (reg_heap demo_registry ! i)) ops = conn_frames (reg_heap demo_registry ! i) ds"
    using forwarded_bytes_reach_agent [OF demo_registry_reach, of "''s1''" 0 demo_mgr "[(\<lambda>m. m, True), (\<lambda>m. m, True)]"] demo_attached(1)
    by (auto simp: demo_registry_eq demo_registry_pw)
  then show ?thesis using demo_attached(2) by (fastforce simp: demo_registry_eq conn_frames_def)
qed


text \<open>C12. Port-forward in the direction of the user: when the session has ended, the chunks that the server's bridge still
  writes give a local connection exactly the data that the agent sent for it, in order, whatever is
  opened, closed or sent for other connections; then the command learns of the end and of the session's error.\<close>

theorem replies_reach_connection:
  assumes "reg_reach reg" and "reg_conns reg cid = Some i" and "list_all (\<lambda>ch. \<not> ends_conn cid ch) q"
    and "bridge_quiet r evs" and "length q < length evs" and "r < length (sess_heap m)"
    and "ended (sess_at m r) = Some (code, msg)" and "PfOutput (sess_at m r) = Some q"
    and "list_all (\<lambda>ch. frame_ok (pf_frame ch)) q" and "length msg \<le> MaxPayload"
  shows "\<exists>reg'. readLoop (fst (pf_downstream buf_write evs r m [])) reg = reg' \<and>
    lc_written (reg_heap reg' ! i) = lc_written (reg_heap reg ! i) @ data_for cid q \<and> reg_done reg' \<and>
    (msg \<noteq> [] \<longrightarrow> sessErr reg' = msg)"
proof -
  let ?last = "if msg = [] then [] else [(SessionError, bytes_of msg)]"
  have "PfKindSessionError \<notin> Kind ` set q" using assms(3) by (auto simp: list_all_iff ends_conn_def)
  from pf_downstream_drains [OF assms(4-8) this, of "[]"]
  have w: "fst (pf_downstream buf_write evs r m []) = concat (map frame_bytes (filter frame_ok (map pf_frame q @ ?last)))"
    by auto
  have ok: "list_all frame_ok (map pf_frame q @ ?last)"
    using assms(9,10) by (auto simp: list_all_iff frame_ok_def)
  then have "filter frame_ok (map pf_frame q @ ?last) = map pf_frame q @ ?last" by (simp add: list_all_iff filter_id_conv)
  then have d: "fst (decode_frames (fst (pf_downstream buf_write evs r m []))) = map pf_frame q @ ?last"
    using frames.loop_concat [OF ok, of "[]"] w by (simp add: decode_frames.simps [of "[]"] read_frame_def read_full_def)
  have "reg_ok reg" using reg_reach_inv [OF assms(1)] by (simp add: reg_inv_def)
  from read_frames_chunks [OF this assms(2,3), of ?last] obtain reg1
    where r1: "read_frames (map pf_frame q @ ?last) reg = read_frames ?last reg1"
      "lc_written (reg_heap reg1 ! i) = lc_written (reg_heap reg ! i) @ data_for cid q" by blast
  show ?thesis
    using r1 by (cases "msg = []") (simp_all add: readLoop_def d finish_def reg_frame_def)
qed

definition reply_mgr :: SessionManager where
  "reply_mgr = demo_mgr\<lparr>sess_heap := [(demo_session ''s1'')\<lparr>PfOutput := Some
     [\<lparr>Kind = PfKindData, ConnID = 1, pf_Data = [111, 107], Err = []\<rparr>, \<lparr>Kind = PfKindData, ConnID = 2, pf_Data = [120], Err = []\<rparr>],
     ended := Some (0, [])\<rparr>]\<rparr>"

theorem replies_reach_connection_witness:
  "lc_written (reg_heap (readLoop (fst (pf_downstream buf_write (replicate 3 (\<lambda>m. m, False, True)) 0 reply_mgr [])) demo_registry) ! 0) =
    [111, 107]"
proof -
  let ?q = "[\<lparr>Kind = PfKindData, ConnID = 1, pf_Data = [111, 107], Err = []\<rparr>, \<lparr>Kind = PfKindData, ConnID = 2, pf_Data = [120], Err = []\<rparr>]"
  have "list_all (\<lambda>ch. frame_ok (pf_frame ch)) ?q"
    by (simp add: pf_frame_def frame_ok_def EncodeData_def put_uint32_def MaxPayload_def)
  moreover have "list_all (\<lambda>ch. \<not> ends_conn 1 ch) ?q" by (simp add: ends_conn_def)
  moreover have "bridge_quiet 0 (replicate 3 (\<lambda>m. m, False, True))" by (simp add: bridge_quiet_def numeral_3_eq_3)
  ultimately show ?thesis
    using replies_reach_connection [OF demo_registry_reach, of 1 0 ?q 0 "replicate 3 (\<lambda>m. m, False, True)" reply_mgr 0 "[]"]
    by (auto simp: demo_registry_eq reply_mgr_def demo_session_def data_for_def)
qed

text \<open>The command does not hang: when the stream ends, in whatever way and whether or not the session ever became ready,
  \<open>kb port-forward\<close> ends, with the session's error if there was one and it was not stopped by a listener.\<close>

theorem port_forward_ends:
  "\<exists>out err. fst (runPortForward reason serve bind pick (\<lambda>body. readLoop body new_registry) (\<lambda>body. readLoop body new_registry) cfg tgt w) =
    Some (out, err)"
proof -
  have "reg_done (read_frames fs reg)" for fs reg
    by (induction fs arbitrary: reg) (auto simp: finish_def split: prod.splits bool.splits)
  then have "reg_done (readLoop body reg)" for body reg by (simp add: readLoop_def)
  then show ?thesis
    by (auto simp: runPortForward_def Let_def split: sum.splits prod.splits option.splits)
qed

end
