(* ===== verification/Cli_Main.thy ===== *)
theory Cli_Main
  imports Cli_Commands Cli_Forward
begin

text \<open>
  The command \<open>kb\<close> as a whole: the configuration file (\<open>config.go\<close>); \<open>Execute\<close> of \<open>internal/cli/root.go\<close> sends the command line to kubectl or to a management
  command, and \<open>runKubectl\<close> of \<open>kubectl.go\<close> runs the edit, the interactive exec, the port-forward, the streaming or
  the one-shot command.

  The command library finds the subcommand and reads the options of the management commands, so these are a
  parameter; for \<open>kubectl\<close> and \<open>k\<close> its reading of options is turned off, and they get all arguments.
\<close>

section \<open>The configuration file\<close>

text \<open>The functions on the file system and the reader and writer of the file's YAML are parameters. The reader starts from the
  defaults, which stay for the keys that the file does not have. A home directory is a clean path.\<close>

definition configDir :: "string option \<Rightarrow> string option" where
  "configDir home = map_option (\<lambda>h. (if h = ''/'' then h else h @ ''/'') @ ''.kbridge'') home"

definition configFile :: "string option \<Rightarrow> string option" where
  "configFile home = map_option (\<lambda>dir. dir @ ''/config.yaml'') (configDir home)"

datatype file_read = Absent | Unreadable | Contents string

definition default_config :: CliConfig where
  "default_config = \<lparr>central_url = [], current_cluster = [], conf_token = [], conf_refresh_token = [], conf_insecure = False\<rparr>"

text \<open>The configuration and what was printed to standard error.\<close>

definition initConfig ::
  "bool \<Rightarrow> (string \<Rightarrow> CliConfig \<Rightarrow> CliConfig option) \<Rightarrow> file_read \<Rightarrow> CliConfig \<times> string list" where
  "initConfig mkdir_ok yaml file =
     (let err = (if mkdir_ok then [] else [''Error: unable to create config directory:'']);
          warning = err @ [''Warning: error reading config file:''] in
      case file of
        Absent \<Rightarrow> (default_config, err)
      | Unreadable \<Rightarrow> (default_config, warning)
      | Contents s \<Rightarrow> (case yaml s default_config of None \<Rightarrow> (default_config, warning) | Some cfg \<Rightarrow> (cfg, err)))"

text \<open>Whether the file could be written, and the file.\<close>

definition saveConfig :: "(CliConfig \<Rightarrow> string) \<Rightarrow> bool \<Rightarrow> CliConfig \<Rightarrow> file_read \<Rightarrow> bool \<times> file_read" where
  "saveConfig print save_ok cfg file = (if save_ok then (True, Contents (print cfg)) else (False, file))"

text \<open>What \<open>kb login\<close> saves is what the next start of \<open>kb\<close> reads: its commands use the tokens of the login, and everything
  else in the configuration is as before.\<close>

theorem login_remembered:
  assumes "runLogin serve True line password cfg w = (oc, cfg1, w1)" and "oc_exit oc = 0"
    and "\<And>c. yaml (print c) default_config = Some c"
  shows "\<exists>lr email pw. cl_Login serve email pw w = (Inr lr, w1) \<and>
    initConfig True yaml (snd (saveConfig print True cfg1 file)) = (set_tokens (lr_AccessToken lr) (lr_RefreshToken lr) cfg, []) \<and>
    cl_token (newAuthenticatedClient cfg1) = lr_AccessToken lr \<and> cl_refreshToken (newAuthenticatedClient cfg1) = lr_RefreshToken lr"
proof -
  obtain lr email pw where l: "cl_Login serve email pw w = (Inr lr, w1)"
      "cfg1 = set_tokens (lr_AccessToken lr) (lr_RefreshToken lr) cfg"
    using assms(1,2) by (auto simp: runLogin_def fails_def prints_def split: if_splits option.splits sum.splits prod.splits)
  then show ?thesis
    using assms(3) by (auto simp: initConfig_def saveConfig_def newAuthenticatedClient_def set_tokens_def)
qed


section \<open>Kubectl commands\<close>

text \<open>What a command meets outside the program and its server: whether the configuration can be saved, the environment
  and the editor with its files, the terminal, the ports of the machine, what the waits of a port-forward see,
  the user's interrupt and the end of a copied stream.\<close>

record Machine =
  mc_save_ok :: bool
  mc_env :: "string \<Rightarrow> string"
  mc_editor :: "string \<Rightarrow> string \<Rightarrow> string + string"
  mc_file :: "file_failure option"
  mc_file2 :: "file_failure option"
  mc_reason :: "nat \<Rightarrow> string"
  mc_isterm :: bool
  mc_window :: "(int \<times> int) option"
  mc_bind :: "nat \<Rightarrow> nat option"
  mc_pick :: bool
  mc_select :: "bytes \<Rightarrow> pfConnRegistry"
  mc_end :: "bytes \<Rightarrow> pfConnRegistry"
  mc_interrupted :: bool
  mc_copy_err :: "string option"

text \<open>How a command ends: with the help, with what it printed and its exit code, as a session with what the terminal
  shows, or as a port-forward, which may still be waiting.\<close>

datatype kb_result =
    Help
  | Ended outcome
  | Attached "terminal \<times> int"
  | Forwarding "(string list \<times> string option) option"

definition of_session :: "string + terminal \<times> int \<Rightarrow> kb_result" where
  "of_session res = (case res of Inl e \<Rightarrow> Ended (fails e) | Inr t \<Rightarrow> Attached t)"

definition runKubectlEdit ::
  "Machine \<Rightarrow> 'w server \<Rightarrow> CliConfig \<Rightarrow> string list \<Rightarrow> 'w \<Rightarrow> outcome \<times> CliConfig \<times> 'w" where
  "runKubectlEdit mc serve cfg args w = (case NewEditHandler cfg args of
     Inl e \<Rightarrow> (fails e, cfg, w)
   | Inr h \<Rightarrow>
       (case edit_Execute serve (mc_save_ok mc) (mc_file mc) (mc_file2 mc) (openEditor (mc_env mc) (mc_editor mc))
            (current_cluster cfg) h (newAuthenticatedClient cfg) w of
          (oc, c, w1) \<Rightarrow> (oc, cl_config c, w1)))"

definition runKubectl ::
  "Machine \<Rightarrow> 'w server \<Rightarrow> CliConfig \<Rightarrow> string list \<Rightarrow> 'w \<Rightarrow> kb_result \<times> CliConfig \<times> 'w" where
  "runKubectl mc serve cfg args w = (case plan_kubectl args of
     ShowHelp \<Rightarrow> (Help, cfg, w)
   | RunEdit \<Rightarrow> apfst Ended (runKubectlEdit mc serve cfg args w)
   | RunExec tgt \<Rightarrow>
       apfst of_session (execInteractiveFromConfig (mc_reason mc) serve (mc_isterm mc) (mc_window mc) cfg tgt w)
   | RunPortForward tgt \<Rightarrow>
       apfst Forwarding (portForwardFromConfig (mc_reason mc) serve (mc_bind mc) (mc_pick mc) (mc_select mc) (mc_end mc)
         cfg tgt w)
   | one_request \<Rightarrow>
       if central_url cfg = [] then (Ended (fails not_configured), cfg, w)
       else if current_cluster cfg = [] then (Ended (fails no_cluster), cfg, w)
       else (case (case one_request of
             RunStream ns \<Rightarrow> run_stream serve (mc_save_ok mc) (mc_interrupted mc) (mc_copy_err mc) cfg args ns w
           | RunOnce ns \<Rightarrow> run_once serve (mc_save_ok mc) cfg args ns w) of
         (oc, c, w1) \<Rightarrow> (Ended oc, cl_config c, w1)))"

text \<open>\<open>other\<close> runs the command line that is not for kubectl.\<close>

definition kubectl_args_of :: "string list \<Rightarrow> string list option" where
  "kubectl_args_of line = (case rewriteArgs line of
     c # args \<Rightarrow> if c = ''kubectl'' \<or> c = ''k'' then Some args else None
   | [] \<Rightarrow> None)"

definition kb_Execute where
  "kb_Execute mc serve other cfg line w = (case kubectl_args_of line of
     Some args \<Rightarrow> runKubectl mc serve cfg args w
   | None \<Rightarrow> other (rewriteArgs line) cfg w)"


text \<open>The start of the program: the configuration is read when the command has been found. Without a home directory it exits.\<close>

definition kb_run where
  "kb_run home mkdir_ok yaml read mc serve other line w = (case configFile home of
     None \<Rightarrow> (Ended (fails ''Error: unable to find home directory:''), default_config, w)
   | Some path \<Rightarrow>
       (case initConfig mkdir_ok yaml (read path) of (cfg, warnings) \<Rightarrow> kb_Execute mc serve other cfg line w))"


section \<open>The command line of a one-shot command\<close>

lemma kb_Execute_once:
  assumes "kubectl_args_of line = Some args" and "plan_kubectl args = RunOnce ns"
    and "central_url cfg \<noteq> []" and "current_cluster cfg \<noteq> []"
  shows "kb_Execute mc serve other cfg line w =
    (case run_once serve (mc_save_ok mc) cfg args ns w of (oc, c, w1) \<Rightarrow> (Ended oc, cl_config c, w1))"
  using assms by (simp add: kb_Execute_def runKubectl_def)

lemma newAuthenticatedClient_config [simp]: "cl_config (newAuthenticatedClient cfg) = cfg"
  by (simp add: newAuthenticatedClient_def)

lemma kubectl_args_of_plain:
  "\<not> managementCommands a \<Longrightarrow> \<not> has_prefix a ''-'' \<Longrightarrow> \<not> has_prefix a ''__'' \<Longrightarrow> kubectl_args_of (a # as) = Some (a # as)"
  by (simp add: kubectl_args_of_def rewriteArgs_def prependKubectl_def)

lemma kubectl_args_of_explicit [simp]:
  "kubectl_args_of (''kubectl'' # as) = Some as" "kubectl_args_of (''k'' # as) = Some as"
  by (simp_all add: kubectl_args_of_def rewriteArgs_def managementCommands_def has_prefix_def)

text \<open>The plain case of a kubectl command: a verb that is neither edit nor exec nor port-forward, and no option that asks for
  help or a stream.\<close>

lemma plan_kubectl_once:
  assumes "\<And>a. a \<in> set (verb # args) \<Longrightarrow> a \<notin> {''-h'', ''--help'', ''-f'', ''--follow'', ''-w'', ''--watch''}"
    and "verb \<notin> {''edit'', ''exec'', ''port-forward''}" and "\<not> has_prefix verb ''-''"
  shows "plan_kubectl (verb # args) = RunOnce (first_namespace (verb # args))"
proof -
  have "\<not> list_ex (\<lambda>a. a = ''-h'' \<or> a = ''--help'') (verb # args)" "\<not> isStreamingCommand (verb # args)"
    using assms(1) unfolding isStreamingCommand_def list_ex_iff by blast+
  moreover have "verb \<noteq> ''-n'' \<and> verb \<noteq> ''--namespace'' \<and> verb \<noteq> ''-o'' \<and> verb \<noteq> ''--output''"
    using assms(3) by (auto simp: has_prefix_def)
  then have "isEditCommand (verb # args) = (verb = ''edit'')"
    using assms(3) by simp
  moreover have "verb \<noteq> ''edit''" "verb \<noteq> ''exec''" "verb \<noteq> ''port-forward''" using assms(2) by blast+
  moreover from this have "parseExecArgs (verb # args) = None" "parsePortForwardArgs (verb # args) = None"
    unfolding parseExecArgs_def parsePortForwardArgs_def by (simp_all only: list.case if_True simp_thms)
  ultimately show ?thesis unfolding plan_kubectl_def by (simp only: if_False if_True option.case simp_thms)
qed

end
