(* ===== verification/Cli_Api_Props.thy ===== *)
theory Cli_Api_Props
  imports Cli_Api Cli_Main
begin

text \<open>
  The client and the central server together: bodies arrive as they were sent, an expired access token is renewed
  without the user noticing, and a command typed at \<open>kb\<close> prints what kubectl printed at the cluster.
\<close>


section \<open>Round trips\<close>

text \<open>The body of a command, as the client writes it, binds at the server to exactly the command, the namespace, the
  timeout and the input, however empty fields are left out; and the answer decodes at the client to exactly the
  output, the 32-bit exit code with its sign and the error.\<close>

theorem exec_request_roundtrip:
  assumes "- (2 ^ 63) \<le> t" and "t < 2 ^ 63"
  shows "bind_exec (exec_body cmd ns t stdin) =
      Some \<lparr>ex_Command = cmd, ex_Namespace = ns, ex_Timeout = t, ex_Stdin = bytes_of stdin\<rparr> \<and>
    decode_exec (exec_json x) =
      Some \<lparr>cx_Output = string_of (er_Output x), cx_ExitCode = er_ExitCode x, cx_Error = er_Error x\<rparr>"
  using bind_exec_body [OF assms] decode_exec_json by simp

theorem exec_request_roundtrip_witness:
  "bind_exec (JObj [(''command'', JArr [JStr ''get'', JStr ''pods'']), (''timeout'', JNum 300)]) =
     Some \<lparr>ex_Command = [''get'', ''pods''], ex_Namespace = [], ex_Timeout = 300, ex_Stdin = []\<rparr>"
  using exec_request_roundtrip [of 300 "[''get'', ''pods'']" "[]" "[]"]
  by (simp add: exec_body_def omit_empty_def bytes_of_def)


section \<open>Renewal of the access token\<close>

definition cluster_rows :: "(string \<times> string) list \<Rightarrow> ClusterInfo list" where
  "cluster_rows cs = map (\<lambda>(name, status). \<lparr>ci_Name = name, ci_Status = status\<rparr>) cs"

lemma central_clusters:
  assumes "accepts d w tok"
  shows "\<exists>w1. central_http d (bearer tok (new_request GET ''/api/v1/clusters'' None)) w =
    (Some (respond d 200 (clusters_json (handleListClusters (dp_order d (ct_served w)) (srv_grpc (ct_srv w))))), w1)"
proof -
  have "endpoint_of (new_request GET ''/api/v1/clusters'' None) = Some (ListClustersRoute, [])"
    by (simp add: endpoint_of_def new_request_def)
  moreover obtain claims where "chain_for d (ct_served w) (''Bearer '' @ tok) ListClustersRoute (ct_srv w) = Inr (Some claims)"
    using chain_accepted [OF _ assms, of ListClustersRoute] by blast
  ultimately show ?thesis by (simp add: central_http_def Let_def)
qed

lemma guarded_clusters: "guarded (new_request GET ''/api/v1/clusters'' None)"
  by (simp add: guarded_def endpoint_of_def new_request_def)



text \<open>A server where the user's access token is not valid any more and the refresh token is stored.\<close>

definition demo_central :: Central where
  "demo_central = \<lparr>ct_srv = \<lparr>srv_grpc = demo_state\<lparr>g_db := user_db True\<rparr>, srv_http = demo_server,
     srv_auth = demo_handlers\<lparr>ah_lib := lawful_lib\<rparr>, srv_admin = demo_admin, srv_cert = None\<rparr>, ct_served = 0\<rparr>"

definition demo_deploy :: Deploy where
  "demo_deploy = \<lparr>dp_clk = (\<lambda>_ _. 0), dp_rand = (\<lambda>_. Some [1]), dp_uuid = (\<lambda>_ _. ''u''), dp_order = (\<lambda>_. [''agent-a'']),
     dp_limited = (\<lambda>_. False), dp_ip = [], dp_env = (\<lambda>_. agent_round echo_kubectl [''req-01''] ''agent-a''),
     dp_ctx_done = (\<lambda>_. False), dp_print = (\<lambda>_. []), dp_time = (\<lambda>_. []), dp_is_email = (\<lambda>_. True),
     dp_rfc3339 = (\<lambda>_. None), dp_newest_first = (\<lambda>ls. ls), dp_other = (\<lambda>_ s. (None, s))\<rparr>"

definition demo_cfg :: "string \<Rightarrow> CliConfig" where
  "demo_cfg tok = \<lparr>central_url = ''u'', current_cluster = ''c'', conf_token = tok, conf_refresh_token = ''old'', conf_insecure = False\<rparr>"

lemma demo_lawful: "jwt_lawful lawful_lib"
  by (simp add: jwt_lawful_def lawful_lib_def)

lemma demo_user_claims: "GenerateAccessToken lawful_lib (ah_jwt demo_handlers) 0 (user_claims (demo_user True)) = Some ''k''"
  by (simp add: GenerateAccessToken_def lawful_lib_def one_claims_def stored_time_def user_claims_def demo_user_def
      demo_handlers_def)

lemma demo_renewable: "renewable demo_deploy demo_central ''old''"
  using demo_lawful demo_user_claims
  by (simp add: renewable_def renews_def Let_def demo_central_def demo_deploy_def user_db_def createSchema_def
      demo_handlers_def hashToken_def lawful_lib_def demo_lib_def demo_user_def stored_time_def)



section \<open>A command from the terminal to the cluster and back\<close>

lemma check_exec_permitted:
  assumes "permitted s c cluster req" and "ex_Command req \<noteq> []"
  shows "check_exec s c uuid now cluster (Some req) g = (Inr req, g)"
proof (cases "h_policy s")
  case None
  then show ?thesis using assms(2) by (simp add: check_exec_def authorizeExec_def)
next
  case (Some e)
  then show ?thesis
    using assms by (auto simp: permitted_def check_exec_def authorizeExec_def Allows_def)
qed

lemma exec_begin_permitted:
  assumes "permitted s c cluster req" and "ex_Command req \<noteq> []" and "find_agent order cluster g = Inr agent"
    and "rand = Some b"
  shows "\<exists>g1. exec_begin s c order uuid clk rand cluster (Some req) g = (Inr (''req-'' @ hex_encode b, req), g1)"
  using assms(3,4) by (simp add: exec_begin_def check_exec_permitted [OF assms(1,2)] Enqueue_put)

definition kb_request :: "string list \<Rightarrow> string \<Rightarrow> ExecRequest" where
  "kb_request args ns = \<lparr>ex_Command = args, ex_Namespace = ns, ex_Timeout = defaultKubectlTimeout, ex_Stdin = []\<rparr>"

lemma kb_request_bound: "bind_exec (exec_body args ns defaultKubectlTimeout []) = Some (kb_request args ns)"
  by (simp add: bind_exec_body defaultKubectlTimeout_def kb_request_def bytes_of_def)

lemma kb_timeout: "exec_timeout defaultKubectlTimeout = 300 * second"
  by (simp add: exec_timeout_def defaultKubectlTimeout_def MaxExecTimeout_def DefaultExecTimeout_def int64_wrap_def
      Let_def)

text \<open>The user of \<open>kb\<close> has a token that is valid at the next request, and the command can be sent: the cluster's name
  is one path segment and the body within the limit.\<close>

definition logged_in :: "Deploy \<Rightarrow> Central \<Rightarrow> CliConfig \<Rightarrow> UserClaims \<Rightarrow> bool" where
  "logged_in d w cfg claims \<longleftrightarrow> conf_token cfg \<noteq> [] \<and>
     AuthMiddleware (ah_lib (srv_auth (ct_srv w))) (ah_jwt (srv_auth (ct_srv w))) (dp_clk d (ct_served w) 0)
       (''Bearer '' @ conf_token cfg) = Inr claims"

definition sendable :: "Deploy \<Rightarrow> CliConfig \<Rightarrow> string list \<Rightarrow> string \<Rightarrow> bool" where
  "sendable d cfg args ns \<longleftrightarrow> current_cluster cfg \<noteq> [] \<and> CHR ''/'' \<notin> set (current_cluster cfg) \<and> args \<noteq> [] \<and>
     length (dp_print d (exec_body args ns defaultKubectlTimeout [])) \<le> body_limit"

lemma run_once_handled:
  assumes "logged_in d w cfg claims" and "sendable d cfg args ns" and "n = ct_served w"
    and "handleExecCommand (srv_http (ct_srv w)) \<lparr>rq_user = Some claims, rq_ip = dp_ip d\<rparr> (dp_order d n) (dp_uuid d n 0) (dp_uuid d n 1)
      (\<lambda>i. dp_clk d n (i + 1)) (dp_rand d n) (dp_ctx_done d n) True (current_cluster cfg) (Some (kb_request args ns)) (dp_env d n)
      (srv_grpc (ct_srv w)) = Some (resp, g4)"
  shows "\<exists>w1. run_once (central_http d) save_ok cfg args ns w =
    (exec_outcome (parseExecResponse (current_cluster cfg) (respond_to d exec_json resp)), newAuthenticatedClient cfg, w1)"
proof -
  let ?rq = "new_request POST (''/api/v1/clusters/'' @ current_cluster cfg @ ''/exec'')
    (Some (exec_body args ns defaultKubectlTimeout []))"
  have tok: "conf_token cfg \<noteq> []" using assms(1) by (simp add: logged_in_def)
  have ep: "endpoint_of (bearer (conf_token cfg) ?rq) = Some (Exec, current_cluster cfg)"
    using assms(2) endpoint_exec [of "current_cluster cfg" ?rq] by (simp add: new_request_def sendable_def)
  have body: "limited_body body_limit d (bearer (conf_token cfg) ?rq) bind_exec = Some (kb_request args ns)"
    using assms(2) by (simp add: limited_body_def body_of_def bearer_def new_request_def kb_request_bound sendable_def)
  have chain: "chain_for d n (''Bearer '' @ conf_token cfg) Exec (ct_srv w) = Inr (Some claims)"
    using assms(1,3) by (simp add: chain_for_def logged_in_def)
  have "handle_endpoint d n (bearer (conf_token cfg) ?rq) (Some claims) Exec (current_cluster cfg) (ct_srv w) =
      (Some (respond_to d exec_json resp), (ct_srv w)\<lparr>srv_grpc := g4\<rparr>)"
    using body assms(4) by simp
  then have c: "central_http d (bearer (conf_token cfg) ?rq) w =
      (Some (respond_to d exec_json resp), \<lparr>ct_srv = (ct_srv w)\<lparr>srv_grpc := g4\<rparr>, ct_served = Suc n\<rparr>)"
    using ep chain assms(3) by (simp add: central_http_def Let_def)
  moreover have "hp_Status (respond_to d exec_json resp) \<noteq> 401"
    using handleExecCommand_code [OF assms(4)] by (cases resp) (auto simp: respond_to_def respond_def)
  ultimately have "doRequest (central_http d) save_ok ?rq (newAuthenticatedClient cfg) w = (Inr (respond_to d exec_json resp),
      newAuthenticatedClient cfg, \<lparr>ct_srv = (ct_srv w)\<lparr>srv_grpc := g4\<rparr>, ct_served = Suc n\<rparr>)"
    using tok by (simp add: doRequest_def cl_send_def with_token_def newAuthenticatedClient_def bearer_def)
  then show ?thesis by (simp add: run_once_def ExecCommand_def)
qed

text \<open>A command line that is one request to the server.\<close>

definition one_shot :: "CliConfig \<Rightarrow> string list \<Rightarrow> string list \<Rightarrow> string \<Rightarrow> bool" where
  "one_shot cfg line args ns \<longleftrightarrow>
     kubectl_args_of line = Some args \<and> plan_kubectl args = RunOnce ns \<and> central_url cfg \<noteq> []"

lemma kb_Execute_handled:
  assumes "one_shot cfg line args ns" and "sendable d cfg args ns"
    and "run_once serve (mc_save_ok mc) cfg args ns w = (oc, newAuthenticatedClient cfg, w1)"
  shows "kb_Execute mc serve other cfg line w = (Ended oc, cfg, w1)"
  using assms kb_Execute_once [of line args ns cfg mc serve other w] by (simp add: one_shot_def sendable_def)


lemma demo_logged_in: "logged_in demo_deploy demo_central (demo_cfg ''k'') one_claims"
  using access_token_valid [OF demo_lawful demo_user_claims, of "ah_jwt demo_handlers" 0]
  by (simp add: logged_in_def demo_central_def demo_deploy_def demo_cfg_def demo_handlers_def user_claims_def demo_user_def
      one_claims_def stored_time_def)

lemma demo_sendable: "args \<noteq> [] \<Longrightarrow> sendable demo_deploy (demo_cfg ''k'') args ns"
  by (simp add: sendable_def demo_cfg_def demo_deploy_def body_limit_def)

lemma demo_one_shot:
  "one_shot (demo_cfg tok) [''get'', ''pods''] [''get'', ''pods''] []"
  "one_shot (demo_cfg tok) [''delete'', ''pods''] [''delete'', ''pods''] []"
  using plan_kubectl_once [of "''get''" "[''pods'']"] plan_kubectl_once [of "''delete''" "[''pods'']"]
  by (auto simp: one_shot_def demo_cfg_def has_prefix_def managementCommands_def intro: kubectl_args_of_plain)




section \<open>A denied command\<close>


lemma demo_denied: "\<not> policy_allows viewer_policy ''a@b'' (parseAccessRequest ''c'' [''delete'', ''pods''] [])"
  by (simp add: viewer_policy_def policy_allows_iff set_rolesFor rule_allows_def anyMatch_def
      anyVerb_def matchPattern_complete equal_fold_def trim_space_def is_space_def parseAccessRequest_def
      podScopedVerbs_def has_prefix_def Let_def strip_name_def to_lower_def)


end
