(* ===== verification/Cli_Admin_Props.thy ===== *)
theory Cli_Admin_Props
  imports Cli_Api_Props
begin

text \<open>
  Administration from the terminal to the database and back: what the client sends arrives at the handlers, every
  answer of the server has the form that the client decodes, a user whom \<open>kb admin users create\<close> made can log in,
  and an agent registers with the token that \<open>kb admin tokens create\<close> printed.
\<close>


section \<open>The last exchange of a call\<close>

lemma with_token_fields [simp]:
  "hr_Method (with_token c rq) = hr_Method rq" "hr_Path (with_token c rq) = hr_Path rq"
  "hr_Query (with_token c rq) = hr_Query rq" "hr_Body (with_token c rq) = hr_Body rq"
  by (simp_all add: with_token_def)

lemma endpoint_of_with_token [simp]: "endpoint_of (with_token c rq) = endpoint_of rq"
  unfolding endpoint_of_def admin_route_def by (simp only: with_token_fields)

text \<open>Two requests that differ in the token at most.\<close>

definition same_call :: "HttpRequest \<Rightarrow> HttpRequest \<Rightarrow> bool" where
  "same_call req rq \<longleftrightarrow> hr_Method rq = hr_Method req \<and> hr_Path rq = hr_Path req \<and> hr_Query rq = hr_Query req \<and>
     hr_Body rq = hr_Body req"

lemma same_call_with_token [simp]: "same_call req (with_token c req)" "same_call req (with_token c2 (with_token c req))"
  by (simp_all add: same_call_def)

lemma same_call_endpoint: "same_call req rq \<Longrightarrow> endpoint_of rq = endpoint_of req"
  unfolding same_call_def endpoint_of_def admin_route_def by (elim conjE) (simp only:)

text \<open>A call that gets a response ends with the exchange that gave it: the first one, or the one after a renewal.\<close>

lemma doRequest_last:
  assumes "doRequest serve save_ok req c w = (Inr r, c', w')"
  shows "\<exists>rq w0. same_call req rq \<and> serve rq w0 = (Some r, w') \<and>
    (w0 = w \<or> (\<exists>rq1 r1 w1 t r2. same_call req rq1 \<and> serve rq1 w = (Some r1, w1) \<and> hp_Status r1 = 401 \<and>
       serve (refresh_request t) w1 = (r2, w0)))"
proof -
  obtain r1 w1 where s: "cl_send serve c req w = (r1, w1)" by (cases "cl_send serve c req w")
  show ?thesis
  proof (cases "\<exists>x. r1 = Some x \<and> hp_Status x = 401 \<and> cl_refreshToken c \<noteq> []")
    case False
    then have "r1 = Some r \<and> w1 = w'"
      using assms s by (auto simp: doRequest_def split: option.splits if_splits)
    then show ?thesis using s by (auto simp: cl_send_def intro!: exI [of _ "with_token c req"])
  next
    case True
    obtain e c2 w2 where f: "cl_Refresh serve save_ok c w1 = (e, c2, w2)" by (cases "cl_Refresh serve save_ok c w1")
    obtain r2 where "serve (refresh_request (cl_refreshToken c)) w1 = (r2, w2)"
      using f by (auto simp: cl_Refresh_def refresh_request_def Let_def split: prod.splits option.splits if_splits)
    moreover have "cl_send serve c2 (with_token c req) w2 = (Some r, w')"
      using assms s f True by (auto simp: doRequest_def split: option.splits if_splits prod.splits)
    then have "serve (with_token c2 (with_token c req)) w2 = (Some r, w')" by (simp add: cl_send_def)
    moreover obtain x where "serve (with_token c req) w = (Some x, w1)" "hp_Status x = 401"
      using s True by (auto simp: cl_send_def)
    ultimately show ?thesis by (meson same_call_with_token)
  qed
qed

lemma expect_Inr:
  "expect special good dec rcw = (Inr a, c, w) \<Longrightarrow>
     \<exists>r j. rcw = (Inr r, c, w) \<and> hp_Status r = good \<and> hp_Json r = Some j \<and> dec j = Some a"
  by (auto simp: expect_def split: prod.splits sum.splits option.splits if_splits)

lemma expect_decodes:
  assumes "\<And>r c' w'. rcw = (Inr r, c', w') \<Longrightarrow> \<exists>j. hp_Json r = Some j \<and> dec j \<noteq> None"
    and "fst rcw \<noteq> Inl ''decoding response''" and "\<And>n. map_of special n \<noteq> Some ''decoding response''"
  shows "fst (expect special good dec rcw) \<noteq> Inl ''decoding response''"
proof (cases rcw)
  case (fields res c w)
  then show ?thesis
    using assms by (cases res) (auto simp: expect_def split: option.splits)
qed


section \<open>Every answer has the form that the client decodes\<close>

text \<open>Either the middleware refused the request, or the handler answered.\<close>

lemma central_http_cases:
  assumes "central_http d rq w = (Some r, w1)" and "endpoint_of rq = Some (e, name)"
  obtains (refused) code msg where "chain_for d (ct_served w) (header_of rq) e (ct_srv w) = Inl (code, msg)"
      "r = respond d code (error_json msg)" "ct_srv w1 = ct_srv w"
  | (handled) user where "chain_for d (ct_served w) (header_of rq) e (ct_srv w) = Inr user"
      "handle_endpoint d (ct_served w) rq user e name (ct_srv w) = (Some r, ct_srv w1)"
  using assms by (auto simp: central_http_def Let_def split: sum.splits prod.splits)

definition answer :: "HttpResponse \<Rightarrow> ('a \<Rightarrow> json) \<Rightarrow> ('a \<Rightarrow> bool) \<Rightarrow> bool" where
  "answer r enc ok \<longleftrightarrow> (\<exists>msg. hp_Json r = Some (error_json msg)) \<or> (\<exists>a. ok a \<and> hp_Json r = Some (enc a))"

lemma answer_respond_to: "(\<And>code a. res = RespOk code a \<Longrightarrow> ok a) \<Longrightarrow> answer (respond_to d enc res) enc ok"
  by (cases res) (auto simp: answer_def respond_to_def respond_def)

lemma serve_db_answer:
  assumes "serve_db d enc handler s = (Some r, s1)"
    and "\<And>code a db. handler (g_db (srv_grpc s)) = (RespOk code a, db) \<Longrightarrow> ok a"
  shows "answer r enc ok"
  using assms answer_respond_to [of "fst (handler (g_db (srv_grpc s)))" ok d enc]
  by (cases "handler (g_db (srv_grpc s))") (auto simp: serve_db_def with_db_def)

lemma answer_decodes:
  assumes "answer r enc ok" and "\<And>msg. dec (error_json msg) \<noteq> None" and "\<And>a. ok a \<Longrightarrow> dec (enc a) \<noteq> None"
  shows "\<exists>j. hp_Json r = Some j \<and> dec j \<noteq> None"
  using assms by (auto simp: answer_def)

lemma refused_answer: "answer (respond d code (error_json msg)) enc ok"
  by (auto simp: answer_def respond_def)

text \<open>A route of the database as a whole.\<close>

lemma route_answer:
  assumes "central_http d rq w = (Some r, w1)" and "endpoint_of rq = Some (e, name)"
    and "\<And>user. handle_endpoint d (ct_served w) rq user e name (ct_srv w) = serve_db d enc handler (ct_srv w)"
    and "\<And>code a db. handler (g_db (srv_grpc (ct_srv w))) = (RespOk code a, db) \<Longrightarrow> ok a"
  shows "answer r enc ok"
  using assms(1,2)
proof (cases rule: central_http_cases)
  case (refused code msg)
  then show ?thesis by (simp add: refused_answer)
next
  case (handled user)
  then show ?thesis using serve_db_answer assms(3,4) by metis
qed


lemma decode_error_json [simp]:
  "decode_user (error_json msg) \<noteq> None" "decode_token (error_json msg) \<noteq> None"
  "json_field dec0 zero k (error_json msg) = json_entries dec0 k [(''error'', JStr msg)] zero"
  by (simp_all add: decode_user_def decode_token_def error_json_def field_names)

lemma decode_login_answer:
  assumes "answer r tokens_json (\<lambda>t. - (2 ^ 63) \<le> ExpiresIn t \<and> ExpiresIn t < 2 ^ 63)"
  shows "decode_login r \<noteq> None"
proof -
  have "decode_login r = decode_login (respond d 0 j)" if "hp_Json r = Some j" for d j
    using that by (simp add: decode_login_def respond_def)
  moreover have "decode_login (respond d 0 (error_json msg)) \<noteq> None" for d msg
    by (simp add: decode_login_def respond_def field_names)
  ultimately show ?thesis using assms decode_tokens_json unfolding answer_def by (metis option.distinct(1))
qed

text \<open>What the numbers of the answers must keep within 64 bits: the lifetime of refresh tokens, which is a duration, and the
  number of audit entries.\<close>

definition int64_sized :: "CentralServer \<Rightarrow> bool" where
  "int64_sized s \<longleftrightarrow> - (2 ^ 63) \<le> refreshExpiry (srv_auth s) div second \<and> refreshExpiry (srv_auth s) div second < 2 ^ 63 \<and>
     length (audit_logs (g_db (srv_grpc s))) < 2 ^ 63"

lemma HandleLogin_expiry:
  "HandleLogin h clk rand uuid req db = (RespOk code t, db') \<Longrightarrow> ExpiresIn t = refreshExpiry h div second"
  by (auto simp: HandleLogin_def issueTokens_def split: option.splits prod.splits sum.splits if_splits)

lemma login_decodes:
  assumes "int64_sized (ct_srv w)"
  shows "fst (cl_Login (central_http d) email password w) \<noteq> Inl ''decoding response''"
proof -
  let ?rq = "new_request POST ''/auth/login'' (Some (JObj [(''email'', JStr email), (''password'', JStr password)]))"
  have ep: "endpoint_of ?rq = Some (Login, [])" by (simp add: endpoint_of_def new_request_def)
  have "decode_login r \<noteq> None" if "central_http d ?rq w = (Some r, w1)" for r w1
  proof (rule decode_login_answer, rule route_answer [OF that ep])
    fix user
    show "handle_endpoint d (ct_served w) ?rq user Login [] (ct_srv w) = serve_db d tokens_json
        (HandleLogin (srv_auth (ct_srv w)) (\<lambda>i. dp_clk d (ct_served w) (i + 1)) (dp_rand d (ct_served w)) (dp_uuid d (ct_served w) 0)
          (limited_body peek_limit d ?rq bind_login)) (ct_srv w)"
      by (simp add: serve_db_def)
  qed (use assms in \<open>auto simp: int64_sized_def dest: HandleLogin_expiry\<close>)
  then show ?thesis by (auto simp: cl_Login_def split: option.splits prod.splits)
qed


lemma doRequest_error:
  "doRequest serve save_ok req c w = (Inl e, cw) \<Longrightarrow> e = ''request failed'' \<or> e = auth_required"
  by (auto simp: doRequest_def split: option.splits prod.splits if_splits)

lemma call_decodes:
  assumes "I w"
    and "\<And>rq' w0 r w1. same_call rq rq' \<Longrightarrow> I w0 \<Longrightarrow> central_http d rq' w0 = (Some r, w1) \<Longrightarrow>
      I w1 \<and> (\<exists>j. hp_Json r = Some j \<and> dec j \<noteq> None)"
    and "\<And>t w0 r w1. I w0 \<Longrightarrow> central_http d (refresh_request t) w0 = (r, w1) \<Longrightarrow> I w1"
    and "\<And>n. map_of special n \<noteq> Some ''decoding response''"
  shows "fst (expect special good dec (doRequest (central_http d) save_ok rq c w)) \<noteq> Inl ''decoding response''"
proof (rule expect_decodes [OF _ _ assms(4)])
  fix r c' w'
  assume "doRequest (central_http d) save_ok rq c w = (Inr r, c', w')"
  from doRequest_last [OF this] show "\<exists>j. hp_Json r = Some j \<and> dec j \<noteq> None"
    using assms(1-3) by metis
next
  show "fst (doRequest (central_http d) save_ok rq c w) \<noteq> Inl ''decoding response''"
    using doRequest_error [of "central_http d" save_ok rq c w "''decoding response''"]
    by (cases "doRequest (central_http d) save_ok rq c w") (auto simp: auth_required_def)
qed

text \<open>A route of the database whose answers all decode.\<close>

lemma route_decodes:
  assumes "endpoint_of rq = Some (e, name)"
    and "\<And>rq' n user s. same_call rq rq' \<Longrightarrow> \<exists>handler. handle_endpoint d n rq' user e name s = serve_db d enc handler s"
    and "\<And>msg. dec (error_json msg) \<noteq> None" and "\<And>a. dec (enc a) \<noteq> None"
    and "\<And>n. map_of special n \<noteq> Some ''decoding response''"
  shows "fst (expect special good dec (doRequest (central_http d) save_ok rq c w)) \<noteq> Inl ''decoding response''"
proof (rule call_decodes [where I = "\<lambda>_. True"])
  fix rq' w0 r w1
  assume a: "same_call rq rq'" "central_http d rq' w0 = (Some r, w1)"
  have ep: "endpoint_of rq' = Some (e, name)" using assms(1) same_call_endpoint [OF a(1)] by simp
  have "answer r enc (\<lambda>_. True)"
    using a(2) ep
  proof (cases rule: central_http_cases)
    case (handled user)
    obtain handler where "handle_endpoint d (ct_served w0) rq' user e name (ct_srv w0) = serve_db d enc handler (ct_srv w0)"
      using assms(2) [OF a(1)] by blast
    then show ?thesis using handled(2) serve_db_answer [of d enc handler "ct_srv w0" r "ct_srv w1" "\<lambda>_. True"] by simp
  qed (simp add: refused_answer)
  from answer_decodes [OF this assms(3,4)] show "True \<and> (\<exists>j. hp_Json r = Some j \<and> dec j \<noteq> None)" by simp
qed (simp_all add: assms(5))

lemma users_decode:
  "json_field (json_array decode_user no_user) [] ''users'' (users_json time us) = Some (map (user_info time) us)"
  unfolding users_json_def by (rule field_nil_slice) (simp_all add: decode_user_json, simp add: user_json_def)

lemma tokens_decode:
  "json_field (json_array decode_token no_token) [] ''tokens'' (tokens_list_json time ts) =
     Some (map (\<lambda>t. token_info time t []) ts)"
  using elems_map [of "\<lambda>t. JObj (token_entries time t)" decode_token "\<lambda>t. token_info time t []" no_token ts]
  by (simp add: tokens_list_json_def decode_token_entries)

lemma admin_routes [simp]:
  "endpoint_of (new_request GET ''/api/v1/admin/users'' b) = Some (ListUsersRoute, [])"
  "endpoint_of (new_request POST ''/api/v1/admin/users'' b) = Some (CreateUserRoute, [])"
  "endpoint_of (new_request POST ''/api/v1/admin/agent-tokens'' b) = Some (CreateToken, [])"
  "endpoint_of ((new_request GET ''/api/v1/admin/agent-tokens'' b)\<lparr>hr_Query := q\<rparr>) = Some (ListTokens, [])"
  "endpoint_of ((new_request GET ''/api/v1/admin/audit'' b)\<lparr>hr_Query := q\<rparr>) = Some (ListAudit, [])"
  by (simp_all add: endpoint_of_def admin_route_def new_request_def has_prefix_def)

lemma admin_calls_decode:
  "fst (cl_ListUsers (central_http d) save_ok c w) \<noteq> Inl ''decoding response''"
  "fst (cl_CreateUser (central_http d) save_ok email name password c w) \<noteq> Inl ''decoding response''"
  "fst (cl_CreateAgentToken (central_http d) save_ok cluster description days c w) \<noteq> Inl ''decoding response''"
  "fst (cl_ListAgentTokens (central_http d) save_ok cluster c w) \<noteq> Inl ''decoding response''"
proof -
  show "fst (cl_ListUsers (central_http d) save_ok c w) \<noteq> Inl ''decoding response''"
    unfolding cl_ListUsers_def
    by (rule route_decodes [where enc = "users_json (dp_time d)"])
      (auto simp: admin_endpoint_def users_decode admin_required_def field_names simp del: json_field.simps)
  show "fst (cl_CreateUser (central_http d) save_ok email name password c w) \<noteq> Inl ''decoding response''"
    unfolding cl_CreateUser_def
    by (rule route_decodes [where enc = "user_json (dp_time d)"])
      (auto simp: admin_endpoint_def decode_user_json admin_required_def)
  show "fst (cl_CreateAgentToken (central_http d) save_ok cluster description days c w) \<noteq> Inl ''decoding response''"
    unfolding cl_CreateAgentToken_def
    by (rule route_decodes [where enc = "created_token_json (dp_time d)"])
      (auto simp: admin_endpoint_def decode_token_json admin_required_def)
  show "fst (cl_ListAgentTokens (central_http d) save_ok cluster c w) \<noteq> Inl ''decoding response''"
    unfolding cl_ListAgentTokens_def
    by (rule route_decodes [where enc = "tokens_list_json (dp_time d)"])
      (auto simp: admin_endpoint_def tokens_decode admin_required_def field_names simp del: json_field.simps)
qed


lemma clusters_decode: 
  "fst (cl_ListClusters (central_http d) save_ok c w) \<noteq> Inl ''decoding response''"
  unfolding cl_ListClusters_def
proof (rule call_decodes [where I = "\<lambda>_. True"])
  let ?rq = "new_request GET ''/api/v1/clusters'' None"
  fix rq' w0 r w1
  assume a: "same_call ?rq rq'" "central_http d rq' w0 = (Some r, w1)"
  have ep: "endpoint_of rq' = Some (ListClustersRoute, [])"
    using same_call_endpoint [OF a(1)] by (simp add: endpoint_of_def new_request_def)
  have "answer r clusters_json (\<lambda>_. True)"
    using a(2) ep by (cases rule: central_http_cases) (auto simp: refused_answer answer_def respond_def)
  then have "\<exists>j. hp_Json r = Some j \<and>
      json_field (json_array decode_cluster \<lparr>ci_Name = [], ci_Status = []\<rparr>) [] ''clusters'' j \<noteq> None"
    by (rule answer_decodes) (simp_all add: field_names decode_clusters_json del: json_field.simps)
  then show "True \<and> (\<exists>j. hp_Json r = Some j \<and>
      json_field (json_array decode_cluster \<lparr>ci_Name = [], ci_Status = []\<rparr>) [] ''clusters'' j \<noteq> None)" by simp
qed simp_all

lemma exec_decodes:
  assumes "CHR ''/'' \<notin> set cluster" and "cluster \<noteq> []"
  shows "fst (ExecCommandWithStdin (central_http d) save_ok cluster command ns timeout stdin c w) \<noteq>
    Inl ''failed to decode response''"
proof -
  let ?rq = "new_request POST (''/api/v1/clusters/'' @ cluster @ ''/exec'') (Some (exec_body command ns timeout stdin))"
  have err: "decode_exec (error_json msg) \<noteq> None" for msg
    by (simp add: decode_exec_def error_json_def field_names)
  have dec: "\<exists>j. hp_Json r = Some j \<and> decode_exec j \<noteq> None"
    if a: "same_call ?rq rq'" "central_http d rq' w0 = (Some r, w1)" for rq' w0 r w1
  proof -
    have ep: "endpoint_of rq' = Some (Exec, cluster)"
      using same_call_endpoint [OF a(1)] endpoint_exec [OF assms, of ?rq] by (simp add: new_request_def)
    have "answer r exec_json (\<lambda>_. True)"
      using a(2) ep
    proof (cases rule: central_http_cases)
      case (handled user)
      then show ?thesis using answer_respond_to [of _ "\<lambda>_. True" d exec_json] by (auto split: option.splits prod.splits)
    qed (simp add: refused_answer)
    then show ?thesis by (rule answer_decodes) (simp_all add: err decode_exec_json)
  qed
  obtain res c' w' where q: "doRequest (central_http d) save_ok ?rq c w = (res, c', w')" by (metis prod_cases3)
  show ?thesis
  proof (cases res)
    case (Inl e)
    then show ?thesis
      using q doRequest_error [of "central_http d" save_ok ?rq c w e] by (auto simp: ExecCommandWithStdin_def auth_required_def)
  next
    case (Inr r)
    then obtain rq w0 where "same_call ?rq rq" "central_http d rq w0 = (Some r, w')"
      using q doRequest_last [of "central_http d" save_ok ?rq c w r c' w'] by blast
    then obtain j where "hp_Json r = Some j" "decode_exec j \<noteq> None" using dec by blast
    then show ?thesis using q Inr by (auto simp: ExecCommandWithStdin_def parseExecResponse_def)
  qed
qed

text \<open>The audit log: its length and the server's settings stay as they are while the tokens are renewed.\<close>

lemma audit_logs_query [simp]:
  "audit_logs (snd (GetRefreshTokenByHash h db)) = audit_logs db" "audit_logs (snd (GetUserByID i db)) = audit_logs db"
  "audit_logs (snd (DeleteRefreshToken i db)) = audit_logs db"
  "audit_logs (snd (CreateRefreshToken uuid now rt db)) = audit_logs db"
  "audit_logs (snd (ListAuditLogs order_by f db)) = audit_logs db"
  by (simp_all add: GetRefreshTokenByHash_def GetUserByID_def DeleteRefreshToken_def CreateRefreshToken_def
      ListAuditLogs_def statement_def Let_def split: list.splits prod.splits sum.splits)

lemma audit_logs_issue [simp]: "audit_logs (snd (issueTokens h clk rand uuid user db)) = audit_logs db"
  using issueTokens_db [of h clk rand uuid user db] by auto

lemma audit_logs_HandleRefresh [simp]: "audit_logs (snd (HandleRefresh h now clk rand uuid req db)) = audit_logs db"
  by (auto simp: HandleRefresh_def GetRefreshTokenByHash_eq GetUserByID_eq Let_def split: option.splits)

lemma HandleListAuditLogs_cases:
  obtains (bad_time) msg where "HandleListAuditLogs rfc order_by query db = (RespError 400 msg, db)"
  | (failed) f e db1 where "ListAuditLogs order_by f db = (Inl e, db1)"
      "HandleListAuditLogs rfc order_by query db = (RespError 500 ''internal error'', db1)"
  | (listed) f logs n db1 where "ListAuditLogs order_by f db = (Inr (logs, n), db1)"
      "HandleListAuditLogs rfc order_by query db = (RespOk 200 (logs, n, f_Page f, f_PerPage f), db1)"
proof (cases "parseTimeParam rfc (query ''from'')")
  case None
  then show ?thesis using bad_time by (simp add: HandleListAuditLogs_def)
next
  case lower: (Some f1)
  show ?thesis
  proof (cases "parseTimeParam rfc (query ''to'')")
    case None
    then show ?thesis using bad_time lower by (simp add: HandleListAuditLogs_def)
  next
    case (Some f2)
    obtain f where f: "HandleListAuditLogs rfc order_by query db = (case ListAuditLogs order_by f db of
        (Inl e, db1) \<Rightarrow> (RespError 500 ''internal error'', db1)
      | (Inr (logs, n), db1) \<Rightarrow> (RespOk 200 (logs, n, f_Page f, f_PerPage f), db1))"
      unfolding HandleListAuditLogs_def lower Some option.case Let_def by blast
    show ?thesis
    proof (cases "ListAuditLogs order_by f db")
      case (Pair res db1)
      then show ?thesis using f failed listed by (cases res) auto
    qed
  qed
qed

lemma HandleListAuditLogs_kept:
  "audit_logs (snd (HandleListAuditLogs rfc order_by query db)) = audit_logs db"
  using audit_logs_query(5)
  by (cases rule: HandleListAuditLogs_cases [of rfc order_by query db]) (simp, metis snd_conv, metis snd_conv)

lemma ListAuditLogs_total:
  "ListAuditLogs order_by f db = (Inr (logs, n), db') \<Longrightarrow> n \<le> length (audit_logs db)"
  by (auto simp: ListAuditLogs_def statement_def Let_def split: list.splits prod.splits sum.splits if_splits)

lemma HandleListAuditLogs_total:
  "HandleListAuditLogs rfc order_by query db = (RespOk code a, db') \<Longrightarrow> fst (snd a) \<le> length (audit_logs db)"
  by (cases rule: HandleListAuditLogs_cases [of rfc order_by query db]) (auto dest: ListAuditLogs_total)

text \<open>Of the routes that are not streams none changes the settings of the server.\<close>

lemma handle_endpoint_settings:
  assumes "handle_endpoint d n rq user e name s = (r, s1)" and "e \<notin> {StreamRoute, ExecAttach, PortForward}"
  shows "srv_auth s1 = srv_auth s \<and> srv_admin s1 = srv_admin s \<and> srv_http s1 = srv_http s"
  using assms
  by (cases e) (auto simp: serve_db_def with_db_def admin_endpoint_def split: prod.splits option.splits)

lemma central_http_settings:
  assumes "central_http d rq w = (r, w1)" and "endpoint_of rq = Some (e, name)" and "e \<notin> {StreamRoute, ExecAttach, PortForward}"
  shows "srv_auth (ct_srv w1) = srv_auth (ct_srv w) \<and> srv_admin (ct_srv w1) = srv_admin (ct_srv w) \<and>
    srv_http (ct_srv w1) = srv_http (ct_srv w)"
  using assms handle_endpoint_settings [of d "ct_served w" rq _ e name "ct_srv w"]
  by (auto simp: central_http_def Let_def split: sum.splits prod.splits)

lemma refresh_route [simp]: "endpoint_of (refresh_request t) = Some (Refresh, [])"
  by (simp add: endpoint_of_def refresh_request_def new_request_def)

lemma int64_sized_kept:
  assumes "central_http d rq w = (r, w1)" and "endpoint_of rq = Some (e, [])" and "e = Refresh \<or> e = ListAudit"
    and "int64_sized (ct_srv w)"
  shows "int64_sized (ct_srv w1)"
proof -
  have "audit_logs (g_db (srv_grpc (ct_srv w1))) = audit_logs (g_db (srv_grpc (ct_srv w)))"
    using assms(1-3) audit_logs_HandleRefresh HandleListAuditLogs_kept
    by (auto simp: central_http_def Let_def with_db_def serve_db_def admin_endpoint_def split: sum.splits prod.splits)
  then show ?thesis
    using assms(4) central_http_settings [OF assms(1,2)] assms(3) by (auto simp: int64_sized_def)
qed

definition decode_logs :: "json \<Rightarrow> (AuditLogInfo list \<times> int) option" where
  "decode_logs j = (case (json_field (json_array decode_audit no_audit) [] ''logs'' j, json_field json_int 0 ''total'' j) of
     (Some logs, Some n) \<Rightarrow> Some (logs, n)
   | _ \<Rightarrow> None)"

lemma decode_logs_json:
  assumes "n < 2 ^ 63"
  shows "decode_logs (logs_json time (logs, n, page, per_page)) = Some (map (log_info time) logs, int n)"
proof -
  have "json_field (json_array decode_audit no_audit) [] ''logs'' (JObj [(''logs'', nil_slice (log_json time) logs)]) =
      Some (map (log_info time) logs)"
    by (rule field_nil_slice) (simp_all add: decode_log_json, simp add: log_json_def)
  moreover have "int n < 9223372036854775808" using assms by simp
  ultimately show ?thesis
    using assms by (simp add: decode_logs_def logs_json_def field_names split: option.splits if_splits)
qed

lemma audit_decodes:
  assumes "int64_sized (ct_srv w)"
  shows "fst (Cli_Client.ListAuditLogs (central_http d) save_ok filters c w) \<noteq> Inl ''decoding response''"
proof -
  let ?rq = "(new_request GET ''/api/v1/admin/audit'' None)\<lparr>hr_Query := filter (\<lambda>e. snd e \<noteq> []) filters\<rparr>"
  have err: "decode_logs (error_json msg) \<noteq> None" for msg
    by (simp add: decode_logs_def error_json_def field_names)
  have "fst (expect [admin_required] 200 decode_logs (doRequest (central_http d) save_ok ?rq c w)) \<noteq> Inl ''decoding response''"
  proof (rule call_decodes [where I = "\<lambda>w. int64_sized (ct_srv w)"])
    fix rq' w0 r w1
    assume a: "same_call ?rq rq'" "int64_sized (ct_srv w0)" "central_http d rq' w0 = (Some r, w1)"
    have ep: "endpoint_of rq' = Some (ListAudit, [])" using same_call_endpoint [OF a(1)] by simp
    have "answer r (logs_json (dp_time d)) (\<lambda>a. fst (snd a) < 2 ^ 63)"
    proof (rule route_answer [OF a(3) ep])
      fix user
      show "handle_endpoint d (ct_served w0) rq' user ListAudit [] (ct_srv w0) = serve_db d (logs_json (dp_time d))
          (HandleListAuditLogs (dp_rfc3339 d) (dp_newest_first d) (query_value rq')) (ct_srv w0)"
        by (simp add: admin_endpoint_def)
    qed (use a(2) in \<open>auto simp: int64_sized_def dest!: HandleListAuditLogs_total\<close>)
    then have "\<exists>j. hp_Json r = Some j \<and> decode_logs j \<noteq> None"
      by (rule answer_decodes) (use err in \<open>auto simp: decode_logs_json\<close>)
    then show "int64_sized (ct_srv w1) \<and> (\<exists>j. hp_Json r = Some j \<and> decode_logs j \<noteq> None)"
      using int64_sized_kept [OF a(3) ep _ a(2)] by simp
  next
    fix t w0 r w1
    assume "int64_sized (ct_srv w0)" "central_http d (refresh_request t) w0 = (r, w1)"
    then show "int64_sized (ct_srv w1)" using int64_sized_kept [of d "refresh_request t" w0 r w1 Refresh] by simp
  qed (use assms in \<open>auto simp: admin_required_def\<close>)
  then show ?thesis by (simp add: Cli_Client.ListAuditLogs_def decode_logs_def [abs_def])
qed

text \<open>C15. The interface between client and server is well typed: whatever the state of the server and the database, whichever
  statements fail and whether the tokens have to be renewed on the way, every response to a call of the client has the
  form the client decodes, so no call ends with an error of decoding. The lifetime of refresh tokens and
  the length of the audit log, which are sent as numbers, must fit into 64 bits.\<close>

theorem api_well_typed:
  assumes "int64_sized (ct_srv w)" and "CHR ''/'' \<notin> set cluster" and "cluster \<noteq> []"
  shows "fst (cl_Login (central_http d) email password w) \<noteq> Inl ''decoding response'' \<and>
    fst (cl_ListClusters (central_http d) save_ok c w) \<noteq> Inl ''decoding response'' \<and>
    fst (ExecCommandWithStdin (central_http d) save_ok cluster command ns timeout stdin c w) \<noteq> Inl ''failed to decode response'' \<and>
    fst (cl_ListUsers (central_http d) save_ok c w) \<noteq> Inl ''decoding response'' \<and>
    fst (cl_CreateUser (central_http d) save_ok email name password c w) \<noteq> Inl ''decoding response'' \<and>
    fst (cl_CreateAgentToken (central_http d) save_ok cluster description days c w) \<noteq> Inl ''decoding response'' \<and>
    fst (cl_ListAgentTokens (central_http d) save_ok cluster c w) \<noteq> Inl ''decoding response'' \<and>
    fst (Cli_Client.ListAuditLogs (central_http d) save_ok filters c w) \<noteq> Inl ''decoding response''"
  by (intro conjI login_decodes [OF assms(1)] clusters_decode exec_decodes [OF assms(2,3)] admin_calls_decode
      audit_decodes [OF assms(1)])

theorem api_well_typed_witness:
  "fst (cl_Login (central_http demo_deploy) ''a@b'' ''x'' demo_central) \<noteq> Inl ''decoding response'' \<and>
   fst (ExecCommandWithStdin (central_http demo_deploy) True ''c'' [''get'', ''pods''] [] 300 []
     (newAuthenticatedClient (demo_cfg ''k'')) demo_central) \<noteq> Inl ''failed to decode response''"
proof -
  have "int64_sized (ct_srv demo_central)"
    by (simp add: int64_sized_def demo_central_def demo_handlers_def user_db_def createSchema_def)
  from api_well_typed [OF this, of "''c''"] show ?thesis by simp
qed


section \<open>A user who was created can log in\<close>

text \<open>What the documentation of bcrypt says: a hash that was generated from a password compares equal with it.\<close>

definition bcrypt_lawful :: "Lib \<Rightarrow> bool" where
  "bcrypt_lawful lib \<longleftrightarrow> (\<forall>p h. bcrypt_generate lib p = Some h \<longrightarrow> bcrypt_compare lib h p)"

lemma HandleCreateUser_created:
  assumes "HandleCreateUser h now uuid (Some r) db = (RespOk code u, db')"
  shows "find (\<lambda>u. u_Email u = cu_Email r) (users db') = Some u \<and>
    bcrypt_generate (adm_lib h) (cu_Password r) = Some (u_PasswordHash u) \<and> (cu_IsActive r = None \<longrightarrow> u_IsActive u)"
proof -
  obtain hash db1 where h: "HashPassword (adm_lib h) (cu_Password r) = Some hash"
    and c: "CreateUser uuid now \<lparr>u_ID = [], u_Email = cu_Email r, u_PasswordHash = hash, u_Name = cu_Name r,
      u_IsActive = (case cu_IsActive r of None \<Rightarrow> True | Some b \<Rightarrow> b), u_IsAdmin = False,
      u_CreatedAt = 0, u_UpdatedAt = 0\<rparr> db1 = (Inr u, db')"
    using assms by (auto simp: HandleCreateUser_def split: option.splits prod.splits sum.splits)
  have "find (\<lambda>s. u_Email s = cu_Email r) (us @ [u]) = Some u" if "\<not> list_ex (\<lambda>s. u_Email s = cu_Email r) us" "u_Email u = cu_Email r" for us
    using that by (induction us) auto
  with c have "find (\<lambda>s. u_Email s = cu_Email r) (users db') = Some u \<and> u_PasswordHash u = hash \<and>
      (cu_IsActive r = None \<longrightarrow> u_IsActive u)"
    by (auto simp: CreateUser_def statement_def Let_def list_ex_iff split: list.splits if_splits)
  then show ?thesis using h by (simp add: HashPassword_def)
qed

lemma HandleLogin_succeeds:
  assumes "faults db = []" and "find (\<lambda>u. u_Email u = email) (users db) = Some user"
    and "bcrypt_compare (ah_lib h) (u_PasswordHash user) password" and "u_IsActive user"
    and "GenerateAccessToken (ah_lib h) (ah_jwt h) (clk 0) (user_claims user) = Some access"
    and "uuid \<noteq> []" and "uuid \<notin> rt_ID ` set (refresh_tokens db)"
  shows "fst (HandleLogin h clk (Some b) uuid (Some (email, password)) db) =
    RespOk 200 \<lparr>AccessToken = access, tr_RefreshToken = hex_encode b, ExpiresIn = refreshExpiry h div second\<rparr>"
proof -
  have ex: "user \<in> set (users db)" using assms(2) by (auto simp: find_Some_iff)
  show ?thesis
    using assms ex
    by (auto simp: HandleLogin_def GetUserByEmail_eq CheckPassword_def issueTokens_def GenerateRefreshToken_def
        CreateRefreshToken_def new_id_def list_ex_iff user_claims_def Let_def split: option.splits)
qed

text \<open>The next request can be a login under the address: the rate limiter lets it pass, no statement fails, both kinds of
  handlers use the same libraries, these work as documented, and the access token lasts until the request after.\<close>

definition login_ready :: "Deploy \<Rightarrow> Central \<Rightarrow> string \<Rightarrow> string \<Rightarrow> bool" where
  "login_ready d w email password \<longleftrightarrow>
     (let s = ct_srv w; h = srv_auth s; db = g_db (srv_grpc s); n = ct_served w in
      adm_lib (srv_admin s) = ah_lib h \<and> bcrypt_lawful (ah_lib h) \<and> jwt_lawful (ah_lib h) \<and> int64_sized s \<and>
      \<not> dp_limited d n \<and> faults db = [] \<and> dp_uuid d n 0 \<noteq> [] \<and> dp_uuid d n 0 \<notin> rt_ID ` set (refresh_tokens db) \<and>
      dp_rand d n \<noteq> None \<and> dp_clk d (Suc n) 0 < stored_time (dp_clk d n 1 + accessExpiry (ah_jwt h)) \<and>
      length (dp_print d (JObj [(''email'', JStr email), (''password'', JStr password)])) \<le> peek_limit \<and>
      list_all (\<lambda>u. u_Email u = email \<longrightarrow> GenerateAccessToken (ah_lib h) (ah_jwt h) (dp_clk d n 1) (user_claims u) \<noteq> None)
        (users db))"

lemma cl_Login_succeeds:
  assumes "login_ready d w email password" and "email \<noteq> []" and "password \<noteq> []"
    and "find (\<lambda>u. u_Email u = email) (users (g_db (srv_grpc (ct_srv w)))) = Some user"
    and "bcrypt_generate (adm_lib (srv_admin (ct_srv w))) password = Some (u_PasswordHash user)" and "u_IsActive user"
  shows "\<exists>lr w1. cl_Login (central_http d) email password w = (Inr lr, w1) \<and> accepts d w1 (lr_AccessToken lr)"
proof -
  define h where "h = srv_auth (ct_srv w)"
  define db where "db = g_db (srv_grpc (ct_srv w))"
  define n where "n = ct_served w"
  let ?rq = "new_request POST ''/auth/login'' (Some (JObj [(''email'', JStr email), (''password'', JStr password)]))"
  have r: "adm_lib (srv_admin (ct_srv w)) = ah_lib h" "bcrypt_lawful (ah_lib h)" "jwt_lawful (ah_lib h)"
      "- (2 ^ 63) \<le> refreshExpiry h div second" "refreshExpiry h div second < 2 ^ 63"
      "\<not> dp_limited d n" "faults db = []" "dp_uuid d n 0 \<noteq> []" "dp_uuid d n 0 \<notin> rt_ID ` set (refresh_tokens db)"
      "dp_clk d (Suc n) 0 < stored_time (dp_clk d n 1 + accessExpiry (ah_jwt h))"
      "length (dp_print d (JObj [(''email'', JStr email), (''password'', JStr password)])) \<le> peek_limit"
    using assms(1) unfolding login_ready_def int64_sized_def Let_def h_def db_def n_def by simp_all
  obtain b where b: "dp_rand d n = Some b" using assms(1) unfolding login_ready_def Let_def n_def by blast
  have "user \<in> set (users db)" "u_Email user = email" using assms(4) by (auto simp: find_Some_iff db_def)
  then obtain access where access: "GenerateAccessToken (ah_lib h) (ah_jwt h) (dp_clk d n 1) (user_claims user) = Some access"
    using assms(1) unfolding login_ready_def Let_def h_def db_def n_def list_all_iff by blast
  let ?t = "\<lparr>AccessToken = access, tr_RefreshToken = hex_encode b, ExpiresIn = refreshExpiry h div second\<rparr>"
  let ?res = "HandleLogin h (\<lambda>i. dp_clk d n (i + 1)) (dp_rand d n) (dp_uuid d n 0) (Some (email, password)) db"
  have "bcrypt_compare (ah_lib h) (u_PasswordHash user) password"
    using assms(5) r(1,2) by (simp add: bcrypt_lawful_def)
  then have ok: "fst ?res = RespOk 200 ?t"
    using HandleLogin_succeeds [OF r(7) assms(4) [folded db_def] _ assms(6) _ r(8,9), of h password "\<lambda>i. dp_clk d n (i + 1)" access b]
      access b by simp
  have "limited_body peek_limit d ?rq bind_login = Some (email, password)"
    using assms(2,3) r(11) by (simp add: limited_body_def body_of_def new_request_def bind_login_def bind_pair_def field_names)
  moreover have "endpoint_of ?rq = Some (Login, [])" by (simp add: endpoint_of_def new_request_def)
  moreover have "chain_for d n (header_of ?rq) Login (ct_srv w) = Inr None" using r(6) by (simp add: chain_for_def)
  ultimately have c: "central_http d ?rq w = (Some (respond d 200 (tokens_json ?t)),
      \<lparr>ct_srv = (ct_srv w)\<lparr>srv_grpc := (srv_grpc (ct_srv w))\<lparr>g_db := snd ?res\<rparr>\<rparr>, ct_served = Suc n\<rparr>)"
    using ok by (simp add: central_http_def Let_def with_db_def respond_to_def h_def [symmetric] db_def [symmetric] n_def [symmetric])
  have "AuthMiddleware (ah_lib h) (ah_jwt h) (dp_clk d (Suc n) 0) (''Bearer '' @ access) =
      Inr ((user_claims user)\<lparr>ExpiresAt := stored_time (dp_clk d n 1 + accessExpiry (ah_jwt h)),
        IssuedAt := stored_time (dp_clk d n 1), Issuer := ''kbridge''\<rparr>)"
    using access_token_valid [OF r(3) access, of "ah_jwt h" "dp_clk d (Suc n) 0"] r(10) by simp
  then have "accepts d \<lparr>ct_srv = (ct_srv w)\<lparr>srv_grpc := (srv_grpc (ct_srv w))\<lparr>g_db := snd ?res\<rparr>\<rparr>, ct_served = Suc n\<rparr> access"
    by (auto simp: accepts_def h_def)
  moreover have "decode_login (respond d 200 (tokens_json ?t)) = Some
      \<lparr>lr_AccessToken = access, lr_RefreshToken = hex_encode b, lr_ExpiresIn = refreshExpiry h div second\<rparr>"
    using decode_tokens_json [of ?t] r(4,5) by simp
  ultimately show ?thesis using c by (simp add: cl_Login_def respond_def)
qed

lemma chain_refusal_code:
  "run_chain lib jm now header limited mws user = Inl (code, msg) \<Longrightarrow> code = 401 \<or> code = 403 \<or> code = 429"
  by (induction lib jm now header limited mws user rule: run_chain.induct)
    (auto simp: AuthMiddleware_def AdminRequired_def Let_def split: if_splits option.splits sum.splits)

lemma admin_call_ok:
  assumes "admin_call failed show_result call cfg w = (oc, cfg1, w1)" and "oc_exit oc = 0"
  shows "\<exists>a c. call (newAuthenticatedClient cfg) w = (Inr a, c, w1)"
  using assms by (auto simp: admin_call_def fails_def split: if_splits sum.splits prod.splits)

lemma runAdminUsersCreate_ok:
  assumes "runAdminUsersCreate serve save_ok terminal input email name flag cfg w = (oc, cfg1, w1)" and "oc_exit oc = 0"
    and "(if flag \<noteq> [] then Some flag else promptPassword terminal input) = Some password"
  shows "\<exists>u c. cl_CreateUser serve save_ok email name password (newAuthenticatedClient cfg) w = (Inr u, c, w1)"
proof -
  obtain oc' where a: "oc_exit oc' = 0" "admin_call ''failed to create user: ''
      (\<lambda>u. [''Created user '' @ quoted (ui_Email u) @ '' ('' @ ui_ID u @ '').''])
      (cl_CreateUser serve save_ok email name password) cfg w = (oc', cfg1, w1)"
    using assms
    by (auto simp: runAdminUsersCreate_def Let_def prints_def fails_def
        split: if_splits prod.splits)
  from admin_call_ok [OF a(2,1)] show ?thesis .
qed

text \<open>The request that creates a user, as the server sees it.\<close>

definition create_user_request :: "string \<Rightarrow> string \<Rightarrow> string \<Rightarrow> HttpRequest" where
  "create_user_request email name password = new_request POST ''/api/v1/admin/users''
     (Some (JObj [(''email'', JStr email), (''name'', JStr name), (''password'', JStr password)]))"

lemma create_user_handled:
  assumes "same_call (create_user_request email name password) rq" and "central_http d rq w = (Some r, w1)" and "hp_Status r = 201"
  shows "email \<noteq> [] \<and> password \<noteq> [] \<and> (\<exists>u. u_IsActive u \<and> find (\<lambda>u. u_Email u = email) (users (g_db (srv_grpc (ct_srv w1)))) = Some u \<and>
    bcrypt_generate (adm_lib (srv_admin (ct_srv w1))) password = Some (u_PasswordHash u))"
proof -
  have ep: "endpoint_of rq = Some (CreateUserRoute, [])"
    using same_call_endpoint [OF assms(1)] by (simp add: create_user_request_def)
  have lib: "srv_admin (ct_srv w1) = srv_admin (ct_srv w)" using central_http_settings [OF assms(2) ep] by simp
  let ?body = "limited_body body_limit d rq (bind_create_user (dp_is_email d))"
  let ?h = "HandleCreateUser (srv_admin (ct_srv w)) (dp_clk d (ct_served w) 1) (dp_uuid d (ct_served w) 0) ?body (g_db (srv_grpc (ct_srv w)))"
  have body: "cu_Email q = email \<and> cu_Password q = password \<and> cu_IsActive q = None \<and> email \<noteq> [] \<and> password \<noteq> []" if "?body = Some q" for q
    using that assms(1)
    by (auto simp: limited_body_def body_of_def same_call_def create_user_request_def new_request_def bind_create_user_def
        json_opt_def field_names split: if_splits)
  from assms(2) ep show ?thesis
  proof (cases rule: central_http_cases)
    case (refused code msg)
    then show ?thesis using assms(3) chain_refusal_code unfolding chain_for_def by (fastforce simp: respond_def)
  next
    case (handled user)
    obtain res db1 where h: "?h = (res, db1)" by (cases ?h)
    then have "r = respond_to d (user_json (dp_time d)) res"
        "ct_srv w1 = (ct_srv w)\<lparr>srv_grpc := (srv_grpc (ct_srv w))\<lparr>g_db := db1\<rparr>\<rparr>"
      using handled(2) by (auto simp: admin_endpoint_def serve_db_def with_db_def)
    then have r: "r = respond_to d (user_json (dp_time d)) res" "g_db (srv_grpc (ct_srv w1)) = db1" by simp_all
    show ?thesis
    proof (cases res)
      case (RespError code msg)
      then have "code \<noteq> 201" using h by (auto simp: HandleCreateUser_def split: option.splits prod.splits sum.splits)
      then show ?thesis using RespError r(1) assms(3) by (simp add: respond_to_def respond_def)
    next
      case (RespOk code u)
      then obtain q where q: "?body = Some q" using h by (auto simp: HandleCreateUser_def split: option.splits)
      then show ?thesis
        using HandleCreateUser_created [of "srv_admin (ct_srv w)" _ _ q _ code u db1] h RespOk body [OF q] r(2) lib by auto
    qed
  qed
qed

text \<open>C13. A user whom an administrator creates with \<open>kb admin users create\<close> can log in with \<open>kb login\<close> under the address and
  password of the command, also when the administrator's token was renewed on the way: if the first command exits with 0, the
  login succeeds and leaves an access token in the configuration that the server accepts.\<close>

theorem created_user_logs_in:
  assumes "runAdminUsersCreate (central_http d) save_ok terminal input email name flag cfg w = (oc, cfg1, w1)"
    and "oc_exit oc = 0" and "(if flag \<noteq> [] then Some flag else promptPassword terminal input) = Some password"
    and "login_ready d w1 email password" and "central_url cfg2 \<noteq> []" and "trim_space line = email"
  shows "\<exists>cfg3 w2. runLogin (central_http d) True (Some line) (Some password) cfg2 w1 =
      (prints [''Email: '', ''Password: ''] (succeeds [''Login successful.'']), cfg3, w2) \<and> accepts d w2 (conf_token cfg3)"
proof -
  obtain u c where "cl_CreateUser (central_http d) save_ok email name password (newAuthenticatedClient cfg) w = (Inr u, c, w1)"
    using runAdminUsersCreate_ok [OF assms(1-3)] by blast
  then obtain r where r: "doRequest (central_http d) save_ok (create_user_request email name password) (newAuthenticatedClient cfg) w =
      (Inr r, c, w1)" "hp_Status r = 201"
    unfolding cl_CreateUser_def create_user_request_def by (auto dest!: expect_Inr)
  obtain rq w0 where "same_call (create_user_request email name password) rq" "central_http d rq w0 = (Some r, w1)"
    using doRequest_last [OF r(1)] by blast
  from create_user_handled [OF this r(2)] obtain user where "email \<noteq> []" "password \<noteq> []" "u_IsActive user"
      "find (\<lambda>u. u_Email u = email) (users (g_db (srv_grpc (ct_srv w1)))) = Some user"
      "bcrypt_generate (adm_lib (srv_admin (ct_srv w1))) password = Some (u_PasswordHash user)" by blast
  from cl_Login_succeeds [OF assms(4) this(1,2,4,5,3)] obtain lr w2 where
    "cl_Login (central_http d) email password w1 = (Inr lr, w2)" "accepts d w2 (lr_AccessToken lr)" by blast
  then show ?thesis using assms(5,6) by (simp add: runLogin_def set_tokens_def)
qed

text \<open>An administrator with a token, and a library that signs the claims of the new user.\<close>

definition new_user_claims :: UserClaims where
  "new_user_claims = \<lparr>UserID = ''u'', Email = ''n@b'', claim_Name = ''N'', IsAdmin = False, ExpiresAt = 3600 * second,
     IssuedAt = 0, Issuer = ''kbridge''\<rparr>"

definition admin_demo_lib :: Lib where
  "admin_demo_lib = demo_lib\<lparr>jwt_sign := (\<lambda>claims key. if claims = new_user_claims then Some (CHR ''s'' # key) else None),
     jwt_parse := (\<lambda>tok keyfunc now. if tok = ''adm'' then Some (one_claims\<lparr>IsAdmin := True\<rparr>)
       else if tok \<noteq> [] \<and> hd tok = CHR ''s'' \<and> keyfunc True = Some (tl tok) \<and> now < 3600 * second then Some new_user_claims else None)\<rparr>"

definition admin_central :: Central where
  "admin_central = \<lparr>ct_srv = (ct_srv demo_central)\<lparr>srv_grpc := demo_state\<lparr>g_db := createSchema []\<rparr>,
     srv_auth := demo_handlers\<lparr>ah_lib := admin_demo_lib\<rparr>, srv_admin := demo_admin\<lparr>adm_lib := admin_demo_lib\<rparr>\<rparr>, ct_served = 0\<rparr>"

definition new_user :: User where
  "new_user = \<lparr>u_ID = ''u'', u_Email = ''n@b'', u_PasswordHash = ''pw'', u_Name = ''N'', u_IsActive = True, u_IsAdmin = False,
     u_CreatedAt = 0, u_UpdatedAt = 0\<rparr>"

definition admin_central1 :: Central where
  "admin_central1 = admin_central\<lparr>ct_srv := (ct_srv admin_central)\<lparr>srv_grpc := demo_state\<lparr>g_db := (createSchema [])\<lparr>users := [new_user]\<rparr>\<rparr>\<rparr>,
     ct_served := 1\<rparr>"

lemma admin_demo_lawful: "jwt_lawful admin_demo_lib" "bcrypt_lawful admin_demo_lib"
  by (auto simp: jwt_lawful_def bcrypt_lawful_def admin_demo_lib_def new_user_claims_def demo_lib_def)

lemma admin_creates:
  "\<exists>oc. runAdminUsersCreate (central_http demo_deploy) True False None ''n@b'' ''N'' ''pw'' (demo_cfg ''adm'') admin_central =
     (oc, demo_cfg ''adm'', admin_central1) \<and> oc_exit oc = 0"
proof -
  let ?rq = "create_user_request ''n@b'' ''N'' ''pw''" and ?c = "newAuthenticatedClient (demo_cfg ''adm'')"
  have "AuthMiddleware admin_demo_lib (ah_jwt demo_handlers) 0 ''Bearer adm'' = Inr (one_claims\<lparr>IsAdmin := True\<rparr>)"
    by (simp add: AuthMiddleware_def ValidateAccessToken_def admin_demo_lib_def trim_prefix_def has_prefix_def)
  then have chain: "chain_for demo_deploy 0 (header_of (bearer ''adm'' ?rq)) CreateUserRoute (ct_srv admin_central) = Inr (Some (one_claims\<lparr>IsAdmin := True\<rparr>))"
    by (simp add: chain_for_def admin_central_def demo_deploy_def AdminRequired_def)
  have body: "limited_body body_limit demo_deploy (bearer ''adm'' ?rq) (bind_create_user (dp_is_email demo_deploy)) =
      Some \<lparr>cu_Email = ''n@b'', cu_Name = ''N'', cu_Password = ''pw'', cu_IsActive = None\<rparr>"
    by (simp add: limited_body_def body_of_def create_user_request_def new_request_def bind_create_user_def json_opt_def
        field_names demo_deploy_def body_limit_def)
  have h: "HandleCreateUser (demo_admin\<lparr>adm_lib := admin_demo_lib\<rparr>) 0 ''u''
      (Some \<lparr>cu_Email = ''n@b'', cu_Name = ''N'', cu_Password = ''pw'', cu_IsActive = None\<rparr>) (createSchema []) =
      (RespOk 201 new_user, (createSchema [])\<lparr>users := [new_user]\<rparr>)"
    by (simp add: HandleCreateUser_def GetUserByEmail_eq createSchema_def HashPassword_def admin_demo_lib_def demo_lib_def
        CreateUser_def statement_def new_user_def new_id_def stored_time_def Let_def)
  have fields: "ct_served admin_central = 0" "srv_admin (ct_srv admin_central) = demo_admin\<lparr>adm_lib := admin_demo_lib\<rparr>"
      "srv_grpc (ct_srv admin_central) = demo_state\<lparr>g_db := createSchema []\<rparr>" "dp_clk demo_deploy 0 (Suc 0) = 0"
      "dp_uuid demo_deploy 0 0 = ''u''"
    by (simp_all add: admin_central_def demo_deploy_def)
  have "endpoint_of ?rq = Some (CreateUserRoute, [])" by (simp add: create_user_request_def)
  then have "central_http demo_deploy (bearer ''adm'' ?rq) admin_central =
      (Some (respond demo_deploy 201 (user_json (dp_time demo_deploy) new_user)), admin_central1)"
    using chain body h fields
    by (simp add: central_http_def Let_def admin_endpoint_def serve_db_def with_db_def respond_to_def admin_central1_def)
  then have "cl_CreateUser (central_http demo_deploy) True ''n@b'' ''N'' ''pw'' ?c admin_central =
      (Inr (user_info (dp_time demo_deploy) new_user), ?c, admin_central1)"
    by (simp add: cl_CreateUser_def create_user_request_def [symmetric] doRequest_def cl_send_def with_token_def
        newAuthenticatedClient_def demo_cfg_def bearer_def expect_def respond_def admin_required_def decode_user_json)
  then show ?thesis
    by (simp add: runAdminUsersCreate_def admin_call_def demo_cfg_def prints_def succeeds_def trim_space_def is_space_def
        newAuthenticatedClient_def)
qed

lemma admin_login_ready: "login_ready demo_deploy admin_central1 ''n@b'' ''pw''"
  using admin_demo_lawful
  by (simp add: login_ready_def Let_def int64_sized_def admin_central1_def admin_central_def demo_deploy_def createSchema_def
      demo_handlers_def peek_limit_def stored_time_def GenerateAccessToken_def user_claims_def new_user_def)
    (simp add: admin_demo_lib_def new_user_claims_def)

theorem created_user_logs_in_witness:
  "\<exists>cfg3 w2. runLogin (central_http demo_deploy) True (Some ''n@b '') (Some ''pw'') (demo_cfg []) admin_central1 =
      (prints [''Email: '', ''Password: ''] (succeeds [''Login successful.'']), cfg3, w2) \<and> accepts demo_deploy w2 (conf_token cfg3)"
proof -
  obtain oc where oc: "runAdminUsersCreate (central_http demo_deploy) True False None ''n@b'' ''N'' ''pw'' (demo_cfg ''adm'') admin_central =
     (oc, demo_cfg ''adm'', admin_central1)" "oc_exit oc = 0"
    using admin_creates by blast
  have "central_url (demo_cfg []) \<noteq> []" "trim_space ''n@b '' = ''n@b''"
    by (simp_all add: demo_cfg_def trim_space_def is_space_def)
  from created_user_logs_in [OF oc _ admin_login_ready this] show ?thesis by simp
qed


section \<open>An agent registers with a created token\<close>

definition create_token_request :: "string \<Rightarrow> string \<Rightarrow> int \<Rightarrow> HttpRequest" where
  "create_token_request cluster description days = new_request POST ''/api/v1/admin/agent-tokens''
     (Some (JObj ([(''cluster_name'', JStr cluster)] @ omit_empty ''description'' description @
        (if days > 0 then [(''expires_in_days'', JNum days)] else []))))"

lemma create_token_body:
  assumes "same_call (create_token_request cluster description days) rq" and "limited_body limit d rq bind_create_token = Some q"
  shows "req_ClusterName q = cluster \<and> cluster \<noteq> [] \<and> req_ExpiresInDays q = (if days > 0 then days else 0)"
  using assms
  by (auto simp: limited_body_def body_of_def same_call_def create_token_request_def new_request_def bind_create_token_def
      json_entries_append field_names split: if_splits option.splits)

text \<open>A request of an administrator whose token is accepted is not refused.\<close>

lemma create_token_not_401:
  assumes "same_call (create_token_request cluster description days) rq" and "central_http d rq w = (Some r, w1)"
    and "header_of rq = ''Bearer '' @ tok" and "accepts d w tok"
  shows "hp_Status r \<noteq> 401"
proof -
  have ep: "endpoint_of rq = Some (CreateToken, [])"
    using same_call_endpoint [OF assms(1)] by (simp add: create_token_request_def)
  from assms(2) ep show ?thesis
  proof (cases rule: central_http_cases)
    case (refused code msg)
    then have "code = 403"
      using assms(3,4) by (auto simp: chain_for_def accepts_def AdminRequired_def split: if_splits)
    then show ?thesis using refused(2) by (simp add: respond_def)
  next
    case (handled user)
    have "fst (HandleCreateAgentToken h clk rand u1 u2 body db) = RespError code msg \<Longrightarrow> code \<noteq> 401"
      "fst (HandleCreateAgentToken h clk rand u1 u2 body db) = RespOk code a \<Longrightarrow> code \<noteq> 401" for h clk rand u1 u2 body db code msg a
      by (auto simp: HandleCreateAgentToken_def Let_def split: option.splits prod.splits sum.splits)
    then show ?thesis
      using handled(2)
      by (auto simp: admin_endpoint_def serve_db_def with_db_def respond_to_def respond_def split: resp.splits)
  qed
qed

lemma create_token_handled:
  assumes "same_call (create_token_request cluster description days) rq" and "central_http d rq w = (Some r, w1)" and "hp_Status r = 201"
  shows "\<exists>q resp plaintext. req_ClusterName q = cluster \<and> cluster \<noteq> [] \<and> req_ExpiresInDays q = (if days > 0 then days else 0) \<and>
    hp_Json r = Some (created_token_json (dp_time d) (resp, plaintext)) \<and> srv_admin (ct_srv w1) = srv_admin (ct_srv w) \<and>
    HandleCreateAgentToken (srv_admin (ct_srv w)) (\<lambda>k. dp_clk d (ct_served w) (k + 1)) (dp_rand d (ct_served w))
      (dp_uuid d (ct_served w) 0) (dp_uuid d (ct_served w) 1) (Some q) (g_db (srv_grpc (ct_srv w))) =
      (RespOk 201 (resp, plaintext), g_db (srv_grpc (ct_srv w1)))"
proof -
  have ep: "endpoint_of rq = Some (CreateToken, [])"
    using same_call_endpoint [OF assms(1)] by (simp add: create_token_request_def)
  have adm: "srv_admin (ct_srv w1) = srv_admin (ct_srv w)" using central_http_settings [OF assms(2) ep] by simp
  let ?body = "limited_body body_limit d rq bind_create_token"
  let ?h = "HandleCreateAgentToken (srv_admin (ct_srv w)) (\<lambda>k. dp_clk d (ct_served w) (k + 1)) (dp_rand d (ct_served w))
      (dp_uuid d (ct_served w) 0) (dp_uuid d (ct_served w) 1) ?body (g_db (srv_grpc (ct_srv w)))"
  from assms(2) ep show ?thesis
  proof (cases rule: central_http_cases)
    case (refused code msg)
    then show ?thesis using assms(3) chain_refusal_code unfolding chain_for_def by (fastforce simp: respond_def)
  next
    case (handled user)
    obtain res db1 where h: "?h = (res, db1)" by (cases ?h)
    then have "r = respond_to d (created_token_json (dp_time d)) res"
        "ct_srv w1 = (ct_srv w)\<lparr>srv_grpc := (srv_grpc (ct_srv w))\<lparr>g_db := db1\<rparr>\<rparr>"
      using handled(2) by (auto simp: admin_endpoint_def serve_db_def with_db_def simp del: One_nat_def)
    then have r: "r = respond_to d (created_token_json (dp_time d)) res" "g_db (srv_grpc (ct_srv w1)) = db1" by simp_all
    show ?thesis
    proof (cases res)
      case (RespError code msg)
      then have "code \<noteq> 201"
        using h by (auto simp: HandleCreateAgentToken_def Let_def split: option.splits prod.splits sum.splits)
      then show ?thesis using RespError r(1) assms(3) by (simp add: respond_to_def respond_def)
    next
      case (RespOk code a)
      obtain resp plaintext where a: "a = (resp, plaintext)" by (cases a)
      have c: "code = 201" using RespOk r(1) assms(3) by (simp add: respond_to_def respond_def)
      obtain q where q: "?body = Some q" using h RespOk by (auto simp: HandleCreateAgentToken_def split: option.splits)
      have "hp_Json r = Some (created_token_json (dp_time d) (resp, plaintext))"
        using r(1) RespOk a by (simp add: respond_to_def respond_def)
      then show ?thesis
        using create_token_body [OF assms(1) q] h RespOk a c r(2) adm q by (intro exI [of _ q] exI [of _ resp] exI [of _ plaintext]) simp
    qed
  qed
qed

lemma CreateAgentToken_expiry:
  "CreateAgentToken uuid now token db = (Inr t, db') \<Longrightarrow> t_ExpiresAt t = t_ExpiresAt token"
  by (auto simp: CreateAgentToken_def statement_def Let_def split: list.splits if_splits)

lemma HandleCreateAgentToken_result:
  assumes "HandleCreateAgentToken h clk (Some b) uuid uuid2 (Some q) db = (RespOk code (resp, plaintext), db')"
  shows "plaintext = ''kbat_'' @ hex_encode b \<and>
    tok_ExpiresAt resp = (if req_ExpiresInDays q > 0 then Some (clk 1 + days_duration (req_ExpiresInDays q)) else None)"
proof -
  obtain cluster db1 where fc: "findOrCreateCluster uuid (clk 0) (req_ClusterName q) db = (Inr cluster, db1)"
    using assms by (auto simp: HandleCreateAgentToken_def split: sum.splits prod.splits)
  let ?token = "\<lparr>t_ID = [], t_ClusterID = c_ID cluster,
       t_TokenHash = hashAgentToken (adm_hmac h) (adm_pepper h) (''kbat_'' @ hex_encode b),
       t_TokenPrefix = take agentTokenPrefixLen (''kbat_'' @ hex_encode b), t_Description = req_Description q, t_IsRevoked = False,
       t_LastUsedAt = None, t_ExpiresAt = (if req_ExpiresInDays q > 0 then Some (clk 1 + days_duration (req_ExpiresInDays q)) else None),
       t_CreatedAt = 0\<rparr>"
  obtain t where "CreateAgentToken uuid2 (clk 2) ?token db1 = (Inr t, db')" "resp = toAgentTokenResponse t (c_Name cluster)"
      "plaintext = ''kbat_'' @ hex_encode b"
    using assms fc by (auto simp: HandleCreateAgentToken_def generateAgentToken_def Let_def simp del: append.simps
        split: sum.splits prod.splits)
  then show ?thesis by (auto dest!: CreateAgentToken_expiry simp: toAgentTokenResponse_def)
qed

lemma Register_accepted:
  assumes "Authenticate hmac pepper (clk 0) (clk 1) tok cluster (g_db g) = (Inr c, db1)" and "c_Name c = cluster" and "cluster \<noteq> []"
  shows "\<exists>g'. Register hmac pepper clk (Some b) \<lparr>rr_AgentToken = tok, rr_ClusterName = cluster\<rparr> g =
      (Inr \<lparr>rr_Success = True, rr_AgentId = ''agent-'' @ hex_encode b, rr_ErrorMessage = []\<rparr>, g') \<and>
    (\<exists>info. store_Get (g_agents g') (''agent-'' @ hex_encode b) = Some info \<and> info_ClusterName info = cluster \<and>
       info_Status info = AgentStatusConnected)"
  using assms by (simp add: Register_def generateAgentID_def store_Get_Register del: One_nat_def)

text \<open>C14. The token that \<open>kb admin tokens create\<close> prints is the one an agent of the cluster registers with: if the command exits with 0, the
  registration at the gRPC service succeeds and puts the agent into the registry, connected and for that cluster, whether the
  cluster was known before or not and as long as the token lasts. The administrator's token is accepted, no statement of the
  database fails, and no stored token has the hash of the new one.\<close>

theorem created_token_registers:
  assumes "runAdminTokensCreate (central_http d) save_ok cluster description days cfg w = (oc, cfg1, w1)" and "oc_exit oc = 0"
    and "conf_token cfg \<noteq> []" and "accepts d w (conf_token cfg)" and "adm = srv_admin (ct_srv w)" and "db = g_db (srv_grpc (ct_srv w))"
    and "faults db = []" and "db_ok db" and "dp_rand d (ct_served w) = Some b"
    and "adm_hmac adm (adm_pepper adm) (''kbat_'' @ hex_encode b) \<notin> t_TokenHash ` set (agent_tokens db)"
    and "days \<le> 0 \<or> clk 0 \<le> stored_time (dp_clk d (ct_served w) 2 + days_duration days)"
  shows "''  '' @ ''kbat_'' @ hex_encode b \<in> set (oc_out oc) \<and>
    (\<exists>g'. Register (adm_hmac adm) (adm_pepper adm) clk (Some b2) \<lparr>rr_AgentToken = ''kbat_'' @ hex_encode b, rr_ClusterName = cluster\<rparr>
        (srv_grpc (ct_srv w1)) = (Inr \<lparr>rr_Success = True, rr_AgentId = ''agent-'' @ hex_encode b2, rr_ErrorMessage = []\<rparr>, g') \<and>
      (\<exists>info. store_Get (g_agents g') (''agent-'' @ hex_encode b2) = Some info \<and> info_ClusterName info = cluster \<and>
         info_Status info = AgentStatusConnected))"
proof -
  let ?c = "newAuthenticatedClient cfg" and ?rq = "create_token_request cluster description days"
  obtain ti c where ti: "cl_CreateAgentToken (central_http d) save_ok cluster description days ?c w = (Inr ti, c, w1)"
      "''  '' @ ti_Token ti \<in> set (oc_out oc)"
    using assms(1,2) by (auto simp: runAdminTokensCreate_def admin_call_def fails_def succeeds_def split: if_splits sum.splits prod.splits)
  then obtain r j where r: "doRequest (central_http d) save_ok ?rq ?c w = (Inr r, c, w1)" "hp_Status r = 201"
      "hp_Json r = Some j" "decode_token j = Some ti"
    unfolding cl_CreateAgentToken_def create_token_request_def by (auto dest!: expect_Inr)
  have first: "hp_Status r1 \<noteq> 401" if "cl_send (central_http d) ?c ?rq w = (Some r1, w2)" for r1 w2
  proof (rule create_token_not_401 [OF _ _ _ assms(4)])
    show "same_call ?rq (with_token ?c ?rq)" by (rule same_call_with_token(1))
    show "central_http d (with_token ?c ?rq) w = (Some r1, w2)" using that by (simp add: cl_send_def)
    show "header_of (with_token ?c ?rq) = ''Bearer '' @ conf_token cfg"
      using assms(3) by (simp add: with_token_def newAuthenticatedClient_def header_of_def)
  qed
  have last: "central_http d (with_token ?c ?rq) w = (Some r, w1)"
    using r(1) first by (auto simp: doRequest_def cl_send_def split: option.splits prod.splits if_splits)
  from create_token_handled [OF same_call_with_token(1) last r(2)]
  obtain q resp plaintext where q: "req_ClusterName q = cluster" "cluster \<noteq> []" "req_ExpiresInDays q = (if days > 0 then days else 0)"
    "hp_Json r = Some (created_token_json (dp_time d) (resp, plaintext))"
    "HandleCreateAgentToken adm (\<lambda>k. dp_clk d (ct_served w) (k + 1)) (Some b) (dp_uuid d (ct_served w) 0)
      (dp_uuid d (ct_served w) 1) (Some q) db = (RespOk 201 (resp, plaintext), g_db (srv_grpc (ct_srv w1)))"
    unfolding assms(5,6,9) by blast
  from HandleCreateAgentToken_result [OF q(5)] have p: "plaintext = ''kbat_'' @ hex_encode b"
    and e: "tok_ExpiresAt resp = (if days > 0 then Some (dp_clk d (ct_served w) 2 + days_duration days) else None)"
    using q(3) by (simp_all add: numeral_2_eq_2 split: if_splits)
  have "j = created_token_json (dp_time d) (resp, plaintext)" using r(3) q(4) by simp
  with r(4) have token: "ti_Token ti = plaintext" by (auto simp: decode_token_json token_info_def)
  obtain cl where "fst (Authenticate (adm_hmac adm) (adm_pepper adm) (clk 0) (clk 1) plaintext cluster (g_db (srv_grpc (ct_srv w1)))) = Inr cl"
      "c_Name cl = cluster"
    using created_token_authenticates [OF q(5) assms(7,8) assms(10) [folded p], of "clk 0" "clk 1"] e assms(11) q(1)
    by (auto split: if_splits)
  then obtain db1 where "Authenticate (adm_hmac adm) (adm_pepper adm) (clk 0) (clk 1) plaintext cluster (g_db (srv_grpc (ct_srv w1))) = (Inr cl, db1)"
      "c_Name cl = cluster"
    by (metis prod.collapse)
  from Register_accepted [OF this q(2), of b2] show ?thesis using ti(2) token p by simp
qed

lemma admin_creates_token:
  "\<exists>oc w1. runAdminTokensCreate (central_http demo_deploy) True ''dev'' [] 0 (demo_cfg ''adm'') admin_central =
     (oc, demo_cfg ''adm'', w1) \<and> oc_exit oc = 0"
proof -
  let ?rq = "create_token_request ''dev'' [] 0" and ?c = "newAuthenticatedClient (demo_cfg ''adm'')"
  let ?q = "\<lparr>req_ClusterName = ''dev'', req_Description = [], req_ExpiresInDays = 0\<rparr>"
  have "AuthMiddleware admin_demo_lib (ah_jwt demo_handlers) 0 ''Bearer adm'' = Inr (one_claims\<lparr>IsAdmin := True\<rparr>)"
    by (simp add: AuthMiddleware_def ValidateAccessToken_def admin_demo_lib_def trim_prefix_def has_prefix_def)
  then have chain: "chain_for demo_deploy 0 (header_of (bearer ''adm'' ?rq)) CreateToken (ct_srv admin_central) = Inr (Some (one_claims\<lparr>IsAdmin := True\<rparr>))"
    by (simp add: chain_for_def admin_central_def demo_deploy_def AdminRequired_def)
  have body: "limited_body body_limit demo_deploy (bearer ''adm'' ?rq) bind_create_token = Some ?q"
    by (simp add: limited_body_def body_of_def create_token_request_def new_request_def bind_create_token_def
        field_names demo_deploy_def body_limit_def)
  obtain resp db' where h: "HandleCreateAgentToken (demo_admin\<lparr>adm_lib := admin_demo_lib\<rparr>) (\<lambda>k. dp_clk demo_deploy 0 (Suc k)) (Some [1])
      ''u'' ''u'' (Some ?q) (createSchema []) = (RespOk 201 (resp, ''kbat_01''), db')"
    by (simp add: HandleCreateAgentToken_def findOrCreateCluster_def GetClusterByName_eq createSchema_def
        CreateCluster_def generateAgentToken_def hex_digit_def CreateAgentToken_def Let_def new_id_def)
  have fields: "ct_served admin_central = 0" "srv_admin (ct_srv admin_central) = demo_admin\<lparr>adm_lib := admin_demo_lib\<rparr>"
      "srv_grpc (ct_srv admin_central) = demo_state\<lparr>g_db := createSchema []\<rparr>" "dp_rand demo_deploy 0 = Some [1]"
      "dp_uuid demo_deploy 0 0 = ''u''" "dp_uuid demo_deploy 0 (Suc 0) = ''u''"
    by (simp_all add: admin_central_def demo_deploy_def)
  have "endpoint_of ?rq = Some (CreateToken, [])" by (simp add: create_token_request_def)
  then obtain w1 where "central_http demo_deploy (bearer ''adm'' ?rq) admin_central =
      (Some (respond demo_deploy 201 (created_token_json (dp_time demo_deploy) (resp, ''kbat_01''))), w1)"
    using chain body h fields
    by (simp add: central_http_def Let_def admin_endpoint_def serve_db_def with_db_def respond_to_def)
  then have "cl_CreateAgentToken (central_http demo_deploy) True ''dev'' [] 0 ?c admin_central =
      (Inr (token_info (dp_time demo_deploy) resp ''kbat_01''), ?c, w1)"
    by (simp add: cl_CreateAgentToken_def create_token_request_def doRequest_def cl_send_def with_token_def
        newAuthenticatedClient_def demo_cfg_def bearer_def expect_def respond_def admin_required_def decode_token_json)
  then show ?thesis
    by (simp add: runAdminTokensCreate_def admin_call_def demo_cfg_def prints_def succeeds_def newAuthenticatedClient_def)
qed

theorem created_token_registers_witness:
  "\<exists>oc w1 g'. runAdminTokensCreate (central_http demo_deploy) True ''dev'' [] 0 (demo_cfg ''adm'') admin_central = (oc, demo_cfg ''adm'', w1) \<and>
     ''  kbat_01'' \<in> set (oc_out oc) \<and>
     Register (adm_hmac demo_admin) (adm_pepper demo_admin) (\<lambda>_. 5) (Some [2]) \<lparr>rr_AgentToken = ''kbat_01'', rr_ClusterName = ''dev''\<rparr>
       (srv_grpc (ct_srv w1)) = (Inr \<lparr>rr_Success = True, rr_AgentId = ''agent-02'', rr_ErrorMessage = []\<rparr>, g')"
proof -
  obtain oc w1 where oc: "runAdminTokensCreate (central_http demo_deploy) True ''dev'' [] 0 (demo_cfg ''adm'') admin_central =
     (oc, demo_cfg ''adm'', w1)" "oc_exit oc = 0"
    using admin_creates_token by blast
  let ?adm = "demo_admin\<lparr>adm_lib := admin_demo_lib\<rparr>"
  have adm: "?adm = srv_admin (ct_srv admin_central)" "createSchema [] = g_db (srv_grpc (ct_srv admin_central))"
    by (simp_all add: admin_central_def)
  have "conf_token (demo_cfg ''adm'') \<noteq> []" "accepts demo_deploy admin_central (conf_token (demo_cfg ''adm''))"
    by (simp_all add: demo_cfg_def accepts_def AuthMiddleware_def ValidateAccessToken_def admin_central_def admin_demo_lib_def
        trim_prefix_def has_prefix_def)
  moreover have "faults (createSchema []) = []" "db_ok (createSchema [])" "agent_tokens (createSchema []) = []"
    by (simp_all add: createSchema_def db_ok_def)
  moreover have "dp_rand demo_deploy (ct_served admin_central) = Some [1]" by (simp add: demo_deploy_def)
  ultimately show ?thesis
    using created_token_registers [OF oc _ _ adm, of "[1]" "\<lambda>_. 5" "[2]"] oc(1) by (simp add: hex_digit_def) blast
qed

end
