(* ===== verification/Cli_Command_Props.thy ===== *)
theory Cli_Command_Props
  imports Cli_Commands
begin

text \<open>
  What the commands of \<open>kb\<close> send: a request is retried at most once, and an edit changes the cluster only with what the
  user wrote.
\<close>


section \<open>The requests of a command\<close>

text \<open>A server together with the requests it has received.\<close>

definition logged :: "'w server \<Rightarrow> ('w \<times> HttpRequest list) server" where
  "logged serve rq wl = (case serve rq (fst wl) of (r, w1) \<Rightarrow> (r, (w1, snd wl @ [rq])))"

text \<open>The requests that a state adds to another.\<close>

definition adds :: "'w \<times> HttpRequest list \<Rightarrow> 'w \<times> HttpRequest list \<Rightarrow> HttpRequest list \<Rightarrow> bool" where
  "adds wl wl' rs \<longleftrightarrow> snd wl' = snd wl @ rs"

lemma adds_trans: "adds a b rs \<Longrightarrow> adds b c ts \<Longrightarrow> adds a c (rs @ ts)"
  by (simp add: adds_def)

definition for_request :: "HttpRequest \<Rightarrow> HttpRequest \<Rightarrow> bool" where
  "for_request req rq \<longleftrightarrow> hr_Path rq = ''/auth/refresh'' \<or> hr_Path rq = hr_Path req \<and> hr_Body rq = hr_Body req"

lemma logged_adds: "logged serve rq wl = (r, wl') \<Longrightarrow> adds wl wl' [rq]"
  by (auto simp: logged_def adds_def split: prod.splits)

lemma cl_send_adds: "cl_send (logged serve) c rq wl = (r, wl') \<Longrightarrow> adds wl wl' [with_token c rq]"
  by (auto simp: cl_send_def dest: logged_adds)

lemma cl_Refresh_adds:
  "cl_Refresh (logged serve) save_ok c wl = (e, c', wl') \<Longrightarrow>
     adds wl wl' [new_request POST ''/auth/refresh'' (Some (refresh_json (cl_refreshToken c)))]"
  by (auto simp: cl_Refresh_def Let_def dest: logged_adds split: prod.splits option.splits if_splits)

lemma for_request_token [simp]: "for_request req (with_token c req)"
  by (simp add: for_request_def with_token_def)

lemma for_request_retry [simp]: "for_request req (with_token c2 (with_token c req))"
  by (simp add: for_request_def with_token_def)

lemma for_request_refresh [simp]: "for_request req (new_request POST ''/auth/refresh'' body)"
  by (simp add: for_request_def new_request_def)

text \<open>At most three requests go out for one: itself, the renewal and one retry.\<close>

lemma doRequest_adds:
  assumes "doRequest (logged serve) save_ok req c wl = (res, c', wl')"
  shows "\<exists>rs. adds wl wl' rs \<and> length rs \<le> 3 \<and> list_all (for_request req) rs"
proof -
  obtain r wl1 where s: "cl_send (logged serve) c req wl = (r, wl1)" by (cases "cl_send (logged serve) c req wl")
  have a1: "adds wl wl1 [with_token c req]" by (rule cl_send_adds [OF s])
  show ?thesis
  proof (cases "\<exists>x. r = Some x \<and> hp_Status x = 401 \<and> cl_refreshToken c \<noteq> []")
    case False
    then have "wl' = wl1" using assms s by (auto simp: doRequest_def split: option.splits if_splits)
    then show ?thesis using a1 by (intro exI [of _ "[with_token c req]"]) simp
  next
    case True
    obtain e c2 wl2 where f: "cl_Refresh (logged serve) save_ok c wl1 = (e, c2, wl2)"
      by (cases "cl_Refresh (logged serve) save_ok c wl1")
    have a2: "adds wl wl2 [with_token c req, new_request POST ''/auth/refresh'' (Some (refresh_json (cl_refreshToken c)))]"
      using adds_trans [OF a1 cl_Refresh_adds [OF f]] by simp
    obtain r3 wl3 where t: "cl_send (logged serve) c2 (with_token c req) wl2 = (r3, wl3)"
      by (cases "cl_send (logged serve) c2 (with_token c req) wl2")
    have a3: "adds wl wl3 [with_token c req, new_request POST ''/auth/refresh'' (Some (refresh_json (cl_refreshToken c))),
        with_token c2 (with_token c req)]"
      using adds_trans [OF a2 cl_send_adds [OF t]] by simp
    have "wl' = wl2 \<or> wl' = wl3"
      using assms s f t True by (auto simp: doRequest_def split: option.splits if_splits)
    then show ?thesis
    proof
      assume "wl' = wl2"
      then show ?thesis using a2 by (intro exI [of _ "[_, _]"]) (auto simp: list_all_iff)
    next
      assume "wl' = wl3"
      then show ?thesis using a3 by (intro exI [of _ "[_, _, _]"]) (auto simp: list_all_iff)
    qed
  qed
qed



section \<open>Edit\<close>

definition exec_request :: "string \<Rightarrow> string list \<Rightarrow> string \<Rightarrow> string \<Rightarrow> HttpRequest" where
  "exec_request cluster command ns stdin =
     new_request POST (''/api/v1/clusters/'' @ cluster @ ''/exec'') (Some (exec_body command ns defaultKubectlTimeout stdin))"

lemma ExecCommandWithStdin_adds:
  assumes "ExecCommandWithStdin (logged serve) save_ok cluster command ns defaultKubectlTimeout stdin c wl = (res, c', wl')"
  shows "\<exists>rs. adds wl wl' rs \<and> length rs \<le> 3 \<and> list_all (for_request (exec_request cluster command ns stdin)) rs"
proof -
  obtain r c1 wl1 where d: "doRequest (logged serve) save_ok (exec_request cluster command ns stdin) c wl = (r, c1, wl1)"
    by (cases "doRequest (logged serve) save_ok (exec_request cluster command ns stdin) c wl")
  then have "wl1 = wl'" using assms by (auto simp: ExecCommandWithStdin_def exec_request_def split: sum.splits)
  then show ?thesis using doRequest_adds [OF d] by simp
qed

lemma ExecCommand_no_stdin:
  "ExecCommand serve save_ok cluster command ns t c w = ExecCommandWithStdin serve save_ok cluster command ns t [] c w"
  by (simp add: ExecCommand_def ExecCommandWithStdin_def)

definition fetch_command :: "EditHandler \<Rightarrow> string list" where
  "fetch_command h = [''get'', resource_arg h, ''-o'', ''yaml''] @ additionalArgs h"

lemma fetchResource_adds:
  assumes "fetchResource (logged serve) save_ok cluster h c wl = (res, c', wl')"
  shows "\<exists>rs. adds wl wl' rs \<and> length rs \<le> 3 \<and>
    list_all (for_request (exec_request cluster (fetch_command h) (eh_namespace h) [])) rs"
proof -
  obtain r c1 wl1 where d: "ExecCommandWithStdin (logged serve) save_ok cluster (fetch_command h) (eh_namespace h)
      defaultKubectlTimeout [] c wl = (r, c1, wl1)"
    by (cases "ExecCommandWithStdin (logged serve) save_ok cluster (fetch_command h) (eh_namespace h) defaultKubectlTimeout [] c wl")
  then have "wl1 = wl'"
    using assms by (auto simp: fetchResource_def ExecCommand_no_stdin fetch_command_def split: sum.splits)
  then show ?thesis using ExecCommandWithStdin_adds [OF d] by simp
qed

lemma applyChanges_adds:
  assumes "applyChanges (logged serve) save_ok file cluster h content c wl = (out, err, c', wl')"
  shows "\<exists>rs. adds wl wl' rs \<and> length rs \<le> 3 \<and>
    list_all (for_request (exec_request cluster [''apply'', ''-f'', ''-''] (eh_namespace h) content)) rs"
proof (cases "file")
  case (Some failure)
  then have "wl' = wl" using assms by (cases failure) (auto simp: applyChanges_def)
  then show ?thesis by (intro exI [of _ "[]"]) (simp add: adds_def)
next
  case None
  obtain r c1 wl1 where d: "ExecCommandWithStdin (logged serve) save_ok cluster [''apply'', ''-f'', ''-''] (eh_namespace h)
      defaultKubectlTimeout content c wl = (r, c1, wl1)"
    by (cases "ExecCommandWithStdin (logged serve) save_ok cluster [''apply'', ''-f'', ''-''] (eh_namespace h)
      defaultKubectlTimeout content c wl")
  then have "wl1 = wl'" using assms None by (auto simp: applyChanges_def split: sum.splits)
  then show ?thesis using ExecCommandWithStdin_adds [OF d] by simp
qed


text \<open>A server that answers every command with the same text.\<close>

definition yaml_server :: "nat server" where
  "yaml_server rq n = (Some \<lparr>hp_Status = 200, hp_Body = [], hp_Json = Some (JObj [(''output'', JStr ''a: 1'')])\<rparr>, Suc n)"

definition demo_edit :: EditHandler where
  "demo_edit = new_edit\<lparr>resourceType := ''cm'', resourceName := ''x''\<rparr>"

definition blank_config :: CliConfig where
  "blank_config = \<lparr>central_url = ''u'', current_cluster = ''c'', conf_token = [], conf_refresh_token = [], conf_insecure = False\<rparr>"

lemma yaml_answer:
  "ExecCommandWithStdin (logged yaml_server) True ''c'' cmd ns defaultKubectlTimeout stdin (NewCentralClient blank_config) (n, log) =
     (Inr \<lparr>cx_Output = ''a: 1'', cx_ExitCode = 0, cx_Error = []\<rparr>, NewCentralClient blank_config,
      (Suc n, log @ [exec_request ''c'' cmd ns stdin]))"
proof -
  have "\<not> equal_fold ''output'' ''exit_code''" "\<not> equal_fold ''output'' ''error''"
    by (simp_all add: equal_fold_def to_lower_def)
  then show ?thesis
    by (simp add: ExecCommandWithStdin_def doRequest_def cl_send_def with_token_def logged_def yaml_server_def
        NewCentralClient_def parseExecResponse_def decode_exec_def exec_request_def)
qed


end
