(* ===== verification/Agent_Exec.thy ===== *)
theory Agent_Exec
  imports Agent_Core
begin

text \<open>
  The streaming executions of the agent (\<open>internal/agent/executor.go\<close>): \<open>ExecuteStream\<close>, \<open>ExecuteStreaming\<close>,
  \<open>ExecuteInteractiveNoTTY\<close> and \<open>ExecuteInteractive\<close>.

  A process is represented by what it writes to its pipes and how it ends, as a function of its command line and of
  what it is given on standard input; the pieces in which a pipe delivers its bytes and the order in which the two
  reading goroutines report theirs are arguments.
\<close>


section \<open>Reading the pipes\<close>

text \<open>A loop that reads to the end of the pipe, with a buffer of the given size; a read may return fewer bytes than
  there are.\<close>

function pump_all :: "nat \<Rightarrow> (nat \<Rightarrow> nat) \<Rightarrow> bool \<Rightarrow> bytes \<Rightarrow> (bool \<times> bytes) list" where
  "pump_all buf reads stdout r =
     (if r = [] then []
      else (let k = min (max (reads (length r)) 1) (max buf 1) in (stdout, take k r) # pump_all buf reads stdout (drop k r)))"
  by pat_completeness auto
termination
  by (relation "measure (\<lambda>(buf, reads, stdout, r). length r)") (auto simp: min_def)

declare pump_all.simps [simp del]

text \<open>Two goroutines that report in an order that \<open>sched\<close> decides.\<close>

fun interleave :: "bool list \<Rightarrow> 'a list \<Rightarrow> 'a list \<Rightarrow> 'a list" where
  "interleave sched [] ys = ys"
| "interleave sched (x # xs) [] = x # xs"
| "interleave [] (x # xs) (y # ys) = x # interleave [] xs (y # ys)"
| "interleave (first # sched) (x # xs) (y # ys) =
     (if first then x # interleave sched xs (y # ys) else y # interleave sched (x # xs) ys)"


section \<open>The executions\<close>

datatype proc_start = PipeError string | StartError string | Started bytes bytes wait_end

text \<open>\<open>ExecuteStream\<close> waits for the process while the goroutines still read, and the wait closes the pipes: the reads
  are then those of \<open>pumpStream\<close>, which may be over before the pipe is empty.\<close>

definition ExecuteStream ::
  "(string list \<Rightarrow> proc_start) \<Rightarrow> bool list \<Rightarrow> nat list \<Rightarrow> nat list \<Rightarrow> string list \<Rightarrow> string \<Rightarrow>
     (bool \<times> bytes) list \<times> (string + int)" where
  "ExecuteStream start sched out_reads err_reads args namespace =
     (case start (kubectl_args args namespace) of
        PipeError e \<Rightarrow> ([], Inl e)
      | StartError e \<Rightarrow> ([], Inl (''starting kubectl: '' @ e))
      | Started out err w \<Rightarrow>
          (interleave sched (pumpStream out_reads True out) (pumpStream err_reads False err), stream_result None w))"

text \<open>\<open>ExecuteStreaming\<close>: what it reports through the callbacks, and its result.\<close>

definition ExecuteStreaming ::
  "(string list \<Rightarrow> int option \<Rightarrow> proc_start) \<Rightarrow> bool list \<Rightarrow> (nat \<Rightarrow> nat) \<Rightarrow> (nat \<Rightarrow> nat) \<Rightarrow> string list \<Rightarrow> string \<Rightarrow> int \<Rightarrow>
     (bool \<times> bytes) list \<times> AgentCommandResult" where
  "ExecuteStreaming start sched out_reads err_reads args namespace timeout =
     (case start (kubectl_args args namespace) (if timeout > 0 then Some timeout else None) of
        PipeError e \<Rightarrow> ([], \<lparr>ar_Stdout = [], ar_Stderr = [], ar_ExitCode = - 1, ar_Error = Some e\<rparr>)
      | StartError e \<Rightarrow>
          ([], \<lparr>ar_Stdout = [], ar_Stderr = [], ar_ExitCode = - 1, ar_Error = Some (''failed to start kubectl: '' @ e)\<rparr>)
      | Started out err w \<Rightarrow>
          (let outs = pump_all 4096 out_reads True out; errs = pump_all 4096 err_reads False err in
           (interleave sched outs errs,
            \<lparr>ar_Stdout = concat (map snd outs), ar_Stderr = concat (map snd errs),
             ar_ExitCode = (case w of WaitOk \<Rightarrow> 0 | WaitExit code \<Rightarrow> code | WaitOther e \<Rightarrow> - 1),
             ar_Error = (case w of WaitOther e \<Rightarrow> Some (''command execution failed: '' @ e) | _ \<Rightarrow> None)\<rparr>)))"

text \<open>The goroutine of standard input: the context is done, the channel is closed, or data and whether it can be
  written. What it writes, until it returns.\<close>

datatype stdin_event = InputDone | InputClosed | InputData bytes bool

fun stdin_pump :: "stdin_event list \<Rightarrow> bytes" where
  "stdin_pump (InputData d ok # evs) = (if ok then d @ stdin_pump evs else [])"
| "stdin_pump _ = []"

definition ExecuteInteractiveNoTTY ::
  "(string list \<Rightarrow> bytes \<Rightarrow> proc_start) \<Rightarrow> string option \<Rightarrow> bool list \<Rightarrow> (nat \<Rightarrow> nat) \<Rightarrow> (nat \<Rightarrow> nat) \<Rightarrow> stdin_event list \<Rightarrow>
     string list \<Rightarrow> string \<Rightarrow> (bool \<times> bytes) list \<times> (string + int)" where
  "ExecuteInteractiveNoTTY start ctx_err sched out_reads err_reads input args namespace =
     (case start (kubectl_args args namespace) (stdin_pump input) of
        PipeError e \<Rightarrow> ([], Inl e)
      | StartError e \<Rightarrow> ([], Inl (''starting kubectl: '' @ e))
      | Started out err w \<Rightarrow>
          (interleave sched (pump_all streamChunkSize out_reads True out) (pump_all streamChunkSize err_reads False err),
           stream_result ctx_err w))"

text \<open>With a terminal, writes that fail are passed over, and the window has a first size and later ones.\<close>

fun pty_pump :: "stdin_event list \<Rightarrow> bytes" where
  "pty_pump (InputData d ok # evs) = (if ok then d else []) @ pty_pump evs"
| "pty_pump _ = []"

definition ExecuteInteractive ::
  "(string list \<Rightarrow> (16 word \<times> 16 word) list \<Rightarrow> bytes \<Rightarrow> string + bytes \<times> wait_end) \<Rightarrow> string option \<Rightarrow> (nat \<Rightarrow> nat) \<Rightarrow>
     stdin_event list \<Rightarrow> (16 word \<times> 16 word) list \<Rightarrow> string list \<Rightarrow> string \<Rightarrow> 16 word \<Rightarrow> 16 word \<Rightarrow>
     bytes list \<times> (string + int)" where
  "ExecuteInteractive start ctx_err reads input resizes args namespace rows cols =
     (case start (kubectl_args args namespace) ((rows, cols) # resizes) (pty_pump input) of
        Inl e \<Rightarrow> ([], Inl (''starting pty: '' @ e))
      | Inr (out, w) \<Rightarrow> (map snd (pump_all streamChunkSize reads True out), stream_result ctx_err w))"


section \<open>Lemmas\<close>

lemma concat_pump_all: "concat (map snd (pump_all buf reads stdout r)) = r"
proof (induction buf reads stdout r rule: pump_all.induct)
  case (1 buf reads stdout r)
  then show ?case by (subst pump_all.simps) (simp add: Let_def)
qed

lemma pump_all_flag: "list_all (\<lambda>c. fst c = stdout) (pump_all buf reads stdout r)"
proof (induction buf reads stdout r rule: pump_all.induct)
  case (1 buf reads stdout r)
  then show ?case by (subst pump_all.simps) (simp add: Let_def)
qed

lemma pump_all_size: "0 < buf \<Longrightarrow> list_all (\<lambda>c. length (snd c) \<le> buf) (pump_all buf reads stdout r)"
proof (induction buf reads stdout r rule: pump_all.induct)
  case (1 buf reads stdout r)
  then show ?case by (subst pump_all.simps) (auto simp: Let_def max_def min_def)
qed

lemma filter_interleave:
  assumes "list_all P xs" and "list_all (\<lambda>y. \<not> P y) ys"
  shows "filter P (interleave sched xs ys) = xs" and "filter (\<lambda>x. \<not> P x) (interleave sched xs ys) = ys"
  using assms
  by (induction sched xs ys rule: interleave.induct) (auto simp: list_all_iff filter_empty_conv filter_id_conv)

lemma set_interleave: "set (interleave sched xs ys) = set xs \<union> set ys"
  by (induction sched xs ys rule: interleave.induct) auto

lemma length_interleave: "length (interleave sched xs ys) = length xs + length ys"
  by (induction sched xs ys rule: interleave.induct) auto


lemma interleave_pumps:
  "concat (map snd (filter fst (interleave sched (pump_all buf r1 True out) (pump_all buf2 r2 False err)))) = out"
  "concat (map snd (filter (\<lambda>c. \<not> fst c) (interleave sched (pump_all buf r1 True out) (pump_all buf2 r2 False err)))) = err"
proof -
  have "list_all fst (pump_all buf r1 True out)" "list_all (\<lambda>c. \<not> fst c) (pump_all buf2 r2 False err)"
    using pump_all_flag [of True buf r1 out] pump_all_flag [of False buf2 r2 err] by simp_all
  from filter_interleave [OF this, of sched]
  show "concat (map snd (filter fst (interleave sched (pump_all buf r1 True out) (pump_all buf2 r2 False err)))) = out"
    "concat (map snd (filter (\<lambda>c. \<not> fst c) (interleave sched (pump_all buf r1 True out) (pump_all buf2 r2 False err)))) = err"
    by (simp_all add: concat_pump_all)
qed


lemma session_chunks:
  assumes "start (kubectl_args args namespace) (stdin_pump input) = Started out err w"
    and "ExecuteInteractiveNoTTY start ctx_err sched out_reads err_reads input args namespace = (chunks, res)"
  shows "concat (map snd (filter fst chunks)) = out \<and> concat (map snd (filter (\<lambda>c. \<not> fst c) chunks)) = err \<and>
    list_all (\<lambda>c. length (snd c) \<le> streamChunkSize) chunks \<and> res = stream_result ctx_err w"
proof -
  have c: "chunks = interleave sched (pump_all streamChunkSize out_reads True out) (pump_all streamChunkSize err_reads False err)"
      "res = stream_result ctx_err w"
    using assms by (simp_all add: ExecuteInteractiveNoTTY_def)
  have "0 < streamChunkSize" by (simp add: streamChunkSize_def)
  then have "list_all (\<lambda>c. length (snd c) \<le> streamChunkSize) chunks"
    using pump_all_size unfolding c(1) list_all_iff set_interleave by blast
  then show ?thesis using c interleave_pumps by simp
qed


section \<open>Properties\<close>

text \<open>A session without a terminal loses nothing: whatever pieces the pipes deliver and however the two readers
  interleave, the chunks that are reported are at most 32 kilobytes each, and those of each stream put together
  are exactly what kubectl wrote to it; the result is its exit code.\<close>

theorem session_output_complete:
  assumes "start (kubectl_args args namespace) (stdin_pump input) = Started out err w"
    and "ExecuteInteractiveNoTTY start ctx_err sched out_reads err_reads input args namespace = (chunks, res)"
  shows "concat (map snd (filter fst chunks)) = out \<and> concat (map snd (filter (\<lambda>c. \<not> fst c) chunks)) = err \<and>
    list_all (\<lambda>c. length (snd c) \<le> streamChunkSize) chunks \<and> res = stream_result ctx_err w"
  using assms by (rule session_chunks)

definition cat_proc :: "string list \<Rightarrow> bytes \<Rightarrow> proc_start" where
  "cat_proc args stdin = Started stdin [33] (WaitExit 2)"

theorem session_output_complete_witness:
  "concat (map snd (filter fst (fst (ExecuteInteractiveNoTTY cat_proc None [False] (\<lambda>_. 1) (\<lambda>_. 1)
      [InputData [104] True, InputData [105] True, InputClosed] [''exec''] [])))) = [104, 105]"
proof -
  obtain chunks res where c: "ExecuteInteractiveNoTTY cat_proc None [False] (\<lambda>_. 1) (\<lambda>_. 1)
      [InputData [104] True, InputData [105] True, InputClosed] [''exec''] [] = (chunks, res)"
    by (cases "ExecuteInteractiveNoTTY cat_proc None [False] (\<lambda>_. 1) (\<lambda>_. 1)
      [InputData [104] True, InputData [105] True, InputClosed] [''exec''] []")
  have "cat_proc (kubectl_args [''exec''] []) (stdin_pump [InputData [104] True, InputData [105] True, InputClosed]) =
      Started [104, 105] [33] (WaitExit 2)"
    by (simp add: cat_proc_def)
  from session_output_complete [OF this c] show ?thesis unfolding c by simp
qed

text \<open>\<open>ExecuteStream\<close> can lose output: it waits for the process while the pipes are still read, and the wait closes them
  when the process exits, so that a command that succeeded is reported with part of its output missing.\<close>

theorem ExecuteStream_loses_output:
  "\<exists>start sched out_reads err_reads. start (kubectl_args [''get''] []) = Started [104, 105] [] WaitOk \<and>
     ExecuteStream start sched out_reads err_reads [''get''] [] = ([(True, [104])], Inr 0)"
  by (rule exI [of _ "\<lambda>_. Started [104, 105] [] WaitOk"], rule exI [of _ "[]"], rule exI [of _ "[1]"], rule exI [of _ "[]"])
    (simp add: ExecuteStream_def stream_result_def streamChunkSize_def)

end
