(* ===== verification/Session_Path.thy ===== *)
theory Session_Path
  imports Cli_Forward Agent_Exec Agent_Sessions
begin

text \<open>
  The way of an interactive session's output, from the pipes of kubectl at the agent (theories Agent_Exec and
  Agent_Sessions) through the session manager and the bridge of the central server (Session_Manager, Bridges) to the
  user's terminal (Cli_Session).
\<close>


section \<open>The agent's messages at the central server\<close>

text \<open>The receive loop of the agent's stream: its messages in order; \<open>None\<close> is a panic.\<close>

fun route_all :: "AgentStreamMessage list \<Rightarrow> SessionManager \<Rightarrow> SessionManager option" where
  "route_all [] m = Some m"
| "route_all (msg # msgs) m = (case Route True msg m of None \<Rightarrow> None | Some m1 \<Rightarrow> route_all msgs m1)"

definition open_session :: "string \<Rightarrow> nat \<Rightarrow> StreamChunk list \<Rightarrow> SessionManager \<Rightarrow> bool" where
  "open_session sid r q m \<longleftrightarrow> lookup_session sid m = Some r \<and> r < length (sess_heap m) \<and> sess_ID (sess_at m r) = sid \<and>
     Output (sess_at m r) = Some q \<and> ended (sess_at m r) = None"

definition chunk_of :: "bool \<times> bytes \<Rightarrow> StreamChunk" where
  "chunk_of c = \<lparr>chunk_Type = outputTypeFor (fst c), chunk_Data = snd c\<rparr>"

lemma Route_output_open:
  assumes "open_session sid r q m" and "length q < 64"
  shows "\<exists>m1. Route True (MsgOutput sid ty d) m = Some m1 \<and> open_session sid r (q @ [\<lparr>chunk_Type = ty, chunk_Data = d\<rparr>]) m1"
  using assms by (auto simp: open_session_def after_send_def send_output_def sessionOutputBuffer_def sess_at_upd lookup_session_def)

lemma Route_exit_open:
  assumes "open_session sid r q m"
  shows "\<exists>m1. Route True (MsgExit sid code msg) m = Some m1 \<and> r < length (sess_heap m1) \<and>
    Output (sess_at m1 r) = Some q \<and> ended (sess_at m1 r) = Some (code, msg)"
  using assms by (auto simp: open_session_def close_session_def sess_at_upd dropSession_def Let_def split: option.splits)

definition out_msg :: "string \<Rightarrow> bool \<times> bytes \<Rightarrow> AgentStreamMessage" where
  "out_msg sid c = MsgOutput sid (outputTypeFor (fst c)) (snd c)"

lemma runStreamSession_msgs: "runStreamSession sid chunks res = map (out_msg sid) chunks @ [exit_message sid res]"
  by (auto simp: runStreamSession_def out_msg_def)

lemma route_all_append:
  "route_all (xs @ ys) m = (case route_all xs m of None \<Rightarrow> None | Some m1 \<Rightarrow> route_all ys m1)"
  by (induction xs arbitrary: m) (auto split: option.splits)

lemma route_outputs:
  assumes "open_session sid r q m" and "length q + length cs \<le> 64"
  shows "\<exists>m1. route_all (map (out_msg sid) cs) m = Some m1 \<and> open_session sid r (q @ map chunk_of cs) m1"
  using assms
proof (induction cs arbitrary: q m)
  case (Cons c cs)
  obtain m1 where m1: "Route True (out_msg sid c) m = Some m1" "open_session sid r (q @ [chunk_of c]) m1"
    using Route_output_open [OF Cons.prems(1)] Cons.prems(2) by (fastforce simp: chunk_of_def out_msg_def)
  from Cons.IH [OF m1(2)] Cons.prems(2) m1(1) show ?case by auto
qed simp

lemma route_last:
  assumes "open_session sid r q m" and "length q + length cs \<le> 64"
  shows "\<exists>m1. route_all (map (out_msg sid) cs @ [MsgExit sid code msg]) m = Some m1 \<and> r < length (sess_heap m1) \<and>
    Output (sess_at m1 r) = Some (q @ map chunk_of cs) \<and> ended (sess_at m1 r) = Some (code, msg)"
proof -
  obtain m1 where m1: "route_all (map (out_msg sid) cs) m = Some m1" "open_session sid r (q @ map chunk_of cs) m1"
    using route_outputs [OF assms] by blast
  from Route_exit_open [OF m1(2), of code msg] m1(1) show ?thesis by (auto simp: route_all_append)
qed


section \<open>The bridge while messages arrive\<close>

text \<open>Before each of its iterations the other goroutines do something that leaves the session alone, and the receive loop
  of the agent's stream takes a batch of messages. A panic of the receive loop would stop the server; here the
  state is then unchanged, which does not happen.\<close>

definition leaves_session :: "string \<Rightarrow> nat \<Rightarrow> env \<Rightarrow> bool" where
  "leaves_session sid r env \<longleftrightarrow> (\<forall>q m. open_session sid r q m \<longrightarrow> open_session sid r q (env m)) \<and> spares r env"

definition deliver :: "env \<times> AgentStreamMessage list \<Rightarrow> env \<times> bool \<times> bool" where
  "deliver eb = (\<lambda>m. case route_all (snd eb) (fst eb m) of None \<Rightarrow> fst eb m | Some m1 \<Rightarrow> m1, False, True)"

text \<open>The channel of 64 chunks never overflows: the bridge takes one chunk in each iteration.\<close>

fun keeps_up :: "nat \<Rightarrow> nat list \<Rightarrow> bool" where
  "keeps_up n [] = True"
| "keeps_up n (k # ks) = (n + k \<le> 64 \<and> keeps_up (n + k - 1) ks)"

lemma deliver_nothing: "leaves_session sid r env \<Longrightarrow> spares r (fst (deliver (env, [])))"
  by (simp add: deliver_def leaves_session_def)

lemma quiet_tail:
  "list_all (\<lambda>eb. leaves_session sid r (fst eb) \<and> snd eb = []) ebs \<Longrightarrow> bridge_quiet r (map deliver ebs)"
proof (induction ebs)
  case (Cons eb ebs)
  have "spares r (fst (deliver eb)) \<and> snd (deliver eb) = (False, True)"
    using Cons.prems deliver_nothing [of sid r "fst eb"] by (cases eb) (auto simp: deliver_def)
  then show ?case using Cons by (auto simp: bridge_quiet_def split: prod.splits)
qed (simp add: bridge_quiet_def)

lemma exec_downstream_Cons:
  "exec_downstream buf_write (deliver (env, b) # evs) r m w =
     exec_downstream buf_write ((\<lambda>m. m, False, True) # evs) r (fst (deliver (env, b)) m) w"
  by (simp add: deliver_def Let_def)

text \<open>An iteration while the session is open: it takes a chunk if there is one.\<close>

lemma exec_downstream_open:
  assumes "open_session sid r q m"
  shows "\<exists>m1. exec_downstream buf_write ((\<lambda>m. m, False, True) # evs) r m w =
      exec_downstream buf_write evs r m1 (w @ concat (map frame_bytes (filter frame_ok (map chunk_frame (take 1 q))))) \<and>
    open_session sid r (drop 1 q) m1"
proof (cases q)
  case Nil
  then show ?thesis
    using assms by (intro exI [of _ m]) (simp add: open_session_def recv_output_def Let_def)
next
  case (Cons x q')
  then show ?thesis
    using assms Encode_buf [of w "chunk_frame x"]
    by (intro exI [of _ "upd_sess r (Output_update (\<lambda>_. Some q')) m"])
      (simp add: open_session_def recv_output_def Let_def sess_at_upd lookup_session_def)
qed

lemma exec_downstream_relays:
  assumes "open_session sid r q m" and "list_all (\<lambda>eb. leaves_session sid r (fst eb)) (ebs @ rest)"
    and "concat (map snd ebs) = map (out_msg sid) cs @ [MsgExit sid code msg]"
    and "keeps_up (length q) (map (length \<circ> snd) ebs)"
    and "list_all (\<lambda>eb. snd eb = []) rest" and "length rest = 64"
  shows "\<exists>m1. exec_downstream buf_write (map deliver (ebs @ rest)) r m w =
    (w @ concat (map frame_bytes (filter frame_ok (map chunk_frame (q @ map chunk_of cs) @ [(Exit, EncodeExit (code, msg))]))),
     Some (code, msg), m1)"
  using assms(1-4)
proof (induction ebs arbitrary: q m w cs)
  case (Cons eb ebs)
  obtain env b where eb: "eb = (env, b)" by (cases eb)
  have env: "open_session sid r q (env m)" using Cons.prems(1,2) eb by (simp add: leaves_session_def)
  have room: "length q + length b \<le> 64" using Cons.prems(4) eb by simp
  have msgs: "b @ concat (map snd ebs) = map (out_msg sid) cs @ [MsgExit sid code msg]" using Cons.prems(3) eb by simp
  show ?case
  proof (cases "concat (map snd ebs) = []")
    case True
    then have b: "b = map (out_msg sid) cs @ [MsgExit sid code msg]" using msgs by (metis append_Nil2)
    obtain m1 where m1: "route_all b (env m) = Some m1" "r < length (sess_heap m1)"
        "Output (sess_at m1 r) = Some (q @ map chunk_of cs)" "ended (sess_at m1 r) = Some (code, msg)"
      using route_last [OF env, of cs code msg] room unfolding b by auto
    have "list_all (\<lambda>eb. leaves_session sid r (fst eb) \<and> snd eb = []) (ebs @ rest)"
      using Cons.prems(2) True assms(5) by (auto simp: list_all_iff)
    then have quiet: "bridge_quiet r ((\<lambda>m. m, False, True) # map deliver (ebs @ rest))"
      using quiet_tail [of sid r "ebs @ rest"] by (simp add: bridge_quiet_def)
    have "fst (deliver (env, b)) m = m1" using m1(1) by (simp add: deliver_def)
    moreover have "length (q @ map chunk_of cs) < length ((\<lambda>m. m, False, True) # map deliver (ebs @ rest))"
      using room assms(6) b by simp
    ultimately show ?thesis
      using exec_downstream_drains [OF quiet _ m1(2,4,3), of w] exec_downstream_Cons [of env b] eb by simp
  next
    case False
    then obtain cs1 cs2 where cs: "cs = cs1 @ cs2" "b = map (out_msg sid) cs1"
        "concat (map snd ebs) = map (out_msg sid) cs2 @ [MsgExit sid code msg]"
      using Cons.prems(3) eb by (auto simp: append_eq_append_conv2 append_eq_map_conv map_eq_append_conv Cons_eq_append_conv
          append_eq_Cons_conv)
    obtain m1 where m1: "route_all b (env m) = Some m1" "open_session sid r (q @ map chunk_of cs1) m1"
      using route_outputs [OF env, of cs1] room unfolding cs(2) by auto
    let ?w = "w @ concat (map frame_bytes (filter frame_ok (map chunk_frame (take 1 (q @ map chunk_of cs1)))))"
    obtain m2 where m2: "exec_downstream buf_write ((\<lambda>m. m, False, True) # map deliver (ebs @ rest)) r m1 w =
        exec_downstream buf_write (map deliver (ebs @ rest)) r m2 ?w" "open_session sid r (drop 1 (q @ map chunk_of cs1)) m2"
      using exec_downstream_open [OF m1(2)] by blast
    have k: "keeps_up (length (drop 1 (q @ map chunk_of cs1))) (map (length \<circ> snd) ebs)"
    proof -
      have "length (drop 1 (q @ map chunk_of cs1)) = length q + length cs1 - 1" by simp
      then show ?thesis using Cons.prems(4) eb cs(2) by (simp only: keeps_up.simps list.map comp_def snd_conv length_map)
    qed
    have split: "take 1 (q @ map chunk_of cs1) @ drop 1 (q @ map chunk_of cs1) = q @ map chunk_of cs1"
      by (rule append_take_drop_id)
    have "fst (deliver (env, b)) m = m1" using m1(1) by (simp add: deliver_def)
    then have first: "exec_downstream buf_write (map deliver (eb # ebs @ rest)) r m w =
        exec_downstream buf_write (map deliver (ebs @ rest)) r m2 ?w"
      using exec_downstream_Cons [of env b] eb m2(1) by simp
    obtain m3 where "exec_downstream buf_write (map deliver (ebs @ rest)) r m2 ?w =
        (?w @ concat (map frame_bytes (filter frame_ok (map chunk_frame (drop 1 (q @ map chunk_of cs1) @ map chunk_of cs2) @
          [(Exit, EncodeExit (code, msg))]))), Some (code, msg), m3)"
      using Cons.IH [OF m2(2) _ cs(3) k, of ?w] Cons.prems(2) by auto
    moreover have "map chunk_frame (q @ map chunk_of cs) = map chunk_frame (take 1 (q @ map chunk_of cs1)) @
        map chunk_frame (drop 1 (q @ map chunk_of cs1) @ map chunk_of cs2)"
      using split cs(1) by (metis append.assoc map_append)
    ultimately show ?thesis using first by (simp add: append.assoc)
  qed
qed simp

lemma chunks_of_output:
  "chunks_of False (map chunk_of chunks) = concat (map snd (filter fst chunks))"
  "chunks_of True (map chunk_of chunks) = concat (map snd (filter (\<lambda>c. \<not> fst c) chunks))"
  by (induction chunks) (auto simp: chunk_of_def outputTypeFor_def)


section \<open>Properties\<close>

definition session_result :: "string + int \<Rightarrow> 32 word \<times> string" where
  "session_result res = (case res of Inl e \<Rightarrow> (- 1, e) | Inr code \<Rightarrow> (word_of_int code, []))"



text \<open>A session whose agent sends one message after the other, the exit last.\<close>

lemma leaves_session_id [simp]: "leaves_session sid r (\<lambda>m. m)"
  by (simp add: leaves_session_def)

lemma demo_open: "open_session ''s1'' 0 [] demo_mgr"
  by (simp add: open_session_def demo_mgr_eq lookup_session_def demo_session_def)

lemma keeps_up_ones: "keeps_up 0 (replicate n (Suc 0))"
  by (induction n) simp_all


end
