(* ===== verification/Agent_Life.thy ===== *)
theory Agent_Life
  imports Agent_Core Config
begin

text \<open>
  The life of the agent (\<open>New\<close>, \<open>Run\<close>, \<open>Stop\<close>, \<open>connect\<close> in \<open>internal/agent/agent.go\<close>) under its main program
  (\<open>cmd/agent/main.go\<close>): the main goroutine, \<open>Run\<close> in a goroutine of its own, and the two loops that \<open>Run\<close>
  starts. Each runs in steps; what a select can choose is a step that may be taken. The loop of the stream and a poll
  between two looks at the channels change nothing here: theories Agent_Sessions and Agent_Core say what they do.
\<close>


section \<open>The state\<close>

datatype run_phase = Connecting | Registering | Beating | Returned "string option"

datatype loop_phase = NotStarted | Looping | Ended

datatype main_phase = Selecting | Signaled | StopCalled | Exited nat

record life =
  lf_agent :: Agent
  lf_interval :: int
  lf_touched :: bool
  lf_run :: run_phase
  lf_poll :: loop_phase
  lf_stream :: loop_phase
  lf_stopCh :: bool
  lf_stoppedCh :: bool
  lf_ctxDone :: bool
  lf_main :: main_phase

text \<open>A new agent, with \<open>Run\<close> started. The channels are open.\<close>

definition new_life :: "AgentConfig \<Rightarrow> life" where
  "new_life cfg =
     \<lparr>lf_agent = \<lparr>ag_token = central_Token cfg, ag_cluster = cluster_Name cfg, ag_ID = [], ag_connected = False\<rparr>,
      lf_interval = 30 * second, lf_touched = False, lf_run = Connecting, lf_poll = NotStarted, lf_stream = NotStarted,
      lf_stopCh = False, lf_stoppedCh = False, lf_ctxDone = False, lf_main = Selecting\<rparr>"

text \<open>The start of the main program: the agent, or the exit of a configuration that cannot be loaded or is not valid.\<close>

definition agent_main ::
  "env_vars \<Rightarrow> files \<Rightarrow> (string \<Rightarrow> bool) \<Rightarrow> (string \<Rightarrow> AgentConfig \<Rightarrow> AgentConfig option) \<Rightarrow> string \<Rightarrow> string + AgentConfig \<times> life" where
  "agent_main env read exists yaml flag =
     (case agent_loadConfig env read exists yaml flag of
        Inl e \<Rightarrow> Inl (''Failed to load config: '' @ e)
      | Inr cfg \<Rightarrow>
          (case agent_Validate cfg of
             Some e \<Rightarrow> Inl (''Invalid config: '' @ e)
           | None \<Rightarrow> Inr (cfg, new_life cfg)))"


section \<open>The goroutines\<close>

text \<open>\<open>dial\<close> makes a connection with the given protection, or gives an error, in at most ten seconds.\<close>

definition connect ::
  "(string \<Rightarrow> string option) \<Rightarrow> (string \<Rightarrow> transport \<Rightarrow> string option) \<Rightarrow> AgentConfig \<Rightarrow> string option" where
  "connect load dial cfg = (case clientTransportCredentials load (central_TLS cfg) of
     Inl e \<Rightarrow> Some (''configuring transport security: '' @ e)
   | Inr tr \<Rightarrow> (case dial (central_URL cfg) tr of
       Some e \<Rightarrow> Some (''dialing central: '' @ e)
     | None \<Rightarrow> None))"

text \<open>\<open>Run\<close>: the connection; the registration, with the close of the connection when it fails and the start of the loops
  when it succeeds; a tick of the heartbeat; the end of the heartbeat loop, which is the end of \<open>Run\<close>.\<close>

definition run_connect :: "string option \<Rightarrow> life \<Rightarrow> life" where
  "run_connect err s = (case err of
     Some e \<Rightarrow> s\<lparr>lf_run := Returned (Some (''connecting to central: '' @ e))\<rparr>
   | None \<Rightarrow> s\<lparr>lf_agent := (lf_agent s)\<lparr>ag_connected := True\<rparr>, lf_run := Registering\<rparr>)"

definition run_register :: "(RegisterRequest \<Rightarrow> RegisterResponse option) \<Rightarrow> life \<Rightarrow> life" where
  "run_register central s = (case ag_register central (lf_agent s) of
     (Some e, a) \<Rightarrow> s\<lparr>lf_agent := a\<lparr>ag_connected := False\<rparr>, lf_run := Returned (Some (''registering with central: '' @ e))\<rparr>
   | (None, a) \<Rightarrow> s\<lparr>lf_agent := a, lf_touched := True, lf_run := Beating, lf_poll := Looping, lf_stream := Looping\<rparr>)"

definition run_tick :: "(string \<Rightarrow> (bool \<times> 32 word) option) \<Rightarrow> (nat \<Rightarrow> attempt) \<Rightarrow> life \<Rightarrow> life" where
  "run_tick central what s = (case heartbeat_tick central what (lf_interval s, lf_agent s) of
     (touched, interval, a) \<Rightarrow> s\<lparr>lf_touched := (lf_touched s \<or> touched), lf_interval := interval, lf_agent := a\<rparr>)"

definition run_end :: "life \<Rightarrow> life" where
  "run_end s = s\<lparr>lf_stoppedCh := True, lf_agent := (lf_agent s)\<lparr>ag_connected := False\<rparr>, lf_run := Returned None\<rparr>"

text \<open>The main goroutine: a signal cancels the context; then \<open>Stop\<close> closes its channel and waits for the other; or \<open>Run\<close>
  returned first. The return of \<open>Run\<close> stays in its channel.\<close>

definition main_signal :: "life \<Rightarrow> life" where
  "main_signal s = s\<lparr>lf_ctxDone := True, lf_main := Signaled\<rparr>"

definition main_stop :: "life \<Rightarrow> life" where
  "main_stop s = s\<lparr>lf_stopCh := True, lf_main := StopCalled\<rparr>"

definition main_exit :: "nat \<Rightarrow> life \<Rightarrow> life" where
  "main_exit code s = s\<lparr>lf_main := Exited code\<rparr>"

text \<open>When the loops of the heartbeat and of the polls may end, and that of the stream, which does not look at the channel.\<close>

definition stopping :: "life \<Rightarrow> bool" where
  "stopping s \<longleftrightarrow> lf_stopCh s \<or> lf_ctxDone s"

definition poll_ends :: "life \<Rightarrow> bool" where
  "poll_ends s \<longleftrightarrow> lf_poll s = Looping \<and> stopping s"

definition stream_ends :: "life \<Rightarrow> bool" where
  "stream_ends s \<longleftrightarrow> lf_stream s = Looping \<and> lf_ctxDone s"


section \<open>The steps\<close>

definition answers_ok :: "(RegisterRequest \<Rightarrow> RegisterResponse option \<Rightarrow> bool) \<Rightarrow> (RegisterRequest \<Rightarrow> RegisterResponse option) \<Rightarrow> bool" where
  "answers_ok answers central \<longleftrightarrow> (\<forall>rq. answers rq (central rq))"

definition attempts_ok :: "(RegisterRequest \<Rightarrow> RegisterResponse option \<Rightarrow> bool) \<Rightarrow> (nat \<Rightarrow> attempt) \<Rightarrow> bool" where
  "attempts_ok answers what \<longleftrightarrow> (\<forall>n central. what n = Connected central \<longrightarrow> answers_ok answers central)"

definition running :: "life \<Rightarrow> bool" where
  "running s = (case lf_main s of Exited c \<Rightarrow> False | _ \<Rightarrow> True)"

text \<open>The program's own steps, with any result \<open>err\<close> of \<open>connect\<close>; \<open>answers\<close> says what the central server may answer to a registration. There is no step after
  the exit of the program.\<close>

inductive own_step :: "(RegisterRequest \<Rightarrow> RegisterResponse option \<Rightarrow> bool) \<Rightarrow> life \<Rightarrow> life \<Rightarrow> bool"
  for answers where
  own_connect: "running s \<Longrightarrow> lf_run s = Connecting \<Longrightarrow> own_step answers s (run_connect err s)"
| own_register: "running s \<Longrightarrow> lf_run s = Registering \<Longrightarrow> answers_ok answers central \<Longrightarrow>
    own_step answers s (run_register central s)"
| own_end: "running s \<Longrightarrow> lf_run s = Beating \<Longrightarrow> stopping s \<Longrightarrow> own_step answers s (run_end s)"
| own_poll_end: "running s \<Longrightarrow> poll_ends s \<Longrightarrow> own_step answers s (s\<lparr>lf_poll := Ended\<rparr>)"
| own_stream_end: "running s \<Longrightarrow> stream_ends s \<Longrightarrow> own_step answers s (s\<lparr>lf_stream := Ended\<rparr>)"
| own_stop: "lf_main s = Signaled \<Longrightarrow> own_step answers s (main_stop s)"
| own_stopped: "lf_main s = StopCalled \<Longrightarrow> lf_stoppedCh s \<Longrightarrow> own_step answers s (main_exit 0 s)"
| own_returned: "lf_main s = Selecting \<Longrightarrow> lf_run s = Returned res \<Longrightarrow>
    own_step answers s (main_exit (if res = None then 0 else 1) s)"

text \<open>Together with a signal and the ticks of the heartbeat.\<close>

inductive life_step :: "(RegisterRequest \<Rightarrow> RegisterResponse option \<Rightarrow> bool) \<Rightarrow> life \<Rightarrow> life \<Rightarrow> bool"
  for answers where
  life_own: "own_step answers s t \<Longrightarrow> life_step answers s t"
| life_signal: "lf_main s = Selecting \<Longrightarrow> life_step answers s (main_signal s)"
| life_tick: "running s \<Longrightarrow> lf_run s = Beating \<Longrightarrow>
    attempts_ok answers what \<Longrightarrow> life_step answers s (run_tick beat what s)"

inductive_cases own_stepE: "own_step answers s t"
inductive_cases life_stepE: "life_step answers s t"


section \<open>The invariant\<close>

definition registered :: "(RegisterRequest \<Rightarrow> RegisterResponse option \<Rightarrow> bool) \<Rightarrow> AgentConfig \<Rightarrow> Agent \<Rightarrow> bool" where
  "registered answers cfg a \<longleftrightarrow>
     (\<exists>resp. answers \<lparr>rr_AgentToken = central_Token cfg, rr_ClusterName = cluster_Name cfg\<rparr> (Some resp) \<and>
       rr_Success resp \<and> ag_ID a = rr_AgentId resp)"

definition as_configured :: "AgentConfig \<Rightarrow> Agent \<Rightarrow> bool" where
  "as_configured cfg a \<longleftrightarrow> ag_token a = central_Token cfg \<and> ag_cluster a = cluster_Name cfg"

definition at_work :: "life \<Rightarrow> bool" where
  "at_work s \<longleftrightarrow> lf_run s \<in> {Beating, Returned None}"

definition life_ok :: "(RegisterRequest \<Rightarrow> RegisterResponse option \<Rightarrow> bool) \<Rightarrow> AgentConfig \<Rightarrow> life \<Rightarrow> bool" where
  "life_ok answers cfg s \<longleftrightarrow>
     as_configured cfg (lf_agent s) \<and> (lf_stoppedCh s \<longleftrightarrow> lf_run s = Returned None) \<and>
     (lf_poll s \<noteq> NotStarted \<longleftrightarrow> at_work s) \<and> (lf_stream s \<noteq> NotStarted \<longleftrightarrow> at_work s) \<and>
     (at_work s \<longrightarrow> registered answers cfg (lf_agent s) \<and> lf_touched s) \<and>
     (lf_stoppedCh s \<or> lf_poll s = Ended \<or> lf_stream s = Ended \<longrightarrow> lf_ctxDone s) \<and> (lf_stopCh s \<longrightarrow> lf_ctxDone s) \<and>
     (case lf_main s of
        Selecting \<Rightarrow> \<not> lf_ctxDone s
      | Signaled \<Rightarrow> lf_ctxDone s
      | StopCalled \<Rightarrow> lf_ctxDone s \<and> lf_stopCh s
      | Exited c \<Rightarrow> c = 0 \<and> lf_stoppedCh s \<or> c = 1 \<and> (\<exists>e. lf_run s = Returned (Some e)))"

lemma registered_cong: "ag_ID a' = ag_ID a \<Longrightarrow> registered answers cfg a' = registered answers cfg a"
  by (simp add: registered_def)

lemma registered_flag [simp]:
  "registered answers cfg (a\<lparr>ag_connected := b\<rparr>) = registered answers cfg a"
  "as_configured cfg (a\<lparr>ag_connected := b\<rparr>) = as_configured cfg a"
  by (simp_all add: registered_def as_configured_def)

lemma ag_register_ok:
  assumes "as_configured cfg a" and "answers_ok answers central"
  shows "as_configured cfg (snd (ag_register central a))"
    and "fst (ag_register central a) = None \<Longrightarrow> registered answers cfg (snd (ag_register central a))"
    and "registered answers cfg a \<Longrightarrow> registered answers cfg (snd (ag_register central a))"
  using assms by (auto simp: answers_ok_def ag_register_def as_configured_def registered_def split: option.splits)
    metis+

lemma reconnect_ok:
  assumes "as_configured cfg a" and "registered answers cfg a"
    and "attempts_ok answers what"
  shows "as_configured cfg (snd (snd (reconnect_loop k b what a))) \<and> registered answers cfg (snd (snd (reconnect_loop k b what a)))"
  using assms(1,2)
proof (induction k arbitrary: b a)
  case (Suc k)
  show ?case
  proof (cases "what k")
    case (Connected central)
    then have ans: "answers_ok answers central" using assms(3) by (auto simp: attempts_ok_def)
    obtain e a1 where e: "ag_register central (a\<lparr>ag_connected := True\<rparr>) = (e, a1)"
      by (cases "ag_register central (a\<lparr>ag_connected := True\<rparr>)")
    have "as_configured cfg a1" "registered answers cfg a1"
      using ag_register_ok [of cfg "a\<lparr>ag_connected := True\<rparr>" answers central, OF _ ans] Suc.prems e by auto
    then show ?thesis
      using \<open>what k = Connected central\<close> e Suc.IH [of "a1\<lparr>ag_connected := False\<rparr>" b] by (auto split: option.splits prod.splits)
  qed (use Suc in \<open>simp_all add: case_prod_unfold\<close>)
qed simp

lemma heartbeat_ok:
  assumes "as_configured cfg a" and "registered answers cfg a"
    and "attempts_ok answers what"
  shows "as_configured cfg (snd (snd (heartbeat_tick beat what (i, a)))) \<and>
    registered answers cfg (snd (snd (heartbeat_tick beat what (i, a))))"
  using reconnect_ok [of cfg "a\<lparr>ag_connected := False\<rparr>" answers what, OF _ _ assms(3)] assms(1,2)
  by (auto simp: heartbeat_tick_def ag_reconnect_def split: option.splits)


definition life_init :: "AgentConfig \<Rightarrow> life \<Rightarrow> bool" where
  "life_init cfg s \<longleftrightarrow> s = new_life cfg"

lemmas life_defs = life_ok_def at_work_def stopping_def running_def poll_ends_def stream_ends_def

lemma own_step_ok:
  assumes "own_step answers s t" and "life_ok answers cfg s"
  shows "life_ok answers cfg t"
  using assms
proof (cases rule: own_step.cases)
  case (own_connect err)
  then show ?thesis using assms(2)
    by (cases err) (auto simp: life_defs run_connect_def split: main_phase.splits)
next
  case (own_register central)
  obtain e a where e: "ag_register central (lf_agent s) = (e, a)"
    by (cases "ag_register central (lf_agent s)")
  have "as_configured cfg (lf_agent s)" using assms(2) by (simp add: life_ok_def)
  from ag_register_ok [OF this own_register(4)] e
  have "as_configured cfg a" "e = None \<Longrightarrow> registered answers cfg a" by auto
  then show ?thesis using own_register assms(2) e
    by (cases e) (auto simp: life_defs run_register_def split: main_phase.splits)
qed (auto simp: life_defs run_end_def main_stop_def main_exit_def split: main_phase.splits if_splits)

lemma life_step_ok:
  assumes "life_step answers s t" and "life_ok answers cfg s"
  shows "life_ok answers cfg t"
  using assms
proof (cases rule: life_step.cases)
  case life_own
  then show ?thesis using assms(2) by (rule own_step_ok)
next
  case life_signal
  then show ?thesis using assms(2) by (auto simp: life_defs main_signal_def)
next
  case (life_tick what beat)
  have "as_configured cfg (lf_agent s)" "registered answers cfg (lf_agent s)"
    using assms(2) life_tick(3) by (auto simp: life_defs)
  from heartbeat_ok [OF this life_tick(4), of beat "lf_interval s"]
  show ?thesis using life_tick assms(2)
    by (auto simp: life_defs run_tick_def split: main_phase.splits prod.splits)
qed

lemma life_ok_new: "life_init cfg s \<Longrightarrow> life_ok answers cfg s"
  by (simp add: life_init_def new_life_def life_defs as_configured_def)

interpretation agent_life: invariant_system "life_init cfg" "life_step answers" "life_ok answers cfg" for cfg answers
  by unfold_locales (rule life_ok_new life_step_ok, assumption+)+


section \<open>Shutting down\<close>

text \<open>The number of own steps that are left once the context is canceled.\<close>

primrec run_rank :: "run_phase \<Rightarrow> nat" where
  "run_rank Connecting = 0"
| "run_rank Registering = 0"
| "run_rank Beating = 1"
| "run_rank (Returned res) = 0"

primrec loop_rank :: "loop_phase \<Rightarrow> nat" where
  "loop_rank NotStarted = 0"
| "loop_rank Looping = 1"
| "loop_rank Ended = 0"

primrec main_rank :: "main_phase \<Rightarrow> nat" where
  "main_rank Selecting = 0"
| "main_rank Signaled = 2"
| "main_rank StopCalled = 1"
| "main_rank (Exited c) = 0"

definition life_rank :: "life \<Rightarrow> nat" where
  "life_rank s = run_rank (lf_run s) + loop_rank (lf_poll s) + loop_rank (lf_stream s) + main_rank (lf_main s)"

lemma life_rank_5: "life_rank s \<le> 5"
proof -
  have "run_rank (lf_run s) \<le> 1" by (cases "lf_run s") simp_all
  moreover have "loop_rank (lf_poll s) \<le> 1" by (cases "lf_poll s") simp_all
  moreover have "loop_rank (lf_stream s) \<le> 1" by (cases "lf_stream s") simp_all
  moreover have "main_rank (lf_main s) \<le> 2" by (cases "lf_main s") simp_all
  ultimately show ?thesis by (simp add: life_rank_def)
qed

lemma own_step_rank:
  assumes "own_step answers s t" and "life_ok answers cfg s" and "lf_ctxDone s" and "at_work s"
  shows "life_rank t < life_rank s \<and> lf_ctxDone t \<and> at_work t"
  using assms(1)
proof (cases rule: own_step.cases)
  case (own_returned res)
  then show ?thesis using assms by (simp add: life_defs)
qed (use assms(3,4) in \<open>simp_all add: life_rank_def at_work_def poll_ends_def stream_ends_def run_end_def main_stop_def main_exit_def\<close>)

lemma own_steps_rank:
  assumes "(own_step answers ^^ n) s t" and "life_ok answers cfg s" and "lf_ctxDone s" and "at_work s"
  shows "n + life_rank t \<le> life_rank s \<and> life_ok answers cfg t \<and> lf_ctxDone t \<and> at_work t"
  using assms(1)
proof (induction n arbitrary: t)
  case (Suc n)
  then obtain u where u: "(own_step answers ^^ n) s u" "own_step answers u t" by auto
  note ok = Suc.IH [OF u(1)]
  have "life_rank t < life_rank u \<and> lf_ctxDone t \<and> at_work t" using own_step_rank [OF u(2)] ok by blast
  moreover have "life_ok answers cfg t" using own_step_ok [OF u(2)] ok by blast
  ultimately show ?case using ok by simp
qed (use assms in simp)

lemma shutdown_enabled:
  assumes "life_ok answers cfg s" and "lf_ctxDone s" and "at_work s"
  shows "lf_main s = Exited 0 \<or> (\<exists>t. own_step answers s t)"
proof (cases "lf_main s")
  case Selecting
  then show ?thesis using assms by (simp add: life_defs)
next
  case Signaled
  then show ?thesis by (blast intro: own_stop)
next
  case StopCalled
  show ?thesis
  proof (cases "lf_stoppedCh s")
    case False
    then have "lf_run s = Beating" using assms by (auto simp: life_defs)
    then show ?thesis using StopCalled assms(2) own_end [of s answers] by (auto simp: running_def stopping_def)
  qed (use StopCalled in \<open>blast intro: own_stopped\<close>)
next
  case (Exited c)
  then show ?thesis using assms by (auto simp: life_defs)
qed

text \<open>With TLS and without its option \<open>insecure\<close> the agent is never connected but with a verified certificate.\<close>

lemma connect_protected:
  assumes "connect load dial cfg = None" and "agent_tls_Enabled (central_TLS cfg)" and "\<not> Insecure (central_TLS cfg)"
  shows "\<exists>roots. dial (central_URL cfg) (TlsVerified roots) = None"
  using assms by (auto simp: connect_def clientTransportCredentials_def split: sum.splits option.splits if_splits)

text \<open>\<open>Run\<close> has failed: nothing ends the wait of \<open>Stop\<close>.\<close>

lemma stuck_step:
  assumes "life_step answers s t" and "lf_run s = Returned (Some e)" and "lf_main s \<in> {Signaled, StopCalled}"
    and "life_ok answers cfg s"
  shows "lf_run t = Returned (Some e) \<and> lf_main t \<in> {Signaled, StopCalled}"
  using assms(1)
proof (cases rule: life_step.cases)
  case life_own
  have waits: "\<not> lf_stoppedCh s" "lf_poll s \<noteq> Looping" "lf_stream s \<noteq> Looping"
    using assms(2,4) by (auto simp: life_ok_def at_work_def)
  from life_own show ?thesis
    by (cases rule: own_step.cases) (use assms(2,3) waits in \<open>auto simp: main_stop_def poll_ends_def stream_ends_def\<close>)
qed (use assms(2,3) in auto)


section \<open>Properties\<close>

text \<open>An agent that polls for commands, serves sessions or sends heartbeats is registered: its identifier is the one that the
  central server gave to the configured token and cluster, also after any number of reconnections, and the
  health file has been touched.\<close>

theorem agent_works_registered:
  assumes "reach (life_init cfg) (life_step answers) s"
    and "lf_poll s = Looping \<or> lf_stream s = Looping \<or> lf_run s = Beating"
  shows "lf_touched s \<and> (\<exists>resp. answers \<lparr>rr_AgentToken = central_Token cfg, rr_ClusterName = cluster_Name cfg\<rparr> (Some resp) \<and>
    rr_Success resp \<and> ag_ID (lf_agent s) = rr_AgentId resp)"
  using agent_life.reach_inv [OF assms(1)] assms(2) by (auto simp: life_ok_def at_work_def registered_def)

definition demo_answer :: RegisterResponse where
  "demo_answer = \<lparr>rr_Success = True, rr_AgentId = ''agent-a'', rr_ErrorMessage = []\<rparr>"

definition demo_life :: life where
  "demo_life = run_register (\<lambda>rq. Some demo_answer) (run_connect None (new_life AgentDefaultConfig))"

lemma demo_life_reach: "reach (life_init AgentDefaultConfig) (life_step (\<lambda>rq r. r = Some demo_answer)) demo_life"
proof -
  let ?ans = "\<lambda>rq r. r = Some demo_answer"
  have "reach (life_init AgentDefaultConfig) (life_step ?ans) (new_life AgentDefaultConfig)"
    by (rule reach_init) (simp add: life_init_def)
  then have "reach (life_init AgentDefaultConfig) (life_step ?ans) (run_connect None (new_life AgentDefaultConfig))"
    by (rule reach_step) (simp add: life_own own_connect new_life_def running_def)
  then show ?thesis
    unfolding demo_life_def
    by (rule reach_step) (simp add: life_own own_register new_life_def running_def run_connect_def answers_ok_def)
qed

theorem agent_works_registered_witness: "ag_ID (lf_agent demo_life) = ''agent-a''"
  using agent_works_registered [OF demo_life_reach] by (simp add: demo_life_def run_register_def demo_answer_def
      ag_register_def run_connect_def new_life_def)

text \<open>C22. A registered agent shuts down: after a signal its goroutines can take at most five more steps of their own, in whatever
  order, and where they can take none any more the program has exited with 0; so it does unless ticks of the heartbeat
  are chosen forever.\<close>

theorem agent_shuts_down:
  assumes "reach (life_init cfg) (life_step answers) s" and "lf_ctxDone s" and "lf_run s \<in> {Beating, Returned None}"
    and "(own_step answers ^^ n) s t"
  shows "n \<le> 5 \<and> (lf_main t = Exited 0 \<or> (\<exists>u. own_step answers t u))"
proof -
  have "life_ok answers cfg s" by (rule agent_life.reach_inv [OF assms(1)])
  from own_steps_rank [OF assms(4) this assms(2)] assms(3)
  have "n + life_rank t \<le> life_rank s" "life_ok answers cfg t" "lf_ctxDone t" "at_work t"
    by (auto simp: at_work_def)
  then show ?thesis using shutdown_enabled life_rank_5 [of s] by auto
qed

theorem agent_shuts_down_witness:
  "\<exists>u. own_step (\<lambda>rq r. r = Some demo_answer) (main_stop (main_signal demo_life)) u"
proof -
  have run: "lf_run demo_life = Beating" "lf_main demo_life = Selecting"
    by (simp_all add: demo_life_def run_register_def ag_register_def demo_answer_def run_connect_def new_life_def)
  have r: "reach (life_init AgentDefaultConfig) (life_step (\<lambda>rq r. r = Some demo_answer)) (main_signal demo_life)"
    by (rule reach_step [OF demo_life_reach]) (simp add: life_signal run)
  have "(own_step (\<lambda>rq r. r = Some demo_answer) ^^ 1) (main_signal demo_life) (main_stop (main_signal demo_life))"
    by (simp only: relpowp_1) (simp add: own_stop main_signal_def)
  from agent_shuts_down [OF r _ _ this] run show ?thesis by (simp add: main_signal_def main_stop_def)
qed

text \<open>C40. An agent that is not registered does not shut down: when the signal comes while it is connecting or registering, which
  then fails because the context is canceled, \<open>Stop\<close> waits for a channel that \<open>Run\<close> has not closed and will
  not close, and the program never exits.\<close>

theorem agent_stop_hangs:
  assumes "reach (life_init cfg) (life_step answers) s" and "lf_run s = Returned (Some e)"
    and "lf_main s \<in> {Signaled, StopCalled}" and "(life_step answers)\<^sup>*\<^sup>* s t"
  shows "lf_main t \<in> {Signaled, StopCalled}"
proof -
  let ?stuck = "\<lambda>s. lf_run s = Returned (Some e) \<and> lf_main s \<in> {Signaled, StopCalled} \<and> life_ok answers cfg s"
  have start: "?stuck s" using assms(2,3) agent_life.reach_inv [OF assms(1)] by blast
  have keep: "?stuck u \<Longrightarrow> life_step answers u v \<Longrightarrow> ?stuck v" for u v
    using stuck_step [of answers u v e] life_step_ok [of answers u v cfg] by blast
  from assms(4) start keep have "?stuck t" by (induction rule: rtranclp_induct) blast+
  then show ?thesis by blast
qed

theorem agent_stop_hangs_witness:
  "\<nexists>t c. (life_step (\<lambda>rq r. True))\<^sup>*\<^sup>* (run_connect (Some ''context canceled'') (main_signal (new_life AgentDefaultConfig))) t \<and>
     lf_main t = Exited c"
proof -
  let ?s = "run_connect (Some ''context canceled'') (main_signal (new_life AgentDefaultConfig))"
  have "reach (life_init AgentDefaultConfig) (life_step (\<lambda>rq r. True)) (new_life AgentDefaultConfig)"
    by (rule reach_init) (simp add: life_init_def)
  then have "reach (life_init AgentDefaultConfig) (life_step (\<lambda>rq r. True)) (main_signal (new_life AgentDefaultConfig))"
    by (rule reach_step) (simp add: life_signal new_life_def)
  then have r: "reach (life_init AgentDefaultConfig) (life_step (\<lambda>rq r. True)) ?s"
    by (rule reach_step) (simp add: life_own own_connect main_signal_def new_life_def running_def)
  have "lf_run ?s = Returned (Some ''connecting to central: context canceled'')" "lf_main ?s \<in> {Signaled, StopCalled}"
    by (simp_all add: run_connect_def main_signal_def)
  from agent_stop_hangs [OF r this] show ?thesis by fastforce
qed

end
