(* ===== verification/Server_Life.thy ===== *)
theory Server_Life
  imports Server
begin

text \<open>
  The life of the central server: its main program (\<open>cmd/central/main.go\<close>), and \<open>Run\<close>, the listeners and the shutdown in
  \<open>internal/central/server.go\<close>. What the network gives (a listener, how long open connections take to drain) is
  an argument; times are nanoseconds.
\<close>


section \<open>The main program\<close>

datatype central_exit = ConfigError string | ConfigInvalid string | StartError string | RunError string | ShutDown

definition central_main ::
  "env_vars \<Rightarrow> files \<Rightarrow> (string \<Rightarrow> Config \<Rightarrow> Config option) \<Rightarrow> (string \<Rightarrow> int option) \<Rightarrow>
     (Config \<Rightarrow> (string + CentralServer) \<times> Db option) \<Rightarrow> string \<Rightarrow> central_exit + Config \<times> CentralServer" where
  "central_main env read yaml dur new_server flag =
     (case central_loadConfig env read yaml dur flag of
        Inl e \<Rightarrow> Inl (ConfigError e)
      | Inr cfg \<Rightarrow>
          (case Validate cfg of
             Some e \<Rightarrow> Inl (ConfigInvalid e)
           | None \<Rightarrow>
               (case new_server cfg of
                  (Inl e, db) \<Rightarrow> Inl (StartError e)
                | (Inr s, db) \<Rightarrow> Inr (cfg, s))))"


section \<open>Listeners\<close>

text \<open>\<open>listen\<close> binds a port, \<open>serve\<close> is the result of the accept loop.\<close>

definition startGRPC :: "(int \<Rightarrow> string option) \<Rightarrow> string option \<Rightarrow> Config \<Rightarrow> string option" where
  "startGRPC listen serve cfg = (case listen (GRPCPort (Server cfg)) of
     Some e \<Rightarrow> Some (''failed to listen: '' @ e)
   | None \<Rightarrow> serve)"

datatype http_serving = ServeH2c int | ServeTLS int string string

definition startHTTP :: "Config \<Rightarrow> http_serving" where
  "startHTTP cfg =
     (if tls_Enabled (TLS cfg) then ServeTLS (HTTPPort (Server cfg)) (CertFile (TLS cfg)) (KeyFile (TLS cfg))
      else ServeH2c (HTTPPort (Server cfg)))"

text \<open>The goroutines that \<open>Run\<close> starts.\<close>

datatype goroutine = DisconnectChecker | PolicyWatch | SighupReload | AuditCleanup | RefreshCleanup | GrpcServer | HttpServer

definition Run_goroutines :: "Config \<Rightarrow> CentralServer \<Rightarrow> goroutine list" where
  "Run_goroutines cfg s =
     [DisconnectChecker] @ (if h_policy (srv_http s) \<noteq> None then [PolicyWatch, SighupReload] else []) @
     (if RetentionDays (Audit cfg) > 0 \<and> CleanupInterval (Audit cfg) > 0 then [AuditCleanup] else []) @
     [RefreshCleanup, GrpcServer, HttpServer]"


section \<open>Shutdown\<close>

text \<open>\<open>drain\<close> is the time after which the last stream has ended by itself, \<open>None\<close> when one never does; then the streams are cut. The
  result: whether they were, and the time it took.\<close>

definition gracefulStopWithTimeout :: "int option \<Rightarrow> int \<Rightarrow> bool \<times> int" where
  "gracefulStopWithTimeout drain d = (case drain of
     None \<Rightarrow> (True, d)
   | Some t \<Rightarrow> if t \<le> d then (False, t) else (True, d))"

record shutdown_result =
  sd_cut :: bool
  sd_http_err :: "string option"
  sd_closed :: bool
  sd_time :: int

text \<open>The deadline of 30 seconds runs from the start, so the HTTP server has what the gRPC server leaves.\<close>

definition shutdown :: "int option \<Rightarrow> int option \<Rightarrow> shutdown_result" where
  "shutdown grpc_drain http_drain =
     (case gracefulStopWithTimeout grpc_drain (15 * second) of (forced, t) \<Rightarrow>
        (case http_drain of
           Some u \<Rightarrow>
             if t + u \<le> 30 * second then \<lparr>sd_cut = forced, sd_http_err = None, sd_closed = True, sd_time = t + u\<rparr>
             else \<lparr>sd_cut = forced, sd_http_err = Some ''HTTP server shutdown error'', sd_closed = False, sd_time = 30 * second\<rparr>
         | None \<Rightarrow> \<lparr>sd_cut = forced, sd_http_err = Some ''HTTP server shutdown error'', sd_closed = False, sd_time = 30 * second\<rparr>))"

text \<open>The wait: a server that failed, or a signal.\<close>

datatype run_event = ServerFailed string | TermSignal

definition waitForShutdown :: "run_event \<Rightarrow> int option \<Rightarrow> int option \<Rightarrow> central_exit \<times> shutdown_result option" where
  "waitForShutdown ev grpc_drain http_drain = (case ev of
     ServerFailed e \<Rightarrow> (RunError e, None)
   | TermSignal \<Rightarrow>
       (let r = shutdown grpc_drain http_drain in
        (case sd_http_err r of Some e \<Rightarrow> RunError e | None \<Rightarrow> ShutDown, Some r)))"

text \<open>The errors of the two servers that end the wait; the one that a shutdown causes does not.\<close>

definition server_errors :: "string option \<Rightarrow> string option \<Rightarrow> string list" where
  "server_errors grpc http =
     (case grpc of None \<Rightarrow> [] | Some e \<Rightarrow> [''gRPC server error: '' @ e]) @
     (case http of None \<Rightarrow> [] | Some e \<Rightarrow> if e = ''http: Server closed'' then [] else [''HTTP server error: '' @ e])"


section \<open>Properties\<close>

text \<open>C21. A central server that serves is configured safely: whatever the flags, the environment, the files and the YAML were, its
  tokens are signed with a secret of at least 32 characters that is not the published one and are valid for a positive time, its
  two servers listen on different ports, with TLS configured it has both files and the gRPC server has loaded them, and
  with a policy file configured the requests are decided with the valid policy of this file.\<close>

theorem central_serves_safely:
  assumes "central_main env read yaml dur (\<lambda>cfg. NewServer lib hmac unmarshal pread load clk ids cfg (opened (db_Path (Database cfg)))) flag =
    Inr (cfg, s)"
  shows "32 \<le> length (jwt_secret (ah_jwt (srv_auth s))) \<and> jwt_secret (ah_jwt (srv_auth s)) \<noteq> devDefaultJWTSecret \<and>
    0 < accessExpiry (ah_jwt (srv_auth s)) \<and> HTTPPort (Server cfg) \<noteq> GRPCPort (Server cfg) \<and>
    (srv_cert s = (if tls_Enabled (TLS cfg) then Some (CertFile (TLS cfg), KeyFile (TLS cfg)) else None)) \<and>
    (tls_Enabled (TLS cfg) \<longrightarrow> CertFile (TLS cfg) \<noteq> [] \<and> KeyFile (TLS cfg) \<noteq> [] \<and>
       startHTTP cfg = ServeTLS (HTTPPort (Server cfg)) (CertFile (TLS cfg)) (KeyFile (TLS cfg))) \<and>
    (PolicyFile cfg \<noteq> [] \<longrightarrow> {PolicyWatch, SighupReload} \<subseteq> set (Run_goroutines cfg s) \<and>
       (\<exists>e. h_policy (srv_http s) = Some e \<and> validate_policy (current e) = None))"
proof -
  let ?new = "\<lambda>cfg. NewServer lib hmac unmarshal pread load clk ids cfg (opened (db_Path (Database cfg)))"
  obtain db where v: "Validate cfg = None" and n: "?new cfg = (Inr s, db)"
    using assms by (auto simp: central_main_def split: sum.splits option.splits prod.splits)
  have valid: "32 \<le> length (JWTSecret (cfg_Auth cfg))" "JWTSecret (cfg_Auth cfg) \<noteq> devDefaultJWTSecret"
      "0 < AccessTokenExpiry (cfg_Auth cfg)" "HTTPPort (Server cfg) \<noteq> GRPCPort (Server cfg)"
      "tls_Enabled (TLS cfg) \<Longrightarrow> CertFile (TLS cfg) \<noteq> [] \<and> KeyFile (TLS cfg) \<noteq> []"
    using v Validate_exact [of cfg] by auto
  note e = start_enforces_config [OF n]
  have "srv_cert s = (if tls_Enabled (TLS cfg) then Some (CertFile (TLS cfg), KeyFile (TLS cfg)) else None)"
    using e by (auto simp: grpcServerOptions_def split: option.splits if_splits)
  moreover have "PolicyFile cfg \<noteq> [] \<longrightarrow> {PolicyWatch, SighupReload} \<subseteq> set (Run_goroutines cfg s) \<and>
      (\<exists>e. h_policy (srv_http s) = Some e \<and> validate_policy (current e) = None)"
    using e by (auto simp: Run_goroutines_def)
  ultimately show ?thesis using valid e by (simp add: startHTTP_def)
qed

theorem central_serves_safely_witness:
  "\<exists>cfg s. central_main (\<lambda>k. if k = ''KBRIDGE_JWT_SECRET'' then good_secret else []) (\<lambda>_. None) (\<lambda>_ _. None) (\<lambda>_. None)
     (\<lambda>cfg. NewServer demo_lib (\<lambda>p t. p @ t) toy_unmarshal (\<lambda>_. None) (\<lambda>_ _. None) (\<lambda>_. 0) (\<lambda>_. ''u'') cfg (Some (createSchema []))) [] =
     Inr (cfg, s) \<and> 32 \<le> length (jwt_secret (ah_jwt (srv_auth s))) \<and> srv_cert s = None"
proof -
  let ?env = "\<lambda>k. if k = ''KBRIDGE_JWT_SECRET'' then good_secret else []"
  let ?new = "\<lambda>cfg. NewServer demo_lib (\<lambda>p t. p @ t) toy_unmarshal (\<lambda>_. None) (\<lambda>_ _. None) (\<lambda>_. 0) (\<lambda>_. ''u'') cfg (Some (createSchema []))"
  have good: "DefaultConfigWithEnv ?env (\<lambda>_. None) = good_config"
    by (simp add: DefaultConfigWithEnv_def resolveSecrets_def resolve_auth_def assign_secret_def resolveSecret_def DefaultConfig_def
        good_config_def good_secret_def)
  obtain s db where s: "?new good_config = (Inr s, db)"
    by (simp add: NewServer_def Let_def good_config_def DefaultConfig_def grpcServerOptions_def)
  have v: "Validate good_config = None"
    using Validate_exact [of good_config] by (simp add: good_config_def good_secret_def DefaultConfig_def devDefaultJWTSecret_def)
  have m: "central_main ?env (\<lambda>_. None) (\<lambda>_ _. None) (\<lambda>_. None) ?new [] = Inr (good_config, s)"
    using s v good by (simp add: central_main_def central_loadConfig_def Let_def)
  from central_serves_safely [of _ _ _ _ demo_lib "\<lambda>p t. p @ t" toy_unmarshal "\<lambda>_. None" "\<lambda>_ _. None" "\<lambda>_. 0" "\<lambda>_. ''u''"
      "\<lambda>_. Some (createSchema [])", OF m] m
  show ?thesis by (auto simp: good_config_def DefaultConfig_def)
qed

text \<open>A shutdown takes at most 30 seconds: streams that have not ended after 15 seconds are cut, and the database is closed exactly
  when the HTTP server's connections drain in the rest of the time; an open interactive session thus leaves it open.\<close>

theorem shutdown_bounded:
  assumes "\<forall>t. grpc_drain = Some t \<longrightarrow> 0 \<le> t" and "\<forall>t. http_drain = Some t \<longrightarrow> 0 \<le> t"
  shows "let r = shutdown grpc_drain http_drain in
    0 \<le> sd_time r \<and> sd_time r \<le> 30 * second \<and> (sd_cut r \<longleftrightarrow> (\<forall>t. grpc_drain = Some t \<longrightarrow> 15 * second < t)) \<and>
    (sd_closed r \<longleftrightarrow> fst (waitForShutdown TermSignal grpc_drain http_drain) = ShutDown) \<and>
    (http_drain = None \<longrightarrow> \<not> sd_closed r)"
  using assms
  by (auto simp: shutdown_def gracefulStopWithTimeout_def waitForShutdown_def Let_def split: option.splits if_splits)

theorem shutdown_bounded_witness: "sd_time (shutdown None (Some 0)) \<le> 30 * second"
  using shutdown_bounded [of None "Some 0"] by (simp add: Let_def)

end
