(* ===== verification/Sql_Time.thy ===== *)
theory Sql_Time
  imports Prelude "HOL-Library.Char_ord" "HOL-Library.List_Lexorder" "HOL-Library.Product_Lexorder"
begin

text \<open>
  The times in the database: Go's layout \<open>timeFormat\<close> (\<open>internal/central/sqlite_store.go\<close>) on the Gregorian
  calendar, in UTC. A time is the number of nanoseconds since 1970, as everywhere in the model. The texts are of
  whole seconds, are read back to them, and are ordered as strings in the way the times are, from year 0 to
  year 9999.
\<close>


section \<open>The calendar\<close>

definition leap :: "nat \<Rightarrow> bool" where
  "leap y \<longleftrightarrow> (4 dvd y \<and> \<not> 100 dvd y) \<or> 400 dvd y"

definition year_len :: "nat \<Rightarrow> nat" where
  "year_len y = (if leap y then 366 else 365)"

definition month_len :: "nat \<Rightarrow> nat \<Rightarrow> nat" where
  "month_len y m = (if m = 2 then (if leap y then 29 else 28) else if m \<in> {4, 6, 9, 11} then 30 else 31)"

primrec days_to_year :: "nat \<Rightarrow> nat" where
  "days_to_year 0 = 0"
| "days_to_year (Suc y) = days_to_year y + year_len y"

definition days_to_month :: "nat \<Rightarrow> nat \<Rightarrow> nat" where
  "days_to_month y m = sum_list (map (month_len y) [1..<m])"

text \<open>The year, and the day in it, of a day that is counted from the start of year \<open>y\<close>; the month and the day in it.\<close>

function year_of :: "nat \<Rightarrow> nat \<Rightarrow> nat \<times> nat" where
  "year_of y d = (if d < year_len y then (y, d) else year_of (Suc y) (d - year_len y))"
  by pat_completeness auto
termination
  by (relation "measure snd") (auto simp: year_len_def)

declare year_of.simps [simp del]

function month_of :: "nat \<Rightarrow> nat \<Rightarrow> nat \<Rightarrow> nat \<times> nat" where
  "month_of y m d = (if d < month_len y m \<or> 12 \<le> m then (m, Suc d) else month_of y (Suc m) (d - month_len y m))"
  by pat_completeness auto
termination
  by (relation "measure (\<lambda>(y, m, d). 12 - m)") auto

declare month_of.simps [simp del]

text \<open>Year, month, day, hour, minute, second.\<close>

type_synonym civil = "nat \<times> nat \<times> nat \<times> nat \<times> nat \<times> nat"

definition civil_of :: "nat \<Rightarrow> civil" where
  "civil_of s = (let d = s div 86400; r = s mod 86400 in
     case year_of 0 d of (y, yd) \<Rightarrow> (case month_of y 1 yd of (m, md) \<Rightarrow>
       (y, m, md, r div 3600, r div 60 mod 60, r mod 60)))"

fun secs_of :: "civil \<Rightarrow> nat" where
  "secs_of (y, m, d, h, mi, s) = (days_to_year y + days_to_month y m + (d - 1)) * 86400 + h * 3600 + mi * 60 + s"

fun valid_civil :: "civil \<Rightarrow> bool" where
  "valid_civil (y, m, d, h, mi, s) \<longleftrightarrow> 1 \<le> m \<and> m \<le> 12 \<and> 1 \<le> d \<and> d \<le> month_len y m \<and> h < 24 \<and> mi < 60 \<and> s < 60"

lemma year_of_days:
  "year_of y d = (y', r) \<Longrightarrow> days_to_year y' + r = days_to_year y + d \<and> r < year_len y'"
proof (induction y d rule: year_of.induct)
  case (1 y d)
  then show ?case by (subst (asm) (2) year_of.simps) (force split: if_splits)
qed

lemma days_to_month_Suc: "1 \<le> m \<Longrightarrow> days_to_month y (Suc m) = days_to_month y m + month_len y m"
  by (simp add: days_to_month_def)

lemma days_to_month_13: "days_to_month y 13 = year_len y"
proof -
  have "[1..<13] = [1, 2, 3, 4, 5, 6, 7, 8, 9, 10, 11, 12 :: nat]" by (simp add: upt_rec)
  then show ?thesis by (simp add: days_to_month_def month_len_def year_len_def)
qed

lemma month_of_days:
  "month_of y m d = (m', md) \<Longrightarrow> 1 \<le> m \<Longrightarrow> m \<le> 12 \<Longrightarrow> days_to_month y m + d < year_len y \<Longrightarrow>
     days_to_month y m' + (md - 1) = days_to_month y m + d \<and> 1 \<le> m' \<and> m' \<le> 12 \<and> 1 \<le> md \<and> md \<le> month_len y m'"
proof (induction y m d rule: month_of.induct)
  case (1 y m d)
  show ?case
  proof (cases "d < month_len y m \<or> 12 \<le> m")
    case True
    moreover from this have "d < month_len y m"
      using 1(4,5) days_to_month_13 [of y] days_to_month_Suc [of 12 y] by (cases "m = 12") auto
    ultimately show ?thesis using 1(2-4) by (auto simp: month_of.simps [of y m d])
  next
    case False
    then have "month_of y (Suc m) (d - month_len y m) = (m', md)" using 1(2) by (simp add: month_of.simps [of y m d])
    from 1(1) [OF False this] False 1(3-5) days_to_month_Suc [of m y] show ?thesis by auto
  qed
qed

lemma mixed_less:
  fixes a b k :: nat
  assumes "a < b" and "x < k"
  shows "a * k + x < b * k + z"
proof -
  have "a * k + x < Suc a * k" using assms(2) by simp
  also have "\<dots> \<le> b * k" using assms(1) by (intro mult_le_mono1) simp
  finally show ?thesis by simp
qed

lemma mixed_less_iff:
  fixes a b k :: nat
  assumes "x < k" and "z < k"
  shows "a * k + x < b * k + z \<longleftrightarrow> a < b \<or> a = b \<and> x < z"
  using mixed_less [of a b x k z, OF _ assms(1)] mixed_less [of b a z k x, OF _ assms(2)]
  by (cases a b rule: linorder_cases) auto

lemma split_clock: "r div 3600 * 3600 + r div 60 mod 60 * 60 + r mod 60 = (r :: nat)"
proof -
  have "r div 3600 = r div 60 div 60" by (simp add: div_mult2_eq [symmetric])
  moreover have "r div 60 div 60 * 60 + r div 60 mod 60 = r div 60" by (rule div_mult_mod_eq)
  moreover have "r div 60 * 60 + r mod 60 = r" by (rule div_mult_mod_eq)
  ultimately show ?thesis by linarith
qed

lemma civil_of_valid: "valid_civil (civil_of s)" and secs_of_civil: "secs_of (civil_of s) = s"
proof -
  obtain y yd where y: "year_of 0 (s div 86400) = (y, yd)" by (cases "year_of 0 (s div 86400)")
  obtain m md where m: "month_of y 1 yd = (m, md)" by (cases "month_of y 1 yd")
  have yd: "days_to_year y + yd = s div 86400" "yd < year_len y" using year_of_days [OF y] by auto
  have md: "days_to_month y m + (md - 1) = yd" "1 \<le> m" "m \<le> 12" "1 \<le> md" "md \<le> month_len y m"
    using month_of_days [OF m] yd(2) by (auto simp: days_to_month_def)
  have c: "civil_of s = (y, m, md, s mod 86400 div 3600, s mod 86400 div 60 mod 60, s mod 86400 mod 60)"
    by (simp add: civil_of_def Let_def y m [unfolded One_nat_def])
  have "s mod 86400 div 3600 < 24" by (rule less_mult_imp_div_less) simp
  then show "valid_civil (civil_of s)" using md by (simp add: c)
  have "s mod 86400 div 3600 * 3600 + s mod 86400 div 60 mod 60 * 60 + s mod 86400 mod 60 = s mod 86400"
    by (rule split_clock)
  moreover have "days_to_year y + days_to_month y m + (md - 1) = s div 86400" using yd(1) md(1) by simp
  moreover have "s div 86400 * 86400 + s mod 86400 = s" by (rule div_mult_mod_eq)
  ultimately show "secs_of (civil_of s) = s" unfolding c secs_of.simps by (simp only: add.assoc)
qed


section \<open>The order of dates\<close>

lemma days_to_year_mono: "y < y' \<Longrightarrow> days_to_year y + year_len y \<le> days_to_year y'"
proof (induction y')
  case (Suc y')
  then show ?case by (cases "y = y'") auto
qed simp

lemma days_to_month_mono: "1 \<le> m \<Longrightarrow> m < m' \<Longrightarrow> days_to_month y m + month_len y m \<le> days_to_month y m'"
proof (induction m')
  case (Suc m')
  then show ?case by (cases "m = m'") (auto simp: days_to_month_Suc)
qed simp

lemma day_of_year_less: "valid_civil (y, m, d, h, mi, s) \<Longrightarrow> days_to_month y m + (d - 1) < year_len y"
  using days_to_month_mono [of m 13 y] days_to_month_13 [of y] by auto

lemma clock_less: "h < (24 :: nat) \<Longrightarrow> mi < 60 \<Longrightarrow> s < 60 \<Longrightarrow> h * 3600 + mi * 60 + s < 86400"
  by linarith

lemma secs_of_mono:
  assumes "valid_civil c" and "valid_civil c'" and "c < c'"
  shows "secs_of c < secs_of c'"
proof -
  obtain y m d h mi s where c: "c = (y, m, d, h, mi, s)" by (cases c)
  obtain y' m' d' h' mi' s' where c': "c' = (y', m', d', h', mi', s')" by (cases c')
  let ?doy = "days_to_month y m + (d - 1)" and ?doy' = "days_to_month y' m' + (d' - 1)"
  have clock: "h * 3600 + mi * 60 + s < 86400" using assms(1) by (intro clock_less) (simp_all add: c)
  have doy: "?doy < year_len y" using day_of_year_less assms(1) by (simp add: c)
  consider "y < y'" | "y = y'" "m < m'" | "y = y'" "m = m'" "d < d'"
    | "y = y'" "m = m'" "d = d'" "(h, mi, s) < (h', mi', s')"
    using assms(3) by (auto simp: c c' le_less)
  then consider "days_to_year y + ?doy < days_to_year y' + ?doy'"
    | "y = y'" "m = m'" "d = d'" "(h, mi, s) < (h', mi', s')"
  proof cases
    case 1
    then show ?thesis using that(1) doy days_to_year_mono [of y y'] by linarith
  next
    case 2
    have "days_to_month y m + month_len y m \<le> days_to_month y m'"
      using assms(1) 2(2) by (intro days_to_month_mono) (simp_all add: c)
    moreover have "d - 1 < month_len y m" using assms(1) by (auto simp: c)
    ultimately have "days_to_month y m + (d - 1) < days_to_month y m' + (d' - 1)" by linarith
    then have "?doy < ?doy'" using 2(1) by simp
    then show ?thesis using that(1) 2(1) by simp
  next
    case 3
    have "d - 1 < d' - 1" using 3(3) assms(1) by (auto simp: c)
    then show ?thesis using that(1) 3(1,2) by simp
  next
    case 4
    then show ?thesis by (rule that(2))
  qed
  then show ?thesis
  proof cases
    case 1
    from mixed_less [OF this clock, of "h' * 3600 + mi' * 60 + s'"] show ?thesis
      unfolding c c' secs_of.simps by (simp only: add.assoc)
  next
    case 2
    have "h * 3600 + mi * 60 + s < h' * 3600 + mi' * 60 + s'"
      using 2(4) assms by (auto simp: c c')
    then show ?thesis using 2 by (simp add: c c')
  qed
qed

lemma civil_of_less: "civil_of s < civil_of t \<longleftrightarrow> s < t"
  using secs_of_mono [OF civil_of_valid civil_of_valid, of s t] secs_of_mono [OF civil_of_valid civil_of_valid, of t s]
  by (metis linorder_less_linear order_less_imp_not_less secs_of_civil)


section \<open>Texts\<close>

text \<open>Lists of characters in the order of the distribution's \<open>List_Lexorder\<close> are compared as SQLite compares texts.\<close>

lemma append_less_iff:
  fixes a b x z :: string
  shows "length a = length b \<Longrightarrow> a @ x < b @ z \<longleftrightarrow> a < b \<or> a = b \<and> x < z"
  by (induction a b rule: list_induct2) auto

lemma snoc_less: "length a = length b \<Longrightarrow> a @ [x] < b @ [z] \<longleftrightarrow> a < b \<or> a = b \<and> x < z" for a b :: string
  by (simp add: append_less_iff)

fun padded :: "nat \<Rightarrow> nat \<Rightarrow> string" where
  "padded 0 n = []"
| "padded (Suc w) n = padded w (n div 10) @ [char_of (48 + n mod 10)]"

lemma length_padded [simp]: "length (padded w n) = w"
  by (induction w arbitrary: n) simp_all

lemma padded_digits: "list_all is_digit (padded w n)"
  by (induction w arbitrary: n) (simp_all add: is_digit_char_of)

lemma padded_value: "n < 10 ^ w \<Longrightarrow> digits_value (padded w n) = int n"
proof (induction w arbitrary: n)
  case (Suc w)
  then have "n div 10 < 10 ^ w" by auto
  from Suc.IH [OF this] have "digits_value (padded (Suc w) n) = 10 * int (n div 10) + int (n mod 10)"
    by (simp add: digits_value_snoc)
  also have "\<dots> = int n" by presburger
  finally show ?case .
qed (simp add: digits_value_def)

lemma digit_less: "a < 10 \<Longrightarrow> b < 10 \<Longrightarrow> (char_of (48 + a) :: char) < char_of (48 + b) \<longleftrightarrow> a < (b :: nat)"
  by (simp add: less_char_def)

lemma padded_less: "m < 10 ^ w \<Longrightarrow> n < 10 ^ w \<Longrightarrow> padded w m < padded w n \<longleftrightarrow> m < n"
proof (induction w arbitrary: m n)
  case (Suc w)
  then have b: "m div 10 < 10 ^ w" "n div 10 < 10 ^ w" by auto
  have eq: "padded w (m div 10) = padded w (n div 10) \<longleftrightarrow> m div 10 = n div 10"
    using padded_value [OF b(1)] padded_value [OF b(2)] by (metis of_nat_eq_iff)
  have "padded (Suc w) m < padded (Suc w) n \<longleftrightarrow>
      m div 10 < n div 10 \<or> m div 10 = n div 10 \<and> m mod 10 < n mod 10"
    unfolding padded.simps snoc_less [OF trans [OF length_padded length_padded [symmetric]]] Suc.IH [OF b] eq
    by (simp add: digit_less)
  also have "\<dots> \<longleftrightarrow> m < n"
    using mixed_less_iff [of "m mod 10" 10 "n mod 10" "m div 10" "n div 10"] by simp
  finally show ?case .
qed simp

text \<open>The layout. A year of five digits is printed with all of them.\<close>

fun format_civil :: "civil \<Rightarrow> string" where
  "format_civil (y, m, d, h, mi, s) =
     (if y < 10000 then padded 4 y else decimal y) @ ''-'' @ padded 2 m @ ''-'' @ padded 2 d @ ''T'' @
     padded 2 h @ '':'' @ padded 2 mi @ '':'' @ padded 2 s @ ''Z''"

text \<open>Seconds from the start of year 0; times before it do not occur.\<close>

definition epoch :: int where
  "epoch = 62167219200"

definition formatTime :: "int \<Rightarrow> string" where
  "formatTime t = format_civil (civil_of (nat (t div second + epoch)))"

text \<open>Reading a text of this layout; \<open>None\<close> is an error.\<close>

definition parse_civil :: "string \<Rightarrow> civil option" where
  "parse_civil x =
     (let field = (\<lambda>i n. take n (drop i x));
          number = (\<lambda>i n. nat (digits_value (field i n)));
          c = (number 0 4, number 5 2, number 8 2, number 11 2, number 14 2, number 17 2) in
      if length x = 20 \<and> field 4 1 = ''-'' \<and> field 7 1 = ''-'' \<and> field 10 1 = ''T'' \<and> field 13 1 = '':'' \<and>
         field 16 1 = '':'' \<and> field 19 1 = ''Z'' \<and>
         list_all (\<lambda>(i, n). list_all is_digit (field i n)) [(0, 4), (5, 2), (8, 2), (11, 2), (14, 2), (17, 2)] \<and> valid_civil c
      then Some c else None)"

definition parseTime :: "string \<Rightarrow> int option" where
  "parseTime x = map_option (\<lambda>c. (int (secs_of c) - epoch) * second) (parse_civil x)"

definition valid_time :: "int \<Rightarrow> bool" where
  "valid_time t \<longleftrightarrow> 0 \<le> t div second + epoch \<and> t div second + epoch < 315569520000"

lemma two_digits: "valid_civil (y, m, d, h, mi, s) \<Longrightarrow> m < 10 ^ 2 \<and> d < 10 ^ 2 \<and> h < 10 ^ 2 \<and> mi < 10 ^ 2 \<and> s < 10 ^ 2"
proof -
  have "month_len y m \<le> 31" by (simp add: month_len_def)
  then show "valid_civil (y, m, d, h, mi, s) \<Longrightarrow> m < 10 ^ 2 \<and> d < 10 ^ 2 \<and> h < 10 ^ 2 \<and> mi < 10 ^ 2 \<and> s < 10 ^ 2" by auto
qed

lemma format_civil_less:
  assumes "valid_civil c" and "valid_civil c'" and "fst c < 10000" and "fst c' < 10000"
  shows "format_civil c < format_civil c' \<longleftrightarrow> c < c'"
proof -
  obtain y m d h mi s where c: "c = (y, m, d, h, mi, s)" by (cases c)
  obtain y' m' d' h' mi' s' where c': "c' = (y', m', d', h', mi', s')" by (cases c')
  have eq: "padded w a = padded w b \<longleftrightarrow> a = b" if "a < 10 ^ w" "b < 10 ^ w" for w a b
    using padded_value [OF that(1)] padded_value [OF that(2)] by (metis of_nat_eq_iff)
  have y: "y < 10 ^ 4" "y' < 10 ^ 4" using assms(3,4) by (simp_all add: c c')
  note b = two_digits [OF assms(1) [unfolded c]] two_digits [OF assms(2) [unfolded c']]
  show ?thesis
    using assms(3,4) y b
    by (simp add: c c' append_less_iff padded_less eq del: append.simps power.simps) auto
qed

lemma parse_format_civil: "valid_civil c \<Longrightarrow> fst c < 10000 \<Longrightarrow> parse_civil (format_civil c) = Some c"
proof -
  assume v: "valid_civil c" "fst c < 10000"
  obtain y m d h mi s where c: "c = (y, m, d, h, mi, s)" by (cases c)
  have y: "y < 10 ^ 4" using v by (simp add: c)
  note b = two_digits [OF v(1) [unfolded c]]
  have f: "format_civil c = padded 4 y @ ''-'' @ padded 2 m @ ''-'' @ padded 2 d @ ''T'' @
      padded 2 h @ '':'' @ padded 2 mi @ '':'' @ padded 2 s @ ''Z''"
    using v(2) by (simp add: c)
  show ?thesis
    using v(1) y b unfolding f parse_civil_def Let_def c
    by (simp add: padded_digits padded_value del: padded.simps power.simps)
qed

lemma ceiling_step:
  assumes "0 < k"
  shows "Suc (y + (k - 1)) div k = (y + (k - 1)) div k + (if k dvd y then 1 else 0)"
proof -
  have "Suc (y + (k - 1)) mod k = y mod k" using assms by simp
  then show ?thesis by (simp only: div_Suc) (simp add: dvd_eq_mod_eq_0)
qed

text \<open>The leap years before a year, counted.\<close>

lemma days_to_year_leaps: "days_to_year y + (y + 99) div 100 = 365 * y + (y + 3) div 4 + (y + 399) div 400"
proof (induction y)
  case (Suc y)
  have "(Suc y + 3) div 4 = (y + 3) div 4 + (if 4 dvd y then 1 else 0)"
    "(Suc y + 99) div 100 = (y + 99) div 100 + (if 100 dvd y then 1 else 0)"
    "(Suc y + 399) div 400 = (y + 399) div 400 + (if 400 dvd y then 1 else 0)"
    using ceiling_step [of 4 y] ceiling_step [of 100 y] ceiling_step [of 400 y] by simp_all
  moreover have "400 dvd y \<Longrightarrow> 100 dvd y" "100 dvd y \<Longrightarrow> 4 dvd y"
    using dvd_trans [of 100 400 y] dvd_trans [of 4 100 y] by simp_all
  ultimately show ?case using Suc by (simp add: year_len_def leap_def)
qed simp

lemma civil_of_year:
  assumes "s < 315569520000"
  shows "fst (civil_of s) < 10000"
proof (rule ccontr)
  obtain y m d h mi se where c: "civil_of s = (y, m, d, h, mi, se)" by (cases "civil_of s")
  assume "\<not> fst (civil_of s) < 10000"
  then have "10000 \<le> y" by (simp add: c)
  then have "days_to_year 10000 \<le> days_to_year y"
    using days_to_year_mono [of 10000 y] by (cases "y = 10000") auto
  moreover have "days_to_year 10000 = 3652425" using days_to_year_leaps [of 10000] by simp
  ultimately have "3652425 \<le> days_to_year y" by simp
  then have "3652425 * 86400 \<le> secs_of (civil_of s)" unfolding c secs_of.simps by simp
  then show False using assms by (simp add: secs_of_civil)
qed


section \<open>Reading and comparing what was written\<close>

text \<open>The contract of a column: texts are read back to a normal form of the value, and compare as these do.\<close>

definition written_by :: "('a \<Rightarrow> bool) \<Rightarrow> ('a \<Rightarrow> string) \<Rightarrow> string \<Rightarrow> bool" where
  "written_by ok enc x \<longleftrightarrow> (\<exists>a. ok a \<and> x = enc a)"

locale ordered_column =
  fixes ok :: "'a \<Rightarrow> bool" and enc :: "'a \<Rightarrow> string" and dec :: "string \<Rightarrow> 'b :: linorder option" and norm :: "'a \<Rightarrow> 'b"
  assumes dec_enc: "ok a \<Longrightarrow> dec (enc a) = Some (norm a)"
    and enc_less: "ok a \<Longrightarrow> ok b \<Longrightarrow> enc a < enc b \<longleftrightarrow> norm a < norm b"
begin

lemma enc_le: "ok a \<Longrightarrow> ok b \<Longrightarrow> enc a \<le> enc b \<longleftrightarrow> norm a \<le> norm b"
  using enc_less [of b a] by (simp add: linorder_not_less [symmetric])

lemma written_enc: "ok a \<Longrightarrow> written_by ok enc (enc a)"
  by (auto simp: written_by_def)

lemma written_less: "written_by ok enc x \<Longrightarrow> ok b \<Longrightarrow> x < enc b \<longleftrightarrow> the (dec x) < norm b"
  by (auto simp: written_by_def dec_enc enc_less)

lemma written_ge: "written_by ok enc x \<Longrightarrow> ok b \<Longrightarrow> enc b \<le> x \<longleftrightarrow> norm b \<le> the (dec x)"
  by (auto simp: written_by_def dec_enc enc_le)

lemma written_le: "written_by ok enc x \<Longrightarrow> ok b \<Longrightarrow> x \<le> enc b \<longleftrightarrow> the (dec x) \<le> norm b"
  by (auto simp: written_by_def dec_enc enc_le)

lemma written_mono: "written_by ok enc x \<Longrightarrow> written_by ok enc z \<Longrightarrow> x \<le> z \<longleftrightarrow> the (dec x) \<le> the (dec z)"
  by (auto simp: written_by_def dec_enc enc_le)

end

text \<open>Whole seconds.\<close>

definition whole_seconds :: "int \<Rightarrow> int" where
  "whole_seconds t = t div second * second"

lemma scaled_less: "0 < k \<Longrightarrow> a * k < b * k \<longleftrightarrow> a < b" for a b k :: int
  by simp

lemma shifted_less: "0 \<le> a + e \<Longrightarrow> 0 \<le> b + e \<Longrightarrow> nat (a + e) < nat (b + e) \<longleftrightarrow> a < b" for a b e :: int
  by auto

lemma valid_timeD:
  assumes "valid_time t"
  shows "0 \<le> t div second + epoch" and "fst (civil_of (nat (t div second + epoch))) < 10000"
proof -
  show n: "0 \<le> t div second + epoch" using assms unfolding valid_time_def by (rule conjunct1)
  have "int (nat (t div second + epoch)) < int 315569520000"
    using assms n unfolding valid_time_def by (simp only: int_nat_eq if_True of_nat_numeral)
  then show "fst (civil_of (nat (t div second + epoch))) < 10000" by (intro civil_of_year) (simp only: of_nat_less_iff)
qed

lemma parse_formatTime: "valid_time t \<Longrightarrow> parseTime (formatTime t) = Some (whole_seconds t)"
  using valid_timeD [of t] unfolding parseTime_def formatTime_def whole_seconds_def
  by (simp only: parse_format_civil [OF civil_of_valid] secs_of_civil option.map int_nat_eq if_True add_diff_cancel)

lemma formatTime_less:
  assumes "valid_time t" and "valid_time u"
  shows "formatTime t < formatTime u \<longleftrightarrow> whole_seconds t < whole_seconds u"
proof -
  have "formatTime t < formatTime u \<longleftrightarrow> nat (t div second + epoch) < nat (u div second + epoch)"
    unfolding formatTime_def
    by (simp only: format_civil_less [OF civil_of_valid civil_of_valid valid_timeD(2) [OF assms(1)] valid_timeD(2) [OF assms(2)]]
        civil_of_less)
  also have "\<dots> \<longleftrightarrow> t div second < u div second"
    by (rule shifted_less [OF valid_timeD(1) [OF assms(1)] valid_timeD(1) [OF assms(2)]])
  also have "\<dots> \<longleftrightarrow> whole_seconds t < whole_seconds u"
    unfolding whole_seconds_def by (rule scaled_less [symmetric]) simp
  finally show ?thesis .
qed

interpretation time_column: ordered_column valid_time formatTime parseTime whole_seconds
  by unfold_locales (rule parse_formatTime formatTime_less, assumption+)+

end
