(* ===== verification/Db_Rows.thy ===== *)
theory Db_Rows
  imports Db_Store Sql_Time "HOL-Library.Sublist"
begin

text \<open>
  The database as SQLite holds it (\<open>internal/central/sqlite_store.go\<close>, \<open>migrations.go\<close>): tables of rows whose columns are
  texts, integers and NULL, the statements with the values the code binds to them, and the scan functions. Theory Db_Store
  is its specification on entities; every statement here refines the one there, which justifies that texts are compared
  where times are meant.
\<close>


section \<open>Opening and migration\<close>

text \<open>\<open>exec\<close> runs a statement and gives its error. The first error ends the work; an error that says that the column is there
  already is none.\<close>

fun exec_all :: "(string \<Rightarrow> string option) \<Rightarrow> (string \<times> string) list \<Rightarrow> string option" where
  "exec_all exec [] = None"
| "exec_all exec ((sql, what) # rest) = (case exec sql of
     Some e \<Rightarrow> Some (what @ '': '' @ e)
   | None \<Rightarrow> exec_all exec rest)"

definition NewSQLiteStore :: "(string \<Rightarrow> string option) \<Rightarrow> (string \<Rightarrow> string option) \<Rightarrow> string \<Rightarrow> string option" where
  "NewSQLiteStore open_db exec path = (case open_db path of
     Some e \<Rightarrow> Some (''open sqlite: '' @ e)
   | None \<Rightarrow> exec_all exec
       [(''PRAGMA busy_timeout = 5000'', ''set busy timeout''), (''PRAGMA foreign_keys = ON'', ''enable foreign keys''),
        (''PRAGMA journal_mode = WAL'', ''set journal mode'')])"

definition addIsAdminColumn :: "(string \<Rightarrow> string option) \<Rightarrow> string option" where
  "addIsAdminColumn exec = (case exec ''ALTER TABLE users ADD COLUMN is_admin INTEGER NOT NULL DEFAULT 0'' of
     None \<Rightarrow> None
   | Some e \<Rightarrow> if sublist ''duplicate column'' e then None else Some (''add is_admin column: '' @ e))"

definition migrate :: "string \<Rightarrow> (string \<Rightarrow> string option) \<Rightarrow> string option" where
  "migrate schemaSQL exec = (case exec schemaSQL of
     Some e \<Rightarrow> Some (''create schema: '' @ e)
   | None \<Rightarrow> (case addIsAdminColumn exec of
       Some e \<Rightarrow> Some e
     | None \<Rightarrow> exec_all exec (map (\<lambda>tbl. (''DROP TABLE IF EXISTS '' @ tbl, ''drop table '' @ tbl))
         [''user_roles'', ''permissions'', ''roles''])))"


section \<open>Columns\<close>

definition nilIfEmpty :: "string \<Rightarrow> string option" where
  "nilIfEmpty s = (if s = [] then None else Some s)"

definition derefStr :: "string option \<Rightarrow> string" where
  "derefStr s = (case s of None \<Rightarrow> [] | Some x \<Rightarrow> x)"

definition formatNullableTime :: "int option \<Rightarrow> string option" where
  "formatNullableTime t = map_option formatTime t"

definition parseNullableTime :: "string option \<Rightarrow> int option" where
  "parseNullableTime s = (case s of None \<Rightarrow> None | Some x \<Rightarrow> if x = [] then None else parseTime x)"

text \<open>A time that cannot be read is Go's zero time, of the year 1; a bool is bound as 0 or 1.\<close>

definition parse_or_zero :: "string \<Rightarrow> int" where
  "parse_or_zero x = (case parseTime x of None \<Rightarrow> - 62135596800 * second | Some t \<Rightarrow> t)"

definition bound_bool :: "bool \<Rightarrow> int" where
  "bound_bool b = (if b then 1 else 0)"


section \<open>Rows\<close>

record UserRow =
  ur_id :: string
  ur_email :: string
  ur_password_hash :: string
  ur_name :: string
  ur_is_active :: int
  ur_is_admin :: int
  ur_created_at :: string
  ur_updated_at :: string

record ClusterRow =
  cr_id :: string
  cr_name :: string
  cr_status :: string
  cr_agent_id :: "string option"
  cr_last_seen_at :: "string option"
  cr_created_at :: string
  cr_updated_at :: string

record TokenRow =
  tr_id :: string
  tr_cluster_id :: string
  tr_token_hash :: string
  tr_token_prefix :: string
  tr_description :: "string option"
  tr_is_revoked :: int
  tr_last_used_at :: "string option"
  tr_expires_at :: "string option"
  tr_created_at :: string

record AuditRow =
  ar_id :: string
  ar_user_id :: "string option"
  ar_user_email :: string
  ar_cluster_name :: string
  ar_cluster_id :: "string option"
  ar_command :: string
  ar_namespace :: "string option"
  ar_status :: string
  ar_exit_code :: "int option"
  ar_duration_ms :: "int option"
  ar_error_message :: "string option"
  ar_client_ip :: "string option"
  ar_created_at :: string

record RefreshRow =
  rr_id :: string
  rr_user_id :: string
  rr_token_hash :: string
  rr_expires_at :: string
  rr_created_at :: string

record Rows =
  users_table :: "UserRow list"
  clusters_table :: "ClusterRow list"
  tokens_table :: "TokenRow list"
  audit_table :: "AuditRow list"
  refresh_table :: "RefreshRow list"
  row_faults :: "bool list"

definition scanUser :: "UserRow \<Rightarrow> User" where
  "scanUser r = \<lparr>u_ID = ur_id r, u_Email = ur_email r, u_PasswordHash = ur_password_hash r, u_Name = ur_name r,
     u_IsActive = (ur_is_active r \<noteq> 0), u_IsAdmin = (ur_is_admin r \<noteq> 0),
     u_CreatedAt = parse_or_zero (ur_created_at r), u_UpdatedAt = parse_or_zero (ur_updated_at r)\<rparr>"

definition scanCluster :: "ClusterRow \<Rightarrow> Cluster" where
  "scanCluster r = \<lparr>c_ID = cr_id r, c_Name = cr_name r, c_Status = cr_status r, c_AgentID = derefStr (cr_agent_id r),
     c_LastSeenAt = parseNullableTime (cr_last_seen_at r),
     c_CreatedAt = parse_or_zero (cr_created_at r), c_UpdatedAt = parse_or_zero (cr_updated_at r)\<rparr>"

definition scanToken :: "TokenRow \<Rightarrow> AgentToken" where
  "scanToken r = \<lparr>t_ID = tr_id r, t_ClusterID = tr_cluster_id r, t_TokenHash = tr_token_hash r,
     t_TokenPrefix = tr_token_prefix r, t_Description = derefStr (tr_description r), t_IsRevoked = (tr_is_revoked r \<noteq> 0),
     t_LastUsedAt = parseNullableTime (tr_last_used_at r), t_ExpiresAt = parseNullableTime (tr_expires_at r),
     t_CreatedAt = parse_or_zero (tr_created_at r)\<rparr>"

definition scanAuditRow :: "AuditRow \<Rightarrow> AuditLog" where
  "scanAuditRow r = \<lparr>log_ID = ar_id r, log_UserID = derefStr (ar_user_id r), log_UserEmail = ar_user_email r,
     log_ClusterName = ar_cluster_name r, log_ClusterID = derefStr (ar_cluster_id r), log_Command = ar_command r,
     log_Namespace = derefStr (ar_namespace r), log_Status = ar_status r,
     log_ExitCode = map_option word_of_int (ar_exit_code r), log_DurationMs = ar_duration_ms r,
     log_ErrorMessage = derefStr (ar_error_message r), log_ClientIP = derefStr (ar_client_ip r),
     log_CreatedAt = parse_or_zero (ar_created_at r)\<rparr>"

definition scanRefresh :: "RefreshRow \<Rightarrow> RefreshToken" where
  "scanRefresh r = \<lparr>rt_ID = rr_id r, rt_UserID = rr_user_id r, rt_TokenHash = rr_token_hash r,
     rt_ExpiresAt = parse_or_zero (rr_expires_at r), rt_CreatedAt = parse_or_zero (rr_created_at r)\<rparr>"


section \<open>Statements on rows\<close>

type_synonym 'a row_stmt = "Rows \<Rightarrow> (store_error + 'a) \<times> Rows"

definition row_statement :: "'a row_stmt \<Rightarrow> 'a row_stmt" where
  "row_statement run rs = (case row_faults rs of
     [] \<Rightarrow> run rs
   | f # fs \<Rightarrow>
       let rs' = rs\<lparr>row_faults := fs\<rparr> in if f then (Inl ErrStatement, rs') else run rs')"

definition sql_CreateUser :: "string \<Rightarrow> int \<Rightarrow> User \<Rightarrow> User row_stmt" where
  "sql_CreateUser uuid now user = row_statement (\<lambda>rs.
     let i = new_id uuid (u_ID user); ts = formatTime now in
     if list_ex (\<lambda>r. ur_id r = i \<or> ur_email r = u_Email user) (users_table rs) then (Inl ErrConstraint, rs)
     else (Inr (user\<lparr>u_ID := i, u_CreatedAt := parse_or_zero ts, u_UpdatedAt := parse_or_zero ts\<rparr>),
       rs\<lparr>users_table := users_table rs @
         [\<lparr>ur_id = i, ur_email = u_Email user, ur_password_hash = u_PasswordHash user, ur_name = u_Name user,
           ur_is_active = bound_bool (u_IsActive user), ur_is_admin = bound_bool (u_IsAdmin user),
           ur_created_at = ts, ur_updated_at = ts\<rparr>]\<rparr>))"

definition sql_GetUserByID :: "string \<Rightarrow> User option row_stmt" where
  "sql_GetUserByID i = row_statement (\<lambda>rs. (Inr (map_option scanUser (find (\<lambda>r. ur_id r = i) (users_table rs))), rs))"

definition sql_GetUserByEmail :: "string \<Rightarrow> User option row_stmt" where
  "sql_GetUserByEmail email =
     row_statement (\<lambda>rs. (Inr (map_option scanUser (find (\<lambda>r. ur_email r = email) (users_table rs))), rs))"

definition sql_ListUsers :: "User list row_stmt" where
  "sql_ListUsers = row_statement (\<lambda>rs. (Inr (map scanUser (users_table rs)), rs))"

definition sql_UpdateUser :: "int \<Rightarrow> User \<Rightarrow> User row_stmt" where
  "sql_UpdateUser now user = row_statement (\<lambda>rs.
     let ts = formatTime now in
     if list_ex (\<lambda>r. ur_id r = u_ID user) (users_table rs) \<and>
        list_ex (\<lambda>r. ur_id r \<noteq> u_ID user \<and> ur_email r = u_Email user) (users_table rs) then (Inl ErrConstraint, rs)
     else (Inr (user\<lparr>u_UpdatedAt := parse_or_zero ts\<rparr>),
       rs\<lparr>users_table := map (\<lambda>r. if ur_id r = u_ID user
            then r\<lparr>ur_email := u_Email user, ur_name := u_Name user, ur_password_hash := u_PasswordHash user,
                   ur_is_active := bound_bool (u_IsActive user), ur_is_admin := bound_bool (u_IsAdmin user),
                   ur_updated_at := ts\<rparr>
            else r) (users_table rs)\<rparr>))"

definition sql_DeleteUser :: "string \<Rightarrow> unit row_stmt" where
  "sql_DeleteUser i = row_statement (\<lambda>rs. (Inr (),
     if list_ex (\<lambda>r. ur_id r = i) (users_table rs) then
       rs\<lparr>users_table := filter (\<lambda>r. ur_id r \<noteq> i) (users_table rs),
          refresh_table := filter (\<lambda>r. rr_user_id r \<noteq> i) (refresh_table rs),
          audit_table := map (\<lambda>r. if ar_user_id r = Some i then r\<lparr>ar_user_id := None\<rparr> else r) (audit_table rs)\<rparr>
     else rs))"

definition sql_CreateCluster :: "string \<Rightarrow> int \<Rightarrow> Cluster \<Rightarrow> Cluster row_stmt" where
  "sql_CreateCluster uuid now cluster = row_statement (\<lambda>rs.
     let i = new_id uuid (c_ID cluster); ts = formatTime now in
     if list_ex (\<lambda>r. cr_id r = i \<or> cr_name r = c_Name cluster) (clusters_table rs) then (Inl ErrConstraint, rs)
     else (Inr (cluster\<lparr>c_ID := i, c_CreatedAt := parse_or_zero ts, c_UpdatedAt := parse_or_zero ts\<rparr>),
       rs\<lparr>clusters_table := clusters_table rs @
         [\<lparr>cr_id = i, cr_name = c_Name cluster, cr_status = c_Status cluster, cr_agent_id = nilIfEmpty (c_AgentID cluster),
           cr_last_seen_at = formatNullableTime (c_LastSeenAt cluster), cr_created_at = ts, cr_updated_at = ts\<rparr>]\<rparr>))"

definition sql_GetClusterByID :: "string \<Rightarrow> Cluster option row_stmt" where
  "sql_GetClusterByID i = row_statement (\<lambda>rs. (Inr (map_option scanCluster (find (\<lambda>r. cr_id r = i) (clusters_table rs))), rs))"

definition sql_GetClusterByName :: "string \<Rightarrow> Cluster option row_stmt" where
  "sql_GetClusterByName name =
     row_statement (\<lambda>rs. (Inr (map_option scanCluster (find (\<lambda>r. cr_name r = name) (clusters_table rs))), rs))"

definition sql_ListClusters :: "Cluster list row_stmt" where
  "sql_ListClusters = row_statement (\<lambda>rs. (Inr (map scanCluster (clusters_table rs)), rs))"

definition sql_UpdateCluster :: "int \<Rightarrow> Cluster \<Rightarrow> Cluster row_stmt" where
  "sql_UpdateCluster now cluster = row_statement (\<lambda>rs.
     let ts = formatTime now in
     if list_ex (\<lambda>r. cr_id r = c_ID cluster) (clusters_table rs) \<and>
        list_ex (\<lambda>r. cr_id r \<noteq> c_ID cluster \<and> cr_name r = c_Name cluster) (clusters_table rs) then (Inl ErrConstraint, rs)
     else (Inr (cluster\<lparr>c_UpdatedAt := parse_or_zero ts\<rparr>),
       rs\<lparr>clusters_table := map (\<lambda>r. if cr_id r = c_ID cluster
            then r\<lparr>cr_name := c_Name cluster, cr_status := c_Status cluster, cr_agent_id := nilIfEmpty (c_AgentID cluster),
                   cr_last_seen_at := formatNullableTime (c_LastSeenAt cluster), cr_updated_at := ts\<rparr>
            else r) (clusters_table rs)\<rparr>))"

definition sql_DeleteCluster :: "string \<Rightarrow> unit row_stmt" where
  "sql_DeleteCluster i = row_statement (\<lambda>rs. (Inr (),
     if list_ex (\<lambda>r. cr_id r = i) (clusters_table rs) then
       rs\<lparr>clusters_table := filter (\<lambda>r. cr_id r \<noteq> i) (clusters_table rs),
          tokens_table := filter (\<lambda>r. tr_cluster_id r \<noteq> i) (tokens_table rs),
          audit_table := map (\<lambda>r. if ar_cluster_id r = Some i then r\<lparr>ar_cluster_id := None\<rparr> else r) (audit_table rs)\<rparr>
     else rs))"

definition sql_CreateAgentToken :: "string \<Rightarrow> int \<Rightarrow> AgentToken \<Rightarrow> AgentToken row_stmt" where
  "sql_CreateAgentToken uuid now token = row_statement (\<lambda>rs.
     let i = new_id uuid (t_ID token); ts = formatTime now in
     if list_ex (\<lambda>r. tr_id r = i) (tokens_table rs) \<or> \<not> list_ex (\<lambda>r. cr_id r = t_ClusterID token) (clusters_table rs)
     then (Inl ErrConstraint, rs)
     else (Inr (token\<lparr>t_ID := i, t_CreatedAt := parse_or_zero ts\<rparr>),
       rs\<lparr>tokens_table := tokens_table rs @
         [\<lparr>tr_id = i, tr_cluster_id = t_ClusterID token, tr_token_hash = t_TokenHash token,
           tr_token_prefix = t_TokenPrefix token, tr_description = nilIfEmpty (t_Description token),
           tr_is_revoked = bound_bool (t_IsRevoked token), tr_last_used_at = formatNullableTime (t_LastUsedAt token),
           tr_expires_at = formatNullableTime (t_ExpiresAt token), tr_created_at = ts\<rparr>]\<rparr>))"

definition sql_GetAgentTokenByHash :: "string \<Rightarrow> AgentToken option row_stmt" where
  "sql_GetAgentTokenByHash h =
     row_statement (\<lambda>rs. (Inr (map_option scanToken (find (\<lambda>r. tr_token_hash r = h) (tokens_table rs))), rs))"

definition sql_ListAgentTokensByCluster :: "string \<Rightarrow> AgentToken list row_stmt" where
  "sql_ListAgentTokensByCluster i =
     row_statement (\<lambda>rs. (Inr (map scanToken (filter (\<lambda>r. tr_cluster_id r = i) (tokens_table rs))), rs))"

definition sql_RevokeAgentToken :: "string \<Rightarrow> unit row_stmt" where
  "sql_RevokeAgentToken i = row_statement (\<lambda>rs. (Inr (),
     rs\<lparr>tokens_table := map (\<lambda>r. if tr_id r = i then r\<lparr>tr_is_revoked := 1\<rparr> else r) (tokens_table rs)\<rparr>))"

definition sql_TouchAgentToken :: "string \<Rightarrow> int \<Rightarrow> unit row_stmt" where
  "sql_TouchAgentToken i usedAt = row_statement (\<lambda>rs. (Inr (),
     rs\<lparr>tokens_table := map (\<lambda>r. if tr_id r = i then r\<lparr>tr_last_used_at := Some (formatTime usedAt)\<rparr> else r) (tokens_table rs)\<rparr>))"

definition sql_CreateRefreshToken :: "string \<Rightarrow> int \<Rightarrow> RefreshToken \<Rightarrow> RefreshToken row_stmt" where
  "sql_CreateRefreshToken uuid now rt = row_statement (\<lambda>rs.
     let i = new_id uuid (rt_ID rt); ts = formatTime now in
     if list_ex (\<lambda>r. rr_id r = i) (refresh_table rs) \<or> \<not> list_ex (\<lambda>r. ur_id r = rt_UserID rt) (users_table rs)
     then (Inl ErrConstraint, rs)
     else (Inr (rt\<lparr>rt_ID := i, rt_CreatedAt := parse_or_zero ts\<rparr>),
       rs\<lparr>refresh_table := refresh_table rs @
         [\<lparr>rr_id = i, rr_user_id = rt_UserID rt, rr_token_hash = rt_TokenHash rt,
           rr_expires_at = formatTime (rt_ExpiresAt rt), rr_created_at = ts\<rparr>]\<rparr>))"

definition sql_GetRefreshTokenByHash :: "string \<Rightarrow> RefreshToken option row_stmt" where
  "sql_GetRefreshTokenByHash h =
     row_statement (\<lambda>rs. (Inr (map_option scanRefresh (find (\<lambda>r. rr_token_hash r = h) (refresh_table rs))), rs))"

definition sql_DeleteRefreshToken :: "string \<Rightarrow> unit row_stmt" where
  "sql_DeleteRefreshToken i = row_statement (\<lambda>rs. (Inr (),
     rs\<lparr>refresh_table := filter (\<lambda>r. rr_id r \<noteq> i) (refresh_table rs)\<rparr>))"

definition sql_DeleteRefreshTokensByUser :: "string \<Rightarrow> unit row_stmt" where
  "sql_DeleteRefreshTokensByUser i = row_statement (\<lambda>rs. (Inr (),
     rs\<lparr>refresh_table := filter (\<lambda>r. rr_user_id r \<noteq> i) (refresh_table rs)\<rparr>))"

text \<open>Here and below texts are compared.\<close>

definition sql_CleanupExpiredRefreshTokens :: "int \<Rightarrow> unit row_stmt" where
  "sql_CleanupExpiredRefreshTokens now = row_statement (\<lambda>rs. (Inr (),
     rs\<lparr>refresh_table := filter (\<lambda>r. \<not> rr_expires_at r < formatTime now) (refresh_table rs)\<rparr>))"

definition sql_CreateAuditLog :: "string \<Rightarrow> int \<Rightarrow> AuditLog \<Rightarrow> AuditLog row_stmt" where
  "sql_CreateAuditLog uuid now log = row_statement (\<lambda>rs.
     let i = new_id uuid (log_ID log); ts = formatTime now;
         user = nilIfEmpty (log_UserID log); cluster = nilIfEmpty (log_ClusterID log) in
     if list_ex (\<lambda>r. ar_id r = i) (audit_table rs) \<or>
        user \<noteq> None \<and> \<not> list_ex (\<lambda>r. Some (ur_id r) = user) (users_table rs) \<or>
        cluster \<noteq> None \<and> \<not> list_ex (\<lambda>r. Some (cr_id r) = cluster) (clusters_table rs)
     then (Inl ErrConstraint, rs)
     else (Inr (log\<lparr>log_ID := i, log_CreatedAt := parse_or_zero ts\<rparr>),
       rs\<lparr>audit_table := audit_table rs @
         [\<lparr>ar_id = i, ar_user_id = user, ar_user_email = log_UserEmail log, ar_cluster_name = log_ClusterName log,
           ar_cluster_id = cluster, ar_command = log_Command log, ar_namespace = nilIfEmpty (log_Namespace log),
           ar_status = log_Status log, ar_exit_code = map_option sint (log_ExitCode log),
           ar_duration_ms = log_DurationMs log, ar_error_message = nilIfEmpty (log_ErrorMessage log),
           ar_client_ip = nilIfEmpty (log_ClientIP log), ar_created_at = ts\<rparr>]\<rparr>))"

text \<open>The clauses of the filter with the values bound to them.\<close>

datatype clause = UserEmailIs string | ClusterNameIs string | StatusIs string | CreatedFrom string | CreatedTo string

definition filter_clauses :: "AuditLogFilter \<Rightarrow> clause list" where
  "filter_clauses f =
     (if f_UserEmail f \<noteq> [] then [UserEmailIs (f_UserEmail f)] else []) @
     (if f_ClusterName f \<noteq> [] then [ClusterNameIs (f_ClusterName f)] else []) @
     (if f_Status f \<noteq> [] then [StatusIs (f_Status f)] else []) @
     (case f_From f of None \<Rightarrow> [] | Some t \<Rightarrow> [CreatedFrom (formatTime t)]) @
     (case f_To f of None \<Rightarrow> [] | Some t \<Rightarrow> [CreatedTo (formatTime t)])"

fun clause_text :: "clause \<Rightarrow> string" where
  "clause_text (UserEmailIs v) = ''user_email = ?''"
| "clause_text (ClusterNameIs v) = ''cluster_name = ?''"
| "clause_text (StatusIs v) = ''status = ?''"
| "clause_text (CreatedFrom v) = ''created_at >= ?''"
| "clause_text (CreatedTo v) = ''created_at <= ?''"

fun clause_holds :: "AuditRow \<Rightarrow> clause \<Rightarrow> bool" where
  "clause_holds r (UserEmailIs v) = (ar_user_email r = v)"
| "clause_holds r (ClusterNameIs v) = (ar_cluster_name r = v)"
| "clause_holds r (StatusIs v) = (ar_status r = v)"
| "clause_holds r (CreatedFrom v) = (v \<le> ar_created_at r)"
| "clause_holds r (CreatedTo v) = (ar_created_at r \<le> v)"

definition where_text :: "AuditLogFilter \<Rightarrow> string" where
  "where_text f = (let cs = filter_clauses f in
     if cs = [] then [] else '' WHERE '' @ join '' AND '' (map clause_text cs))"

definition matching :: "AuditLogFilter \<Rightarrow> Rows \<Rightarrow> AuditRow list" where
  "matching f rs = filter (\<lambda>r. list_all (clause_holds r) (filter_clauses f)) (audit_table rs)"

text \<open>The engine sorts by the text of the time, latest first; \<open>order_by\<close> is its choice among equal ones.\<close>

definition sql_ListAuditLogs :: "(AuditRow list \<Rightarrow> AuditRow list) \<Rightarrow> AuditLogFilter \<Rightarrow> (AuditLog list \<times> nat) row_stmt" where
  "sql_ListAuditLogs order_by f rs =
     (case row_statement (\<lambda>rs. (Inr (length (matching f rs)), rs)) rs of
        (Inl e, rs1) \<Rightarrow> (Inl e, rs1)
      | (Inr n, rs1) \<Rightarrow>
          (case row_statement (\<lambda>rs. (Inr (map scanAuditRow
              (let rows = order_by (matching f rs) in
               if f_PerPage f > 0
               then take (nat (f_PerPage f)) (drop (nat (if f_Page f > 1 then int64_wrap ((f_Page f - 1) * f_PerPage f) else 0)) rows)
               else rows)), rs)) rs1 of
             (Inl e, rs2) \<Rightarrow> (Inl e, rs2)
           | (Inr logs, rs2) \<Rightarrow> (Inr (logs, n), rs2)))"

definition sql_CleanupOldAuditLogs :: "int \<Rightarrow> nat row_stmt" where
  "sql_CleanupOldAuditLogs before = row_statement (\<lambda>rs.
     (Inr (length (filter (\<lambda>r. ar_created_at r < formatTime before) (audit_table rs))),
      rs\<lparr>audit_table := filter (\<lambda>r. \<not> ar_created_at r < formatTime before) (audit_table rs)\<rparr>))"

end
