(* ===== verification/Db_Refine.thy ===== *)
theory Db_Refine
  imports Db_Rows
begin

text \<open>
  The statements on rows (theory Db_Rows) refine those on entities (theory Db_Store): with the abstraction that scans every
  row, each has the same result and leads to the abstraction of the same state, as long as the times are of the years 0 to
  9999.
\<close>


section \<open>Abstraction and invariant\<close>

definition abs_rows :: "Rows \<Rightarrow> Db" where
  "abs_rows rs = \<lparr>users = map scanUser (users_table rs), clusters = map scanCluster (clusters_table rs),
     agent_tokens = map scanToken (tokens_table rs), audit_logs = map scanAuditRow (audit_table rs),
     refresh_tokens = map scanRefresh (refresh_table rs), faults = row_faults rs\<rparr>"

abbreviation time_text :: "string \<Rightarrow> bool" where
  "time_text \<equiv> written_by valid_time formatTime"

text \<open>The columns that are compared or refer to another table.\<close>

definition rows_ok :: "Rows \<Rightarrow> bool" where
  "rows_ok rs \<longleftrightarrow>
     (\<forall>r \<in> set (refresh_table rs). time_text (rr_expires_at r)) \<and>
     (\<forall>r \<in> set (audit_table rs). time_text (ar_created_at r) \<and> ar_user_id r \<noteq> Some [] \<and> ar_cluster_id r \<noteq> Some [])"

definition refines :: "'a row_stmt \<Rightarrow> 'a stmt \<Rightarrow> bool" where
  "refines c a \<longleftrightarrow> (\<forall>rs. rows_ok rs \<longrightarrow> a (abs_rows rs) = (fst (c rs), abs_rows (snd (c rs))) \<and> rows_ok (snd (c rs)))"

lemma refinesD:
  assumes "refines c a" and "rows_ok rs"
  shows "a (abs_rows rs) = (fst (c rs), abs_rows (snd (c rs)))" and "rows_ok (snd (c rs))"
  using assms by (auto simp: refines_def)

lemma rows_ok_faults [simp]: "rows_ok (rs\<lparr>row_faults := fs\<rparr>) = rows_ok rs"
  by (simp add: rows_ok_def)

lemma abs_rows_faults: "(abs_rows rs)\<lparr>faults := fs\<rparr> = abs_rows (rs\<lparr>row_faults := fs\<rparr>)"
  by (simp add: abs_rows_def)

lemma refines_statement:
  assumes "\<And>rs. rows_ok rs \<Longrightarrow> a (abs_rows rs) = (fst (c rs), abs_rows (snd (c rs))) \<and> rows_ok (snd (c rs))"
  shows "refines (row_statement c) (statement a)"
  unfolding refines_def
proof (intro allI impI)
  fix rs assume ok: "rows_ok rs"
  show "statement a (abs_rows rs) = (fst (row_statement c rs), abs_rows (snd (row_statement c rs))) \<and>
    rows_ok (snd (row_statement c rs))"
  proof (cases "row_faults rs")
    case Nil
    then have "faults (abs_rows rs) = []" by (simp add: abs_rows_def)
    then show ?thesis using Nil assms [OF ok] by (simp add: row_statement_def)
  next
    case (Cons f fs)
    then have f: "faults (abs_rows rs) = f # fs" by (simp add: abs_rows_def)
    have "rows_ok (rs\<lparr>row_faults := fs\<rparr>)" using ok by simp
    from assms [OF this] ok show ?thesis
      by (simp add: statement_def row_statement_def f Cons Let_def abs_rows_faults)
  qed
qed


section \<open>Columns\<close>

lemma deref_nil [simp]: "derefStr (nilIfEmpty s) = s"
  by (simp add: derefStr_def nilIfEmpty_def)

lemma nil_not_empty [simp]: "nilIfEmpty s \<noteq> Some []"
  by (simp add: nilIfEmpty_def)

lemma nil_None [simp]: "nilIfEmpty s = None \<longleftrightarrow> s = []"
  by (simp add: nilIfEmpty_def)

lemma nil_Some [simp]: "Some x = nilIfEmpty s \<longleftrightarrow> s \<noteq> [] \<and> x = s"
  by (auto simp: nilIfEmpty_def)

lemma deref_Some: "x \<noteq> Some [] \<Longrightarrow> i \<noteq> [] \<Longrightarrow> derefStr x = i \<longleftrightarrow> x = Some i"
  by (cases x) (auto simp: derefStr_def)

lemma bound_bool_iff [simp]: "bound_bool b \<noteq> 0 \<longleftrightarrow> b"
  by (simp add: bound_bool_def)

lemma whole_stored: "whole_seconds t = stored_time t"
  by (simp add: whole_seconds_def stored_time_def)

lemma parse_format [simp]: "valid_time t \<Longrightarrow> parse_or_zero (formatTime t) = stored_time t"
  by (simp add: parse_or_zero_def parse_formatTime whole_stored)

lemma formatTime_not_Nil: "valid_time t \<Longrightarrow> formatTime t \<noteq> []"
  using parse_formatTime [of t] by (auto simp: parseTime_def parse_civil_def)

lemma parse_nullable [simp]:
  assumes "\<And>u. t = Some u \<Longrightarrow> valid_time u"
  shows "parseNullableTime (formatNullableTime t) = map_option stored_time t"
  using assms formatTime_not_Nil
  by (cases t) (simp_all add: parseNullableTime_def formatNullableTime_def parse_formatTime whole_stored)

lemma text_before: "time_text x \<Longrightarrow> valid_time t \<Longrightarrow> x < formatTime t \<longleftrightarrow> parse_or_zero x < stored_time t"
  using time_column.written_less [of x t] by (auto simp: written_by_def parse_or_zero_def parse_formatTime whole_stored)

lemma text_from: "time_text x \<Longrightarrow> valid_time t \<Longrightarrow> formatTime t \<le> x \<longleftrightarrow> stored_time t \<le> parse_or_zero x"
  using time_column.written_ge [of x t] by (auto simp: written_by_def parse_or_zero_def parse_formatTime whole_stored)

lemma text_to: "time_text x \<Longrightarrow> valid_time t \<Longrightarrow> x \<le> formatTime t \<longleftrightarrow> parse_or_zero x \<le> stored_time t"
  using time_column.written_le [of x t] by (auto simp: written_by_def parse_or_zero_def parse_formatTime whole_stored)

lemma sint_word [simp]: "map_option word_of_int (map_option sint x) = (x :: 32 word option)"
  by (cases x) simp_all


section \<open>Rows\<close>

lemma scan_keys [simp]:
  "u_ID (scanUser r) = ur_id r" "u_Email (scanUser r) = ur_email r"
  "c_ID (scanCluster c) = cr_id c" "c_Name (scanCluster c) = cr_name c"
  "t_ID (scanToken t) = tr_id t" "t_ClusterID (scanToken t) = tr_cluster_id t" "t_TokenHash (scanToken t) = tr_token_hash t"
  "rt_ID (scanRefresh f) = rr_id f" "rt_UserID (scanRefresh f) = rr_user_id f" "rt_TokenHash (scanRefresh f) = rr_token_hash f"
  "rt_ExpiresAt (scanRefresh f) = parse_or_zero (rr_expires_at f)"
  "log_ID (scanAuditRow l) = ar_id l" "log_UserID (scanAuditRow l) = derefStr (ar_user_id l)"
  "log_ClusterID (scanAuditRow l) = derefStr (ar_cluster_id l)" "log_CreatedAt (scanAuditRow l) = parse_or_zero (ar_created_at l)"
  "log_UserEmail (scanAuditRow l) = ar_user_email l" "log_ClusterName (scanAuditRow l) = ar_cluster_name l"
  "log_Status (scanAuditRow l) = ar_status l"
  by (simp_all add: scanUser_def scanCluster_def scanToken_def scanRefresh_def scanAuditRow_def)

lemma find_map_scan: "find P (map f xs) = map_option f (find (\<lambda>r. P (f r)) xs)"
  by (induction xs) auto

lemma list_ex_map_scan: "list_ex P (map f xs) = list_ex (\<lambda>r. P (f r)) xs"
  by (induction xs) auto

lemma map_update_scan:
  "(\<And>r. r \<in> set xs \<Longrightarrow> P r = Q (s r)) \<Longrightarrow> (\<And>r. r \<in> set xs \<Longrightarrow> P r \<Longrightarrow> s (f r) = g (s r)) \<Longrightarrow>
     map s (map (\<lambda>r. if P r then f r else r) xs) = map (\<lambda>x. if Q x then g x else x) (map s xs)"
  by (induction xs) auto

lemmas abs_fields = abs_rows_def find_map_scan list_ex_map_scan filter_map comp_def

lemma scan_new:
  "scanUser \<lparr>ur_id = i, ur_email = u_Email u, ur_password_hash = u_PasswordHash u, ur_name = u_Name u,
     ur_is_active = bound_bool (u_IsActive u), ur_is_admin = bound_bool (u_IsAdmin u), ur_created_at = ts, ur_updated_at = ts\<rparr> =
     u\<lparr>u_ID := i, u_CreatedAt := parse_or_zero ts, u_UpdatedAt := parse_or_zero ts\<rparr>"
  by (cases u) (simp add: scanUser_def)


section \<open>The queries\<close>

lemma refines_queries:
  "refines (sql_GetUserByID i) (GetUserByID i)"
  "refines (sql_GetUserByEmail email) (GetUserByEmail email)"
  "refines sql_ListUsers ListUsers"
  "refines (sql_GetClusterByID i) (GetClusterByID i)"
  "refines (sql_GetClusterByName name) (GetClusterByName name)"
  "refines sql_ListClusters ListClusters"
  "refines (sql_GetAgentTokenByHash h) (GetAgentTokenByHash h)"
  "refines (sql_ListAgentTokensByCluster i) (ListAgentTokensByCluster i)"
  "refines (sql_GetRefreshTokenByHash h) (GetRefreshTokenByHash h)"
  unfolding sql_GetUserByID_def GetUserByID_def sql_GetUserByEmail_def GetUserByEmail_def sql_ListUsers_def ListUsers_def
    sql_GetClusterByID_def GetClusterByID_def sql_GetClusterByName_def GetClusterByName_def sql_ListClusters_def ListClusters_def
    sql_GetAgentTokenByHash_def GetAgentTokenByHash_def sql_ListAgentTokensByCluster_def ListAgentTokensByCluster_def
    sql_GetRefreshTokenByHash_def GetRefreshTokenByHash_def
  by (rule refines_statement, simp add: abs_fields)+


section \<open>Users and clusters\<close>

lemma refines_CreateUser:
  assumes "valid_time now"
  shows "refines (sql_CreateUser uuid now u) (CreateUser uuid now u)"
  unfolding sql_CreateUser_def CreateUser_def
  by (rule refines_statement) (auto simp: abs_fields Let_def scan_new assms rows_ok_def)

lemma refines_UpdateUser:
  assumes "valid_time now"
  shows "refines (sql_UpdateUser now u) (UpdateUser now u)"
  unfolding sql_UpdateUser_def UpdateUser_def Let_def
  by (rule refines_statement)
    (auto simp: abs_rows_def list_ex_map_scan rows_ok_def assms scanUser_def)

lemma refines_DeleteUser: "refines (sql_DeleteUser i) (DeleteUser i)"
  unfolding sql_DeleteUser_def DeleteUser_def
  by (rule refines_statement)
    (auto simp: abs_fields rows_ok_def scanAuditRow_def derefStr_def split: option.splits)

lemma refines_CreateCluster:
  assumes "valid_time now" and "\<And>t. c_LastSeenAt c = Some t \<Longrightarrow> valid_time t"
  shows "refines (sql_CreateCluster uuid now c) (CreateCluster uuid now c)"
  unfolding sql_CreateCluster_def CreateCluster_def Let_def
  by (rule refines_statement) (auto simp: abs_fields rows_ok_def assms scanCluster_def)

lemma refines_UpdateCluster:
  assumes "valid_time now" and "\<And>t. c_LastSeenAt c = Some t \<Longrightarrow> valid_time t"
  shows "refines (sql_UpdateCluster now c) (UpdateCluster now c)"
  unfolding sql_UpdateCluster_def UpdateCluster_def Let_def
  by (rule refines_statement) (auto simp: abs_rows_def list_ex_map_scan rows_ok_def assms scanCluster_def)

lemma refines_DeleteCluster: "refines (sql_DeleteCluster i) (DeleteCluster i)"
  unfolding sql_DeleteCluster_def DeleteCluster_def
  by (rule refines_statement)
    (auto simp: abs_fields rows_ok_def scanAuditRow_def derefStr_def split: option.splits)


section \<open>Tokens\<close>

lemma refines_CreateAgentToken:
  assumes "valid_time now" and "\<And>u. t_LastUsedAt t = Some u \<Longrightarrow> valid_time u" and "\<And>u. t_ExpiresAt t = Some u \<Longrightarrow> valid_time u"
  shows "refines (sql_CreateAgentToken uuid now t) (CreateAgentToken uuid now t)"
  unfolding sql_CreateAgentToken_def CreateAgentToken_def Let_def
  by (rule refines_statement) (auto simp: abs_fields rows_ok_def assms scanToken_def)

lemma refines_RevokeAgentToken: "refines (sql_RevokeAgentToken i) (RevokeAgentToken i)"
  unfolding sql_RevokeAgentToken_def RevokeAgentToken_def
  by (rule refines_statement) (auto simp: abs_rows_def rows_ok_def scanToken_def)

lemma parse_nullable_format: "valid_time t \<Longrightarrow> parseNullableTime (Some (formatTime t)) = Some (stored_time t)"
  using parse_nullable [of "Some t"] by (simp add: formatNullableTime_def)

lemma refines_TouchAgentToken:
  assumes "valid_time usedAt"
  shows "refines (sql_TouchAgentToken i usedAt) (TouchAgentToken i usedAt)"
  unfolding sql_TouchAgentToken_def TouchAgentToken_def
  by (rule refines_statement) (auto simp: abs_rows_def rows_ok_def scanToken_def parse_nullable_format assms)

lemma refines_CreateRefreshToken:
  assumes "valid_time now" and "valid_time (rt_ExpiresAt rt)"
  shows "refines (sql_CreateRefreshToken uuid now rt) (CreateRefreshToken uuid now rt)"
  unfolding sql_CreateRefreshToken_def CreateRefreshToken_def Let_def
  by (rule refines_statement)
    (auto simp: abs_fields rows_ok_def assms scanRefresh_def time_column.written_enc)

lemma refines_refresh_deletes:
  "refines (sql_DeleteRefreshToken i) (DeleteRefreshToken i)"
  "refines (sql_DeleteRefreshTokensByUser i) (DeleteRefreshTokensByUser i)"
  unfolding sql_DeleteRefreshToken_def DeleteRefreshToken_def sql_DeleteRefreshTokensByUser_def DeleteRefreshTokensByUser_def
  by (rule refines_statement, auto simp: abs_fields rows_ok_def)+

text \<open>The comparison of texts is that of times.\<close>

lemma refines_CleanupExpired:
  assumes "valid_time now"
  shows "refines (sql_CleanupExpiredRefreshTokens now) (CleanupExpiredRefreshTokens now)"
  unfolding sql_CleanupExpiredRefreshTokens_def CleanupExpiredRefreshTokens_def
proof (rule refines_statement, intro conjI)
  fix rs :: Rows assume ok: "rows_ok rs"
  have "filter (\<lambda>r. \<not> rr_expires_at r < formatTime now) (refresh_table rs) =
      filter (\<lambda>r. \<not> parse_or_zero (rr_expires_at r) < stored_time now) (refresh_table rs)"
    using ok text_before [OF _ assms] by (intro filter_cong) (auto simp: rows_ok_def)
  then show "(Inr (), (abs_rows rs)\<lparr>refresh_tokens := filter (\<lambda>r. \<not> rt_ExpiresAt r < stored_time now)
        (refresh_tokens (abs_rows rs))\<rparr>) =
      (fst (Inr (), rs\<lparr>refresh_table := filter (\<lambda>r. \<not> rr_expires_at r < formatTime now) (refresh_table rs)\<rparr>),
       abs_rows (snd (Inr (), rs\<lparr>refresh_table := filter (\<lambda>r. \<not> rr_expires_at r < formatTime now) (refresh_table rs)\<rparr>)))"
    by (simp add: abs_fields)
  show "rows_ok (snd (Inr (), rs\<lparr>refresh_table := filter (\<lambda>r. \<not> rr_expires_at r < formatTime now) (refresh_table rs)\<rparr>))"
    using ok by (auto simp: rows_ok_def)
qed


section \<open>The audit log\<close>

lemma scan_new_log:
  "valid_time now \<Longrightarrow> scanAuditRow
     \<lparr>ar_id = i, ar_user_id = nilIfEmpty (log_UserID l), ar_user_email = log_UserEmail l, ar_cluster_name = log_ClusterName l,
      ar_cluster_id = nilIfEmpty (log_ClusterID l), ar_command = log_Command l, ar_namespace = nilIfEmpty (log_Namespace l),
      ar_status = log_Status l, ar_exit_code = map_option sint (log_ExitCode l), ar_duration_ms = log_DurationMs l,
      ar_error_message = nilIfEmpty (log_ErrorMessage l), ar_client_ip = nilIfEmpty (log_ClientIP l),
      ar_created_at = formatTime now\<rparr> = l\<lparr>log_ID := i, log_CreatedAt := stored_time now\<rparr>"
  by (cases l) (simp add: scanAuditRow_def)

lemma refines_CreateAuditLog:
  assumes "valid_time now"
  shows "refines (sql_CreateAuditLog uuid now l) (CreateAuditLog uuid now l)"
  unfolding sql_CreateAuditLog_def CreateAuditLog_def Let_def
  by (rule refines_statement)
    (auto simp: abs_fields rows_ok_def assms scan_new_log time_column.written_enc)

definition filter_ok :: "AuditLogFilter \<Rightarrow> bool" where
  "filter_ok f \<longleftrightarrow> (\<forall>t. f_From f = Some t \<longrightarrow> valid_time t) \<and> (\<forall>t. f_To f = Some t \<longrightarrow> valid_time t)"

lemma clauses_meant:
  assumes "time_text (ar_created_at r)" and "filter_ok f"
  shows "list_all (clause_holds r) (filter_clauses f) \<longleftrightarrow> buildAuditFilter f (scanAuditRow r)"
  using assms text_from [OF assms(1)] text_to [OF assms(1)]
  by (auto simp: filter_clauses_def buildAuditFilter_def filter_ok_def split: option.splits)

lemma matching_meant:
  assumes "rows_ok rs" and "filter_ok f"
  shows "map scanAuditRow (matching f rs) = filter (buildAuditFilter f) (audit_logs (abs_rows rs))"
proof -
  have "matching f rs = filter (\<lambda>r. buildAuditFilter f (scanAuditRow r)) (audit_table rs)"
    unfolding matching_def using assms clauses_meant by (intro filter_cong) (auto simp: rows_ok_def)
  then show ?thesis by (simp add: abs_fields)
qed

lemma refines_CleanupOld:
  assumes "valid_time before"
  shows "refines (sql_CleanupOldAuditLogs before) (CleanupOldAuditLogs before)"
  unfolding sql_CleanupOldAuditLogs_def CleanupOldAuditLogs_def
proof (rule refines_statement)
  fix rs :: Rows assume ok: "rows_ok rs"
  have eq: "ar_created_at r < formatTime before \<longleftrightarrow> parse_or_zero (ar_created_at r) < stored_time before" if "r \<in> set (audit_table rs)" for r
    using ok that text_before [OF _ assms] by (auto simp: rows_ok_def)
  have "filter (\<lambda>r. ar_created_at r < formatTime before) (audit_table rs) =
      filter (\<lambda>r. parse_or_zero (ar_created_at r) < stored_time before) (audit_table rs)"
    "filter (\<lambda>r. \<not> ar_created_at r < formatTime before) (audit_table rs) =
      filter (\<lambda>r. \<not> parse_or_zero (ar_created_at r) < stored_time before) (audit_table rs)"
    using eq by (auto intro: filter_cong)
  then show "(Inr (length (filter (\<lambda>l. log_CreatedAt l < stored_time before) (audit_logs (abs_rows rs)))),
      (abs_rows rs)\<lparr>audit_logs := filter (\<lambda>l. \<not> log_CreatedAt l < stored_time before) (audit_logs (abs_rows rs))\<rparr>) =
    (fst (Inr (length (filter (\<lambda>r. ar_created_at r < formatTime before) (audit_table rs))),
        rs\<lparr>audit_table := filter (\<lambda>r. \<not> ar_created_at r < formatTime before) (audit_table rs)\<rparr>),
     abs_rows (snd (Inr (length (filter (\<lambda>r. ar_created_at r < formatTime before) (audit_table rs))),
        rs\<lparr>audit_table := filter (\<lambda>r. \<not> ar_created_at r < formatTime before) (audit_table rs)\<rparr>))) \<and>
    rows_ok (snd (Inr (length (filter (\<lambda>r. ar_created_at r < formatTime before) (audit_table rs))),
        rs\<lparr>audit_table := filter (\<lambda>r. \<not> ar_created_at r < formatTime before) (audit_table rs)\<rparr>))"
    using ok by (auto simp: abs_fields rows_ok_def)
qed


text \<open>A page of the audit log: the entries of the specification with an order that the sorting of the texts gives.\<close>

lemma row_statement_query:
  "row_statement (\<lambda>rs. (Inr (q rs), rs)) rs =
     (if row_faults rs \<noteq> [] \<and> hd (row_faults rs) then Inl ErrStatement else Inr (q (rs\<lparr>row_faults := tl (row_faults rs)\<rparr>)),
      rs\<lparr>row_faults := tl (row_faults rs)\<rparr>)"
proof (cases "row_faults rs")
  case Nil
  then have eq: "rs\<lparr>row_faults := []\<rparr> = rs" by (cases rs) simp
  show ?thesis using Nil by (simp add: row_statement_def eq)
qed (simp add: row_statement_def Let_def)

lemma matching_faults [simp]: "matching f (rs\<lparr>row_faults := fs\<rparr>) = matching f rs"
  by (simp add: matching_def)

lemma abs_queried:
  "audit_logs (abs_rows rs\<lparr>faults := fs\<rparr>) = audit_logs (abs_rows rs)" "faults (abs_rows rs) = row_faults rs"
  by (simp_all add: abs_rows_def)

lemma refines_ListAuditLogs:
  assumes "rows_ok rs" and "filter_ok f"
  shows "ListAuditLogs (\<lambda>_. map scanAuditRow (order_by (matching f rs))) f (abs_rows rs) =
    (fst (sql_ListAuditLogs order_by f rs), abs_rows (snd (sql_ListAuditLogs order_by f rs)))"
proof -
  have len: "length (filter (buildAuditFilter f) (audit_logs (abs_rows rs))) = length (matching f rs)"
    using matching_meant [OF assms] by (metis length_map)
  show ?thesis
    unfolding ListAuditLogs_def sql_ListAuditLogs_def statement_query row_statement_query abs_queried
    by (auto simp: len audit_page_def Let_def take_map drop_map abs_rows_faults abs_queried)
qed

text \<open>Sorting the texts sorts the times.\<close>

lemma sorted_texts:
  assumes "rows_ok rs" and "set xs \<subseteq> set (audit_table rs)" and "sorted_wrt (\<lambda>a b. ar_created_at b \<le> ar_created_at a) xs"
  shows "sorted_wrt (\<lambda>a b. log_CreatedAt b \<le> log_CreatedAt a) (map scanAuditRow xs)"
proof -
  have "parse_or_zero (ar_created_at b) \<le> parse_or_zero (ar_created_at a)"
    if "a \<in> set xs" "b \<in> set xs" "ar_created_at b \<le> ar_created_at a" for a b
  proof -
    have t: "time_text (ar_created_at a)" "time_text (ar_created_at b)"
      using assms(1,2) that(1,2) by (auto simp: rows_ok_def)
    then show ?thesis using time_column.written_mono [OF t(2,1)] that(3)
      by (auto simp: written_by_def parse_or_zero_def parse_formatTime)
  qed
  then show ?thesis
    unfolding sorted_wrt_map scan_keys by (intro sorted_wrt_mono_rel [OF _ assms(3)]) blast
qed


section \<open>The reachable databases\<close>

definition empty_tables :: "bool list \<Rightarrow> Rows" where
  "empty_tables fs = \<lparr>users_table = [], clusters_table = [], tokens_table = [], audit_table = [], refresh_table = [],
     row_faults = fs\<rparr>"

definition sql_init :: "Rows \<Rightarrow> bool" where
  "sql_init rs \<longleftrightarrow> (\<exists>fs. rs = empty_tables fs)"

definition cluster_times :: "Cluster \<Rightarrow> bool" where
  "cluster_times c \<longleftrightarrow> (\<forall>t. c_LastSeenAt c = Some t \<longrightarrow> valid_time t)"

definition token_times :: "AgentToken \<Rightarrow> bool" where
  "token_times t \<longleftrightarrow> (\<forall>u. t_LastUsedAt t = Some u \<longrightarrow> valid_time u) \<and> (\<forall>u. t_ExpiresAt t = Some u \<longrightarrow> valid_time u)"

inductive sql_step :: "Rows \<Rightarrow> Rows \<Rightarrow> bool" where
  "valid_time now \<Longrightarrow> sql_step rs (snd (sql_CreateUser uuid now u rs))"
| "valid_time now \<Longrightarrow> sql_step rs (snd (sql_UpdateUser now u rs))"
| "sql_step rs (snd (sql_DeleteUser i rs))"
| "valid_time now \<Longrightarrow> cluster_times c \<Longrightarrow> sql_step rs (snd (sql_CreateCluster uuid now c rs))"
| "valid_time now \<Longrightarrow> cluster_times c \<Longrightarrow> sql_step rs (snd (sql_UpdateCluster now c rs))"
| "sql_step rs (snd (sql_DeleteCluster i rs))"
| "valid_time now \<Longrightarrow> token_times t \<Longrightarrow> sql_step rs (snd (sql_CreateAgentToken uuid now t rs))"
| "sql_step rs (snd (sql_RevokeAgentToken i rs))"
| "valid_time t' \<Longrightarrow> sql_step rs (snd (sql_TouchAgentToken i t' rs))"
| "valid_time now \<Longrightarrow> valid_time (rt_ExpiresAt r) \<Longrightarrow> sql_step rs (snd (sql_CreateRefreshToken uuid now r rs))"
| "sql_step rs (snd (sql_DeleteRefreshToken i rs))"
| "sql_step rs (snd (sql_DeleteRefreshTokensByUser i rs))"
| "valid_time now \<Longrightarrow> sql_step rs (snd (sql_CleanupExpiredRefreshTokens now rs))"
| "valid_time now \<Longrightarrow> sql_step rs (snd (sql_CreateAuditLog uuid now l rs))"
| "valid_time before \<Longrightarrow> sql_step rs (snd (sql_CleanupOldAuditLogs before rs))"
| "sql_step rs (snd (row_statement (\<lambda>rs. (Inr (), rs)) rs))"

lemma refines_query: "refines (row_statement (\<lambda>rs. (Inr (), rs))) (statement (\<lambda>db. (Inr (), db)))"
  by (rule refines_statement) simp

definition simulated :: "Rows \<Rightarrow> Rows \<Rightarrow> bool" where
  "simulated rs rs' \<longleftrightarrow> db_step (abs_rows rs) (abs_rows rs') \<and> rows_ok rs'"

lemma refines_step:
  assumes "refines c a" and "rows_ok rs" and "db_step (abs_rows rs) (snd (a (abs_rows rs)))"
  shows "simulated rs (snd (c rs))"
  using refinesD [OF assms(1,2)] assms(3) by (simp add: simulated_def)

lemma sql_step_simulates:
  assumes "sql_step rs rs'" and "rows_ok rs"
  shows "simulated rs rs'"
  using assms
  by (cases rule: sql_step.cases)
    (auto simp: cluster_times_def token_times_def intro!: db_step.intros
      intro: refines_step [OF refines_CreateUser] refines_step [OF refines_UpdateUser] refines_step [OF refines_DeleteUser]
        refines_step [OF refines_CreateCluster] refines_step [OF refines_UpdateCluster] refines_step [OF refines_DeleteCluster]
        refines_step [OF refines_CreateAgentToken] refines_step [OF refines_RevokeAgentToken]
        refines_step [OF refines_TouchAgentToken] refines_step [OF refines_CreateRefreshToken]
        refines_step [OF refines_refresh_deletes(1)] refines_step [OF refines_refresh_deletes(2)]
        refines_step [OF refines_CleanupExpired] refines_step [OF refines_CreateAuditLog] refines_step [OF refines_CleanupOld]
        refines_step [OF refines_query])

lemma rows_ok_init: "sql_init rs \<Longrightarrow> rows_ok rs" and abs_rows_init: "sql_init rs \<Longrightarrow> db_init (abs_rows rs)"
  by (auto simp: sql_init_def empty_tables_def rows_ok_def db_init_def createSchema_def abs_rows_def)

interpretation sql_database: simulation sql_init sql_step rows_ok abs_rows db_init db_step
  by unfold_locales (auto simp: rows_ok_init abs_rows_init dest: sql_step_simulates simp: simulated_def)


section \<open>Properties\<close>

text \<open>C26. The database is what the rest of the server takes it for: in every state that its statements on rows reach, whichever of
  them fail, the scanned rows are a state that the specification on entities reaches; every lookup gives what the
  specification gives; and a page of the audit log is one of the specification's for an order that is by time, latest first,
  when the engine sorts by the texts.\<close>

theorem sql_refines_store:
  assumes "reach sql_init sql_step rs" and "filter_ok f"
    and "set (order_by (matching f rs)) \<subseteq> set (matching f rs)"
    and "sorted_wrt (\<lambda>a b. ar_created_at b \<le> ar_created_at a) (order_by (matching f rs))"
  shows "db_reach (abs_rows rs) \<and>
    GetUserByEmail email (abs_rows rs) = (fst (sql_GetUserByEmail email rs), abs_rows (snd (sql_GetUserByEmail email rs))) \<and>
    GetAgentTokenByHash h (abs_rows rs) = (fst (sql_GetAgentTokenByHash h rs), abs_rows (snd (sql_GetAgentTokenByHash h rs))) \<and>
    GetRefreshTokenByHash h (abs_rows rs) =
      (fst (sql_GetRefreshTokenByHash h rs), abs_rows (snd (sql_GetRefreshTokenByHash h rs))) \<and>
    (\<exists>logs. ListAuditLogs (\<lambda>_. logs) f (abs_rows rs) =
        (fst (sql_ListAuditLogs order_by f rs), abs_rows (snd (sql_ListAuditLogs order_by f rs))) \<and>
      sorted_wrt (\<lambda>a b. log_CreatedAt b \<le> log_CreatedAt a) logs)"
proof -
  have ok: "rows_ok rs" by (rule sql_database.impl.reach_inv [OF assms(1)])
  let ?logs = "map scanAuditRow (order_by (matching f rs))"
  have "set (order_by (matching f rs)) \<subseteq> set (audit_table rs)" using assms(3) by (auto simp: matching_def)
  from sorted_texts [OF ok this assms(4)] refines_ListAuditLogs [OF ok assms(2), of order_by]
  have "\<exists>logs. ListAuditLogs (\<lambda>_. logs) f (abs_rows rs) =
        (fst (sql_ListAuditLogs order_by f rs), abs_rows (snd (sql_ListAuditLogs order_by f rs))) \<and>
      sorted_wrt (\<lambda>a b. log_CreatedAt b \<le> log_CreatedAt a) logs" by blast
  then show ?thesis
    using sql_database.reach_abs [OF assms(1)] refinesD(1) [OF refines_queries(2) ok] refinesD(1) [OF refines_queries(7) ok]
      refinesD(1) [OF refines_queries(9) ok]
    by blast
qed

text \<open>A log entry of the first second of year 0.\<close>

definition demo_rows :: Rows where
  "demo_rows = snd (sql_CreateAuditLog ''1'' (- epoch * second) (sample_log []) (empty_tables []))"

lemma demo_rows_reach: "reach sql_init sql_step demo_rows"
proof -
  have "reach sql_init sql_step (empty_tables [])" by (rule reach_init) (auto simp: sql_init_def)
  then show ?thesis unfolding demo_rows_def
    by (rule reach_step) (rule sql_step.intros, simp add: valid_time_def epoch_def)
qed

lemma year_zero_text: "formatTime (- epoch * second) = ''0000-01-01T00:00:00Z''"
proof -
  have "civil_of 0 = (0, 1, 1, 0, 0, 0)"
    by (simp add: civil_of_def Let_def year_of.simps [of 0 0] month_of.simps [of 0 "Suc 0" 0] year_len_def month_len_def)
  moreover have "format_civil (0, 1, 1, 0, 0, 0) = ''0000-01-01T00:00:00Z''" by code_simp
  moreover have "- epoch * second div second + epoch = 0" by simp
  ultimately show ?thesis unfolding formatTime_def by (simp only: nat_zero_as_int [symmetric] nat_0)
qed

theorem sql_refines_store_witness:
  "db_reach (abs_rows demo_rows) \<and> map ar_created_at (audit_table demo_rows) = [''0000-01-01T00:00:00Z'']"
proof
  have "filter_ok no_filter" by (simp add: filter_ok_def no_filter_def)
  moreover have "length (matching no_filter demo_rows) \<le> 1"
    by (simp add: matching_def demo_rows_def sql_CreateAuditLog_def row_statement_def empty_tables_def Let_def)
  then have "sorted_wrt (\<lambda>a b. ar_created_at b \<le> ar_created_at a) (matching no_filter demo_rows)"
    by (cases "matching no_filter demo_rows") simp_all
  ultimately show "db_reach (abs_rows demo_rows)"
    using sql_refines_store [OF demo_rows_reach, of no_filter "\<lambda>rows. rows"] by simp
  show "map ar_created_at (audit_table demo_rows) = [''0000-01-01T00:00:00Z'']"
    by (simp add: year_zero_text [simplified] demo_rows_def sql_CreateAuditLog_def row_statement_def empty_tables_def Let_def sample_log_def)
qed

end
